(* ===== verification/Prelude.thy ===== *)
theory Prelude
  imports Main "HOL-Library.Word"
begin

text \<open>
  Shared vocabulary of the development: the machine integer types of the Win64 build, the
  model of \<open>std::map\<close> and \<open>std::set\<close> (sorted association lists, because the code iterates them in
  key order and calls \<open>begin()\<close>), the interface \<open>std_map\<close> they provide, generic lemmas on
  words, options and lists, and the lemma collections the component theories extend.
\<close>

unbundle bit_operations_syntax

named_theorems op_defs \<open>definitions of the operations of the components\<close>
named_theorems frame_simps \<open>fields an operation leaves unchanged\<close>

section \<open>Machine types\<close>

type_synonym byte = "8 word"
type_synonym u16 = "16 word"
type_synonym u32 = "32 word"
type_synonym u64 = "64 word"

text \<open>HANDLE, pointers and function pointers are 64-bit values; 0 is the null pointer.\<close>

type_synonym HANDLE = "64 word"
type_synonym callback = "64 word"

abbreviation INVALID_HANDLE_VALUE :: HANDLE where
  "INVALID_HANDLE_VALUE \<equiv> - 1"

section \<open>Ordered maps\<close>

text \<open>
  \<open>std::map<K, V>\<close>: the entries in ascending key order. \<open>map_of\<close> is \<open>find\<close>,
  \<open>omap_insert\<close> is \<open>insert_or_assign\<close> and \<open>operator[]=\<close>, \<open>omap_emplace\<close> is \<open>emplace\<close>, which keeps an
  existing entry.
\<close>

type_synonym ('k, 'v) omap = "('k \<times> 'v) list"

fun omap_insert :: "'k::linorder \<Rightarrow> 'v \<Rightarrow> ('k, 'v) omap \<Rightarrow> ('k, 'v) omap" where
  "omap_insert k v [] = [(k, v)]"
| "omap_insert k v ((k', v') # m) =
     (if k < k' then (k, v) # (k', v') # m
      else if k = k' then (k, v) # m
      else (k', v') # omap_insert k v m)"

definition omap_erase :: "'k \<Rightarrow> ('k, 'v) omap \<Rightarrow> ('k, 'v) omap" where
  "omap_erase k m = filter (\<lambda>e. fst e \<noteq> k) m"

definition omap_contains :: "('k, 'v) omap \<Rightarrow> 'k \<Rightarrow> bool" where
  "omap_contains m k = (map_of m k \<noteq> None)"

definition omap_emplace :: "'k::linorder \<Rightarrow> 'v \<Rightarrow> ('k, 'v) omap \<Rightarrow> ('k, 'v) omap" where
  "omap_emplace k v m = (if omap_contains m k then m else omap_insert k v m)"

definition omap_ok :: "('k::linorder, 'v) omap \<Rightarrow> bool" where
  "omap_ok m = sorted_wrt (<) (map fst m)"

lemma map_of_omap_insert [simp]:
  "map_of (omap_insert k v m) = (map_of m)(k \<mapsto> v)"
  by (induction k v m rule: omap_insert.induct) (auto simp: fun_eq_iff)

lemma map_of_omap_erase [simp]:
  "map_of (omap_erase k m) = (map_of m)(k := None)"
  by (induction m) (auto simp: omap_erase_def fun_eq_iff)

lemma omap_contains_insert [simp]:
  "omap_contains (omap_insert k v m) j \<longleftrightarrow> j = k \<or> omap_contains m j"
  by (auto simp: omap_contains_def)

lemma omap_contains_erase [simp]:
  "omap_contains (omap_erase k m) j \<longleftrightarrow> j \<noteq> k \<and> omap_contains m j"
  by (auto simp: omap_contains_def)

lemma omap_contains_Nil [simp]: "\<not> omap_contains [] k"
  by (simp add: omap_contains_def)

lemma omap_contains_iff: "omap_contains m k \<longleftrightarrow> (\<exists>v. map_of m k = Some v)"
  by (simp add: omap_contains_def)

lemma map_of_omap_emplace [simp]:
  "map_of (omap_emplace k v m) = (if omap_contains m k then map_of m else (map_of m)(k \<mapsto> v))"
  by (simp add: omap_emplace_def)

lemma keys_omap_insert [simp]: "set (map fst (omap_insert k v m)) = insert k (set (map fst m))"
  by (induction k v m rule: omap_insert.induct) auto

lemma fst_set_omap_insert [simp]: "fst ` set (omap_insert k v m) = insert k (fst ` set m)"
  by (induction k v m rule: omap_insert.induct) auto

lemma omap_ok_Nil [simp]: "omap_ok []"
  by (simp add: omap_ok_def)

lemma omap_ok_insert [simp]: "omap_ok m \<Longrightarrow> omap_ok (omap_insert k v m)"
  by (induction k v m rule: omap_insert.induct) (force simp: omap_ok_def)+

lemma omap_ok_erase [simp]: "omap_ok m \<Longrightarrow> omap_ok (omap_erase k m)"
  by (induction m) (auto simp: omap_ok_def omap_erase_def)

lemma omap_ok_emplace [simp]: "omap_ok m \<Longrightarrow> omap_ok (omap_emplace k v m)"
  by (simp add: omap_emplace_def)

lemma omap_ok_distinct: "omap_ok m \<Longrightarrow> distinct (map fst m)"
  by (simp add: omap_ok_def strict_sorted_iff)

lemma omap_ok_map_of: "omap_ok m \<Longrightarrow> (k, v) \<in> set m \<longleftrightarrow> map_of m k = Some v"
  using omap_ok_distinct [of m] by (metis map_of_eq_Some_iff)

text \<open>
  What the client code relies on: lookup after insert and erase, and the order of iteration.
  The laws are proved once, here, on the sorted association lists; the clients' reasoning is
  done inside the locale.
\<close>

locale std_map =
  fixes find :: "'m \<Rightarrow> 'k::linorder \<Rightarrow> 'v option"
    and ins :: "'k \<Rightarrow> 'v \<Rightarrow> 'm \<Rightarrow> 'm"
    and era :: "'k \<Rightarrow> 'm \<Rightarrow> 'm"
    and iter :: "'m \<Rightarrow> ('k \<times> 'v) list"
    and inv :: "'m \<Rightarrow> bool"
  assumes find_ins: "find (ins k v m) = (find m)(k \<mapsto> v)"
    and find_era: "find (era k m) = (find m)(k := None)"
    and iter_find: "inv m \<Longrightarrow> (k, v) \<in> set (iter m) \<longleftrightarrow> find m k = Some v"
    and iter_sorted: "inv m \<Longrightarrow> sorted_wrt (<) (map fst (iter m))"
    and inv_ins: "inv m \<Longrightarrow> inv (ins k v m)"
    and inv_era: "inv m \<Longrightarrow> inv (era k m)"
begin

lemma ins_era: "find (era k (ins k v m)) = (find m)(k := None)"
  by (simp add: find_ins find_era)

lemma ins_era_fresh: "find m k = None \<Longrightarrow> find (era k (ins k v m)) = find m"
  by (simp add: find_ins find_era fun_upd_idem)

lemma find_begin:
  assumes "inv m" and "iter m = e # es"
  shows "find m (fst e) = Some (snd e)"
  using assms iter_find [of m "fst e" "snd e"] by simp

lemma begin_least:
  assumes "inv m" and "iter m = e # es" and "find m k = Some v"
  shows "fst e \<le> k"
proof -
  from assms(1,3) have "(k, v) \<in> set (iter m)" by (simp add: iter_find)
  with assms(2) iter_sorted [OF assms(1)] show ?thesis by force
qed

lemma iter_empty:
  assumes inv: "inv m"
  shows "iter m = [] \<longleftrightarrow> (\<forall>k. find m k = None)"
proof
  assume "iter m = []"
  then have "find m k \<noteq> Some v" for k v using iter_find [OF inv, of k v] by simp
  then show "\<forall>k. find m k = None" by (metis not_Some_eq)
next
  assume none: "\<forall>k. find m k = None"
  then have "(k, v) \<notin> set (iter m)" for k v using iter_find [OF inv, of k v] by simp
  then show "iter m = []" by (metis list.set_sel(1) surj_pair)
qed

end

interpretation omap: std_map map_of omap_insert omap_erase "\<lambda>m. m" omap_ok
  by unfold_locales (auto simp: omap_ok_map_of, simp add: omap_ok_def)

section \<open>Ordered sets\<close>

text \<open>\<open>std::set<K>\<close>: the members in ascending order.\<close>

fun oset_insert :: "'k::linorder \<Rightarrow> 'k list \<Rightarrow> 'k list" where
  "oset_insert k [] = [k]"
| "oset_insert k (x # xs) = (if k < x then k # x # xs else if k = x then x # xs else x # oset_insert k xs)"

definition oset_erase :: "'k \<Rightarrow> 'k list \<Rightarrow> 'k list" where
  "oset_erase k xs = filter (\<lambda>x. x \<noteq> k) xs"

lemma set_oset_insert [simp]: "set (oset_insert k xs) = insert k (set xs)"
  by (induction k xs rule: oset_insert.induct) auto

lemma set_oset_erase [simp]: "set (oset_erase k xs) = set xs - {k}"
  by (auto simp: oset_erase_def)

lemma oset_erase_empty_iff: "oset_erase k xs = [] \<longleftrightarrow> set xs \<subseteq> {k}"
  by (auto simp: oset_erase_def filter_empty_conv)

lemma oset_insert_not_Nil [simp]: "oset_insert k xs \<noteq> []"
  by (cases xs) auto

lemma sorted_oset_insert: "sorted_wrt (<) xs \<Longrightarrow> sorted_wrt (<) (oset_insert k xs)"
  by (induction k xs rule: oset_insert.induct) force+

lemma sorted_oset_erase: "sorted_wrt (<) xs \<Longrightarrow> sorted_wrt (<) (oset_erase k xs)"
  by (simp add: oset_erase_def sorted_wrt_filter)

section \<open>Words\<close>

lemma take_bit_word_below:
  fixes x :: "'a::len word"
  assumes "x < 2 ^ n"
  shows "take_bit n x = x"
  using assms by (simp add: take_bit_eq_mask less_mask_eq)

lemma bit_word_below:
  fixes x :: "'a::len word"
  assumes "x < 2 ^ n" and "n \<le> i"
  shows "\<not> bit x i"
  using take_bit_word_below [OF assms(1)] assms(2) by (metis bit_take_bit_iff linorder_not_less)

end
