(* ===== verification/Win_Constants.thy ===== *)
theory Win_Constants
  imports Prelude
begin

text \<open>
  Numeric constants. The first group are the documented values of the Windows and DbgEng headers
  (not part of the repository); they are abbreviations, so the simplifier sees the numbers.
  The second group are the enumerators of \<open>src/TitanEngine/TitanEngine.h\<close>, kept as 32-bit numbers because
  the exported functions accept any number of that type and check it.
\<close>

section \<open>Windows and DbgEng constants\<close>

abbreviation ERROR_SUCCESS :: u32 where "ERROR_SUCCESS \<equiv> 0"
abbreviation ERROR_INVALID_HANDLE :: u32 where "ERROR_INVALID_HANDLE \<equiv> 6"
abbreviation ERROR_BAD_FORMAT :: u32 where "ERROR_BAD_FORMAT \<equiv> 11"
abbreviation ERROR_INVALID_DATA :: u32 where "ERROR_INVALID_DATA \<equiv> 13"
abbreviation ERROR_WRITE_FAULT :: u32 where "ERROR_WRITE_FAULT \<equiv> 29"
abbreviation ERROR_READ_FAULT :: u32 where "ERROR_READ_FAULT \<equiv> 30"
abbreviation ERROR_GEN_FAILURE :: u32 where "ERROR_GEN_FAILURE \<equiv> 31"
abbreviation ERROR_NOT_SUPPORTED :: u32 where "ERROR_NOT_SUPPORTED \<equiv> 50"
abbreviation ERROR_INVALID_PARAMETER :: u32 where "ERROR_INVALID_PARAMETER \<equiv> 87"
abbreviation ERROR_INSUFFICIENT_BUFFER :: u32 where "ERROR_INSUFFICIENT_BUFFER \<equiv> 122"
abbreviation ERROR_BUSY :: u32 where "ERROR_BUSY \<equiv> 170"
abbreviation ERROR_ALREADY_EXISTS :: u32 where "ERROR_ALREADY_EXISTS \<equiv> 183"
abbreviation ERROR_EXE_MACHINE_TYPE_MISMATCH :: u32 where "ERROR_EXE_MACHINE_TYPE_MISMATCH \<equiv> 216"
abbreviation ERROR_NO_MORE_ITEMS :: u32 where "ERROR_NO_MORE_ITEMS \<equiv> 259"
abbreviation ERROR_PARTIAL_COPY :: u32 where "ERROR_PARTIAL_COPY \<equiv> 299"
abbreviation ERROR_INVALID_ADDRESS :: u32 where "ERROR_INVALID_ADDRESS \<equiv> 487"
abbreviation ERROR_MAPPED_ALIGNMENT :: u32 where "ERROR_MAPPED_ALIGNMENT \<equiv> 1132"
abbreviation ERROR_NOT_FOUND :: u32 where "ERROR_NOT_FOUND \<equiv> 1168"
abbreviation ERROR_NOT_ALL_ASSIGNED :: u32 where "ERROR_NOT_ALL_ASSIGNED \<equiv> 1300"
abbreviation ERROR_INVALID_THREAD_ID :: u32 where "ERROR_INVALID_THREAD_ID \<equiv> 1444"

abbreviation DEBUG_STATUS_NO_CHANGE :: u32 where "DEBUG_STATUS_NO_CHANGE \<equiv> 0"
abbreviation DEBUG_STATUS_GO :: u32 where "DEBUG_STATUS_GO \<equiv> 1"
abbreviation DEBUG_STATUS_GO_HANDLED :: u32 where "DEBUG_STATUS_GO_HANDLED \<equiv> 2"
abbreviation DEBUG_STATUS_GO_NOT_HANDLED :: u32 where "DEBUG_STATUS_GO_NOT_HANDLED \<equiv> 3"
abbreviation DEBUG_STATUS_STEP_OVER :: u32 where "DEBUG_STATUS_STEP_OVER \<equiv> 4"
abbreviation DEBUG_STATUS_STEP_INTO :: u32 where "DEBUG_STATUS_STEP_INTO \<equiv> 5"
abbreviation DEBUG_STATUS_BREAK :: u32 where "DEBUG_STATUS_BREAK \<equiv> 6"
abbreviation DEBUG_STATUS_NO_DEBUGGEE :: u32 where "DEBUG_STATUS_NO_DEBUGGEE \<equiv> 7"

abbreviation DBG_CONTINUE :: u32 where "DBG_CONTINUE \<equiv> 0x00010002"
abbreviation DBG_EXCEPTION_NOT_HANDLED :: u32 where "DBG_EXCEPTION_NOT_HANDLED \<equiv> 0x80010001"
abbreviation DBG_PRINTEXCEPTION_C :: u32 where "DBG_PRINTEXCEPTION_C \<equiv> 0x40010006"
abbreviation DBG_PRINTEXCEPTION_WIDE_C :: u32 where "DBG_PRINTEXCEPTION_WIDE_C \<equiv> 0x4001000A"
abbreviation STATUS_GUARD_PAGE_VIOLATION :: u32 where "STATUS_GUARD_PAGE_VIOLATION \<equiv> 0x80000001"
abbreviation EXCEPTION_BREAKPOINT :: u32 where "EXCEPTION_BREAKPOINT \<equiv> 0x80000003"
abbreviation EXCEPTION_SINGLE_STEP :: u32 where "EXCEPTION_SINGLE_STEP \<equiv> 0x80000004"
abbreviation EXCEPTION_ACCESS_VIOLATION :: u32 where "EXCEPTION_ACCESS_VIOLATION \<equiv> 0xC0000005"
abbreviation EXCEPTION_ILLEGAL_INSTRUCTION :: u32 where "EXCEPTION_ILLEGAL_INSTRUCTION \<equiv> 0xC000001D"
abbreviation EXCEPTION_MAXIMUM_PARAMETERS :: nat where "EXCEPTION_MAXIMUM_PARAMETERS \<equiv> 15"

abbreviation EXCEPTION_DEBUG_EVENT :: u32 where "EXCEPTION_DEBUG_EVENT \<equiv> 1"
abbreviation CREATE_THREAD_DEBUG_EVENT :: u32 where "CREATE_THREAD_DEBUG_EVENT \<equiv> 2"
abbreviation CREATE_PROCESS_DEBUG_EVENT :: u32 where "CREATE_PROCESS_DEBUG_EVENT \<equiv> 3"
abbreviation EXIT_THREAD_DEBUG_EVENT :: u32 where "EXIT_THREAD_DEBUG_EVENT \<equiv> 4"
abbreviation EXIT_PROCESS_DEBUG_EVENT :: u32 where "EXIT_PROCESS_DEBUG_EVENT \<equiv> 5"
abbreviation LOAD_DLL_DEBUG_EVENT :: u32 where "LOAD_DLL_DEBUG_EVENT \<equiv> 6"
abbreviation UNLOAD_DLL_DEBUG_EVENT :: u32 where "UNLOAD_DLL_DEBUG_EVENT \<equiv> 7"
abbreviation OUTPUT_DEBUG_STRING_EVENT :: u32 where "OUTPUT_DEBUG_STRING_EVENT \<equiv> 8"

abbreviation PAGE_NOACCESS :: u32 where "PAGE_NOACCESS \<equiv> 1"
abbreviation PAGE_READWRITE :: u32 where "PAGE_READWRITE \<equiv> 4"
abbreviation PAGE_EXECUTE_READ :: u32 where "PAGE_EXECUTE_READ \<equiv> 0x20"
abbreviation PAGE_GUARD :: u32 where "PAGE_GUARD \<equiv> 0x100"
abbreviation MEM_COMMIT :: u32 where "MEM_COMMIT \<equiv> 0x1000"
abbreviation MEM_FREE :: u32 where "MEM_FREE \<equiv> 0x10000"
abbreviation MEM_PRIVATE :: u32 where "MEM_PRIVATE \<equiv> 0x20000"
abbreviation MEM_IMAGE :: u32 where "MEM_IMAGE \<equiv> 0x1000000"

abbreviation DEBUG_ANY_ID :: u32 where "DEBUG_ANY_ID \<equiv> 0xFFFFFFFF"
abbreviation DEBUG_BREAKPOINT_CODE :: u32 where "DEBUG_BREAKPOINT_CODE \<equiv> 0"
abbreviation DEBUG_BREAKPOINT_DATA :: u32 where "DEBUG_BREAKPOINT_DATA \<equiv> 1"
abbreviation DEBUG_BREAKPOINT_ENABLED :: u32 where "DEBUG_BREAKPOINT_ENABLED \<equiv> 4"
abbreviation DEBUG_BREAK_READ :: u32 where "DEBUG_BREAK_READ \<equiv> 1"
abbreviation DEBUG_BREAK_WRITE :: u32 where "DEBUG_BREAK_WRITE \<equiv> 2"
abbreviation DEBUG_BREAK_EXECUTE :: u32 where "DEBUG_BREAK_EXECUTE \<equiv> 4"
abbreviation DEBUG_END_PASSIVE :: u32 where "DEBUG_END_PASSIVE \<equiv> 0"
abbreviation DEBUG_END_ACTIVE_TERMINATE :: u32 where "DEBUG_END_ACTIVE_TERMINATE \<equiv> 1"
abbreviation DEBUG_CLASS_USER_WINDOWS :: u32 where "DEBUG_CLASS_USER_WINDOWS \<equiv> 2"
abbreviation DEBUG_DUMP_TRACE_LOG :: u32 where "DEBUG_DUMP_TRACE_LOG \<equiv> 1028"
abbreviation IMAGE_FILE_MACHINE_UNKNOWN :: u32 where "IMAGE_FILE_MACHINE_UNKNOWN \<equiv> 0"
abbreviation IMAGE_FILE_MACHINE_I386 :: u32 where "IMAGE_FILE_MACHINE_I386 \<equiv> 0x14C"
abbreviation IMAGE_FILE_MACHINE_AMD64 :: u32 where "IMAGE_FILE_MACHINE_AMD64 \<equiv> 0x8664"
abbreviation IMAGE_DOS_SIGNATURE :: u16 where "IMAGE_DOS_SIGNATURE \<equiv> 0x5A4D"
abbreviation IMAGE_NT_SIGNATURE :: u32 where "IMAGE_NT_SIGNATURE \<equiv> 0x4550"

text \<open>HRESULT: a 32-bit value whose top bit says failure.\<close>

abbreviation S_OK :: u32 where "S_OK \<equiv> 0"
abbreviation E_NOTIMPL :: u32 where "E_NOTIMPL \<equiv> 0x80004001"
abbreviation E_NOINTERFACE :: u32 where "E_NOINTERFACE \<equiv> 0x80004002"
abbreviation E_FAIL :: u32 where "E_FAIL \<equiv> 0x80004005"
abbreviation E_INVALIDARG :: u32 where "E_INVALIDARG \<equiv> 0x80070057"
abbreviation FACILITY_WIN32 :: u32 where "FACILITY_WIN32 \<equiv> 7"

abbreviation FAILED :: "u32 \<Rightarrow> bool" where "FAILED hr \<equiv> 0x80000000 \<le> hr"
abbreviation HRESULT_CODE :: "u32 \<Rightarrow> u32" where "HRESULT_CODE hr \<equiv> hr AND 0xFFFF"
abbreviation HRESULT_FACILITY :: "u32 \<Rightarrow> u32" where
  "HRESULT_FACILITY hr \<equiv> drop_bit 16 hr AND 0x1FFF"

definition HRESULT_FROM_WIN32 :: "u32 \<Rightarrow> u32" where
  "HRESULT_FROM_WIN32 x = (if x = 0 \<or> FAILED x then x
     else (x AND 0xFFFF) OR push_bit 16 FACILITY_WIN32 OR 0x80000000)"

section \<open>Enumerators of TitanEngine.h\<close>

definition UE_BREAKPOINT_INT3 :: u32 where [simp]: "UE_BREAKPOINT_INT3 = 1"
definition UE_BREAKPOINT_LONG_INT3 :: u32 where [simp]: "UE_BREAKPOINT_LONG_INT3 = 2"
definition UE_BREAKPOINT_UD2 :: u32 where [simp]: "UE_BREAKPOINT_UD2 = 3"

definition UE_SINGLESHOOT :: u32 where [simp]: "UE_SINGLESHOOT = 1"
definition UE_BREAKPOINT_TYPE_INT3 :: u32 where [simp]: "UE_BREAKPOINT_TYPE_INT3 = 0x10000000"
definition UE_BREAKPOINT_TYPE_LONG_INT3 :: u32 where [simp]: "UE_BREAKPOINT_TYPE_LONG_INT3 = 0x20000000"
definition UE_BREAKPOINT_TYPE_UD2 :: u32 where [simp]: "UE_BREAKPOINT_TYPE_UD2 = 0x30000000"

definition UE_MEMORY :: u32 where [simp]: "UE_MEMORY = 3"
definition UE_MEMORY_READ :: u32 where [simp]: "UE_MEMORY_READ = 4"
definition UE_MEMORY_WRITE :: u32 where [simp]: "UE_MEMORY_WRITE = 5"
definition UE_MEMORY_EXECUTE :: u32 where [simp]: "UE_MEMORY_EXECUTE = 6"

definition UE_HARDWARE_EXECUTE :: u32 where [simp]: "UE_HARDWARE_EXECUTE = 4"
definition UE_HARDWARE_WRITE :: u32 where [simp]: "UE_HARDWARE_WRITE = 5"
definition UE_HARDWARE_READWRITE :: u32 where [simp]: "UE_HARDWARE_READWRITE = 6"

definition UE_HARDWARE_SIZE_1 :: u32 where [simp]: "UE_HARDWARE_SIZE_1 = 7"
definition UE_HARDWARE_SIZE_2 :: u32 where [simp]: "UE_HARDWARE_SIZE_2 = 8"
definition UE_HARDWARE_SIZE_4 :: u32 where [simp]: "UE_HARDWARE_SIZE_4 = 9"
definition UE_HARDWARE_SIZE_8 :: u32 where [simp]: "UE_HARDWARE_SIZE_8 = 10"

definition UE_PAUSE_POLICY_NONINVASIVE :: u32 where [simp]: "UE_PAUSE_POLICY_NONINVASIVE = 0"
definition UE_PAUSE_POLICY_AGGRESSIVE :: u32 where [simp]: "UE_PAUSE_POLICY_AGGRESSIVE = 2"

text \<open>The registers of \<open>TitanRegister\<close>, in the order of the enumeration, which starts at 1.\<close>

definition titan_register_names :: "string list" where
  "titan_register_names =
   [''UE_EAX'', ''UE_EBX'', ''UE_ECX'', ''UE_EDX'', ''UE_EDI'', ''UE_ESI'', ''UE_EBP'', ''UE_ESP'', ''UE_EIP'', ''UE_EFLAGS'',
    ''UE_DR0'', ''UE_DR1'', ''UE_DR2'', ''UE_DR3'', ''UE_DR6'', ''UE_DR7'',
    ''UE_RAX'', ''UE_RBX'', ''UE_RCX'', ''UE_RDX'', ''UE_RDI'', ''UE_RSI'', ''UE_RBP'', ''UE_RSP'', ''UE_RIP'', ''UE_RFLAGS'',
    ''UE_R8'', ''UE_R9'', ''UE_R10'', ''UE_R11'', ''UE_R12'', ''UE_R13'', ''UE_R14'', ''UE_R15'', ''UE_CIP'', ''UE_CSP'',
    ''UE_SEG_GS'', ''UE_SEG_FS'', ''UE_SEG_ES'', ''UE_SEG_DS'', ''UE_SEG_CS'', ''UE_SEG_SS'',
    ''UE_x87_r0'', ''UE_x87_r1'', ''UE_x87_r2'', ''UE_x87_r3'', ''UE_x87_r4'', ''UE_x87_r5'', ''UE_x87_r6'', ''UE_x87_r7'',
    ''UE_X87_STATUSWORD'', ''UE_X87_CONTROLWORD'', ''UE_X87_TAGWORD'', ''UE_MXCSR'',
    ''UE_MMX0'', ''UE_MMX1'', ''UE_MMX2'', ''UE_MMX3'', ''UE_MMX4'', ''UE_MMX5'', ''UE_MMX6'', ''UE_MMX7'',
    ''UE_XMM0'', ''UE_XMM1'', ''UE_XMM2'', ''UE_XMM3'', ''UE_XMM4'', ''UE_XMM5'', ''UE_XMM6'', ''UE_XMM7'',
    ''UE_XMM8'', ''UE_XMM9'', ''UE_XMM10'', ''UE_XMM11'', ''UE_XMM12'', ''UE_XMM13'', ''UE_XMM14'', ''UE_XMM15'',
    ''UE_x87_ST0'', ''UE_x87_ST1'', ''UE_x87_ST2'', ''UE_x87_ST3'', ''UE_x87_ST4'', ''UE_x87_ST5'', ''UE_x87_ST6'', ''UE_x87_ST7'',
    ''UE_YMM0'', ''UE_YMM1'', ''UE_YMM2'', ''UE_YMM3'', ''UE_YMM4'', ''UE_YMM5'', ''UE_YMM6'', ''UE_YMM7'',
    ''UE_YMM8'', ''UE_YMM9'', ''UE_YMM10'', ''UE_YMM11'', ''UE_YMM12'', ''UE_YMM13'', ''UE_YMM14'', ''UE_YMM15'']"

text \<open>The enumerators the functions below name, with their values.\<close>

abbreviation UE_EAX :: u32 where "UE_EAX \<equiv> 1"
abbreviation UE_EBX :: u32 where "UE_EBX \<equiv> 2"
abbreviation UE_ECX :: u32 where "UE_ECX \<equiv> 3"
abbreviation UE_EDX :: u32 where "UE_EDX \<equiv> 4"
abbreviation UE_EDI :: u32 where "UE_EDI \<equiv> 5"
abbreviation UE_ESI :: u32 where "UE_ESI \<equiv> 6"
abbreviation UE_EBP :: u32 where "UE_EBP \<equiv> 7"
abbreviation UE_ESP :: u32 where "UE_ESP \<equiv> 8"
abbreviation UE_EIP :: u32 where "UE_EIP \<equiv> 9"
abbreviation UE_EFLAGS :: u32 where "UE_EFLAGS \<equiv> 10"
abbreviation UE_DR0 :: u32 where "UE_DR0 \<equiv> 11"
abbreviation UE_DR1 :: u32 where "UE_DR1 \<equiv> 12"
abbreviation UE_DR2 :: u32 where "UE_DR2 \<equiv> 13"
abbreviation UE_DR3 :: u32 where "UE_DR3 \<equiv> 14"
abbreviation UE_DR6 :: u32 where "UE_DR6 \<equiv> 15"
abbreviation UE_DR7 :: u32 where "UE_DR7 \<equiv> 16"
abbreviation UE_RAX :: u32 where "UE_RAX \<equiv> 17"
abbreviation UE_RBX :: u32 where "UE_RBX \<equiv> 18"
abbreviation UE_RCX :: u32 where "UE_RCX \<equiv> 19"
abbreviation UE_RDX :: u32 where "UE_RDX \<equiv> 20"
abbreviation UE_RDI :: u32 where "UE_RDI \<equiv> 21"
abbreviation UE_RSI :: u32 where "UE_RSI \<equiv> 22"
abbreviation UE_RBP :: u32 where "UE_RBP \<equiv> 23"
abbreviation UE_RSP :: u32 where "UE_RSP \<equiv> 24"
abbreviation UE_RIP :: u32 where "UE_RIP \<equiv> 25"
abbreviation UE_RFLAGS :: u32 where "UE_RFLAGS \<equiv> 26"
abbreviation UE_R8 :: u32 where "UE_R8 \<equiv> 27"
abbreviation UE_R9 :: u32 where "UE_R9 \<equiv> 28"
abbreviation UE_R10 :: u32 where "UE_R10 \<equiv> 29"
abbreviation UE_R11 :: u32 where "UE_R11 \<equiv> 30"
abbreviation UE_R12 :: u32 where "UE_R12 \<equiv> 31"
abbreviation UE_R13 :: u32 where "UE_R13 \<equiv> 32"
abbreviation UE_R14 :: u32 where "UE_R14 \<equiv> 33"
abbreviation UE_R15 :: u32 where "UE_R15 \<equiv> 34"
abbreviation UE_CIP :: u32 where "UE_CIP \<equiv> 35"
abbreviation UE_CSP :: u32 where "UE_CSP \<equiv> 36"
abbreviation UE_SEG_GS :: u32 where "UE_SEG_GS \<equiv> 37"
abbreviation UE_SEG_FS :: u32 where "UE_SEG_FS \<equiv> 38"
abbreviation UE_SEG_ES :: u32 where "UE_SEG_ES \<equiv> 39"
abbreviation UE_SEG_DS :: u32 where "UE_SEG_DS \<equiv> 40"
abbreviation UE_SEG_CS :: u32 where "UE_SEG_CS \<equiv> 41"
abbreviation UE_SEG_SS :: u32 where "UE_SEG_SS \<equiv> 42"
abbreviation UE_X87_STATUSWORD :: u32 where "UE_X87_STATUSWORD \<equiv> 51"
abbreviation UE_X87_CONTROLWORD :: u32 where "UE_X87_CONTROLWORD \<equiv> 52"
abbreviation UE_X87_TAGWORD :: u32 where "UE_X87_TAGWORD \<equiv> 53"
abbreviation UE_MXCSR :: u32 where "UE_MXCSR \<equiv> 54"

text \<open>\<open>UE_CFLAGS\<close> is \<open>UE_RFLAGS\<close> in the Win64 build.\<close>

abbreviation UE_CFLAGS :: u32 where "UE_CFLAGS \<equiv> UE_RFLAGS"

text \<open>The session capabilities, as bits of a 64-bit set. Bit 15 is not assigned.\<close>

definition UE_SESSION_CAP_MEMORY_READ :: u64 where "UE_SESSION_CAP_MEMORY_READ = push_bit 0 1"
definition UE_SESSION_CAP_MEMORY_QUERY :: u64 where "UE_SESSION_CAP_MEMORY_QUERY = push_bit 1 1"
definition UE_SESSION_CAP_CONTEXT_READ :: u64 where "UE_SESSION_CAP_CONTEXT_READ = push_bit 2 1"
definition UE_SESSION_CAP_FORWARD_EXECUTION :: u64 where "UE_SESSION_CAP_FORWARD_EXECUTION = push_bit 3 1"
definition UE_SESSION_CAP_REVERSE_EXECUTION :: u64 where "UE_SESSION_CAP_REVERSE_EXECUTION = push_bit 4 1"
definition UE_SESSION_CAP_EXACT_POSITION :: u64 where "UE_SESSION_CAP_EXACT_POSITION = push_bit 5 1"
definition UE_SESSION_CAP_LOGICAL_CODE_BREAKPOINT :: u64 where "UE_SESSION_CAP_LOGICAL_CODE_BREAKPOINT = push_bit 6 1"
definition UE_SESSION_CAP_LOGICAL_DATA_BREAKPOINT :: u64 where "UE_SESSION_CAP_LOGICAL_DATA_BREAKPOINT = push_bit 7 1"
definition UE_SESSION_CAP_MEMORY_WRITE :: u64 where "UE_SESSION_CAP_MEMORY_WRITE = push_bit 8 1"
definition UE_SESSION_CAP_CONTEXT_WRITE :: u64 where "UE_SESSION_CAP_CONTEXT_WRITE = push_bit 9 1"
definition UE_SESSION_CAP_PROCESS_CONTROL :: u64 where "UE_SESSION_CAP_PROCESS_CONTROL = push_bit 10 1"
definition UE_SESSION_CAP_THREAD_CONTROL :: u64 where "UE_SESSION_CAP_THREAD_CONTROL = push_bit 11 1"
definition UE_SESSION_CAP_NATIVE_HANDLES :: u64 where "UE_SESSION_CAP_NATIVE_HANDLES = push_bit 12 1"
definition UE_SESSION_CAP_EXCEPTION_CONTINUE :: u64 where "UE_SESSION_CAP_EXCEPTION_CONTINUE = push_bit 13 1"
definition UE_SESSION_CAP_TIMELINE_STATE :: u64 where "UE_SESSION_CAP_TIMELINE_STATE = push_bit 14 1"
definition UE_SESSION_CAP_PAUSE_EXECUTION :: u64 where "UE_SESSION_CAP_PAUSE_EXECUTION = push_bit 16 1"
definition UE_SESSION_CAP_NAVIGABLE_PROCESS_EXIT :: u64 where "UE_SESSION_CAP_NAVIGABLE_PROCESS_EXIT = push_bit 17 1"

lemmas session_cap_defs =
  UE_SESSION_CAP_MEMORY_READ_def UE_SESSION_CAP_MEMORY_QUERY_def UE_SESSION_CAP_CONTEXT_READ_def
  UE_SESSION_CAP_FORWARD_EXECUTION_def UE_SESSION_CAP_REVERSE_EXECUTION_def UE_SESSION_CAP_EXACT_POSITION_def
  UE_SESSION_CAP_LOGICAL_CODE_BREAKPOINT_def UE_SESSION_CAP_LOGICAL_DATA_BREAKPOINT_def
  UE_SESSION_CAP_MEMORY_WRITE_def UE_SESSION_CAP_CONTEXT_WRITE_def UE_SESSION_CAP_PROCESS_CONTROL_def
  UE_SESSION_CAP_THREAD_CONTROL_def UE_SESSION_CAP_NATIVE_HANDLES_def UE_SESSION_CAP_EXCEPTION_CONTINUE_def
  UE_SESSION_CAP_TIMELINE_STATE_def UE_SESSION_CAP_PAUSE_EXECUTION_def UE_SESSION_CAP_NAVIGABLE_PROCESS_EXIT_def

end
