(* ===== verification/Titan_State.thy ===== *)
theory Titan_State
  imports Win_Constants
begin

text \<open>
  The global state of \<open>src/TitanEngine/TitanEngine.cpp\<close> (its \<open>g...\<close> variables) as one record, the
  data types of its tables, the closures it queues (one constructor per lambda, carrying the
  captured variables), and the records of functions that stand for code outside the
  repository: the Win32 API, the DbgEng COM interfaces and the TTD replay engine, which act
  on an arbitrary type \<open>'w\<close> of world states. The callbacks x64dbg registers are a parameter
  too, a function on the whole state, because they call back into the exported functions.
\<close>

section \<open>Data types of the tables\<close>

datatype session_kind =
  UE_SESSION_NONE | UE_SESSION_LIVE | UE_SESSION_MINIDUMP | UE_SESSION_TTD | UE_SESSION_STATIC

datatype handle_type = ProcessHandle | ThreadHandle

record handle_entry =
  he_type :: handle_type
  he_dbgengId :: u32
  he_systemId :: u32
  he_nativeHandle :: HANDLE
  he_callerOwned :: bool
  he_sessionGeneration :: u64

record debug_id_map =
  processIndexToHandle :: "(u32, HANDLE) omap"
  processHandleToIndex :: "(HANDLE, u32) omap"
  threadIndexToHandle :: "(u32, HANDLE) omap"
  threadHandleToIndex :: "(HANDLE, u32) omap"

definition empty_id_map :: debug_id_map where
  "empty_id_map = \<lparr>processIndexToHandle = [], processHandleToIndex = [],
     threadIndexToHandle = [], threadHandleToIndex = []\<rparr>"

datatype breakpoint_kind = Software | Hardware

record breakpoint_info =
  bp_object :: u64
  bp_id :: u32
  bp_type :: u32
  bp_offset :: u64
  bp_kind :: breakpoint_kind
  bp_callback :: callback
  bp_hardwareCallback :: callback
  bp_hardwareRegister :: u32
  bp_nativePatch :: bool
  bp_oneShot :: bool
  bp_ttdThreadAffinity :: u32
  bp_patchSize :: nat
  bp_originalBytes :: "byte list"
  bp_patchBytes :: "byte list"

definition default_breakpoint :: breakpoint_info where
  "default_breakpoint = \<lparr>bp_object = 0, bp_id = 0, bp_type = 0, bp_offset = 0, bp_kind = Software,
     bp_callback = 0, bp_hardwareCallback = 0, bp_hardwareRegister = 0, bp_nativePatch = False,
     bp_oneShot = False, bp_ttdThreadAffinity = 0, bp_patchSize = 0,
     bp_originalBytes = [0, 0], bp_patchBytes = [0, 0]\<rparr>"

record memory_breakpoint =
  mb_id :: u64
  mb_start :: u64
  mb_size :: u64
  mb_type :: u32
  mb_restoreOnHit :: bool
  mb_callback :: callback

definition default_memory_breakpoint :: memory_breakpoint where
  "default_memory_breakpoint = \<lparr>mb_id = 0, mb_start = 0, mb_size = 0, mb_type = UE_MEMORY,
     mb_restoreOnHit = False, mb_callback = 0\<rparr>"

record memory_page =
  mp_originalProtect :: u32
  mp_breakpointIds :: "u64 list"

record process_information =
  hProcess :: HANDLE
  hThread :: HANDLE
  dwProcessId :: u32
  dwThreadId :: u32

definition empty_process_information :: process_information where
  "empty_process_information = \<lparr>hProcess = 0, hThread = 0, dwProcessId = 0, dwThreadId = 0\<rparr>"

section \<open>Debug events and queued work\<close>

record exception_info =
  ei_code :: u32
  ei_flags :: u32
  ei_record :: u64
  ei_address :: u64
  ei_numberParameters :: u32
  ei_information :: "u64 list"
  ei_firstChance :: u32

definition exception_zero :: exception_info where
  "exception_zero = \<lparr>ei_code = 0, ei_flags = 0, ei_record = 0, ei_address = 0,
     ei_numberParameters = 0, ei_information = replicate 15 0, ei_firstChance = 0\<rparr>"

datatype debug_info =
    NoInfo
  | ExceptionInfo exception_info
  | CreateThreadInfo (ct_hThread: HANDLE) (ct_threadLocalBase: u64) (ct_startAddress: u64)
  | CreateProcessInfo (cp_hFile: HANDLE) (cp_hProcess: HANDLE) (cp_hThread: HANDLE) (cp_baseOfImage: u64)
      (cp_threadLocalBase: u64) (cp_startAddress: u64)
  | ExitThreadInfo u32
  | ExitProcessInfo u32
  | LoadDllInfo HANDLE u64
  | UnloadDllInfo u64
  | DebugStringInfo u64 bool u16

record debug_event =
  dwDebugEventCode :: u32
  devProcessId :: u32
  devThreadId :: u32
  devInfo :: debug_info

definition empty_debug_event :: debug_event where
  "empty_debug_event = \<lparr>dwDebugEventCode = 0, devProcessId = 0, devThreadId = 0, devInfo = NoInfo\<rparr>"

text \<open>TTD positions are ordered by sequence, then by steps.\<close>

datatype ttd_position = TtdPosition (ttdSequence: u64) (ttdSteps: u64)

instantiation ttd_position :: linorder
begin

definition less_eq_ttd_position :: "ttd_position \<Rightarrow> ttd_position \<Rightarrow> bool" where
  "less_eq_ttd_position p q \<longleftrightarrow>
     ttdSequence p < ttdSequence q \<or> ttdSequence p = ttdSequence q \<and> ttdSteps p \<le> ttdSteps q"

definition less_ttd_position :: "ttd_position \<Rightarrow> ttd_position \<Rightarrow> bool" where
  "less_ttd_position p q \<longleftrightarrow>
     ttdSequence p < ttdSequence q \<or> ttdSequence p = ttdSequence q \<and> ttdSteps p < ttdSteps q"

instance
proof
  fix x y z :: ttd_position
  show "x < y \<longleftrightarrow> x \<le> y \<and> \<not> y \<le> x"
    by (auto simp: less_eq_ttd_position_def less_ttd_position_def)
  show "x \<le> x" by (simp add: less_eq_ttd_position_def)
  show "x \<le> y \<Longrightarrow> y \<le> z \<Longrightarrow> x \<le> z"
    by (auto simp: less_eq_ttd_position_def)
  show "x \<le> y \<Longrightarrow> y \<le> x \<Longrightarrow> x = y"
    by (cases x; cases y) (auto simp: less_eq_ttd_position_def)
  show "x \<le> y \<or> y \<le> x" by (auto simp: less_eq_ttd_position_def)
qed

end

record ttd_watch_hit =
  wh_pending :: bool
  wh_address :: u64
  wh_size :: u64
  wh_flags :: u64
  wh_sequence :: u64
  wh_steps :: u64
  wh_uniqueThreadId :: u32
  wh_threadId :: u32

definition no_watch_hit :: ttd_watch_hit where
  "no_watch_hit = \<lparr>wh_pending = False, wh_address = 0, wh_size = 0, wh_flags = 0,
     wh_sequence = 0, wh_steps = 0, wh_uniqueThreadId = 0, wh_threadId = 0\<rparr>"

record ttd_step_over_probe =
  probe_uniqueThreadId :: u32
  probe_returnAddress :: u64

text \<open>
  The \<open>std::function<bool()>\<close> values pushed on \<open>gCallbackQueue\<close>, one constructor per lambda of the source,
  with the captured variables as arguments.
\<close>

datatype work =
    BreakpointWork u32 u64 u32 u32
  | ExceptionWork exception_info u32 u32
  | OutputStringWork u64 bool u16
  | CreateThreadWork HANDLE u64 u64
  | ExitThreadWork u32
  | CreateProcessWork HANDLE HANDLE u64 HANDLE u64 u64
  | ExitProcessWork u32
  | LoadModuleWork HANDLE u64
  | UnloadModuleWork u64
  | InitialExceptionWork exception_info
  | PauseWork callback
  | InternalStepWork u32
  | StepWork callback u32
  | ReplayStepWork callback
  | TtdExitThreadWork u32
  | TtdBreakpointWork ttd_watch_hit callback
  | TtdMemoryBreakpointWork ttd_watch_hit callback
  | TtdPauseWork callback
  | TtdExitProcessWork
  | TtdBoundaryWork

text \<open>The closures of \<open>gInternalStepCallbacks\<close>.\<close>

datatype internal_step =
    RearmPage u64
  | RearmNative u32
  | BothSteps internal_step internal_step
  | ThenUserStep internal_step callback

text \<open>What a handler receives as its argument.\<close>

datatype callback_argument =
    NoArgument
  | AddressArgument u64
  | InfoArgument debug_info
  | EventArgument debug_event

section \<open>Registers\<close>

datatype debug_value =
    DV_INVALID
  | DV_INT8 byte
  | DV_INT16 u16
  | DV_INT32 u32
  | DV_INT64 u64
  | DV_FLOAT32 | DV_FLOAT64
  | DV_FLOAT80 "byte list" | DV_FLOAT82 "byte list" | DV_FLOAT128
  | DV_VECTOR64 | DV_VECTOR128 "byte list"

record register_cache =
  rc_Count :: nat
  rc_Values :: "debug_value list"
  rc_Names :: "string list"
  rc_Changed :: "bool list"
  rc_TitanRegIndexMap :: "(u32, nat) omap"

definition empty_register_cache :: register_cache where
  "empty_register_cache = \<lparr>rc_Count = 0, rc_Values = [], rc_Names = [], rc_Changed = [],
     rc_TitanRegIndexMap = []\<rparr>"

section \<open>Mapped files\<close>

record file_map =
  fm_hFile :: HANDLE
  fm_hMap :: HANDLE
  fm_data :: u64
  fm_size :: u32

definition empty_file_map :: file_map where
  "empty_file_map = \<lparr>fm_hFile = INVALID_HANDLE_VALUE, fm_hMap = 0, fm_data = 0, fm_size = 0\<rparr>"

section \<open>The adapter's state\<close>

record 'w titan =
  world :: 'w
  lastError :: u32
  gProcessInfo :: process_information
  gEngineVariables :: "(u32, bool) omap"
  gDefaultBreakpointType :: u32
  gCustomHandlers :: "(u32, callback) omap"
  gFakeDebugEvent :: debug_event
  gCallbackQueue :: "work list"
  gProcessPebCache :: "(HANDLE, u64) omap"
  gProcessTebCache :: "(HANDLE, u64) omap"
  gDebugIdMap :: debug_id_map
  gHandleRegistry :: "(HANDLE, handle_entry) omap"
  gSessionGeneration :: u64
  gNextSyntheticHandle :: u64
  gBreakpoints :: "(u32, breakpoint_info) omap"
  gHardwareBreakpointIds :: "(u32, u32) omap"
  gMemoryBreakpoints :: "(u64, memory_breakpoint) omap"
  gMemoryBreakpointPages :: "(u64, memory_page) omap"
  gNextMemoryBreakpointId :: u64
  gNextNativeBreakpointId :: u32
  gRetiredBreakpointAddresses :: "u64 list"
  gPaused :: bool
  gIsDebugging :: bool
  gSessionKind :: session_kind
  gDebugInterfaces :: bool
  gProcessCreated :: bool
  gSyntheticDebugString :: u64
  gSyntheticDebugStringSize :: u64
  gTtdEngine :: bool
  gTtdCursor :: bool
  gTtdFirstPosition :: ttd_position
  gTtdLastPosition :: ttd_position
  gTtdProcessId :: u32
  gTtdCurrentThreadId :: u32
  gTtdMachineType :: u32
  gTtdImagePath :: "u16 list"
  gTtdActiveModules :: "(u64, u16 list) omap"
  gTtdStopRequested :: bool
  gTtdInterruptRequested :: bool
  gTtdCursorChanged :: bool
  gTtdNextRunReverse :: bool
  gTtdHasProcessExitBoundary :: bool
  gTtdProcessExitBoundary :: ttd_position
  gTtdWatchHit :: ttd_watch_hit
  gTtdStepOverProbe :: "ttd_step_over_probe option"
  gDebugThreadId :: u32
  gStepCallbacks :: "(u32, callback) omap"
  gStepThreadSystemIds :: "(u32, u32) omap"
  gInternalStepCallbacks :: "(u32, internal_step) omap"
  gInternalStepSuspendedThreads :: "(u32, HANDLE list) omap"
  gStepStatuses :: "(u32, u32) omap"
  gNextExecutionStatus :: u32
  gNextContinueStatus :: u32
  gExpectSystemBreakpoint :: bool
  gAttachCallback :: callback
  gPauseCallback :: callback
  gRegisterCache :: register_cache
  gMappedFiles :: "(u64, file_map) omap"

text \<open>\<open>Position\<close> is default-constructed to the invalid sequence number and zero steps.\<close>

definition invalid_position :: ttd_position where
  "invalid_position = TtdPosition (- 1) 0"

text \<open>The state when the DLL has been loaded.\<close>

definition initial_titan :: "'w \<Rightarrow> 'w titan" where
  "initial_titan w = \<lparr>world = w, lastError = 0, gProcessInfo = empty_process_information,
     gEngineVariables = [(14, True)], gDefaultBreakpointType = UE_BREAKPOINT_INT3,
     gCustomHandlers = [], gFakeDebugEvent = empty_debug_event, gCallbackQueue = [],
     gProcessPebCache = [], gProcessTebCache = [], gDebugIdMap = empty_id_map,
     gHandleRegistry = [], gSessionGeneration = 0, gNextSyntheticHandle = 1, gBreakpoints = [],
     gHardwareBreakpointIds = [], gMemoryBreakpoints = [], gMemoryBreakpointPages = [],
     gNextMemoryBreakpointId = 1, gNextNativeBreakpointId = 0x80000000,
     gRetiredBreakpointAddresses = [], gPaused = False, gIsDebugging = False,
     gSessionKind = UE_SESSION_NONE, gDebugInterfaces = False, gProcessCreated = False,
     gSyntheticDebugString = 0, gSyntheticDebugStringSize = 0, gTtdEngine = False,
     gTtdCursor = False, gTtdFirstPosition = invalid_position, gTtdLastPosition = invalid_position,
     gTtdProcessId = 1, gTtdCurrentThreadId = 0, gTtdMachineType = 0, gTtdImagePath = [],
     gTtdActiveModules = [], gTtdStopRequested = False, gTtdInterruptRequested = False,
     gTtdCursorChanged = False, gTtdNextRunReverse = False, gTtdHasProcessExitBoundary = False,
     gTtdProcessExitBoundary = invalid_position, gTtdWatchHit = no_watch_hit,
     gTtdStepOverProbe = None, gDebugThreadId = 0, gStepCallbacks = [], gStepThreadSystemIds = [],
     gInternalStepCallbacks = [], gInternalStepSuspendedThreads = [], gStepStatuses = [],
     gNextExecutionStatus = DEBUG_STATUS_NO_CHANGE, gNextContinueStatus = DBG_CONTINUE,
     gExpectSystemBreakpoint = False, gAttachCallback = 0, gPauseCallback = 0,
     gRegisterCache = empty_register_cache, gMappedFiles = []\<rparr>"

end
