(* ===== verification/External.thy ===== *)
theory External
  imports Titan_State
begin

text \<open>
  The code outside the repository, as records of functions over a world type \<open>'w\<close>: the Win32
  API, the DbgEng interfaces and the TTD replay engine. A function of type
  \<open>'w \<Rightarrow> 'a \<times> u32 option \<times> 'w\<close> is a call: its result, the last-error code it leaves if it sets one, and
  the world after it. A function of type \<open>'w \<Rightarrow> 'a\<close> is a query. A getter that reports an HRESULT the code
  only tests with FAILED returns an option, with None for failure.
\<close>

type_synonym ('w, 'a) call = "'w \<Rightarrow> 'a \<times> u32 option \<times> 'w"

record memory_information =
  mbi_BaseAddress :: u64
  mbi_AllocationBase :: u64
  mbi_AllocationProtect :: u32
  mbi_RegionSize :: u64
  mbi_State :: u32
  mbi_Protect :: u32
  mbi_Type :: u32

text \<open>
  The native thread context: the integer registers by name, and the bytes of the FXSAVE area
  and of the enabled XSTATE features. CONTEXT holds MXCSR twice, once inside the FXSAVE area.
\<close>

record native_context =
  nc_Integer :: "string \<Rightarrow> u64"
  nc_ControlWord :: u16
  nc_StatusWord :: u16
  nc_TagWord :: byte
  nc_ErrorOffset :: u32
  nc_ErrorSelector :: u16
  nc_DataOffset :: u32
  nc_DataSelector :: u16
  nc_MxCsr :: u32
  nc_SaveMxCsr :: u32
  nc_FloatRegisters :: "byte list list"
  nc_XmmRegisters :: "byte list list"
  nc_AvxHigh :: "byte list list option"
  nc_Opmask :: "byte list option"
  nc_ZmmHigh :: "byte list list option"
  nc_Zmm16 :: "byte list list option"

record 'w winapi =
  wCurrentThreadId :: "'w \<Rightarrow> u32"
  wPageSize :: u64
  wLiteralPooling :: bool
  wReadProcessMemory :: "HANDLE \<Rightarrow> u64 \<Rightarrow> u64 \<Rightarrow> ('w, bool \<times> byte list) call"
  wWriteProcessMemory :: "HANDLE \<Rightarrow> u64 \<Rightarrow> byte list \<Rightarrow> ('w, bool \<times> u64) call"
  wFlushInstructionCache :: "HANDLE \<Rightarrow> u64 \<Rightarrow> nat \<Rightarrow> ('w, bool) call"
  wVirtualProtectEx :: "HANDLE \<Rightarrow> u64 \<Rightarrow> u64 \<Rightarrow> u32 \<Rightarrow> ('w, bool \<times> u32) call"
  wVirtualQueryEx :: "HANDLE \<Rightarrow> u64 \<Rightarrow> ('w, memory_information option) call"
  wVirtualAllocEx :: "HANDLE \<Rightarrow> u64 \<Rightarrow> u64 \<Rightarrow> u32 \<Rightarrow> u32 \<Rightarrow> ('w, u64) call"
  wVirtualFreeEx :: "HANDLE \<Rightarrow> u64 \<Rightarrow> u64 \<Rightarrow> u32 \<Rightarrow> ('w, bool) call"
  wLocalMemory :: "u64 \<Rightarrow> u64 \<Rightarrow> 'w \<Rightarrow> byte list"
  wOpenProcess :: "u32 \<Rightarrow> bool \<Rightarrow> u32 \<Rightarrow> ('w, HANDLE) call"
  wOpenThread :: "u32 \<Rightarrow> bool \<Rightarrow> u32 \<Rightarrow> ('w, HANDLE) call"
  wDuplicateHandle :: "HANDLE \<Rightarrow> ('w, HANDLE option) call"
  wCloseHandle :: "HANDLE \<Rightarrow> ('w, bool) call"
  wSuspendThread :: "HANDLE \<Rightarrow> ('w, u32) call"
  wResumeThread :: "HANDLE \<Rightarrow> ('w, u32) call"
  wTerminateProcess :: "HANDLE \<Rightarrow> u32 \<Rightarrow> ('w, bool) call"
  wTerminateThread :: "HANDLE \<Rightarrow> u32 \<Rightarrow> ('w, bool) call"
  wCreateRemoteThread :: "HANDLE \<Rightarrow> u64 \<Rightarrow> u64 \<Rightarrow> u32 \<Rightarrow> ('w, HANDLE \<times> u32) call"
  wGetThreadId :: "HANDLE \<Rightarrow> ('w, u32) call"
  wGetThreadPriority :: "HANDLE \<Rightarrow> ('w, u32) call"
  wSetThreadPriority :: "HANDLE \<Rightarrow> u32 \<Rightarrow> ('w, bool) call"
  wGetThreadTimes :: "HANDLE \<Rightarrow> ('w, (u64 \<times> u64 \<times> u64 \<times> u64) option) call"
  wQueryThreadCycleTime :: "HANDLE \<Rightarrow> ('w, u64 option) call"
  wIsWow64Process :: "HANDLE \<Rightarrow> ('w, bool option) call"
  wOpenProcessToken :: "('w, HANDLE option) call"
  wLookupDebugPrivilege :: "('w, u64 option) call"
  wAdjustTokenPrivileges :: "HANDLE \<Rightarrow> u64 \<Rightarrow> bool \<Rightarrow> ('w, bool) call"
  wCreateFile :: "u16 list \<Rightarrow> bool \<Rightarrow> ('w, HANDLE) call"
  wGetFileSize :: "HANDLE \<Rightarrow> ('w, u32) call"
  wCreateFileMapping :: "HANDLE \<Rightarrow> bool \<Rightarrow> ('w, HANDLE) call"
  wMapViewOfFile :: "HANDLE \<Rightarrow> bool \<Rightarrow> ('w, u64) call"
  wUnmapViewOfFile :: "u64 \<Rightarrow> ('w, bool) call"
  wEnabledXStateFeatures :: "'w \<Rightarrow> u64"
  wLoadContext :: "HANDLE \<Rightarrow> u64 \<Rightarrow> ('w, native_context option) call"
  wGetThreadContext :: "HANDLE \<Rightarrow> ('w, native_context option) call"
  wSetThreadContext :: "HANDLE \<Rightarrow> native_context \<Rightarrow> ('w, bool) call"

text \<open>
  Where the code hands the HRESULT of a failing getter on, \<open>dFailure\<close> is that HRESULT, by the getter's name.
  The event callbacks DbgEng delivers from inside WaitForEvent, with what their breakpoint
  object answers (None for a failing getter), and the debuggee output notification.
\<close>

datatype dbg_event =
    EvBreakpoint "u64 option" "u32 option"
  | EvException exception_info
  | EvCreateThread HANDLE u64 u64
  | EvExitThread u32
  | EvCreateProcess HANDLE HANDLE u64 HANDLE u64 u64
  | EvExitProcess u32
  | EvLoadModule HANDLE u64
  | EvUnloadModule u64
  | EvOutput bool u64 u64

record 'w dbgeng =
  dWaitForEvent :: "('w, u32 \<times> dbg_event list) call"
  dExecutionStatus :: "'w \<Rightarrow> u32 option"
  dSetExecutionStatus :: "u32 \<Rightarrow> ('w, bool) call"
  dThreadIndex :: "'w \<Rightarrow> u32 option"
  dProcessIndex :: "'w \<Rightarrow> u32 option"
  dThreadSystemId :: "'w \<Rightarrow> u32 option"
  dProcessSystemId :: "'w \<Rightarrow> u32 option"
  dProcessPeb :: "'w \<Rightarrow> u64 option"
  dThreadTeb :: "'w \<Rightarrow> u64 option"
  dSetCurrentThread :: "u32 \<Rightarrow> ('w, bool) call"
  dNumberProcesses :: "'w \<Rightarrow> u32 option"
  dThreadIds :: "'w \<Rightarrow> (u32 \<times> u32) list option"
  dNumberThreads :: "'w \<Rightarrow> nat option"
  dThreadIdsByIndex :: "'w \<Rightarrow> (u32 \<times> u32) list option"
  dNumberRegisters :: "'w \<Rightarrow> nat option"
  dRegisterName :: "nat \<Rightarrow> 'w \<Rightarrow> string option"
  dGetValues :: "nat \<Rightarrow> ('w, debug_value list option) call"
  dSetValues :: "(nat \<times> debug_value) list \<Rightarrow> ('w, bool) call"
  dInstructionOffset :: "'w \<Rightarrow> u64"
  dAddBreakpoint2 :: "u32 \<Rightarrow> ('w, u32 \<times> u64) call"
  dRemoveBreakpoint2 :: "u64 \<Rightarrow> ('w, u32) call"
  dBpSetOffset :: "u64 \<Rightarrow> u64 \<Rightarrow> ('w, u32) call"
  dBpSetDataParameters :: "u64 \<Rightarrow> u32 \<Rightarrow> u32 \<Rightarrow> ('w, u32) call"
  dBpSetFlags :: "u64 \<Rightarrow> u32 \<Rightarrow> ('w, u32) call"
  dBpGetId :: "u64 \<Rightarrow> ('w, u32 \<times> u32) call"
  dReadVirtual :: "u64 \<Rightarrow> u32 \<Rightarrow> ('w, bool \<times> byte list) call"
  dWriteVirtual :: "u64 \<Rightarrow> byte list \<Rightarrow> ('w, bool \<times> u32) call"
  dQueryVirtual :: "u64 \<Rightarrow> 'w \<Rightarrow> memory_information option"
  dCreateProcess :: "u16 list \<Rightarrow> bool \<Rightarrow> u16 list option \<Rightarrow> ('w, u32 \<times> dbg_event list) call"
  dAttachProcess :: "u32 \<Rightarrow> ('w, u32) call"
  dDetachProcesses :: "('w, u32) call"
  dEndSession :: "u32 \<Rightarrow> ('w, u32) call"
  dProcessOptions :: "'w \<Rightarrow> u32 option"
  dSetProcessOptions :: "u32 \<Rightarrow> ('w, unit) call"
  dOpenDumpFile :: "u16 list \<Rightarrow> ('w, u32) call"
  dDebuggeeType :: "'w \<Rightarrow> u32 \<times> u32 \<times> u32"
  dLastException :: "'w \<Rightarrow> exception_info option"
  dNumberModules :: "'w \<Rightarrow> nat option"
  dModuleByIndex :: "nat \<Rightarrow> 'w \<Rightarrow> u64 option"
  dModuleByOffset :: "u64 \<Rightarrow> 'w \<Rightarrow> (u32 \<times> u64) option"
  dModuleImageName :: "u32 \<Rightarrow> u64 \<Rightarrow> u32 \<Rightarrow> 'w \<Rightarrow> u16 list option"
  dSetInterrupt :: "('w, u32) call"
  dEffectiveProcessorType :: "'w \<Rightarrow> u32 option"
  dFailure :: "string \<Rightarrow> 'w \<Rightarrow> u32"

text \<open>
  The replay engine. The lists of threads and modules may hold null entries. A memory watchpoint
  is its address, size and access mask. A replay takes
  the watchpoint callback's decision as an argument and returns the steps executed, the
  stop reason, and the notifications it delivered, in order.
\<close>

record ttd_watchpoint =
  wp_Address :: u64
  wp_Size :: u64
  wp_AccessMask :: byte

record ttd_module =
  tm_base :: u64
  tm_size :: u64
  tm_checksum :: u32
  tm_path :: "u16 list"

text \<open>A thread view, as the callbacks get it: unique id, system id and position.\<close>

record ttd_thread_view =
  tv_uniqueThreadId :: u32
  tv_systemThreadId :: u32
  tv_position :: ttd_position

record ttd_access =
  ta_Address :: u64
  ta_Size :: u64
  ta_AccessType :: u64

datatype ttd_notification =
    MemoryAccess ttd_access "ttd_thread_view option"
  | CallReturn u64 "ttd_thread_view option"

record ttd_exception =
  te_position :: ttd_position
  te_code :: u32
  te_flags :: u32
  te_programCounter :: u64
  te_parameterCount :: u32
  te_parameters :: "u64 list"

record 'w ttdapi =
  tCreateEngine :: "('w, bool) call"
  tInitialize :: "u16 list \<Rightarrow> ('w, bool) call"
  tNewCursor :: "('w, bool) call"
  tFirstPosition :: "'w \<Rightarrow> ttd_position"
  tLastPosition :: "'w \<Rightarrow> ttd_position"
  tPebAddress :: "'w \<Rightarrow> u64"
  tExceptionEvents :: "'w \<Rightarrow> ttd_exception list"
  tEngineThreads :: "'w \<Rightarrow> (u32 \<times> u32) list"
  tPosition :: "'w \<Rightarrow> ttd_position"
  tSetPosition :: "ttd_position \<Rightarrow> 'w \<Rightarrow> 'w"
  tSetPositionOnThread :: "u32 \<Rightarrow> ttd_position \<Rightarrow> 'w \<Rightarrow> 'w"
  tThreadInfo :: "'w \<Rightarrow> u32 \<times> u32"
  tActiveThreads :: "'w \<Rightarrow> (u32 \<times> u32) option list"
  tModules :: "'w \<Rightarrow> ttd_module option list"
  tTebAddress :: "u32 \<Rightarrow> 'w \<Rightarrow> u64"
  tProgramCounter :: "'w \<Rightarrow> u64"
  tContext :: "u32 \<Rightarrow> 'w \<Rightarrow> native_context"
  tQueryMemoryBuffer :: "u64 \<Rightarrow> nat \<Rightarrow> 'w \<Rightarrow> (u64 \<times> byte list) option"
  tAddMemoryWatchpoint :: "ttd_watchpoint \<Rightarrow> ('w, bool) call"
  tRemoveMemoryWatchpoint :: "ttd_watchpoint \<Rightarrow> ('w, bool) call"
  tReplay :: "bool \<Rightarrow> ttd_position \<Rightarrow> u64 \<Rightarrow> (ttd_access \<Rightarrow> ttd_thread_view option \<Rightarrow> bool) \<Rightarrow> bool \<Rightarrow>
    ('w, (u64 \<times> int) \<times> ttd_notification list) call"
  tInterruptReplay :: "'w \<Rightarrow> 'w"

text \<open>What every operation of the adapter is given: the three interfaces.\<close>

record 'w os =
  win :: "'w winapi"
  dbg :: "'w dbgeng"
  ttd :: "'w ttdapi"

text \<open>The registered handlers: what calling one does to the adapter's state.\<close>

type_synonym 'w client = "callback \<Rightarrow> callback_argument \<Rightarrow> 'w titan \<Rightarrow> 'w titan"

section \<open>Making a call\<close>

definition oscall :: "('w, 'a) call \<Rightarrow> 'w titan \<Rightarrow> 'a \<times> 'w titan" where
  "oscall f s = (case f (world s) of (a, e, w) \<Rightarrow>
     (a, s\<lparr>world := w, lastError := (case e of None \<Rightarrow> lastError s | Some c \<Rightarrow> c)\<rparr>))"

definition SetLastError :: "u32 \<Rightarrow> 'w titan \<Rightarrow> 'w titan" where
  [simp]: "SetLastError e s = s\<lparr>lastError := e\<rparr>"

text \<open>A call changes only the world and the last-error code.\<close>

lemma oscall_state:
  "oscall f s = (a, s') \<Longrightarrow> \<exists>w e. s' = s\<lparr>world := w, lastError := e\<rparr>"
  by (auto simp: oscall_def split: prod.splits)

lemma snd_oscall: "\<exists>w e. snd (oscall f s) = s\<lparr>world := w, lastError := e\<rparr>"
  by (auto simp: oscall_def split: prod.splits)


text \<open>The state after calls to the outside that touch no variable of the adapter.\<close>

definition world_only :: "'w titan \<Rightarrow> 'w titan \<Rightarrow> bool" where
  "world_only s t \<longleftrightarrow> (\<exists>w e. t = s\<lparr>world := w, lastError := e\<rparr>)"

lemma world_only_refl [simp]: "world_only s s"
  unfolding world_only_def by (rule exI [of _ "world s"], rule exI [of _ "lastError s"]) simp

lemma world_only_trans: "world_only s t \<Longrightarrow> world_only t u \<Longrightarrow> world_only s u"
  by (auto simp: world_only_def) blast

lemma world_only_oscall [simp]: "world_only s (snd (oscall f s))"
  using snd_oscall by (simp add: world_only_def)

lemma world_only_error [simp]: "world_only s (t\<lparr>lastError := e\<rparr>) = world_only s t"
proof
  assume "world_only s (t\<lparr>lastError := e\<rparr>)"
  then obtain w e' where "t\<lparr>lastError := e\<rparr> = s\<lparr>world := w, lastError := e'\<rparr>" by (auto simp: world_only_def)
  then have "t\<lparr>lastError := e, lastError := lastError t\<rparr> = s\<lparr>world := w, lastError := e', lastError := lastError t\<rparr>"
    by simp
  then have "t = s\<lparr>world := w, lastError := lastError t\<rparr>" by simp
  then show "world_only s t" unfolding world_only_def by blast
next
  assume "world_only s t"
  then obtain w e' where "t = s\<lparr>world := w, lastError := e'\<rparr>" by (auto simp: world_only_def)
  then have "t\<lparr>lastError := e\<rparr> = s\<lparr>world := w, lastError := e\<rparr>" by simp
  then show "world_only s (t\<lparr>lastError := e\<rparr>)" unfolding world_only_def by blast
qed

lemma world_only_fields:
  assumes "world_only s t"
  shows "gProcessInfo t = gProcessInfo s"
    and "gEngineVariables t = gEngineVariables s"
    and "gDefaultBreakpointType t = gDefaultBreakpointType s"
    and "gCustomHandlers t = gCustomHandlers s"
    and "gFakeDebugEvent t = gFakeDebugEvent s"
    and "gCallbackQueue t = gCallbackQueue s"
    and "gProcessPebCache t = gProcessPebCache s"
    and "gProcessTebCache t = gProcessTebCache s"
    and "gDebugIdMap t = gDebugIdMap s"
    and "gHandleRegistry t = gHandleRegistry s"
    and "gSessionGeneration t = gSessionGeneration s"
    and "gNextSyntheticHandle t = gNextSyntheticHandle s"
    and "gBreakpoints t = gBreakpoints s"
    and "gHardwareBreakpointIds t = gHardwareBreakpointIds s"
    and "gMemoryBreakpoints t = gMemoryBreakpoints s"
    and "gMemoryBreakpointPages t = gMemoryBreakpointPages s"
    and "gNextMemoryBreakpointId t = gNextMemoryBreakpointId s"
    and "gNextNativeBreakpointId t = gNextNativeBreakpointId s"
    and "gRetiredBreakpointAddresses t = gRetiredBreakpointAddresses s"
    and "gPaused t = gPaused s"
    and "gIsDebugging t = gIsDebugging s"
    and "gSessionKind t = gSessionKind s"
    and "gDebugInterfaces t = gDebugInterfaces s"
    and "gProcessCreated t = gProcessCreated s"
    and "gSyntheticDebugString t = gSyntheticDebugString s"
    and "gSyntheticDebugStringSize t = gSyntheticDebugStringSize s"
    and "gTtdEngine t = gTtdEngine s"
    and "gTtdCursor t = gTtdCursor s"
    and "gTtdFirstPosition t = gTtdFirstPosition s"
    and "gTtdLastPosition t = gTtdLastPosition s"
    and "gTtdProcessId t = gTtdProcessId s"
    and "gTtdCurrentThreadId t = gTtdCurrentThreadId s"
    and "gTtdMachineType t = gTtdMachineType s"
    and "gTtdImagePath t = gTtdImagePath s"
    and "gTtdActiveModules t = gTtdActiveModules s"
    and "gTtdStopRequested t = gTtdStopRequested s"
    and "gTtdInterruptRequested t = gTtdInterruptRequested s"
    and "gTtdCursorChanged t = gTtdCursorChanged s"
    and "gTtdNextRunReverse t = gTtdNextRunReverse s"
    and "gTtdHasProcessExitBoundary t = gTtdHasProcessExitBoundary s"
    and "gTtdProcessExitBoundary t = gTtdProcessExitBoundary s"
    and "gTtdWatchHit t = gTtdWatchHit s"
    and "gTtdStepOverProbe t = gTtdStepOverProbe s"
    and "gDebugThreadId t = gDebugThreadId s"
    and "gStepCallbacks t = gStepCallbacks s"
    and "gStepThreadSystemIds t = gStepThreadSystemIds s"
    and "gInternalStepCallbacks t = gInternalStepCallbacks s"
    and "gInternalStepSuspendedThreads t = gInternalStepSuspendedThreads s"
    and "gStepStatuses t = gStepStatuses s"
    and "gNextExecutionStatus t = gNextExecutionStatus s"
    and "gNextContinueStatus t = gNextContinueStatus s"
    and "gExpectSystemBreakpoint t = gExpectSystemBreakpoint s"
    and "gAttachCallback t = gAttachCallback s"
    and "gPauseCallback t = gPauseCallback s"
    and "gRegisterCache t = gRegisterCache s"
    and "gMappedFiles t = gMappedFiles s"
  using assms by (auto simp: world_only_def)

section \<open>An instance\<close>

text \<open>
  Interfaces every call of which fails and leaves the world alone. The witnesses of the
  properties override single functions of it, so that the hypotheses about the
  outside code are met by concrete functions.
\<close>

definition no_context :: native_context where
  "no_context = \<lparr>nc_Integer = (\<lambda>_. 0), nc_ControlWord = 0, nc_StatusWord = 0, nc_TagWord = 0,
     nc_ErrorOffset = 0, nc_ErrorSelector = 0, nc_DataOffset = 0, nc_DataSelector = 0, nc_MxCsr = 0, nc_SaveMxCsr = 0,
     nc_FloatRegisters = replicate 8 (replicate 16 0), nc_XmmRegisters = replicate 16 (replicate 16 0),
     nc_AvxHigh = None, nc_Opmask = None, nc_ZmmHigh = None, nc_Zmm16 = None\<rparr>"

definition quiet_win :: "'w winapi" where
  "quiet_win = \<lparr>wCurrentThreadId = (\<lambda>_. 0),
     wPageSize = 0x1000,
     wLiteralPooling = True,
     wReadProcessMemory = (\<lambda>_ _ _ w. ((False, []), None, w)),
     wWriteProcessMemory = (\<lambda>_ _ _ w. ((False, 0), None, w)),
     wFlushInstructionCache = (\<lambda>_ _ _ w. (False, None, w)),
     wVirtualProtectEx = (\<lambda>_ _ _ _ w. ((False, 0), None, w)),
     wVirtualQueryEx = (\<lambda>_ _ w. (None, None, w)),
     wVirtualAllocEx = (\<lambda>_ _ _ _ _ w. (0, None, w)),
     wVirtualFreeEx = (\<lambda>_ _ _ _ w. (False, None, w)),
     wLocalMemory = (\<lambda>_ _ _. []),
     wOpenProcess = (\<lambda>_ _ _ w. (0, None, w)),
     wOpenThread = (\<lambda>_ _ _ w. (0, None, w)),
     wDuplicateHandle = (\<lambda>_ w. (None, None, w)),
     wCloseHandle = (\<lambda>_ w. (False, None, w)),
     wSuspendThread = (\<lambda>_ w. (0, None, w)),
     wResumeThread = (\<lambda>_ w. (0, None, w)),
     wTerminateProcess = (\<lambda>_ _ w. (False, None, w)),
     wTerminateThread = (\<lambda>_ _ w. (False, None, w)),
     wCreateRemoteThread = (\<lambda>_ _ _ _ w. ((0, 0), None, w)),
     wGetThreadId = (\<lambda>_ w. (0, None, w)),
     wGetThreadPriority = (\<lambda>_ w. (0, None, w)),
     wSetThreadPriority = (\<lambda>_ _ w. (False, None, w)),
     wGetThreadTimes = (\<lambda>_ w. (None, None, w)),
     wQueryThreadCycleTime = (\<lambda>_ w. (None, None, w)),
     wIsWow64Process = (\<lambda>_ w. (None, None, w)),
     wOpenProcessToken = (\<lambda>w. (None, None, w)),
     wLookupDebugPrivilege = (\<lambda>w. (None, None, w)),
     wAdjustTokenPrivileges = (\<lambda>_ _ _ w. (False, None, w)),
     wCreateFile = (\<lambda>_ _ w. (INVALID_HANDLE_VALUE, None, w)),
     wGetFileSize = (\<lambda>_ w. (0, None, w)),
     wCreateFileMapping = (\<lambda>_ _ w. (0, None, w)),
     wMapViewOfFile = (\<lambda>_ _ w. (0, None, w)),
     wUnmapViewOfFile = (\<lambda>_ w. (False, None, w)),
     wEnabledXStateFeatures = (\<lambda>_. 0),
     wLoadContext = (\<lambda>_ _ w. (None, None, w)),
     wGetThreadContext = (\<lambda>_ w. (None, None, w)),
     wSetThreadContext = (\<lambda>_ _ w. (False, None, w))\<rparr>"

definition quiet_dbg :: "'w dbgeng" where
  "quiet_dbg = \<lparr>dWaitForEvent = (\<lambda>w. ((E_FAIL, []), None, w)),
     dExecutionStatus = (\<lambda>_. None),
     dSetExecutionStatus = (\<lambda>_ w. (False, None, w)),
     dThreadIndex = (\<lambda>_. None),
     dProcessIndex = (\<lambda>_. None),
     dThreadSystemId = (\<lambda>_. None),
     dProcessSystemId = (\<lambda>_. None),
     dProcessPeb = (\<lambda>_. None),
     dThreadTeb = (\<lambda>_. None),
     dSetCurrentThread = (\<lambda>_ w. (False, None, w)),
     dNumberProcesses = (\<lambda>_. None),
     dThreadIds = (\<lambda>_. None),
     dNumberThreads = (\<lambda>_. None),
     dThreadIdsByIndex = (\<lambda>_. None),
     dNumberRegisters = (\<lambda>_. None),
     dRegisterName = (\<lambda>_ _. None),
     dGetValues = (\<lambda>_ w. (None, None, w)),
     dSetValues = (\<lambda>_ w. (False, None, w)),
     dInstructionOffset = (\<lambda>_. 0),
     dAddBreakpoint2 = (\<lambda>_ w. ((E_FAIL, 0), None, w)),
     dRemoveBreakpoint2 = (\<lambda>_ w. (E_FAIL, None, w)),
     dBpSetOffset = (\<lambda>_ _ w. (E_FAIL, None, w)),
     dBpSetDataParameters = (\<lambda>_ _ _ w. (E_FAIL, None, w)),
     dBpSetFlags = (\<lambda>_ _ w. (E_FAIL, None, w)),
     dBpGetId = (\<lambda>_ w. ((E_FAIL, 0), None, w)),
     dReadVirtual = (\<lambda>_ _ w. ((False, []), None, w)),
     dWriteVirtual = (\<lambda>_ _ w. ((False, 0), None, w)),
     dQueryVirtual = (\<lambda>_ _. None),
     dCreateProcess = (\<lambda>_ _ _ w. ((E_FAIL, []), None, w)),
     dAttachProcess = (\<lambda>_ w. (E_FAIL, None, w)),
     dDetachProcesses = (\<lambda>w. (E_FAIL, None, w)),
     dEndSession = (\<lambda>_ w. (E_FAIL, None, w)),
     dProcessOptions = (\<lambda>_. None),
     dSetProcessOptions = (\<lambda>_ w. ((), None, w)),
     dOpenDumpFile = (\<lambda>_ w. (E_FAIL, None, w)),
     dDebuggeeType = (\<lambda>_. (0, 0, 0)),
     dLastException = (\<lambda>_. None),
     dNumberModules = (\<lambda>_. None),
     dModuleByIndex = (\<lambda>_ _. None),
     dModuleByOffset = (\<lambda>_ _. None),
     dModuleImageName = (\<lambda>_ _ _ _. None),
     dSetInterrupt = (\<lambda>w. (E_FAIL, None, w)),
     dEffectiveProcessorType = (\<lambda>_. None),
     dFailure = (\<lambda>_ _. E_FAIL)\<rparr>"

definition quiet_ttd :: "'w ttdapi" where
  "quiet_ttd = \<lparr>tCreateEngine = (\<lambda>w. (False, None, w)),
     tInitialize = (\<lambda>_ w. (False, None, w)),
     tNewCursor = (\<lambda>w. (False, None, w)),
     tFirstPosition = (\<lambda>_. TtdPosition 0 0),
     tLastPosition = (\<lambda>_. TtdPosition 0 0),
     tPebAddress = (\<lambda>_. 0),
     tExceptionEvents = (\<lambda>_. []),
     tEngineThreads = (\<lambda>_. []),
     tPosition = (\<lambda>_. TtdPosition 0 0),
     tSetPosition = (\<lambda>_ w. w),
     tSetPositionOnThread = (\<lambda>_ _ w. w),
     tThreadInfo = (\<lambda>_. (0, 0)),
     tActiveThreads = (\<lambda>_. []),
     tModules = (\<lambda>_. []),
     tTebAddress = (\<lambda>_ _. 0),
     tProgramCounter = (\<lambda>_. 0),
     tContext = (\<lambda>_ _. no_context),
     tQueryMemoryBuffer = (\<lambda>_ _ _. None),
     tAddMemoryWatchpoint = (\<lambda>_ w. (False, None, w)),
     tRemoveMemoryWatchpoint = (\<lambda>_ w. (False, None, w)),
     tReplay = (\<lambda>_ _ _ _ _ w. (((0, 0), []), None, w)),
     tInterruptReplay = (\<lambda>w. w)\<rparr>"

definition quiet_os :: "'w os" where
  "quiet_os = \<lparr>win = quiet_win, dbg = quiet_dbg, ttd = quiet_ttd\<rparr>"

lemmas quiet_defs = quiet_os_def quiet_win_def quiet_dbg_def quiet_ttd_def

text \<open>A paused live session with one process, whose handle is 8.\<close>

definition live_titan :: "'w \<Rightarrow> 'w titan" where
  "live_titan w = (initial_titan w)\<lparr>gSessionKind := UE_SESSION_LIVE, gIsDebugging := True, gPaused := True,
     gDebugInterfaces := True, gDebugIdMap := empty_id_map\<lparr>processIndexToHandle := [(0, 8)]\<rparr>\<rparr>"

lemmas live_defs = live_titan_def initial_titan_def empty_id_map_def

end
