(* ===== verification/Event_Core.thy ===== *)
theory Event_Core
  imports External
begin

text \<open>
  The callback queue, the pause lock, the dispatch of debug events to the registered handlers
  and the reset of a TTD session (\<open>TitanEngine.cpp\<close>, lines 492 to 672). The queue's interface is
  the locale \<open>work_queue\<close>, interpreted on \<open>queueCallback\<close> and \<open>popCallback\<close>.
\<close>

section \<open>Pause lock\<close>

text \<open>
  \<open>PauseLock\<close> is taken only while the loop is not inside WaitForEvent and a session is being
  debugged. The mutex itself is modelled in the theory \<open>Pause_Protocol\<close>.
\<close>

definition PauseLock :: "'w titan \<Rightarrow> bool" where
  "PauseLock s = (gPaused s \<and> gIsDebugging s)"

definition IsDebugThread :: "'w os \<Rightarrow> 'w titan \<Rightarrow> bool" where
  "IsDebugThread os s = (gDebugThreadId s = wCurrentThreadId (win os) (world s))"

section \<open>Callback queue\<close>

definition queueCallback :: "work \<Rightarrow> 'w titan \<Rightarrow> 'w titan" where
  "queueCallback work s = s\<lparr>gCallbackQueue := gCallbackQueue s @ [work]\<rparr>"

text \<open>The pop in \<open>DebugLoop\<close>: None when the queue is empty.\<close>

definition popCallback :: "'w titan \<Rightarrow> (work \<times> 'w titan) option" where
  "popCallback s = (case gCallbackQueue s of
     [] \<Rightarrow> None
   | work # rest \<Rightarrow> Some (work, s\<lparr>gCallbackQueue := rest\<rparr>))"

locale work_queue =
  fixes push :: "'a \<Rightarrow> 's \<Rightarrow> 's"
    and pop :: "'s \<Rightarrow> ('a \<times> 's) option"
    and items :: "'s \<Rightarrow> 'a list"
  assumes items_push: "items (push x s) = items s @ [x]"
    and pop_empty: "items s = [] \<Longrightarrow> pop s = None"
    and pop_front: "items s = x # xs \<Longrightarrow> \<exists>s'. pop s = Some (x, s') \<and> items s' = xs"
begin

lemma pop_None: "pop s = None \<longleftrightarrow> items s = []"
  using pop_empty pop_front by (cases "items s") fastforce+

lemma pop_Some: "pop s = Some (x, s') \<Longrightarrow> items s = x # items s'"
  using pop_empty pop_front by (cases "items s") fastforce+

lemma items_fold_push: "items (fold push xs s) = items s @ xs"
  by (induction xs arbitrary: s) (simp_all add: items_push)

lemma pop_length: "pop s = Some (x, s') \<Longrightarrow> length (items s') < length (items s)"
  by (auto dest: pop_Some)

text \<open>First in, first out: what was queued first is delivered first, whatever is pushed after it.\<close>

lemma fifo: "items s = x # xs \<Longrightarrow> \<exists>s'. pop (fold push ys s) = Some (x, s') \<and> items s' = xs @ ys"
  using pop_front [of "fold push ys s"] by (simp add: items_fold_push)

end

interpretation callback_queue: work_queue queueCallback popCallback gCallbackQueue
  by unfold_locales (auto simp: queueCallback_def popCallback_def)

section \<open>Custom handlers and debug events\<close>

definition invokeCustomHandler :: "'w client \<Rightarrow> u32 \<Rightarrow> callback_argument \<Rightarrow> 'w titan \<Rightarrow> 'w titan" where
  "invokeCustomHandler cl ident argument s = (case map_of (gCustomHandlers s) ident of
     None \<Rightarrow> s
   | Some handler \<Rightarrow> if handler = 0 then s else cl handler argument s)"

abbreviation UE_CH_CREATETHREAD :: u32 where "UE_CH_CREATETHREAD \<equiv> 14"
abbreviation UE_CH_EXITTHREAD :: u32 where "UE_CH_EXITTHREAD \<equiv> 15"
abbreviation UE_CH_CREATEPROCESS :: u32 where "UE_CH_CREATEPROCESS \<equiv> 16"
abbreviation UE_CH_EXITPROCESS :: u32 where "UE_CH_EXITPROCESS \<equiv> 17"
abbreviation UE_CH_LOADDLL :: u32 where "UE_CH_LOADDLL \<equiv> 18"
abbreviation UE_CH_UNLOADDLL :: u32 where "UE_CH_UNLOADDLL \<equiv> 19"
abbreviation UE_CH_OUTPUTDEBUGSTRING :: u32 where "UE_CH_OUTPUTDEBUGSTRING \<equiv> 20"
abbreviation UE_CH_SYSTEMBREAKPOINT :: u32 where "UE_CH_SYSTEMBREAKPOINT \<equiv> 23"
abbreviation UE_CH_UNHANDLEDEXCEPTION :: u32 where "UE_CH_UNHANDLEDEXCEPTION \<equiv> 24"
abbreviation UE_CH_DEBUGEVENT :: u32 where "UE_CH_DEBUGEVENT \<equiv> 26"

definition beginDebugEvent :: "'w client \<Rightarrow> bool \<Rightarrow> 'w titan \<Rightarrow> 'w titan" where
  "beginDebugEvent cl unhandledException s =
     (let s = s\<lparr>gNextContinueStatus := (if unhandledException then DBG_EXCEPTION_NOT_HANDLED else DBG_CONTINUE)\<rparr>
      in invokeCustomHandler cl UE_CH_DEBUGEVENT (EventArgument (gFakeDebugEvent s)) s)"

definition finishDebugEvent :: "bool \<Rightarrow> 'w titan \<Rightarrow> 'w titan" where
  "finishDebugEvent unhandledException s =
     (if gNextExecutionStatus s = DEBUG_STATUS_NO_CHANGE then
        (if gSessionKind s = UE_SESSION_MINIDUMP then
           s\<lparr>gNextExecutionStatus := DEBUG_STATUS_BREAK\<rparr>
         else (case gStepStatuses s of
             (thread, status) # rest \<Rightarrow> s\<lparr>gNextExecutionStatus := status\<rparr>
           | [] \<Rightarrow> s\<lparr>gNextExecutionStatus :=
               (if unhandledException \<and> gNextContinueStatus s = DBG_EXCEPTION_NOT_HANDLED
                then DEBUG_STATUS_GO_NOT_HANDLED else DEBUG_STATUS_GO_HANDLED)\<rparr>))
      else s)"

definition dispatchDebugEvent :: "'w client \<Rightarrow> u32 \<Rightarrow> callback_argument \<Rightarrow> bool \<Rightarrow> 'w titan \<Rightarrow> 'w titan" where
  "dispatchDebugEvent cl ident argument unhandledException s =
     finishDebugEvent unhandledException
       (invokeCustomHandler cl ident argument (beginDebugEvent cl unhandledException s))"

definition dispatchSystemBreakpoint :: "'w client \<Rightarrow> callback_argument \<Rightarrow> 'w titan \<Rightarrow> 'w titan" where
  "dispatchSystemBreakpoint cl argument s =
     (let s = beginDebugEvent cl False s;
          s = (if gAttachCallback s \<noteq> 0
               then cl (gAttachCallback s) NoArgument (s\<lparr>gAttachCallback := 0\<rparr>)
               else invokeCustomHandler cl UE_CH_SYSTEMBREAKPOINT argument s)
      in finishDebugEvent False s)"

definition SetCustomHandler :: "u32 \<Rightarrow> callback \<Rightarrow> 'w titan \<Rightarrow> 'w titan" where
  "SetCustomHandler exceptionId handler s =
     s\<lparr>gCustomHandlers := omap_insert exceptionId handler (gCustomHandlers s)\<rparr>"

definition SetNextDbgContinueStatus :: "u32 \<Rightarrow> 'w titan \<Rightarrow> 'w titan" where
  "SetNextDbgContinueStatus code s =
     (if code \<noteq> DBG_EXCEPTION_NOT_HANDLED \<and> code \<noteq> DBG_CONTINUE
      then SetLastError ERROR_INVALID_PARAMETER s
      else s\<lparr>gNextContinueStatus := code\<rparr>)"

definition GetDebugData :: "'w titan \<Rightarrow> debug_event" where
  "GetDebugData s = gFakeDebugEvent s"

section \<open>Identity of the current event\<close>

definition debugProcessId :: "'w os \<Rightarrow> 'w titan \<Rightarrow> u32" where
  "debugProcessId os s =
     (if gSessionKind s = UE_SESSION_TTD then gTtdProcessId s
      else if \<not> gDebugInterfaces s then 0
      else (case dProcessSystemId (dbg os) (world s) of None \<Rightarrow> 0 | Some ident \<Rightarrow> ident))"

definition debugThreadId :: "'w os \<Rightarrow> 'w titan \<Rightarrow> u32" where
  "debugThreadId os s =
     (if gSessionKind s = UE_SESSION_TTD then gTtdCurrentThreadId s
      else if \<not> gDebugInterfaces s then 0
      else (case dThreadSystemId (dbg os) (world s) of None \<Rightarrow> 0 | Some ident \<Rightarrow> ident))"

text \<open>The event code each overload of \<open>setFakeDebugEvent\<close> stores.\<close>

fun debugEventCode :: "debug_info \<Rightarrow> u32" where
  "debugEventCode NoInfo = 0"
| "debugEventCode (CreateProcessInfo _ _ _ _ _ _) = CREATE_PROCESS_DEBUG_EVENT"
| "debugEventCode (ExitProcessInfo _) = EXIT_PROCESS_DEBUG_EVENT"
| "debugEventCode (LoadDllInfo _ _) = LOAD_DLL_DEBUG_EVENT"
| "debugEventCode (UnloadDllInfo _) = UNLOAD_DLL_DEBUG_EVENT"
| "debugEventCode (ExceptionInfo _) = EXCEPTION_DEBUG_EVENT"
| "debugEventCode (CreateThreadInfo _ _ _) = CREATE_THREAD_DEBUG_EVENT"
| "debugEventCode (ExitThreadInfo _) = EXIT_THREAD_DEBUG_EVENT"
| "debugEventCode (DebugStringInfo _ _ _) = OUTPUT_DEBUG_STRING_EVENT"

definition setFakeDebugEvent :: "'w os \<Rightarrow> debug_info \<Rightarrow> 'w titan \<Rightarrow> 'w titan" where
  "setFakeDebugEvent os info s = s\<lparr>gFakeDebugEvent :=
     \<lparr>dwDebugEventCode = debugEventCode info, devProcessId = debugProcessId os s,
      devThreadId = debugThreadId os s, devInfo = info\<rparr>\<rparr>"

text \<open>The assignments to \<open>gFakeDebugEvent.dwProcessId\<close> and \<open>.dwThreadId\<close> of the event closures.\<close>

definition setEventIds :: "u32 \<Rightarrow> u32 \<Rightarrow> 'w titan \<Rightarrow> 'w titan" where
  "setEventIds pid tid s = s\<lparr>gFakeDebugEvent := (gFakeDebugEvent s)\<lparr>devProcessId := pid, devThreadId := tid\<rparr>\<rparr>"

definition setEventThread :: "u32 \<Rightarrow> 'w titan \<Rightarrow> 'w titan" where
  "setEventThread tid s = s\<lparr>gFakeDebugEvent := (gFakeDebugEvent s)\<lparr>devThreadId := tid\<rparr>\<rparr>"

section \<open>Resetting a TTD session\<close>

definition resetTtdSession :: "'w titan \<Rightarrow> 'w titan" where
  "resetTtdSession s = s\<lparr>gPauseCallback := 0, gTtdCursor := False, gTtdEngine := False,
     gTtdFirstPosition := invalid_position, gTtdLastPosition := invalid_position,
     gTtdProcessId := 1, gTtdCurrentThreadId := 0, gTtdMachineType := 0, gTtdImagePath := [],
     gTtdActiveModules := [], gTtdStopRequested := False, gTtdInterruptRequested := False,
     gTtdCursorChanged := False, gTtdNextRunReverse := False, gTtdHasProcessExitBoundary := False,
     gTtdProcessExitBoundary := invalid_position, gTtdWatchHit := no_watch_hit,
     gTtdStepOverProbe := None\<rparr>"

section \<open>Execution status chosen for an event\<close>

text \<open>
  The specification of \<open>finishDebugEvent\<close>: a status already chosen (by a step request, or by an
  earlier event of the same stop) wins; a minidump stays stopped; a pending step comes next; only
  then does the event's continue status decide.
\<close>

definition resume_status :: "'w titan \<Rightarrow> bool \<Rightarrow> u32" where
  "resume_status s unhandled =
     (if gNextExecutionStatus s \<noteq> DEBUG_STATUS_NO_CHANGE then gNextExecutionStatus s
      else if gSessionKind s = UE_SESSION_MINIDUMP then DEBUG_STATUS_BREAK
      else if gStepStatuses s \<noteq> [] then snd (hd (gStepStatuses s))
      else if unhandled \<and> gNextContinueStatus s = DBG_EXCEPTION_NOT_HANDLED then DEBUG_STATUS_GO_NOT_HANDLED
      else DEBUG_STATUS_GO_HANDLED)"

lemma finishDebugEvent_eq:
  "finishDebugEvent unhandled s = s\<lparr>gNextExecutionStatus := resume_status s unhandled\<rparr>"
  by (simp add: finishDebugEvent_def resume_status_def split: list.split)

lemmas event_defs = setFakeDebugEvent_def setEventIds_def setEventThread_def queueCallback_def

end
