(* ===== verification/Handles.thy ===== *)
theory Handles
  imports Event_Core
begin

text \<open>
  The handle registry: native handles DbgEng reports or the adapter opens, and synthetic handles
  of replay sessions (\<open>TitanEngine.cpp\<close>, lines 674 to 740 and 5751 to 6010).
\<close>

section \<open>Registration\<close>

definition registerTitanHandle ::
  "HANDLE \<Rightarrow> handle_type \<Rightarrow> u32 \<Rightarrow> u32 \<Rightarrow> bool \<Rightarrow> HANDLE \<Rightarrow> 'w titan \<Rightarrow> 'w titan" where
  "registerTitanHandle handle type dbgengId systemId callerOwned nativeHandle s =
     (if handle = 0 \<or> handle = INVALID_HANDLE_VALUE then s
      else s\<lparr>gHandleRegistry := omap_insert handle
        \<lparr>he_type = type, he_dbgengId = dbgengId, he_systemId = systemId, he_nativeHandle = nativeHandle,
         he_callerOwned = callerOwned, he_sessionGeneration = gSessionGeneration s\<rparr>
        (gHandleRegistry s)\<rparr>)"

text \<open>The value of a synthetic handle, in the Win64 and in the Win32 build.\<close>

definition syntheticHandle :: "u64 \<Rightarrow> HANDLE" where
  "syntheticHandle serial =
     0xFFFF800000000000 OR (push_bit 4 (serial AND 0x00007FFFFFFFFFFF)) OR 3"

definition syntheticHandle32 :: "u32 \<Rightarrow> u32" where
  "syntheticHandle32 serial = 0xF0000000 OR (push_bit 4 (serial AND 0x00FFFFFF)) OR 3"

definition createSyntheticTitanHandle ::
  "handle_type \<Rightarrow> u32 \<Rightarrow> u32 \<Rightarrow> bool \<Rightarrow> 'w titan \<Rightarrow> HANDLE \<times> 'w titan" where
  "createSyntheticTitanHandle type dbgengId systemId callerOwned s =
     (let serial = gNextSyntheticHandle s;
          s = s\<lparr>gNextSyntheticHandle := serial + 1\<rparr>;
          handle = syntheticHandle serial
      in (handle, registerTitanHandle handle type dbgengId systemId callerOwned 0 s))"

definition unregisterTitanHandle :: "HANDLE \<Rightarrow> 'w titan \<Rightarrow> 'w titan" where
  "unregisterTitanHandle handle s = s\<lparr>gHandleRegistry := omap_erase handle (gHandleRegistry s)\<rparr>"

definition registeredNativeHandle :: "HANDLE \<Rightarrow> handle_type \<Rightarrow> 'w titan \<Rightarrow> HANDLE \<times> 'w titan" where
  "registeredNativeHandle handle expectedType s = (case map_of (gHandleRegistry s) handle of
     None \<Rightarrow> (0, SetLastError ERROR_INVALID_HANDLE s)
   | Some entry \<Rightarrow>
       if he_type entry \<noteq> expectedType \<or> he_nativeHandle entry = 0
       then (0, SetLastError ERROR_INVALID_HANDLE s)
       else (he_nativeHandle entry, s))"

fun closeEntries :: "'w os \<Rightarrow> (HANDLE \<times> handle_entry) list \<Rightarrow> 'w titan \<Rightarrow> 'w titan" where
  "closeEntries os [] s = s"
| "closeEntries os ((handle, entry) # rest) s =
     (let s = (if he_callerOwned entry \<and> he_nativeHandle entry \<noteq> 0
               then snd (oscall (wCloseHandle (win os) (he_nativeHandle entry)) s) else s)
      in closeEntries os rest s)"

definition closeCallerOwnedTitanHandles :: "'w os \<Rightarrow> 'w titan \<Rightarrow> 'w titan" where
  "closeCallerOwnedTitanHandles os s =
     (closeEntries os (gHandleRegistry s) s)\<lparr>gHandleRegistry := []\<rparr>"

text \<open>The two directions of the id map, updated together by the event handlers.\<close>

definition mapProcess :: "u32 \<Rightarrow> HANDLE \<Rightarrow> 'w titan \<Rightarrow> 'w titan" where
  "mapProcess index handle s = s\<lparr>gDebugIdMap := (gDebugIdMap s)
     \<lparr>processHandleToIndex := omap_insert handle index (processHandleToIndex (gDebugIdMap s)),
      processIndexToHandle := omap_insert index handle (processIndexToHandle (gDebugIdMap s))\<rparr>\<rparr>"

definition mapThread :: "u32 \<Rightarrow> HANDLE \<Rightarrow> 'w titan \<Rightarrow> 'w titan" where
  "mapThread index handle s = s\<lparr>gDebugIdMap := (gDebugIdMap s)
     \<lparr>threadHandleToIndex := omap_insert handle index (threadHandleToIndex (gDebugIdMap s)),
      threadIndexToHandle := omap_insert index handle (threadIndexToHandle (gDebugIdMap s))\<rparr>\<rparr>"

definition aliasProcess :: "HANDLE \<Rightarrow> u32 \<Rightarrow> 'w titan \<Rightarrow> 'w titan" where
  "aliasProcess handle index s = s\<lparr>gDebugIdMap := (gDebugIdMap s)
     \<lparr>processHandleToIndex := omap_insert handle index (processHandleToIndex (gDebugIdMap s))\<rparr>\<rparr>"

definition aliasThread :: "HANDLE \<Rightarrow> u32 \<Rightarrow> 'w titan \<Rightarrow> 'w titan" where
  "aliasThread handle index s = s\<lparr>gDebugIdMap := (gDebugIdMap s)
     \<lparr>threadHandleToIndex := omap_insert handle index (threadHandleToIndex (gDebugIdMap s))\<rparr>\<rparr>"

definition cachePeb :: "HANDLE \<Rightarrow> u64 \<Rightarrow> 'w titan \<Rightarrow> 'w titan" where
  "cachePeb handle peb s = s\<lparr>gProcessPebCache := omap_insert handle peb (gProcessPebCache s)\<rparr>"

definition cacheTeb :: "HANDLE \<Rightarrow> u64 \<Rightarrow> 'w titan \<Rightarrow> 'w titan" where
  "cacheTeb handle teb s = s\<lparr>gProcessTebCache := omap_insert handle teb (gProcessTebCache s)\<rparr>"

definition activeProcessHandle :: "'w os \<Rightarrow> 'w titan \<Rightarrow> HANDLE" where
  "activeProcessHandle os s =
     (if \<not> gDebugInterfaces s then 0
      else (case dProcessIndex (dbg os) (world s) of
          None \<Rightarrow> 0
        | Some index \<Rightarrow> (case map_of (processIndexToHandle (gDebugIdMap s)) index of
              None \<Rightarrow> 0 | Some handle \<Rightarrow> handle)))"

definition sessionProcessHandle :: "'w titan \<Rightarrow> HANDLE" where
  "sessionProcessHandle s = (case processIndexToHandle (gDebugIdMap s) of
     [] \<Rightarrow> 0 | (index, handle) # rest \<Rightarrow> handle)"

section \<open>Exported handle functions\<close>

definition TitanOpenProcess :: "'w os \<Rightarrow> u32 \<Rightarrow> bool \<Rightarrow> u32 \<Rightarrow> 'w titan \<Rightarrow> HANDLE \<times> 'w titan" where
  "TitanOpenProcess os access inherit processId s =
     (if gSessionKind s = UE_SESSION_TTD then
        (if processId \<noteq> gTtdProcessId s then (0, SetLastError ERROR_INVALID_PARAMETER s)
         else (let (handle, s) = createSyntheticTitanHandle ProcessHandle 0 processId True s;
                   s = aliasProcess handle 0 s
               in (handle, cachePeb handle (if gTtdEngine s then tPebAddress (ttd os) (world s) else 0) s)))
      else if gSessionKind s = UE_SESSION_MINIDUMP then
        (if processId \<noteq> debugProcessId os s then (0, SetLastError ERROR_INVALID_PARAMETER s)
         else (case dProcessIndex (dbg os) (world s) of
             None \<Rightarrow> (0, SetLastError ERROR_INVALID_PARAMETER s)
           | Some index \<Rightarrow>
               (let (handle, s) = createSyntheticTitanHandle ProcessHandle index processId True s;
                    s = aliasProcess handle index s;
                    peb = (case dProcessPeb (dbg os) (world s) of None \<Rightarrow> 0 | Some peb \<Rightarrow> peb)
                in (handle, cachePeb handle peb s))))
      else
        (let (handle, s) = oscall (wOpenProcess (win os) access inherit processId) s
         in (handle, registerTitanHandle handle ProcessHandle DEBUG_ANY_ID processId True handle s)))"

text \<open>The search for the thread among those the replay engine knows, and the minidump case's.\<close>

definition openTtdThread :: "'w os \<Rightarrow> u32 \<Rightarrow> 'w titan \<Rightarrow> HANDLE \<times> 'w titan" where
  "openTtdThread os threadId s =
     (if \<not> gTtdEngine s \<or> \<not> gTtdCursor s then (0, s)
      else (case find (\<lambda>t. snd t = threadId) (tEngineThreads (ttd os) (world s)) of
          None \<Rightarrow> (0, SetLastError ERROR_INVALID_PARAMETER s)
        | Some (uniqueId, systemId) \<Rightarrow>
            (let (handle, s) = createSyntheticTitanHandle ThreadHandle uniqueId threadId True s;
                 s = aliasThread handle uniqueId s
             in (handle, cacheTeb handle (tTebAddress (ttd os) threadId (world s)) s))))"

definition readThreadTeb :: "'w os \<Rightarrow> u32 \<Rightarrow> 'w titan \<Rightarrow> u64 \<times> 'w titan" where
  "readThreadTeb os engineId s =
     (let oldIndex = (case dThreadIndex (dbg os) (world s) of None \<Rightarrow> DEBUG_ANY_ID | Some i \<Rightarrow> i);
          (ok, s) = oscall (dSetCurrentThread (dbg os) engineId) s;
          teb = (if ok then (case dThreadTeb (dbg os) (world s) of None \<Rightarrow> 0 | Some t \<Rightarrow> t) else 0);
          s = (if oldIndex \<noteq> DEBUG_ANY_ID then snd (oscall (dSetCurrentThread (dbg os) oldIndex) s) else s)
      in (teb, s))"

definition openDumpThread :: "'w os \<Rightarrow> u32 \<Rightarrow> 'w titan \<Rightarrow> HANDLE \<times> 'w titan" where
  "openDumpThread os threadId s = (case dThreadIds (dbg os) (world s) of
     None \<Rightarrow> (0, s)
   | Some threads \<Rightarrow>
       if threads = [] then (0, s)
       else (case find (\<lambda>t. snd t = threadId) threads of
           None \<Rightarrow> (0, SetLastError ERROR_INVALID_PARAMETER s)
         | Some (engineId, systemId) \<Rightarrow>
             (let (handle, s) = createSyntheticTitanHandle ThreadHandle engineId threadId True s;
                  s = aliasThread handle engineId s;
                  (teb, s) = readThreadTeb os engineId s
              in (handle, cacheTeb handle teb s))))"

definition TitanOpenThread :: "'w os \<Rightarrow> u32 \<Rightarrow> bool \<Rightarrow> u32 \<Rightarrow> 'w titan \<Rightarrow> HANDLE \<times> 'w titan" where
  "TitanOpenThread os access inherit threadId s =
     (if gSessionKind s = UE_SESSION_TTD then openTtdThread os threadId s
      else if gSessionKind s = UE_SESSION_MINIDUMP then openDumpThread os threadId s
      else (let (handle, s) = oscall (wOpenThread (win os) access inherit threadId) s
            in (handle, registerTitanHandle handle ThreadHandle DEBUG_ANY_ID threadId True handle s)))"

definition TitanCloseHandle :: "'w os \<Rightarrow> HANDLE \<Rightarrow> 'w titan \<Rightarrow> bool \<times> 'w titan" where
  "TitanCloseHandle os handle s = (case map_of (gHandleRegistry s) handle of
     None \<Rightarrow> (False, SetLastError ERROR_INVALID_HANDLE s)
   | Some entry \<Rightarrow>
       if \<not> he_callerOwned entry then (False, SetLastError ERROR_INVALID_HANDLE s)
       else (let (result, s) = (if he_nativeHandle entry = 0 then (True, s)
                                else oscall (wCloseHandle (win os) (he_nativeHandle entry)) s)
             in if result
                then (True, s\<lparr>gDebugIdMap := (gDebugIdMap s)
                         \<lparr>processHandleToIndex := omap_erase handle (processHandleToIndex (gDebugIdMap s)),
                          threadHandleToIndex := omap_erase handle (threadHandleToIndex (gDebugIdMap s))\<rparr>,
                       gProcessPebCache := omap_erase handle (gProcessPebCache s),
                       gProcessTebCache := omap_erase handle (gProcessTebCache s),
                       gHandleRegistry := omap_erase handle (gHandleRegistry s)\<rparr>)
                else (False, s)))"

definition ProcessIsWow64 :: "'w os \<Rightarrow> HANDLE \<Rightarrow> bool \<Rightarrow> 'w titan \<Rightarrow> (bool \<times> bool option) \<times> 'w titan" where
  "ProcessIsWow64 os process isWow64Given s =
     (if \<not> isWow64Given then ((False, None), SetLastError ERROR_INVALID_PARAMETER s)
      else if gSessionKind s = UE_SESSION_TTD then
        (if \<not> omap_contains (processHandleToIndex (gDebugIdMap s)) process
         then ((False, None), SetLastError ERROR_INVALID_HANDLE s)
         else ((True, Some (gTtdMachineType s = IMAGE_FILE_MACHINE_I386)), s))
      else (let (native, s) = registeredNativeHandle process ProcessHandle s
            in if native = 0 then ((False, None), s)
               else (let (answer, s) = oscall (wIsWow64Process (win os) native) s
                     in ((answer \<noteq> None, answer), s))))"

text \<open>
  The one-line wrappers: each looks the native handle up, of the right type, and passes the call
  on. \<open>failed\<close> is what the wrapper returns when the lookup fails.
\<close>

definition withNativeHandle ::
  "HANDLE \<Rightarrow> handle_type \<Rightarrow> 'a \<Rightarrow> (HANDLE \<Rightarrow> ('w, 'a) call) \<Rightarrow> 'w titan \<Rightarrow> 'a \<times> 'w titan" where
  "withNativeHandle handle type failed action s =
     (let (native, s) = registeredNativeHandle handle type s
      in if native = 0 then (failed, s) else oscall (action native) s)"

definition TitanTerminateProcess :: "'w os \<Rightarrow> HANDLE \<Rightarrow> u32 \<Rightarrow> 'w titan \<Rightarrow> bool \<times> 'w titan" where
  "TitanTerminateProcess os process exitCode =
     withNativeHandle process ProcessHandle False (\<lambda>h. wTerminateProcess (win os) h exitCode)"

definition TitanSuspendThread :: "'w os \<Rightarrow> HANDLE \<Rightarrow> 'w titan \<Rightarrow> u32 \<times> 'w titan" where
  "TitanSuspendThread os thread = withNativeHandle thread ThreadHandle (- 1) (wSuspendThread (win os))"

definition TitanResumeThread :: "'w os \<Rightarrow> HANDLE \<Rightarrow> 'w titan \<Rightarrow> u32 \<times> 'w titan" where
  "TitanResumeThread os thread = withNativeHandle thread ThreadHandle (- 1) (wResumeThread (win os))"

definition TitanTerminateThread :: "'w os \<Rightarrow> HANDLE \<Rightarrow> u32 \<Rightarrow> 'w titan \<Rightarrow> bool \<times> 'w titan" where
  "TitanTerminateThread os thread exitCode =
     withNativeHandle thread ThreadHandle False (\<lambda>h. wTerminateThread (win os) h exitCode)"

definition TitanGetThreadPriority :: "'w os \<Rightarrow> HANDLE \<Rightarrow> 'w titan \<Rightarrow> u32 \<times> 'w titan" where
  "TitanGetThreadPriority os thread = withNativeHandle thread ThreadHandle 0x7FFFFFFF (wGetThreadPriority (win os))"

definition TitanSetThreadPriority :: "'w os \<Rightarrow> HANDLE \<Rightarrow> u32 \<Rightarrow> 'w titan \<Rightarrow> bool \<times> 'w titan" where
  "TitanSetThreadPriority os thread priority =
     withNativeHandle thread ThreadHandle False (\<lambda>h. wSetThreadPriority (win os) h priority)"

definition TitanGetThreadTimes ::
  "'w os \<Rightarrow> HANDLE \<Rightarrow> 'w titan \<Rightarrow> (u64 \<times> u64 \<times> u64 \<times> u64) option \<times> 'w titan" where
  "TitanGetThreadTimes os thread = withNativeHandle thread ThreadHandle None (wGetThreadTimes (win os))"

definition TitanQueryThreadCycleTime :: "'w os \<Rightarrow> HANDLE \<Rightarrow> 'w titan \<Rightarrow> u64 option \<times> 'w titan" where
  "TitanQueryThreadCycleTime os thread = withNativeHandle thread ThreadHandle None (wQueryThreadCycleTime (win os))"

definition TitanCreateRemoteThread ::
  "'w os \<Rightarrow> HANDLE \<Rightarrow> u64 \<Rightarrow> u64 \<Rightarrow> u32 \<Rightarrow> bool \<Rightarrow> 'w titan \<Rightarrow> HANDLE \<times> 'w titan" where
  "TitanCreateRemoteThread os process start argument flags threadIdGiven s =
     (let (native, s) = registeredNativeHandle process ProcessHandle s
      in if native = 0 then (0, s)
         else (let ((thread, threadId), s) = oscall (wCreateRemoteThread (win os) native start argument flags) s
               in (thread, registerTitanHandle thread ThreadHandle DEBUG_ANY_ID
                             (if threadIdGiven then threadId else 0) True thread s)))"

definition TitanGetThreadId :: "'w os \<Rightarrow> HANDLE \<Rightarrow> 'w titan \<Rightarrow> u32 \<times> 'w titan" where
  "TitanGetThreadId os thread s = (case map_of (gHandleRegistry s) thread of
     None \<Rightarrow> (0, SetLastError ERROR_INVALID_HANDLE s)
   | Some entry \<Rightarrow>
       if he_type entry \<noteq> ThreadHandle then (0, SetLastError ERROR_INVALID_HANDLE s)
       else if he_nativeHandle entry \<noteq> 0 then oscall (wGetThreadId (win os) (he_nativeHandle entry)) s
       else (he_systemId entry, s))"

definition GetPEBLocation :: "HANDLE \<Rightarrow> 'w titan \<Rightarrow> u64 \<times> 'w titan" where
  "GetPEBLocation process s =
     (if \<not> PauseLock s then (0, s)
      else (case map_of (gProcessPebCache s) process of
          None \<Rightarrow> (0, SetLastError ERROR_INVALID_HANDLE s) | Some peb \<Rightarrow> (peb, s)))"

definition GetTEBLocation :: "HANDLE \<Rightarrow> 'w titan \<Rightarrow> u64 \<times> 'w titan" where
  "GetTEBLocation thread s =
     (if \<not> PauseLock s then (0, s)
      else (case map_of (gProcessTebCache s) thread of
          None \<Rightarrow> (0, SetLastError ERROR_INVALID_HANDLE s) | Some teb \<Rightarrow> (teb, s)))"

lemmas handle_map_defs = mapProcess_def mapThread_def aliasProcess_def aliasThread_def cachePeb_def cacheTeb_def

lemmas wrapper_defs = TitanTerminateProcess_def TitanSuspendThread_def TitanResumeThread_def
  TitanTerminateThread_def TitanGetThreadPriority_def TitanSetThreadPriority_def
  TitanGetThreadTimes_def TitanQueryThreadCycleTime_def


section \<open>Synthetic handle values\<close>

text \<open>The three fields of a synthetic handle do not overlap while the serial fits in 43 bits.\<close>

lemma handle_field_bits:
  "bit (0xFFFF800000000000 :: u64) n \<longleftrightarrow> 47 \<le> n \<and> n < 64"
  "bit (0x00007FFFFFFFFFFF :: u64) n \<longleftrightarrow> n < 47"
  "bit (0xF :: u64) n \<longleftrightarrow> n < 4"
  "bit (3 :: u64) n \<longleftrightarrow> n < 2"
proof -
  have "(0xFFFF800000000000 :: u64) = push_bit 47 (mask 17)" by (simp add: mask_eq_exp_minus_1)
  then show "bit (0xFFFF800000000000 :: u64) n \<longleftrightarrow> 47 \<le> n \<and> n < 64"
    by (simp only: bit_push_bit_iff bit_mask_iff possible_bit_word) auto
  have "(0x00007FFFFFFFFFFF :: u64) = mask 47" by (simp add: mask_eq_exp_minus_1)
  then show "bit (0x00007FFFFFFFFFFF :: u64) n \<longleftrightarrow> n < 47"
    by (simp only: bit_mask_iff possible_bit_word) auto
  have "(0xF :: u64) = mask 4" by (simp add: mask_eq_exp_minus_1)
  then show "bit (0xF :: u64) n \<longleftrightarrow> n < 4"
    by (simp only: bit_mask_iff possible_bit_word) auto
  have "(3 :: u64) = mask 2" by (simp add: mask_eq_exp_minus_1)
  then show "bit (3 :: u64) n \<longleftrightarrow> n < 2"
    by (simp only: bit_mask_iff possible_bit_word) auto
qed

lemma bit_syntheticHandle:
  "bit (syntheticHandle serial) n \<longleftrightarrow>
     47 \<le> n \<and> n < 64 \<or> n < 2 \<or> 4 \<le> n \<and> n < 51 \<and> bit serial (n - 4)"
  by (simp only: syntheticHandle_def bit_or_iff bit_and_iff bit_push_bit_iff handle_field_bits
        possible_bit_word) auto

lemma syntheticHandle_tag: "syntheticHandle serial AND 0xF = 3"
  by (rule bit_eqI) (simp only: bit_and_iff bit_syntheticHandle handle_field_bits, auto)

lemma syntheticHandle_valid: "syntheticHandle serial \<noteq> 0" "syntheticHandle serial \<noteq> INVALID_HANDLE_VALUE"
  using syntheticHandle_tag [of serial] by auto

lemma syntheticHandle_cong:
  "syntheticHandle a = syntheticHandle b \<longleftrightarrow> take_bit 43 a = take_bit 43 b"
proof
  assume eq: "syntheticHandle a = syntheticHandle b"
  have "bit (take_bit 43 a) n = bit (take_bit 43 b) n" for n
  proof (cases "n < 43")
    case True
    then have "bit (syntheticHandle x) (n + 4) = bit x n" for x
      by (auto simp: bit_syntheticHandle)
    then show ?thesis using True eq by (simp add: bit_take_bit_iff) metis
  qed (simp add: bit_take_bit_iff)
  then show "take_bit 43 a = take_bit 43 b" by (intro bit_eqI) simp
next
  assume "take_bit 43 a = take_bit 43 b"
  then have low: "m < 43 \<Longrightarrow> bit a m = bit b m" for m
    by (metis bit_take_bit_iff)
  show "syntheticHandle a = syntheticHandle b"
  proof (rule bit_eqI)
    fix n show "bit (syntheticHandle a) n = bit (syntheticHandle b) n"
      using low [of "n - 4"] by (auto simp: bit_syntheticHandle)
  qed
qed

text \<open>
  C37. Synthetic handles: a synthetic handle is never null and never \<open>INVALID_HANDLE_VALUE\<close>, its low
  four bits are the tag 3, which no native handle has, and two serials give the same handle
  exactly when they agree in their low 43 bits (the 47-bit mask of the source is wider than
  what the shifted field can hold).
\<close>

theorem syntheticHandle_identity:
  "syntheticHandle a \<noteq> 0 \<and> syntheticHandle a \<noteq> INVALID_HANDLE_VALUE \<and> syntheticHandle a AND 0xF = 3 \<and>
   (syntheticHandle a = syntheticHandle b \<longleftrightarrow> a mod 2 ^ 43 = b mod 2 ^ 43)"
proof -
  have "take_bit 43 x = x mod 2 ^ 43" for x :: u64
    by (simp only: take_bit_eq_mod)
  then show ?thesis using syntheticHandle_valid syntheticHandle_tag syntheticHandle_cong by simp
qed

section \<open>The registry invariant\<close>

text \<open>
  What the registry promises: its keys are ordered, no entry stands for a null or invalid handle, a
  native entry stands for its own handle, and a synthetic entry was made from a serial
  already used. \<open>handleSerial\<close> reads the serial back.
\<close>

definition handleSerial :: "HANDLE \<Rightarrow> u64" where
  "handleSerial handle = drop_bit 4 handle AND 0x7FFFFFFFFFF"

definition entry_ok :: "u64 \<Rightarrow> HANDLE \<Rightarrow> handle_entry \<Rightarrow> bool" where
  "entry_ok next handle entry \<longleftrightarrow>
     handle \<noteq> 0 \<and> handle \<noteq> INVALID_HANDLE_VALUE \<and>
     (if he_nativeHandle entry = 0
      then handle = syntheticHandle (handleSerial handle) \<and> handleSerial handle < next
      else he_nativeHandle entry = handle \<and> handle AND 3 = 0)"

definition registry_ok :: "'w titan \<Rightarrow> bool" where
  "registry_ok s \<longleftrightarrow> omap_ok (gHandleRegistry s) \<and>
     list_all (\<lambda>(handle, entry). entry_ok (gNextSyntheticHandle s) handle entry) (gHandleRegistry s)"

lemma handleSerial_syntheticHandle: "handleSerial (syntheticHandle serial) = take_bit 43 serial"
proof (rule bit_eqI)
  fix n
  have "(0x7FFFFFFFFFF :: u64) = mask 43" by (simp add: mask_eq_exp_minus_1)
  then have "bit (0x7FFFFFFFFFF :: u64) n \<longleftrightarrow> n < 43"
    by (simp only: bit_mask_iff possible_bit_word) auto
  then show "bit (handleSerial (syntheticHandle serial)) n = bit (take_bit 43 serial) n"
    by (auto simp: handleSerial_def bit_and_iff bit_drop_bit_eq bit_syntheticHandle bit_take_bit_iff add.commute)
qed

lemma registry_okD: "registry_ok s \<Longrightarrow> map_of (gHandleRegistry s) h = Some e \<Longrightarrow> entry_ok (gNextSyntheticHandle s) h e"
  by (auto simp: registry_ok_def list_all_iff dest: map_of_SomeD)

lemma registry_okI:
  assumes "omap_ok (gHandleRegistry s)"
    and "\<And>h e. map_of (gHandleRegistry s) h = Some e \<Longrightarrow> entry_ok (gNextSyntheticHandle s) h e"
  shows "registry_ok s"
  using assms by (auto simp: registry_ok_def list_all_iff omap_ok_map_of)

text \<open>Only these two fields matter, which the component's frame lemmas use.\<close>

lemma registry_ok_cong:
  "gHandleRegistry s' = gHandleRegistry s \<Longrightarrow> gNextSyntheticHandle s' = gNextSyntheticHandle s \<Longrightarrow>
   registry_ok s' = registry_ok s"
  by (simp add: registry_ok_def)

text \<open>
  Windows documents handle values as multiples of four; the two low bits are what the adapter
  tags its own handles with.
\<close>

definition os_handles_aligned :: "'w os \<Rightarrow> bool" where
  "os_handles_aligned os \<longleftrightarrow>
     (\<forall>access inherit ident w. fst (wOpenProcess (win os) access inherit ident w) AND 3 = 0) \<and>
     (\<forall>access inherit ident w. fst (wOpenThread (win os) access inherit ident w) AND 3 = 0) \<and>
     (\<forall>process start arg flags w. fst (fst (wCreateRemoteThread (win os) process start arg flags w)) AND 3 = 0)"

lemma oscall_frame [frame_simps, simp]:
  "gHandleRegistry (snd (oscall f s)) = gHandleRegistry s"
  "gNextSyntheticHandle (snd (oscall f s)) = gNextSyntheticHandle s"
  "gDebugIdMap (snd (oscall f s)) = gDebugIdMap s"
  "gProcessPebCache (snd (oscall f s)) = gProcessPebCache s"
  "gProcessTebCache (snd (oscall f s)) = gProcessTebCache s"
  "gSessionKind (snd (oscall f s)) = gSessionKind s"
  by (simp_all add: oscall_def split: prod.splits)

lemma handle_map_frame [frame_simps, simp]:
  "gHandleRegistry (aliasProcess h i s) = gHandleRegistry s" "gNextSyntheticHandle (aliasProcess h i s) = gNextSyntheticHandle s"
  "gHandleRegistry (aliasThread h i s) = gHandleRegistry s" "gNextSyntheticHandle (aliasThread h i s) = gNextSyntheticHandle s"
  "gHandleRegistry (cachePeb h a s) = gHandleRegistry s" "gNextSyntheticHandle (cachePeb h a s) = gNextSyntheticHandle s"
  "gHandleRegistry (cacheTeb h a s) = gHandleRegistry s" "gNextSyntheticHandle (cacheTeb h a s) = gNextSyntheticHandle s"
  by (simp_all add: handle_map_defs)

lemma registry_ok_aliases [simp]:
  "registry_ok (aliasProcess h i s) = registry_ok s"
  "registry_ok (aliasThread h i s) = registry_ok s"
  "registry_ok (cachePeb h a s) = registry_ok s"
  "registry_ok (cacheTeb h a s) = registry_ok s"
  "registry_ok (snd (oscall f s)) = registry_ok s"
  "registry_ok (s\<lparr>lastError := e\<rparr>) = registry_ok s"
  by (rule registry_ok_cong; simp)+

lemma entry_ok_mono: "entry_ok n h e \<Longrightarrow> n \<le> m \<Longrightarrow> entry_ok m h e"
  by (auto simp: entry_ok_def)

lemma registry_ok_insert:
  assumes ok: "registry_ok s" and reg: "gHandleRegistry s' = omap_insert h e (gHandleRegistry s)"
    and mono: "gNextSyntheticHandle s \<le> gNextSyntheticHandle s'"
    and e: "entry_ok (gNextSyntheticHandle s') h e"
  shows "registry_ok s'"
proof (rule registry_okI)
  show "omap_ok (gHandleRegistry s')" using ok reg by (simp add: registry_ok_def)
  fix h' e' assume "map_of (gHandleRegistry s') h' = Some e'"
  then have "h' = h \<and> e' = e \<or> map_of (gHandleRegistry s) h' = Some e'"
    by (simp add: reg split: if_splits)
  then show "entry_ok (gNextSyntheticHandle s') h' e'"
    using e entry_ok_mono [OF registry_okD [OF ok] mono] by auto
qed

lemma registry_ok_native:
  assumes "registry_ok s" and "handle AND 3 = 0"
  shows "registry_ok (registerTitanHandle handle type ident sys owned handle s)"
proof (cases "handle = 0 \<or> handle = INVALID_HANDLE_VALUE")
  case False
  show ?thesis
    by (rule registry_ok_insert [OF assms(1)]) (use False assms in \<open>auto simp: registerTitanHandle_def entry_ok_def\<close>)
qed (use assms in \<open>simp add: registerTitanHandle_def\<close>)

lemma createSyntheticTitanHandle_fields [simp]:
  "fst (createSyntheticTitanHandle type ident sys owned s) = syntheticHandle (gNextSyntheticHandle s)"
  "gNextSyntheticHandle (snd (createSyntheticTitanHandle type ident sys owned s)) = gNextSyntheticHandle s + 1"
  "gHandleRegistry (snd (createSyntheticTitanHandle type ident sys owned s)) =
     omap_insert (syntheticHandle (gNextSyntheticHandle s))
       \<lparr>he_type = type, he_dbgengId = ident, he_systemId = sys, he_nativeHandle = 0,
        he_callerOwned = owned, he_sessionGeneration = gSessionGeneration s\<rparr> (gHandleRegistry s)"
  by (simp_all add: createSyntheticTitanHandle_def registerTitanHandle_def Let_def syntheticHandle_valid)

lemma registry_ok_synthetic:
  assumes ok: "registry_ok s" and room: "gNextSyntheticHandle s \<noteq> - 1"
  shows "registry_ok (snd (createSyntheticTitanHandle type ident sys owned s))"
proof -
  let ?n = "gNextSyntheticHandle s"
  have lt: "?n < ?n + 1"
    using room inc_less_eq_triv_imp [of ?n] not_le by blast
  have "take_bit 43 ?n \<le> ?n" by (simp add: word_le_nat_alt unsigned_take_bit_eq take_bit_nat_less_eq_self)
  with lt have "take_bit 43 ?n < ?n + 1" by simp
  moreover have "syntheticHandle (take_bit 43 ?n) = syntheticHandle ?n"
    by (simp add: syntheticHandle_cong)
  ultimately show ?thesis
    using lt by (intro registry_ok_insert [OF ok])
      (auto simp: entry_ok_def syntheticHandle_valid handleSerial_syntheticHandle)
qed

lemma registry_ok_erase:
  assumes ok: "registry_ok s" and reg: "gHandleRegistry s' = omap_erase h (gHandleRegistry s)"
    and "gNextSyntheticHandle s' = gNextSyntheticHandle s"
  shows "registry_ok s'"
proof (rule registry_okI)
  show "omap_ok (gHandleRegistry s')" using ok reg by (simp add: registry_ok_def)
qed (use assms registry_okD [OF ok] in \<open>auto split: if_splits\<close>)

lemma case_createSynthetic:
  "(case createSyntheticTitanHandle type ident sys owned s of (h, s') \<Rightarrow> f h s') =
   f (syntheticHandle (gNextSyntheticHandle s)) (snd (createSyntheticTitanHandle type ident sys owned s))"
  by (simp add: case_prod_unfold)

lemma fst_oscall: "fst (oscall f s) = fst (f (world s))"
  by (simp add: oscall_def split: prod.splits)

lemma aligned_opens:
  assumes "os_handles_aligned os"
  shows "fst (oscall (wOpenProcess (win os) access inherit ident) s) AND 3 = 0"
    "fst (oscall (wOpenThread (win os) access inherit ident) s) AND 3 = 0"
    "fst (fst (oscall (wCreateRemoteThread (win os) process start arg flags) s)) AND 3 = 0"
  using assms by (simp_all add: os_handles_aligned_def fst_oscall)

lemma registry_ok_TitanOpenProcess:
  "registry_ok s \<Longrightarrow> os_handles_aligned os \<Longrightarrow> gNextSyntheticHandle s \<noteq> - 1 \<Longrightarrow>
   registry_ok (snd (TitanOpenProcess os access inherit processId s))"
  by (simp add: TitanOpenProcess_def Let_def case_createSynthetic case_prod_unfold registry_ok_synthetic
      registry_ok_native aligned_opens split: option.split)

lemma readThreadTeb_frame [simp]:
  "gHandleRegistry (snd (readThreadTeb os i s)) = gHandleRegistry s"
  "gNextSyntheticHandle (snd (readThreadTeb os i s)) = gNextSyntheticHandle s"
  by (simp_all add: readThreadTeb_def Let_def case_prod_unfold)

lemma registry_ok_readThreadTeb [simp]: "registry_ok (snd (readThreadTeb os i s)) = registry_ok s"
  by (rule registry_ok_cong) simp_all

lemma registry_ok_TitanOpenThread:
  "registry_ok s \<Longrightarrow> os_handles_aligned os \<Longrightarrow> gNextSyntheticHandle s \<noteq> - 1 \<Longrightarrow>
   registry_ok (snd (TitanOpenThread os access inherit threadId s))"
  by (simp add: TitanOpenThread_def openTtdThread_def openDumpThread_def Let_def case_createSynthetic
      case_prod_unfold registry_ok_synthetic registry_ok_native aligned_opens split: option.split)

lemma registeredNativeHandle_state:
  "snd (registeredNativeHandle h type s) = s \<or>
   snd (registeredNativeHandle h type s) = s\<lparr>lastError := ERROR_INVALID_HANDLE\<rparr>"
  by (simp add: registeredNativeHandle_def split: option.split)

lemma registry_ok_registeredNativeHandle [simp]:
  "registry_ok (snd (registeredNativeHandle h type s)) = registry_ok s"
  using registeredNativeHandle_state [of h type s] by auto

lemma registry_ok_TitanCreateRemoteThread:
  "registry_ok s \<Longrightarrow> os_handles_aligned os \<Longrightarrow>
   registry_ok (snd (TitanCreateRemoteThread os process start arg flags given s))"
  by (simp add: TitanCreateRemoteThread_def Let_def case_prod_unfold registry_ok_native aligned_opens)

lemma registry_ok_TitanCloseHandle:
  "registry_ok s \<Longrightarrow> registry_ok (snd (TitanCloseHandle os handle s))"
  by (auto simp: TitanCloseHandle_def Let_def case_prod_unfold intro: registry_ok_erase split: option.split)

text \<open>
  C16. Registry invariant: opening processes and threads (live, minidump or TTD), creating remote
  threads and closing handles keep the registry well formed: no entry for a null or invalid
  handle, native entries stand for themselves, and synthetic entries were made from a
  serial already used.
\<close>

theorem handle_operations_keep_registry:
  assumes "registry_ok s" and "os_handles_aligned os" and "gNextSyntheticHandle s \<noteq> - 1"
  shows "registry_ok (snd (TitanOpenProcess os access inherit ident s)) \<and>
    registry_ok (snd (TitanOpenThread os access inherit ident s)) \<and>
    registry_ok (snd (TitanCreateRemoteThread os process start arg flags given s)) \<and>
    registry_ok (snd (TitanCloseHandle os handle s))"
  using assms registry_ok_TitanOpenProcess registry_ok_TitanOpenThread
    registry_ok_TitanCreateRemoteThread registry_ok_TitanCloseHandle by blast

text \<open>An operating system that opens every process and thread as handle 8.\<close>

definition opening_os :: "unit os" where
  "opening_os = quiet_os\<lparr>win := quiet_win\<lparr>wOpenProcess := (\<lambda>_ _ _ w. (8, None, w)),
     wOpenThread := (\<lambda>_ _ _ w. (8, None, w)), wCloseHandle := (\<lambda>_ w. (True, None, w))\<rparr>\<rparr>"

lemma registry_ok_initial: "registry_ok (initial_titan w)"
  by (simp add: registry_ok_def initial_titan_def)

lemma opening_os_aligned: "os_handles_aligned opening_os"
  by (simp add: os_handles_aligned_def opening_os_def quiet_defs)

theorem handle_operations_keep_registry_witness:
  "registry_ok (snd (TitanOpenProcess opening_os 0 False 77 (initial_titan ()))) \<and>
   fst (TitanOpenProcess opening_os 0 False 77 (initial_titan ())) = 8"
  using handle_operations_keep_registry [OF registry_ok_initial opening_os_aligned, of "()" 0 False 77]
  by (simp add: initial_titan_def TitanOpenProcess_def opening_os_def oscall_def)

text \<open>
  C22. Synthetic handles are fresh and their life cycle is closed: opening the traced process of a
  TTD session yields a handle that was not registered, is answered by the PEB cache, and is
  released by \<open>TitanCloseHandle\<close>, which restores the registry and calls no native function.
\<close>

theorem TitanOpenProcess_TitanCloseHandle:
  assumes ok: "registry_ok s" and room: "gNextSyntheticHandle s < 2 ^ 43"
    and ttd: "gSessionKind s = UE_SESSION_TTD" and pid: "processId = gTtdProcessId s"
    and opened: "TitanOpenProcess os access inherit processId s = (h, s1)"
    and closed: "TitanCloseHandle os h s1 = (result, s2)"
  shows "map_of (gHandleRegistry s) h = None \<and> h \<noteq> 0 \<and>
    map_of (gProcessPebCache s1) h = Some (if gTtdEngine s then tPebAddress (ttd os) (world s) else 0) \<and>
    result \<and> map_of (gHandleRegistry s2) = map_of (gHandleRegistry s) \<and> world s2 = world s"
proof -
  let ?n = "gNextSyntheticHandle s"
  have serial: "handleSerial (syntheticHandle ?n) = ?n"
    using room take_bit_word_below [of ?n 43] by (simp add: handleSerial_syntheticHandle)
  have fresh: "map_of (gHandleRegistry s) (syntheticHandle ?n) = None"
  proof (rule ccontr)
    assume "map_of (gHandleRegistry s) (syntheticHandle ?n) \<noteq> None"
    then obtain e where "entry_ok ?n (syntheticHandle ?n) e"
      using registry_okD [OF ok] by auto
    then have "he_nativeHandle e \<noteq> 0" and "syntheticHandle ?n AND 3 = 0"
      using serial by (auto simp: entry_ok_def split: if_splits)
    then have "(syntheticHandle ?n AND 0xF) AND 3 = 0" by (simp add: and.assoc)
    then show False by (simp add: syntheticHandle_tag)
  qed
  have s1: "h = syntheticHandle ?n" "world s1 = world s"
    "gHandleRegistry s1 = omap_insert h
       \<lparr>he_type = ProcessHandle, he_dbgengId = 0, he_systemId = processId, he_nativeHandle = 0,
        he_callerOwned = True, he_sessionGeneration = gSessionGeneration s\<rparr> (gHandleRegistry s)"
    "map_of (gProcessPebCache s1) h = Some (if gTtdEngine s then tPebAddress (ttd os) (world s) else 0)"
    using opened ttd pid
    by (auto simp: TitanOpenProcess_def createSyntheticTitanHandle_def registerTitanHandle_def
        handle_map_defs Let_def syntheticHandle_valid)
  from closed s1(3) have s2: "result" "world s2 = world s1"
    "gHandleRegistry s2 = omap_erase h (gHandleRegistry s1)"
    by (auto simp: TitanCloseHandle_def)
  show ?thesis
    using s1 s2 fresh syntheticHandle_valid omap.ins_era_fresh [OF fresh] by simp
qed

definition ttd_state :: "unit titan" where
  "ttd_state = (initial_titan ())\<lparr>gSessionKind := UE_SESSION_TTD, gTtdEngine := True, gTtdCursor := True,
     gTtdProcessId := 0x4C, gIsDebugging := True\<rparr>"

lemma ttd_state_registry: "registry_ok ttd_state" "gNextSyntheticHandle ttd_state < 2 ^ 43"
  "gSessionKind ttd_state = UE_SESSION_TTD" "0x4C = gTtdProcessId ttd_state"
  by (simp_all add: registry_ok_def ttd_state_def initial_titan_def)

theorem TitanOpenProcess_TitanCloseHandle_witness:
  "fst (TitanOpenProcess quiet_os 0 False 0x4C ttd_state) \<noteq> 0 \<and>
   fst (TitanCloseHandle quiet_os (fst (TitanOpenProcess quiet_os 0 False 0x4C ttd_state))
          (snd (TitanOpenProcess quiet_os 0 False 0x4C ttd_state)))"
  using TitanOpenProcess_TitanCloseHandle [OF ttd_state_registry, of quiet_os 0 False _ _ _ _]
  by (metis prod.collapse)

text \<open>
  C23. \<open>TitanCloseHandle\<close> succeeds exactly for a registered, caller-owned handle whose native handle
  (if it has one) Windows closes. On success the handle is gone from the registry, from both
  reverse id maps and from the PEB and TEB caches, and every other handle keeps its
  entries. On failure all five tables are as before.
\<close>

theorem TitanCloseHandle_spec:
  assumes "TitanCloseHandle os h s = (result, s')"
  shows "(result \<longleftrightarrow> (\<exists>e. map_of (gHandleRegistry s) h = Some e \<and> he_callerOwned e \<and>
            (he_nativeHandle e = 0 \<or> fst (wCloseHandle (win os) (he_nativeHandle e) (world s))))) \<and>
    map_of (gHandleRegistry s') = (if result then (map_of (gHandleRegistry s))(h := None) else map_of (gHandleRegistry s)) \<and>
    map_of (processHandleToIndex (gDebugIdMap s')) =
      (if result then (map_of (processHandleToIndex (gDebugIdMap s)))(h := None) else map_of (processHandleToIndex (gDebugIdMap s))) \<and>
    map_of (threadHandleToIndex (gDebugIdMap s')) =
      (if result then (map_of (threadHandleToIndex (gDebugIdMap s)))(h := None) else map_of (threadHandleToIndex (gDebugIdMap s))) \<and>
    map_of (gProcessPebCache s') = (if result then (map_of (gProcessPebCache s))(h := None) else map_of (gProcessPebCache s)) \<and>
    map_of (gProcessTebCache s') = (if result then (map_of (gProcessTebCache s))(h := None) else map_of (gProcessTebCache s))"
proof (cases "map_of (gHandleRegistry s) h")
  case None
  then show ?thesis using assms by (auto simp: TitanCloseHandle_def)
next
  case (Some e)
  show ?thesis
  proof (cases "he_callerOwned e \<and> he_nativeHandle e \<noteq> 0")
    case True
    obtain r c w where call: "wCloseHandle (win os) (he_nativeHandle e) (world s) = (r, c, w)"
      by (cases "wCloseHandle (win os) (he_nativeHandle e) (world s)") auto
    show ?thesis using assms Some True call
      by (cases r) (auto simp: TitanCloseHandle_def oscall_def)
  next
    case False
    then show ?thesis using assms Some by (auto simp: TitanCloseHandle_def split: if_splits)
  qed
qed

theorem TitanCloseHandle_spec_witness:
  "fst (TitanCloseHandle opening_os 8 (snd (TitanOpenProcess opening_os 0 False 77 (initial_titan ())))) \<and>
   map_of (gHandleRegistry (snd (TitanCloseHandle opening_os 8
     (snd (TitanOpenProcess opening_os 0 False 77 (initial_titan ())))))) 8 = None"
proof -
  let ?s = "snd (TitanOpenProcess opening_os 0 False 77 (initial_titan ()))"
  have ok: "fst (TitanCloseHandle opening_os 8 ?s)"
    by (simp add: initial_titan_def TitanOpenProcess_def opening_os_def oscall_def registerTitanHandle_def
        TitanCloseHandle_def quiet_defs)
  then have "TitanCloseHandle opening_os 8 ?s = (True, snd (TitanCloseHandle opening_os 8 ?s))"
    by (simp add: prod_eq_iff)
  from TitanCloseHandle_spec [OF this] show ?thesis using ok by simp
qed

section \<open>The native wrappers\<close>

text \<open>
  A handle is \<open>usable\<close> at a type when the registry holds a native handle of that type for it.
\<close>

definition usable :: "HANDLE \<Rightarrow> handle_type \<Rightarrow> 'w titan \<Rightarrow> bool" where
  "usable h type s = (case map_of (gHandleRegistry s) h of
     None \<Rightarrow> False | Some e \<Rightarrow> he_type e = type \<and> he_nativeHandle e \<noteq> 0)"

lemma registeredNativeHandle_unusable:
  "\<not> usable h type s \<Longrightarrow> registeredNativeHandle h type s = (0, s\<lparr>lastError := ERROR_INVALID_HANDLE\<rparr>)"
  by (auto simp: usable_def registeredNativeHandle_def split: option.splits)

lemma registeredNativeHandle_usable:
  "usable h type s \<Longrightarrow> \<exists>n. n \<noteq> 0 \<and> registeredNativeHandle h type s = (n, s)"
  by (auto simp: usable_def registeredNativeHandle_def split: option.splits)

lemma registeredNativeHandle_ok:
  "registry_ok s \<Longrightarrow> usable h type s \<Longrightarrow> registeredNativeHandle h type s = (h, s)"
  by (auto simp: usable_def registeredNativeHandle_def entry_ok_def dest!: registry_okD split: option.splits)

lemma withNativeHandle_unusable:
  "\<not> usable h type s \<Longrightarrow> withNativeHandle h type failed action s = (failed, s\<lparr>lastError := ERROR_INVALID_HANDLE\<rparr>)"
  by (simp add: withNativeHandle_def registeredNativeHandle_unusable)

lemma withNativeHandle_usable:
  assumes "registry_ok s" and "usable h type s"
  shows "withNativeHandle h type failed action s = oscall (action h) s"
proof -
  from assms(2) obtain n where "n \<noteq> 0" "registeredNativeHandle h type s = (n, s)"
    using registeredNativeHandle_usable by blast
  then show ?thesis using registeredNativeHandle_ok [OF assms] by (simp add: withNativeHandle_def)
qed

text \<open>
  C24. No type confusion through the wrappers: on a handle that is not registered, that is synthetic,
  or that has the other type, each thread and process function returns its failure value, sets
  \<open>ERROR_INVALID_HANDLE\<close> and calls no Windows function, so the outside world is as before.
\<close>

theorem wrappers_reject_unusable:
  "(\<not> usable h ThreadHandle s \<longrightarrow> (let s' = s\<lparr>lastError := ERROR_INVALID_HANDLE\<rparr> in
      TitanSuspendThread os h s = (- 1, s') \<and> TitanResumeThread os h s = (- 1, s') \<and>
      TitanTerminateThread os h code s = (False, s') \<and> TitanGetThreadPriority os h s = (0x7FFFFFFF, s') \<and>
      TitanSetThreadPriority os h code s = (False, s') \<and> TitanGetThreadTimes os h s = (None, s') \<and>
      TitanQueryThreadCycleTime os h s = (None, s'))) \<and>
   (\<not> usable h ProcessHandle s \<longrightarrow> (let s' = s\<lparr>lastError := ERROR_INVALID_HANDLE\<rparr> in
      TitanTerminateProcess os h code s = (False, s') \<and>
      TitanCreateRemoteThread os h start arg flags given s = (0, s')))"
  by (simp add: wrapper_defs withNativeHandle_unusable TitanCreateRemoteThread_def
      registeredNativeHandle_unusable)

lemma usable_ttd_state: "\<not> usable 7 t ttd_state"
  by (simp add: usable_def ttd_state_def initial_titan_def)

theorem wrappers_reject_unusable_witness:
  "TitanSuspendThread quiet_os 7 ttd_state = (- 1, ttd_state\<lparr>lastError := ERROR_INVALID_HANDLE\<rparr>) \<and>
   TitanTerminateProcess quiet_os 7 1 ttd_state = (False, ttd_state\<lparr>lastError := ERROR_INVALID_HANDLE\<rparr>)"
  using wrappers_reject_unusable [of 7 ttd_state quiet_os 1] usable_ttd_state by (simp add: Let_def)

section \<open>Closing everything at the end of a session\<close>

definition owned_natives :: "(HANDLE, handle_entry) omap \<Rightarrow> HANDLE list" where
  "owned_natives m = [he_nativeHandle e. (h, e) \<leftarrow> m, he_callerOwned e \<and> he_nativeHandle e \<noteq> 0]"

lemma closeEntries_fold:
  "closeEntries os m s = fold (\<lambda>h s. snd (oscall (wCloseHandle (win os) h) s)) (owned_natives m) s"
  by (induction os m s rule: closeEntries.induct) (auto simp: owned_natives_def)

lemma distinct_owned_natives:
  assumes "omap_ok m" and "list_all (\<lambda>(h, e). entry_ok n h e) m"
  shows "distinct (owned_natives m)"
proof -
  have "owned_natives m = map fst (filter (\<lambda>(h, e). he_callerOwned e \<and> he_nativeHandle e \<noteq> 0) m)"
    using assms(2) by (induction m) (auto simp: owned_natives_def entry_ok_def split: if_splits)
  moreover have "distinct (map fst (filter P m))" for P
    using omap_ok_distinct [OF assms(1)] by (induction m) auto
  ultimately show ?thesis by simp
qed

text \<open>
  C26. Ending a session closes each native handle that belongs to the caller exactly once, in the
  order of the handle values, and leaves the registry empty.
\<close>

theorem closeCallerOwnedTitanHandles_once:
  assumes "registry_ok s"
  shows "closeCallerOwnedTitanHandles os s =
      (fold (\<lambda>h s. snd (oscall (wCloseHandle (win os) h) s)) (owned_natives (gHandleRegistry s)) s)
        \<lparr>gHandleRegistry := []\<rparr> \<and>
    distinct (owned_natives (gHandleRegistry s)) \<and>
    (h \<in> set (owned_natives (gHandleRegistry s)) \<longleftrightarrow>
       (\<exists>e. map_of (gHandleRegistry s) h = Some e \<and> he_callerOwned e \<and> he_nativeHandle e = h))"
proof -
  have "h \<in> set (owned_natives (gHandleRegistry s)) \<longleftrightarrow>
       (\<exists>e. map_of (gHandleRegistry s) h = Some e \<and> he_callerOwned e \<and> he_nativeHandle e = h)"
    using assms by (force simp: owned_natives_def registry_ok_def entry_ok_def list_all_iff
        omap_ok_map_of [symmetric] split: if_splits)
  then show ?thesis
    using assms distinct_owned_natives
    by (auto simp: closeCallerOwnedTitanHandles_def closeEntries_fold registry_ok_def)
qed

theorem closeCallerOwnedTitanHandles_once_witness:
  "gHandleRegistry (closeCallerOwnedTitanHandles opening_os
     (snd (TitanOpenProcess opening_os 0 False 77 (initial_titan ())))) = []"
  using closeCallerOwnedTitanHandles_once [of "snd (TitanOpenProcess opening_os 0 False 77 (initial_titan ()))" opening_os]
    registry_ok_TitanOpenProcess [OF registry_ok_initial opening_os_aligned]
  by (simp add: initial_titan_def)

end
