(* ===== verification/Memory_Breakpoints.thy ===== *)
theory Memory_Breakpoints
  imports Handles
begin

text \<open>
  Memory breakpoints: the guard-page table of live sessions and the watchpoints of TTD sessions
  (\<open>TitanEngine.cpp\<close>, lines 735 to 850 and 4229 to 4386). The loops over the pages of a range are the
  partial function \<open>pageRange\<close>, proved to end for every range when the page size is a power of
  two, which the Win32 API guarantees.
\<close>

section \<open>Pages\<close>

definition targetPageSize :: "'w os \<Rightarrow> u64" where
  "targetPageSize os = wPageSize (win os)"

definition pageAddress :: "'w os \<Rightarrow> u64 \<Rightarrow> u64" where
  "pageAddress os address = address AND NOT (targetPageSize os - 1)"

text \<open>The pages \<open>for (auto page = startPage;; page += targetPageSize())\<close> visits up to \<open>endPage\<close>.\<close>

partial_function (option) pageRange :: "u64 \<Rightarrow> u64 \<Rightarrow> u64 \<Rightarrow> u64 list option" where
  "pageRange pageSize page endPage =
     (if page = endPage then Some [page]
      else Option.bind (pageRange pageSize (page + pageSize) endPage) (\<lambda>rest. Some (page # rest)))"

text \<open>The pages of a range of memory, as both loops of the source compute them.\<close>

definition pagesCovered :: "'w os \<Rightarrow> u64 \<Rightarrow> u64 \<Rightarrow> u64 list" where
  "pagesCovered os start sz =
     (case pageRange (targetPageSize os) (pageAddress os start) (pageAddress os (start + sz - 1)) of
        Some pages \<Rightarrow> pages | None \<Rightarrow> [])"

section \<open>Operations\<close>

definition protectMemoryBreakpointPage :: "'w os \<Rightarrow> u64 \<Rightarrow> bool \<Rightarrow> 'w titan \<Rightarrow> bool \<times> 'w titan" where
  "protectMemoryBreakpointPage os page guarded s = (case map_of (gMemoryBreakpointPages s) page of
     None \<Rightarrow> (False, s)
   | Some info \<Rightarrow>
       (let process = activeProcessHandle os s
        in if process = 0 then (False, s)
           else (let protection = (if guarded then mp_originalProtect info OR PAGE_GUARD
                                   else mp_originalProtect info);
                     ((ok, ignored), s) = oscall (wVirtualProtectEx (win os) process page (targetPageSize os) protection) s
                 in (ok, s))))"

text \<open>The access masks of the replay engine: Read is 1, Write is 2, Execute is 4.\<close>

definition ttdMemoryWatchMask :: "u32 \<Rightarrow> byte" where
  "ttdMemoryWatchMask type =
     (if type = UE_MEMORY_READ then 1 else if type = UE_MEMORY_WRITE then 2
      else if type = UE_MEMORY_EXECUTE then 4 else 1 OR 2 OR 4)"

definition memoryWatchpoint :: "memory_breakpoint \<Rightarrow> ttd_watchpoint" where
  "memoryWatchpoint info = \<lparr>wp_Address = mb_start info, wp_Size = mb_size info,
     wp_AccessMask = ttdMemoryWatchMask (mb_type info)\<rparr>"

definition updatePage :: "u64 \<Rightarrow> memory_page \<Rightarrow> 'w titan \<Rightarrow> 'w titan" where
  "updatePage page info s = s\<lparr>gMemoryBreakpointPages := omap_insert page info (gMemoryBreakpointPages s)\<rparr>"

definition erasePage :: "u64 \<Rightarrow> 'w titan \<Rightarrow> 'w titan" where
  "erasePage page s = s\<lparr>gMemoryBreakpointPages := omap_erase page (gMemoryBreakpointPages s)\<rparr>"

text \<open>
  One iteration of the loops that drop a breakpoint from a page: the id leaves the page's
  set, and a page without ids gets its protection back and is forgotten. The second
  component of the pair is false when the protection could not be restored.
\<close>

definition releasePage :: "'w os \<Rightarrow> u64 \<Rightarrow> u64 \<Rightarrow> 'w titan \<Rightarrow> bool \<times> 'w titan" where
  "releasePage os ident page s = (case map_of (gMemoryBreakpointPages s) page of
     None \<Rightarrow> (True, s)
   | Some info \<Rightarrow>
       (let info = info\<lparr>mp_breakpointIds := oset_erase ident (mp_breakpointIds info)\<rparr>;
            s = updatePage page info s
        in if mp_breakpointIds info = []
           then (let (ok, s) = protectMemoryBreakpointPage os page False s in (ok, erasePage page s))
           else (True, s)))"

fun releasePages :: "'w os \<Rightarrow> u64 \<Rightarrow> u64 list \<Rightarrow> bool \<Rightarrow> 'w titan \<Rightarrow> bool \<times> 'w titan" where
  "releasePages os ident [] result s = (result, s)"
| "releasePages os ident (page # pages) result s =
     (let (ok, s) = releasePage os ident page s
      in releasePages os ident pages (ok \<and> result) s)"

definition eraseMemoryBreakpoint :: "u64 \<Rightarrow> 'w titan \<Rightarrow> 'w titan" where
  "eraseMemoryBreakpoint ident s = s\<lparr>gMemoryBreakpoints := omap_erase ident (gMemoryBreakpoints s)\<rparr>"

definition removeMemoryBreakpointById :: "'w os \<Rightarrow> u64 \<Rightarrow> 'w titan \<Rightarrow> bool \<times> 'w titan" where
  "removeMemoryBreakpointById os ident s = (case map_of (gMemoryBreakpoints s) ident of
     None \<Rightarrow> (False, s)
   | Some info \<Rightarrow>
       if gSessionKind s = UE_SESSION_TTD then
         (let (result, s) = (if gTtdCursor s then oscall (tRemoveMemoryWatchpoint (ttd os) (memoryWatchpoint info)) s
                             else (False, s))
          in (result, if result then eraseMemoryBreakpoint ident s else s))
       else (let (result, s) = releasePages os ident (pagesCovered os (mb_start info) (mb_size info)) True s
             in (result, eraseMemoryBreakpoint ident s)))"

text \<open>The while loop may not end: a breakpoint of a TTD session that cannot be removed stays first.\<close>

partial_function (option) removeAllMemoryBreakpoints ::
  "'w os \<Rightarrow> bool \<Rightarrow> 'w titan \<Rightarrow> (bool \<times> 'w titan) option" where
  "removeAllMemoryBreakpoints os result s =
     (if gMemoryBreakpoints s = [] then Some (result, s)
      else removeAllMemoryBreakpoints os
             (fst (removeMemoryBreakpointById os (fst (hd (gMemoryBreakpoints s))) s) \<and> result)
             (snd (removeMemoryBreakpointById os (fst (hd (gMemoryBreakpoints s))) s)))"

definition memoryAccessMatches :: "u32 \<Rightarrow> u64 \<Rightarrow> bool" where
  "memoryAccessMatches type accessType =
     (if type = UE_MEMORY then True
      else if type = UE_MEMORY_READ then accessType = 0
      else if type = UE_MEMORY_WRITE then accessType = 1
      else if type = UE_MEMORY_EXECUTE then accessType = 8
      else False)"

text \<open>
  The body of the page loop of \<open>SetMemoryBPXEx\<close>. The result is whether to go on, and the page is
  reported as touched once the table holds it.
\<close>

definition guardPage :: "'w os \<Rightarrow> HANDLE \<Rightarrow> u64 \<Rightarrow> u64 \<Rightarrow> 'w titan \<Rightarrow> (bool \<times> bool) \<times> 'w titan" where
  "guardPage os process ident page s = (case map_of (gMemoryBreakpointPages s) page of
     Some info \<Rightarrow>
       ((True, True), updatePage page (info\<lparr>mp_breakpointIds := oset_insert ident (mp_breakpointIds info)\<rparr>) s)
   | None \<Rightarrow>
       (let (query, s) = oscall (wVirtualQueryEx (win os) process page) s
        in case query of
             None \<Rightarrow> ((False, False), SetLastError ERROR_INVALID_ADDRESS s)
           | Some mbi \<Rightarrow>
               if mbi_State mbi \<noteq> MEM_COMMIT \<or> mbi_Protect mbi = 0
               then ((False, False), SetLastError ERROR_INVALID_ADDRESS s)
               else (let s = updatePage page \<lparr>mp_originalProtect = mbi_Protect mbi, mp_breakpointIds = [ident]\<rparr> s;
                         (ok, s) = protectMemoryBreakpointPage os page True s
                     in ((ok, True), s))))"

fun guardPages :: "'w os \<Rightarrow> HANDLE \<Rightarrow> u64 \<Rightarrow> u64 list \<Rightarrow> u64 list \<Rightarrow> 'w titan \<Rightarrow> (bool \<times> u64 list) \<times> 'w titan" where
  "guardPages os process ident [] touched s = ((True, touched), s)"
| "guardPages os process ident (page # pages) touched s =
     (let ((go, added), s) = guardPage os process ident page s;
          touched = (if added then touched @ [page] else touched)
      in if go then guardPages os process ident pages touched s else ((False, touched), s))"

definition SetMemoryBPXEx ::
  "'w os \<Rightarrow> u64 \<Rightarrow> u64 \<Rightarrow> u32 \<Rightarrow> bool \<Rightarrow> callback \<Rightarrow> 'w titan \<Rightarrow> bool \<times> 'w titan" where
  "SetMemoryBPXEx os start sz type restoreOnHit bpxCallBack s =
     (if start = 0 \<or> sz = 0 \<or> start + sz \<le> start \<or> bpxCallBack = 0 \<or>
         (type \<noteq> UE_MEMORY \<and> type \<noteq> UE_MEMORY_READ \<and> type \<noteq> UE_MEMORY_WRITE \<and> type \<noteq> UE_MEMORY_EXECUTE)
      then (False, SetLastError ERROR_INVALID_PARAMETER s)
      else if \<not> PauseLock s
      then (False, SetLastError (if gIsDebugging s then ERROR_BUSY else ERROR_INVALID_HANDLE) s)
      else (let process = (if gSessionKind s = UE_SESSION_TTD then sessionProcessHandle s else activeProcessHandle os s)
        in if process = 0 then (False, SetLastError ERROR_INVALID_HANDLE s)
           else if list_ex (\<lambda>(i, existing). mb_start existing = start \<and> mb_size existing = sz) (gMemoryBreakpoints s)
           then (False, SetLastError ERROR_ALREADY_EXISTS s)
           else (let ident = gNextMemoryBreakpointId s;
                     s = s\<lparr>gNextMemoryBreakpointId := ident + 1\<rparr>;
                     info = \<lparr>mb_id = ident, mb_start = start, mb_size = sz, mb_type = type,
                             mb_restoreOnHit = restoreOnHit, mb_callback = bpxCallBack\<rparr>
             in if gSessionKind s = UE_SESSION_TTD then
                  (let (added, s) = (if gTtdCursor s then oscall (tAddMemoryWatchpoint (ttd os) (memoryWatchpoint info)) s
                                     else (False, s))
                   in if \<not> added then (False, SetLastError ERROR_GEN_FAILURE s)
                      else (True, s\<lparr>gMemoryBreakpoints := omap_emplace ident info (gMemoryBreakpoints s)\<rparr>))
                else
                  (let s = s\<lparr>gMemoryBreakpoints := omap_emplace ident info (gMemoryBreakpoints s)\<rparr>;
                       ((success, touched), s) = guardPages os process ident (pagesCovered os start sz) [] s
                   in if success then (True, s)
                      else (let (ok, s) = releasePages os ident touched True s
                            in (False, eraseMemoryBreakpoint ident s))))))"

definition RemoveMemoryBPX :: "'w os \<Rightarrow> u64 \<Rightarrow> u64 \<Rightarrow> 'w titan \<Rightarrow> bool \<times> 'w titan" where
  "RemoveMemoryBPX os start sz s =
     (if start = 0 \<or> sz = 0 then (False, SetLastError ERROR_INVALID_PARAMETER s)
      else if \<not> PauseLock s
      then (False, SetLastError (if gIsDebugging s then ERROR_BUSY else ERROR_INVALID_HANDLE) s)
      else (case find (\<lambda>(i, info). mb_start info = start \<and> mb_size info = sz) (gMemoryBreakpoints s) of
          Some (ident, info) \<Rightarrow> removeMemoryBreakpointById os ident s
        | None \<Rightarrow> (False, SetLastError ERROR_NOT_FOUND s)))"

section \<open>The pages of a range\<close>

text \<open>Win32 page sizes are powers of two that fit in a DWORD.\<close>

definition page_size_ok :: "'w os \<Rightarrow> bool" where
  "page_size_ok os \<longleftrightarrow> (\<exists>k < 32. targetPageSize os = 2 ^ k)"

lemma pageRange_multiples:
  assumes "a \<le> b" and "0 < P" and "b * P < 2 ^ 64"
  shows "pageRange (of_nat P) (of_nat (a * P)) (of_nat (b * P)) = Some (map (\<lambda>j. of_nat (j * P)) [a..<Suc b])"
  using assms(1)
proof (induction "b - a" arbitrary: a)
  case 0
  then show ?case by (subst pageRange.simps) simp
next
  case (Suc n)
  then have "a < b" by simp
  then have lt: "a * P < b * P" using assms(2) by simp
  then have "(of_nat (a * P) :: u64) \<noteq> of_nat (b * P)"
  proof -
    have "take_bit 64 (a * P) = a * P" and "take_bit 64 (b * P) = b * P"
      using assms(3) lt by (intro take_bit_nat_eq_self; linarith)+
    then show ?thesis using lt by (simp add: word_of_nat_eq_iff del: of_nat_mult)
  qed
  moreover have "pageRange (of_nat P) (of_nat (a * P) + of_nat P) (of_nat (b * P)) =
      Some (map (\<lambda>j. of_nat (j * P)) [Suc a..<Suc b])"
  proof -
    have "(of_nat (a * P) + of_nat P :: u64) = of_nat (Suc a * P)" by (simp add: algebra_simps)
    moreover have "n = b - Suc a" and "Suc a \<le> b" using Suc.hyps(2) \<open>a < b\<close> by simp_all
    ultimately show ?thesis using Suc.hyps(1) [of "Suc a"] by (simp del: of_nat_mult upt_Suc mult_Suc)
  qed
  moreover have "[a..<Suc b] = a # [Suc a..<Suc b]" using \<open>a < b\<close> by (simp add: upt_rec)
  ultimately show ?case
    by (subst pageRange.simps) (simp del: of_nat_mult upt_Suc)
qed

lemma pageAddress_nat:
  assumes "targetPageSize os = 2 ^ k" and "k < 64"
  shows "pageAddress os x = of_nat (unat x div 2 ^ k * 2 ^ k)"
proof -
  have "pageAddress os x = push_bit k (drop_bit k x)"
  proof (rule bit_eqI)
    fix n
    have "pageAddress os x = x AND NOT (mask k)"
      using assms by (simp add: pageAddress_def mask_eq_exp_minus_1)
    then show "bit (pageAddress os x) n = bit (push_bit k (drop_bit k x)) n"
      by (auto simp: bit_and_iff bit_not_iff bit_mask_iff bit_push_bit_iff bit_drop_bit_eq dest: bit_imp_possible_bit)
  qed
  also have "\<dots> = of_nat (unat (push_bit k (drop_bit k x)))" by simp
  also have "unat (push_bit k (drop_bit k x)) = unat x div 2 ^ k * 2 ^ k"
  proof -
    have "unat x div 2 ^ k * 2 ^ k \<le> unat x" by (simp add: div_times_less_eq_dividend)
    also have "\<dots> < 2 ^ 64" using unsigned_less [of x] by simp
    finally show ?thesis
      unfolding unsigned_push_bit_eq unsigned_drop_bit_eq
      using unsigned_less [of x, where 'a = nat]
      by (simp add: push_bit_eq_mult drop_bit_eq_div take_bit_nat_eq_self)
  qed
  finally show ?thesis .
qed

lemma page_numbers:
  assumes P: "0 < (P :: nat)" and ab: "s \<le> l"
  shows "(\<lambda>x. x div P) ` {s..l} = {s div P..l div P}"
proof
  show "(\<lambda>x. x div P) ` {s..l} \<subseteq> {s div P..l div P}" using div_le_mono by auto
  show "{s div P..l div P} \<subseteq> (\<lambda>x. x div P) ` {s..l}"
  proof
    fix j assume j: "j \<in> {s div P..l div P}"
    have "j * P \<le> l" using j P by (meson atLeastAtMost_iff div_times_less_eq_dividend le_trans mult_le_mono1)
    moreover have "s div P < j \<Longrightarrow> s \<le> j * P"
      using P by (metis div_less_iff_less_mult less_imp_le)
    moreover have "s \<le> j * P \<or> s div P = j" using j calculation(2) by (auto simp: le_less)
    ultimately have "max s (j * P) \<in> {s..l}" "max s (j * P) div P = j"
      using P ab by (auto simp: max_def)
    then show "j \<in> (\<lambda>x. x div P) ` {s..l}" by (metis imageI)
  qed
qed

text \<open>
  The loop over the pages of a range ends and visits each page that holds a byte of the range, and
  no other, once.
\<close>

lemma pageRange_range:
  assumes ok: "page_size_ok os" and le: "lo \<le> hi"
  shows "\<exists>pages. pageRange (targetPageSize os) (pageAddress os lo) (pageAddress os hi) = Some pages \<and>
    set pages = pageAddress os ` {lo..hi} \<and> distinct pages"
proof -
  from ok obtain k where k: "k < 32" and size: "targetPageSize os = 2 ^ k" by (auto simp: page_size_ok_def)
  let ?P = "2 ^ k :: nat" and ?a = "unat lo div 2 ^ k" and ?b = "unat hi div 2 ^ k"
  let ?page = "\<lambda>j. of_nat (j * ?P) :: u64"
  have addr: "pageAddress os x = ?page (unat x div ?P)" for x
    using pageAddress_nat [OF size] k by simp
  have bound: "j * ?P < 2 ^ 64" if "j \<le> ?b" for j
  proof -
    have "j * ?P \<le> unat hi" using that by (meson div_times_less_eq_dividend le_trans mult_le_mono1)
    then show ?thesis using unsigned_less [of hi, where 'a = nat] by simp
  qed
  have run: "pageRange (targetPageSize os) (pageAddress os lo) (pageAddress os hi)
      = Some (map ?page [?a..<Suc ?b])"
    using pageRange_multiples [of ?a ?b ?P] bound [of ?b] le
    by (simp add: addr size word_le_nat_alt div_le_mono del: of_nat_mult upt_Suc)
  have "unat ` {lo..hi} = {unat lo..unat hi}"
  proof
    show "{unat lo..unat hi} \<subseteq> unat ` {lo..hi}"
    proof
      fix n assume n: "n \<in> {unat lo..unat hi}"
      then have "n < 2 ^ 64" using unsigned_less [of hi, where 'a = nat] by simp
      then have "unat (of_nat n :: u64) = n" by (simp add: unsigned_of_nat take_bit_nat_eq_self)
      then show "n \<in> unat ` {lo..hi}"
        using n by (intro image_eqI [of _ _ "of_nat n"]) (auto simp: word_le_nat_alt)
    qed
  qed (auto simp: word_le_nat_alt)
  moreover have "(\<lambda>x. unat x div ?P) ` {lo..hi} = (\<lambda>n. n div ?P) ` unat ` {lo..hi}" by (simp add: image_image)
  ultimately have "(\<lambda>x. unat x div ?P) ` {lo..hi} = {?a..?b}"
    using page_numbers [of ?P "unat lo" "unat hi"] le by (simp add: word_le_nat_alt)
  then have "?page ` {?a..?b} = ?page ` (\<lambda>x. unat x div ?P) ` {lo..hi}" by (simp only:)
  also have "\<dots> = (\<lambda>x. ?page (unat x div ?P)) ` {lo..hi}" by (rule image_image)
  also have "\<dots> = pageAddress os ` {lo..hi}" by (intro image_cong refl addr [symmetric])
  finally have set: "set (map ?page [?a..<Suc ?b]) = pageAddress os ` {lo..hi}"
    by (simp only: set_map set_upt atLeastLessThanSuc_atLeastAtMost)
  have "inj_on ?page {?a..?b}"
  proof (rule inj_onI)
    fix i j assume "i \<in> {?a..?b}" "j \<in> {?a..?b}" and eq: "?page i = ?page j"
    then have "take_bit 64 (i * ?P) = i * ?P" "take_bit 64 (j * ?P) = j * ?P"
      using bound by (simp_all add: take_bit_nat_eq_self)
    then show "i = j" using eq by (simp add: word_of_nat_eq_iff del: of_nat_mult)
  qed
  then have "distinct (map ?page [?a..<Suc ?b])"
    by (simp add: distinct_map atLeastLessThanSuc_atLeastAtMost del: of_nat_mult upt_Suc)
  with run set show ?thesis by blast
qed

section \<open>What the loops do to the page table\<close>

text \<open>The entry of a page after \<open>releasePage\<close>, and the ids a page holds.\<close>

definition released :: "u64 \<Rightarrow> memory_page option \<Rightarrow> memory_page option" where
  "released ident entry = (case entry of
     None \<Rightarrow> None
   | Some info \<Rightarrow> if oset_erase ident (mp_breakpointIds info) = [] then None
                 else Some (info\<lparr>mp_breakpointIds := oset_erase ident (mp_breakpointIds info)\<rparr>))"

definition pageIds :: "u64 \<Rightarrow> 'w titan \<Rightarrow> u64 set" where
  "pageIds page s = (case map_of (gMemoryBreakpointPages s) page of
     None \<Rightarrow> {} | Some info \<Rightarrow> set (mp_breakpointIds info))"

lemma released_None [simp]: "released ident None = None"
  by (simp add: released_def)

lemma released_idem [simp]: "released ident (released ident e) = released ident e"
  by (cases e) (simp_all add: released_def oset_erase_def)

lemma oscall_tables [simp]:
  "gMemoryBreakpoints (snd (oscall f s)) = gMemoryBreakpoints s"
  "gMemoryBreakpointPages (snd (oscall f s)) = gMemoryBreakpointPages s"
  "gNextMemoryBreakpointId (snd (oscall f s)) = gNextMemoryBreakpointId s"
  "gTtdCursor (snd (oscall f s)) = gTtdCursor s"
  by (simp_all add: oscall_def split: prod.splits)

lemma protectMemoryBreakpointPage_state:
  "\<exists>w e. snd (protectMemoryBreakpointPage os page guarded s) = s\<lparr>world := w, lastError := e\<rparr>"
proof -
  have "\<exists>w e. s = s\<lparr>world := w, lastError := e\<rparr>" by (rule exI [of _ "world s"], rule exI [of _ "lastError s"]) simp
  then show ?thesis
    using snd_oscall by (auto simp: protectMemoryBreakpointPage_def Let_def case_prod_unfold split: option.split)
qed

lemma protectMemoryBreakpointPage_frame [simp]:
  "gMemoryBreakpoints (snd (protectMemoryBreakpointPage os page g s)) = gMemoryBreakpoints s"
  "gMemoryBreakpointPages (snd (protectMemoryBreakpointPage os page g s)) = gMemoryBreakpointPages s"
  "gNextMemoryBreakpointId (snd (protectMemoryBreakpointPage os page g s)) = gNextMemoryBreakpointId s"
  "gSessionKind (snd (protectMemoryBreakpointPage os page g s)) = gSessionKind s"
  using protectMemoryBreakpointPage_state [of os page g s] by auto

lemma releasePage_frame [simp]:
  "gMemoryBreakpoints (snd (releasePage os ident page s)) = gMemoryBreakpoints s"
  "gNextMemoryBreakpointId (snd (releasePage os ident page s)) = gNextMemoryBreakpointId s"
  "gSessionKind (snd (releasePage os ident page s)) = gSessionKind s"
  "map_of (gMemoryBreakpointPages (snd (releasePage os ident page s))) =
     (map_of (gMemoryBreakpointPages s))(page := released ident (map_of (gMemoryBreakpointPages s) page))"
  "omap_ok (gMemoryBreakpointPages s) \<Longrightarrow> omap_ok (gMemoryBreakpointPages (snd (releasePage os ident page s)))"
  by (auto simp: releasePage_def released_def updatePage_def erasePage_def Let_def case_prod_unfold fun_upd_idem
      split: option.split)

lemma releasePages_frame [simp]:
  "gMemoryBreakpoints (snd (releasePages os ident pages r s)) = gMemoryBreakpoints s"
  "gNextMemoryBreakpointId (snd (releasePages os ident pages r s)) = gNextMemoryBreakpointId s"
  "gSessionKind (snd (releasePages os ident pages r s)) = gSessionKind s"
  "omap_ok (gMemoryBreakpointPages s) \<Longrightarrow> omap_ok (gMemoryBreakpointPages (snd (releasePages os ident pages r s)))"
  by (induction os ident pages r s rule: releasePages.induct) (simp_all add: case_prod_unfold Let_def)

lemma releasePages_pages:
  "map_of (gMemoryBreakpointPages (snd (releasePages os ident pages r s))) page =
     (if page \<in> set pages then released ident (map_of (gMemoryBreakpointPages s) page)
      else map_of (gMemoryBreakpointPages s) page)"
  by (induction os ident pages r s rule: releasePages.induct) (auto simp: case_prod_unfold Let_def)

text \<open>
  A guarded entry holds the new id besides the ids it had, and releasing it gives the old entry
  back, provided the id is new to it.
\<close>

definition guarded_from :: "u64 \<Rightarrow> memory_page option \<Rightarrow> memory_page option \<Rightarrow> bool" where
  "guarded_from ident old new \<longleftrightarrow> (case new of
     None \<Rightarrow> False
   | Some info \<Rightarrow> (case old of
         None \<Rightarrow> mp_breakpointIds info = [ident]
       | Some info' \<Rightarrow> info = info'\<lparr>mp_breakpointIds := oset_insert ident (mp_breakpointIds info')\<rparr>))"

lemma oset_erase_insert: "ident \<notin> set xs \<Longrightarrow> oset_erase ident (oset_insert ident xs) = xs"
  by (induction ident xs rule: oset_insert.induct)
     (auto simp: oset_erase_def filter_id_conv)

lemma oset_erase_single [simp]: "oset_erase ident [ident] = []"
  by (simp add: oset_erase_def)

lemma released_guarded:
  assumes "guarded_from ident old new" and "\<And>info. old = Some info \<Longrightarrow> ident \<notin> set (mp_breakpointIds info) \<and> mp_breakpointIds info \<noteq> []"
  shows "released ident new = old"
  using assms by (auto simp: guarded_from_def released_def oset_erase_insert split: option.splits)

lemma guardPage_frame [simp]:
  "gMemoryBreakpoints (snd (guardPage os process ident page s)) = gMemoryBreakpoints s"
  "gNextMemoryBreakpointId (snd (guardPage os process ident page s)) = gNextMemoryBreakpointId s"
  "gSessionKind (snd (guardPage os process ident page s)) = gSessionKind s"
  "omap_ok (gMemoryBreakpointPages s) \<Longrightarrow> omap_ok (gMemoryBreakpointPages (snd (guardPage os process ident page s)))"
  by (auto simp: guardPage_def updatePage_def Let_def case_prod_unfold split: option.split)

lemma guardPage_result:
  assumes "guardPage os process ident page s = ((go, added), s')"
  shows "(go \<longrightarrow> added) \<and>
    (\<forall>q. q \<noteq> page \<or> \<not> added \<longrightarrow> map_of (gMemoryBreakpointPages s') q = map_of (gMemoryBreakpointPages s) q) \<and>
    (added \<longrightarrow> guarded_from ident (map_of (gMemoryBreakpointPages s) page) (map_of (gMemoryBreakpointPages s') page))"
  using assms
  by (auto simp: guardPage_def updatePage_def guarded_from_def Let_def case_prod_unfold
      split: option.splits if_splits)

lemma guardPages_result:
  assumes "guardPages os process ident pages touched s = ((success, all), s')" and "distinct pages"
  shows "\<exists>got. all = touched @ got \<and> set got \<subseteq> set pages \<and> (success \<longrightarrow> got = pages) \<and>
    (\<forall>q. if q \<in> set got
         then guarded_from ident (map_of (gMemoryBreakpointPages s) q) (map_of (gMemoryBreakpointPages s') q)
         else map_of (gMemoryBreakpointPages s') q = map_of (gMemoryBreakpointPages s) q)"
  using assms
proof (induction pages arbitrary: touched s success all s')
  case Nil
  then show ?case by simp
next
  case (Cons page pages)
  obtain go added s1 where step: "guardPage os process ident page s = ((go, added), s1)"
    by (metis prod.collapse)
  note one = guardPage_result [OF step]
  show ?case
  proof (cases go)
    case False
    then have "success = False" "all = (if added then touched @ [page] else touched)" "s' = s1"
      using Cons.prems(1) step by (auto simp: Let_def split: if_splits)
    then show ?thesis
      using one by (intro exI [of _ "if added then [page] else []"]) auto
  next
    case True
    with one have added by simp
    with True have rest: "guardPages os process ident pages (touched @ [page]) s1 = ((success, all), s')"
      using Cons.prems(1) step by (simp add: Let_def)
    have "distinct pages" using Cons.prems(2) by simp
    from Cons.IH [OF rest this] obtain got where IH: "all = (touched @ [page]) @ got" "set got \<subseteq> set pages" "success \<longrightarrow> got = pages"
      "\<forall>q. if q \<in> set got
         then guarded_from ident (map_of (gMemoryBreakpointPages s1) q) (map_of (gMemoryBreakpointPages s') q)
         else map_of (gMemoryBreakpointPages s') q = map_of (gMemoryBreakpointPages s1) q"
      by blast
    have new: "page \<notin> set got" using IH(2) Cons.prems(2) by auto
    have "if q \<in> set (page # got)
         then guarded_from ident (map_of (gMemoryBreakpointPages s) q) (map_of (gMemoryBreakpointPages s') q)
         else map_of (gMemoryBreakpointPages s') q = map_of (gMemoryBreakpointPages s) q" for q
      using IH(4) [rule_format, of q] one \<open>added\<close> new by (cases "q = page") auto
    then show ?thesis using IH(1-3) by (intro exI [of _ "page # got"]) auto
  qed
qed

lemma guardPages_frame [simp]:
  "gMemoryBreakpoints (snd (guardPages os process ident pages touched s)) = gMemoryBreakpoints s"
  "gNextMemoryBreakpointId (snd (guardPages os process ident pages touched s)) = gNextMemoryBreakpointId s"
  "gSessionKind (snd (guardPages os process ident pages touched s)) = gSessionKind s"
  "omap_ok (gMemoryBreakpointPages s) \<Longrightarrow>
     omap_ok (gMemoryBreakpointPages (snd (guardPages os process ident pages touched s)))"
  by (induction pages arbitrary: touched s) (simp_all add: case_prod_unfold Let_def)

section \<open>The table invariant\<close>

text \<open>
  The page table holds exactly the pages of the live breakpoints, each with exactly the ids of the
  breakpoints that touch it.
\<close>

definition memory_range_ok :: "memory_breakpoint \<Rightarrow> bool" where
  "memory_range_ok info \<longleftrightarrow> mb_size info \<noteq> 0 \<and> mb_start info < mb_start info + mb_size info"

definition covered_by :: "'w os \<Rightarrow> 'w titan \<Rightarrow> u64 \<Rightarrow> u64 set" where
  "covered_by os s page = {ident. \<exists>info. map_of (gMemoryBreakpoints s) ident = Some info \<and>
     page \<in> set (pagesCovered os (mb_start info) (mb_size info))}"

definition memory_table_ok :: "'w os \<Rightarrow> 'w titan \<Rightarrow> bool" where
  "memory_table_ok os s \<longleftrightarrow>
     omap_ok (gMemoryBreakpoints s) \<and> omap_ok (gMemoryBreakpointPages s) \<and>
     (\<forall>ident info. map_of (gMemoryBreakpoints s) ident = Some info \<longrightarrow>
        ident < gNextMemoryBreakpointId s \<and> memory_range_ok info) \<and>
     (\<forall>page info. map_of (gMemoryBreakpointPages s) page = Some info \<longrightarrow> mp_breakpointIds info \<noteq> []) \<and>
     (gSessionKind s \<noteq> UE_SESSION_TTD \<longrightarrow> (\<forall>page. pageIds page s = covered_by os s page))"

lemma memory_table_fresh:
  assumes "memory_table_ok os s"
  shows "map_of (gMemoryBreakpoints s) (gNextMemoryBreakpointId s) = None"
  using assms by (cases "map_of (gMemoryBreakpoints s) (gNextMemoryBreakpointId s)") (auto simp: memory_table_ok_def)

text \<open>The fields the invariant reads; everything else is irrelevant to it.\<close>

lemma memory_table_ok_cong:
  "gMemoryBreakpoints s' = gMemoryBreakpoints s \<Longrightarrow> gMemoryBreakpointPages s' = gMemoryBreakpointPages s \<Longrightarrow>
   gNextMemoryBreakpointId s' = gNextMemoryBreakpointId s \<Longrightarrow> gSessionKind s' = gSessionKind s \<Longrightarrow>
   memory_table_ok os s' = memory_table_ok os s"
  by (simp add: memory_table_ok_def pageIds_def covered_by_def)

lemma set_released: "set (mp_breakpointIds info) = ids \<Longrightarrow>
  (case released ident (Some info) of None \<Rightarrow> {} | Some info \<Rightarrow> set (mp_breakpointIds info)) = ids - {ident}"
  by (auto simp: released_def oset_erase_empty_iff)

lemma pageIds_released:
  "map_of (gMemoryBreakpointPages s') page = released ident (map_of (gMemoryBreakpointPages s) page) \<Longrightarrow>
   pageIds page s' = pageIds page s - {ident}"
  by (cases "map_of (gMemoryBreakpointPages s) page")
     (auto simp: pageIds_def released_def oset_erase_empty_iff split: if_splits)

lemma pageIds_guarded:
  "guarded_from ident (map_of (gMemoryBreakpointPages s) page) (map_of (gMemoryBreakpointPages s') page) \<Longrightarrow>
   pageIds page s' = insert ident (pageIds page s)"
  by (auto simp: pageIds_def guarded_from_def split: option.splits)

text \<open>Removing a breakpoint of a live session: the table stays exact, whatever the protection calls answer.\<close>

lemma removeMemoryBreakpointById_live:
  assumes ok: "memory_table_ok os s" and live: "gSessionKind s \<noteq> UE_SESSION_TTD"
    and bp: "map_of (gMemoryBreakpoints s) ident = Some info"
  shows "gMemoryBreakpoints (snd (removeMemoryBreakpointById os ident s)) = omap_erase ident (gMemoryBreakpoints s)"
    and "gSessionKind (snd (removeMemoryBreakpointById os ident s)) = gSessionKind s"
    and "gNextMemoryBreakpointId (snd (removeMemoryBreakpointById os ident s)) = gNextMemoryBreakpointId s"
    and "memory_table_ok os (snd (removeMemoryBreakpointById os ident s))"
proof -
  let ?pages = "pagesCovered os (mb_start info) (mb_size info)"
  let ?s' = "snd (removeMemoryBreakpointById os ident s)"
  have s': "?s' = eraseMemoryBreakpoint ident (snd (releasePages os ident ?pages True s))"
    using live bp by (simp add: removeMemoryBreakpointById_def case_prod_unfold Let_def)
  then show bps: "gMemoryBreakpoints ?s' = omap_erase ident (gMemoryBreakpoints s)"
    and kind: "gSessionKind ?s' = gSessionKind s"
    and next_id: "gNextMemoryBreakpointId ?s' = gNextMemoryBreakpointId s"
    by (simp_all add: eraseMemoryBreakpoint_def)
  have pages: "map_of (gMemoryBreakpointPages ?s') page =
      (if page \<in> set ?pages then released ident (map_of (gMemoryBreakpointPages s) page)
       else map_of (gMemoryBreakpointPages s) page)" for page
    using s' by (simp add: eraseMemoryBreakpoint_def releasePages_pages)
  have "pageIds page ?s' = covered_by os ?s' page" for page
  proof -
    have old: "pageIds page s = covered_by os s page" using ok live by (simp add: memory_table_ok_def)
    have new: "covered_by os ?s' page = covered_by os s page - {ident}"
      by (auto simp: covered_by_def bps)
    show ?thesis
    proof (cases "page \<in> set ?pages")
      case True
      then show ?thesis using pageIds_released [of ?s' page ident s] pages old new by simp
    next
      case False
      then have "ident \<notin> covered_by os s page" using bp by (simp add: covered_by_def)
      then show ?thesis using False pages old new by (simp add: pageIds_def)
    qed
  qed
  moreover have "omap_ok (gMemoryBreakpointPages ?s')"
    using s' ok by (simp add: eraseMemoryBreakpoint_def memory_table_ok_def)
  moreover have "mp_breakpointIds info' \<noteq> []" if "map_of (gMemoryBreakpointPages ?s') page = Some info'" for page info'
    using that pages [of page] ok
    by (cases "map_of (gMemoryBreakpointPages s) page") (auto simp: memory_table_ok_def released_def split: if_splits)
  ultimately show "memory_table_ok os ?s'"
    using ok live by (auto simp: memory_table_ok_def bps kind next_id split: if_splits)
qed

lemma removeMemoryBreakpointById_ttd:
  assumes "gSessionKind s = UE_SESSION_TTD" and "memory_table_ok os s"
  shows "memory_table_ok os (snd (removeMemoryBreakpointById os ident s))"
proof -
  have erase: "memory_table_ok os (eraseMemoryBreakpoint ident t)"
    if "memory_table_ok os t" and "gSessionKind t = UE_SESSION_TTD" for t ident
    using that by (auto simp: eraseMemoryBreakpoint_def memory_table_ok_def split: if_splits)
  have call: "memory_table_ok os (snd (oscall f s))" for f
    using assms(2) memory_table_ok_cong [of "snd (oscall f s)" s] by simp
  show ?thesis
    using assms erase [OF assms(2,1)] call erase [OF call]
    by (auto simp: removeMemoryBreakpointById_def case_prod_unfold Let_def split: option.split)
qed

lemma removeMemoryBreakpointById_ok:
  assumes "memory_table_ok os s"
  shows "memory_table_ok os (snd (removeMemoryBreakpointById os ident s))"
proof (cases "map_of (gMemoryBreakpoints s) ident")
  case None
  then show ?thesis using assms by (simp add: removeMemoryBreakpointById_def)
next
  case (Some info)
  then show ?thesis
    using assms removeMemoryBreakpointById_live(4) removeMemoryBreakpointById_ttd by blast
qed

section \<open>Setting a memory breakpoint\<close>

text \<open>The two outcomes of a request that passed the guards in a live session.\<close>

definition newBreakpoint :: "u64 \<Rightarrow> u64 \<Rightarrow> u32 \<Rightarrow> bool \<Rightarrow> callback \<Rightarrow> 'w titan \<Rightarrow> memory_breakpoint" where
  "newBreakpoint start sz type restoreOnHit bpxCallBack s =
     \<lparr>mb_id = gNextMemoryBreakpointId s, mb_start = start, mb_size = sz, mb_type = type,
      mb_restoreOnHit = restoreOnHit, mb_callback = bpxCallBack\<rparr>"

definition insertBreakpoint :: "memory_breakpoint \<Rightarrow> 'w titan \<Rightarrow> 'w titan" where
  "insertBreakpoint info s = s\<lparr>gNextMemoryBreakpointId := mb_id info + 1,
     gMemoryBreakpoints := omap_emplace (mb_id info) info (gMemoryBreakpoints s)\<rparr>"

lemma SetMemoryBPXEx_cases:
  assumes "SetMemoryBPXEx os start sz type restoreOnHit cb s = (result, s')"
    and "gSessionKind s \<noteq> UE_SESSION_TTD"
  obtains (rejected) e where "\<not> result" "s' = s\<lparr>lastError := e\<rparr>"
  | (installed) process touched where "result" "start < start + sz" "sz \<noteq> 0"
      "guardPages os process (gNextMemoryBreakpointId s) (pagesCovered os start sz) []
         (insertBreakpoint (newBreakpoint start sz type restoreOnHit cb s) s) = ((True, touched), s')"
  | (rolled_back) process touched t where "\<not> result" "start < start + sz" "sz \<noteq> 0"
      "guardPages os process (gNextMemoryBreakpointId s) (pagesCovered os start sz) []
         (insertBreakpoint (newBreakpoint start sz type restoreOnHit cb s) s) = ((False, touched), t)"
      "s' = eraseMemoryBreakpoint (gNextMemoryBreakpointId s)
              (snd (releasePages os (gNextMemoryBreakpointId s) touched True t))"
proof -
  let ?bp = "newBreakpoint start sz type restoreOnHit cb s"
  let ?run = "\<lambda>process. guardPages os process (gNextMemoryBreakpointId s) (pagesCovered os start sz) [] (insertBreakpoint ?bp s)"
  consider (reject) e where "\<not> result" "s' = s\<lparr>lastError := e\<rparr>"
    | (run) process where "start < start + sz" "sz \<noteq> 0"
        "(let ((success, touched), t) = ?run process
           in if success then (True, t)
              else (let (ok, t) = releasePages os (gNextMemoryBreakpointId s) touched True t
                    in (False, eraseMemoryBreakpoint (gNextMemoryBreakpointId s) t))) = (result, s')"
    using assms
    by (auto simp: SetMemoryBPXEx_def Let_def insertBreakpoint_def newBreakpoint_def not_le split: if_splits)
  then show thesis
  proof cases
    case reject
    then show thesis by (rule rejected)
  next
    case (run process)
    obtain success touched t where g: "?run process = ((success, touched), t)" by (metis prod.collapse)
    show thesis
    proof (cases success)
      case True
      then show thesis using run g by (intro installed [of process touched]) auto
    next
      case False
      then show thesis using run g by (intro rolled_back [of process touched t]) (auto simp: case_prod_unfold Let_def)
    qed
  qed
qed

lemma pagesCovered_range:
  assumes "page_size_ok os" and "start < start + sz"
  shows "set (pagesCovered os start sz) = pageAddress os ` {start..start + sz - 1}"
    and "distinct (pagesCovered os start sz)"
proof -
  have "start \<le> start + sz - 1"
    using assms(2) inc_le [of start "start + sz"] less_inc_imp_less_eq [of start "start + sz - 1"] by simp
  from pageRange_range [OF assms(1) this] obtain pages where
    "pageRange (targetPageSize os) (pageAddress os start) (pageAddress os (start + sz - 1)) = Some pages"
    "set pages = pageAddress os ` {start..start + sz - 1}" "distinct pages" by blast
  then show "set (pagesCovered os start sz) = pageAddress os ` {start..start + sz - 1}"
    "distinct (pagesCovered os start sz)" by (simp_all add: pagesCovered_def)
qed

lemma insertBreakpoint_tables:
  assumes "memory_table_ok os s" and "mb_id info = gNextMemoryBreakpointId s"
  shows "map_of (gMemoryBreakpoints (insertBreakpoint info s)) = (map_of (gMemoryBreakpoints s))(mb_id info \<mapsto> info)"
    and "gMemoryBreakpointPages (insertBreakpoint info s) = gMemoryBreakpointPages s"
    and "omap_ok (gMemoryBreakpoints (insertBreakpoint info s))"
    and "gSessionKind (insertBreakpoint info s) = gSessionKind s"
    and "gNextMemoryBreakpointId (insertBreakpoint info s) = gNextMemoryBreakpointId s + 1"
  using assms memory_table_fresh [OF assms(1)]
  by (simp_all add: insertBreakpoint_def omap_contains_def memory_table_ok_def)

lemma pageIds_not_fresh:
  assumes "memory_table_ok os s" and "gSessionKind s \<noteq> UE_SESSION_TTD"
    and "map_of (gMemoryBreakpointPages s) page = Some info"
  shows "gNextMemoryBreakpointId s \<notin> set (mp_breakpointIds info) \<and> mp_breakpointIds info \<noteq> []"
proof -
  have "set (mp_breakpointIds info) = covered_by os s page"
    using assms by (force simp: memory_table_ok_def pageIds_def)
  moreover have "gNextMemoryBreakpointId s \<notin> covered_by os s page"
    using memory_table_fresh [OF assms(1)] by (simp add: covered_by_def)
  ultimately show ?thesis using assms by (auto simp: memory_table_ok_def)
qed

text \<open>
  C8. A failed \<open>SetMemoryBPXEx\<close> leaves no trace: in a live session, whether the request was rejected
  by a guard or an uncommitted page or a protection failure stopped it half way, the breakpoint
  table and the page table are what they were before the call.
\<close>

theorem SetMemoryBPXEx_rollback:
  assumes ok: "memory_table_ok os s" and ps: "page_size_ok os" and live: "gSessionKind s \<noteq> UE_SESSION_TTD"
    and failed: "SetMemoryBPXEx os start sz type restoreOnHit cb s = (False, s')"
  shows "map_of (gMemoryBreakpoints s') = map_of (gMemoryBreakpoints s) \<and>
    map_of (gMemoryBreakpointPages s') = map_of (gMemoryBreakpointPages s)"
  using failed live
proof (cases rule: SetMemoryBPXEx_cases)
  case (rolled_back process touched t)
  let ?bp = "newBreakpoint start sz type restoreOnHit cb s"
  let ?n = "gNextMemoryBreakpointId s"
  have id: "mb_id ?bp = ?n" by (simp add: newBreakpoint_def)
  note new = insertBreakpoint_tables [OF ok id]
  have t: "\<forall>q. if q \<in> set touched
      then guarded_from ?n (map_of (gMemoryBreakpointPages s) q) (map_of (gMemoryBreakpointPages t) q)
      else map_of (gMemoryBreakpointPages t) q = map_of (gMemoryBreakpointPages s) q"
    using guardPages_result [OF rolled_back(4) pagesCovered_range(2) [OF ps rolled_back(2)], unfolded new(2)] by simp
  have "map_of (gMemoryBreakpointPages s') q = map_of (gMemoryBreakpointPages s) q" for q
    using t [rule_format, of q] released_guarded [OF _ pageIds_not_fresh [OF ok live]]
    by (auto simp: rolled_back(5) eraseMemoryBreakpoint_def releasePages_pages split: if_splits)
  moreover have "gMemoryBreakpoints t = gMemoryBreakpoints (insertBreakpoint ?bp s)"
    using guardPages_frame(1) [of os process ?n "pagesCovered os start sz" "[]" "insertBreakpoint ?bp s"]
    by (simp add: rolled_back(4))
  then have "map_of (gMemoryBreakpoints s') = map_of (gMemoryBreakpoints s)"
    using new(1) id memory_table_fresh [OF ok]
    by (auto simp: rolled_back(5) eraseMemoryBreakpoint_def fun_eq_iff)
  ultimately show ?thesis by blast
qed auto

text \<open>A live session that has memory breakpoints can set: the id counter must not have wrapped.\<close>

lemma memory_table_ok_installed:
  assumes ok: "memory_table_ok os s" and ps: "page_size_ok os" and live: "gSessionKind s \<noteq> UE_SESSION_TTD"
    and room: "gNextMemoryBreakpointId s \<noteq> - 1" and range: "start < start + sz" "sz \<noteq> 0"
    and run: "guardPages os process (gNextMemoryBreakpointId s) (pagesCovered os start sz) []
         (insertBreakpoint (newBreakpoint start sz type restoreOnHit cb s) s) = ((True, touched), s')"
  shows "memory_table_ok os s'"
proof -
  let ?bp = "newBreakpoint start sz type restoreOnHit cb s"
  let ?n = "gNextMemoryBreakpointId s"
  have id: "mb_id ?bp = ?n" "mb_start ?bp = start" "mb_size ?bp = sz" by (simp_all add: newBreakpoint_def)
  note new = insertBreakpoint_tables [OF ok id(1)]
  let ?pages = "pagesCovered os start sz"
  note frame = guardPages_frame [where os = os and process = process and ident = ?n and pages = ?pages and touched = "[]"
      and s = "insertBreakpoint ?bp s", unfolded run snd_conv]
  have tables: "if q \<in> set ?pages
      then guarded_from ?n (map_of (gMemoryBreakpointPages s) q) (map_of (gMemoryBreakpointPages s') q)
      else map_of (gMemoryBreakpointPages s') q = map_of (gMemoryBreakpointPages s) q" for q
    using guardPages_result [OF run pagesCovered_range(2) [OF ps range(1)], unfolded new(2)] by auto
  have "covered_by os s' q = (if q \<in> set ?pages then insert ?n (covered_by os s q) else covered_by os s q)" for q
    using new(1) id frame(1) memory_table_fresh [OF ok]
    by (auto simp: covered_by_def split: if_splits)
  then have "pageIds q s' = covered_by os s' q" for q
    using tables [of q] pageIds_guarded [of ?n s q s'] ok live
    by (auto simp: memory_table_ok_def pageIds_def split: if_splits)
  moreover have "mp_breakpointIds info \<noteq> []" if "map_of (gMemoryBreakpointPages s') q = Some info" for q info
    using tables [of q] that ok
    by (auto simp: memory_table_ok_def guarded_from_def split: if_splits option.splits)
  moreover have "ident < gNextMemoryBreakpointId s' \<and> memory_range_ok info"
    if bp: "map_of (gMemoryBreakpoints s') ident = Some info" for ident info
  proof -
    have lt: "?n < ?n + 1" using room inc_less_eq_triv_imp [of ?n] not_le by blast
    have next_id: "gNextMemoryBreakpointId s' = ?n + 1" using new(5) frame(2) by simp
    from bp consider "ident = ?n" "info = ?bp" | "map_of (gMemoryBreakpoints s) ident = Some info"
      using new(1) frame(1) id(1) by (cases "ident = ?n") simp_all
    then show ?thesis
    proof cases
      case 1
      then show ?thesis using lt next_id range id by (simp add: memory_range_ok_def)
    next
      case 2
      then have "ident < ?n" and "memory_range_ok info" using ok by (simp_all add: memory_table_ok_def)
      then show ?thesis using lt next_id by simp
    qed
  qed
  ultimately show ?thesis
    using frame new ok live by (simp add: memory_table_ok_def)
qed

lemma SetMemoryBPXEx_ok_live:
  assumes ok: "memory_table_ok os s" and ps: "page_size_ok os" and live: "gSessionKind s \<noteq> UE_SESSION_TTD"
    and room: "gNextMemoryBreakpointId s \<noteq> - 1"
  shows "memory_table_ok os (snd (SetMemoryBPXEx os start sz type restoreOnHit cb s))"
proof -
  obtain result s' where run: "SetMemoryBPXEx os start sz type restoreOnHit cb s = (result, s')"
    by (metis prod.collapse)
  from run live have "memory_table_ok os s'"
  proof (cases rule: SetMemoryBPXEx_cases)
    case (rejected e)
    then show ?thesis using ok memory_table_ok_cong [of s' s] by simp
  next
    case (installed process touched)
    then show ?thesis using memory_table_ok_installed [OF ok ps live room] by blast
  next
    case (rolled_back process touched t)
    let ?bp = "newBreakpoint start sz type restoreOnHit cb s"
    have failed: "SetMemoryBPXEx os start sz type restoreOnHit cb s = (False, s')" using run rolled_back(1) by simp
    note same = SetMemoryBPXEx_rollback [OF ok ps live failed]
    note new = insertBreakpoint_tables [OF ok, of ?bp]
    note frame = guardPages_frame [where os = os and process = process and ident = "gNextMemoryBreakpointId s"
        and pages = "pagesCovered os start sz" and touched = "[]" and s = "insertBreakpoint ?bp s", unfolded rolled_back(4) snd_conv]
    have kept: "gSessionKind s' = gSessionKind s" "gNextMemoryBreakpointId s' = gNextMemoryBreakpointId s + 1"
      "omap_ok (gMemoryBreakpoints s')" "omap_ok (gMemoryBreakpointPages s')"
      using new frame ok by (simp_all add: rolled_back(5) eraseMemoryBreakpoint_def newBreakpoint_def memory_table_ok_def)
    have "i < gNextMemoryBreakpointId s + 1" if "i < gNextMemoryBreakpointId s" for i
      using that room inc_less_eq_triv_imp [of "gNextMemoryBreakpointId s"] not_le by fastforce
    then show ?thesis
      using ok same kept by (simp add: memory_table_ok_def pageIds_def covered_by_def)
  qed
  then show ?thesis by (simp add: run)
qed

lemma SetMemoryBPXEx_ok_ttd:
  assumes ok: "memory_table_ok os s" and ttd: "gSessionKind s = UE_SESSION_TTD" and room: "gNextMemoryBreakpointId s \<noteq> - 1"
  shows "memory_table_ok os (snd (SetMemoryBPXEx os start sz type restoreOnHit cb s))"
proof -
  have less: "i < gNextMemoryBreakpointId s + 1" if "i \<le> gNextMemoryBreakpointId s" for i
    using that room inc_less_eq_triv_imp [of "gNextMemoryBreakpointId s"] not_le by fastforce
  have fresh: "map_of (gMemoryBreakpoints s) (gNextMemoryBreakpointId s) = None"
    by (rule memory_table_fresh [OF ok])
  show ?thesis
    using ok ttd fresh
    by (auto simp: SetMemoryBPXEx_def Let_def case_prod_unfold memory_table_ok_def memory_range_ok_def
        omap_contains_def not_le intro: less less_imp_le split: if_splits)
qed

lemma memory_table_ok_lastError [simp]: "memory_table_ok os (s\<lparr>lastError := e\<rparr>) = memory_table_ok os s"
  by (rule memory_table_ok_cong) simp_all

lemma RemoveMemoryBPX_ok: "memory_table_ok os s \<Longrightarrow> memory_table_ok os (snd (RemoveMemoryBPX os start sz s))"
  by (simp add: RemoveMemoryBPX_def removeMemoryBreakpointById_ok split: option.split)

text \<open>
  C13. The page table stays exact: setting and removing memory breakpoints, in live and TTD sessions and on
  every path (guards, rollback, failing protection calls), keeps the pages of the table equal to
  the pages the live breakpoints touch, each with exactly their ids.
\<close>

theorem memory_breakpoint_operations_keep_table:
  assumes "memory_table_ok os s" and "page_size_ok os" and "gNextMemoryBreakpointId s \<noteq> - 1"
  shows "memory_table_ok os (snd (SetMemoryBPXEx os start sz type restoreOnHit cb s)) \<and>
    memory_table_ok os (snd (RemoveMemoryBPX os start sz s)) \<and>
    memory_table_ok os (snd (removeMemoryBreakpointById os ident s))"
  using assms SetMemoryBPXEx_ok_live [OF assms(1,2) _ assms(3)] SetMemoryBPXEx_ok_ttd [OF assms(1) _ assms(3)]
  by (cases "gSessionKind s = UE_SESSION_TTD") (simp_all add: RemoveMemoryBPX_ok removeMemoryBreakpointById_ok)

section \<open>Removing every memory breakpoint\<close>

lemma hd_key:
  assumes "gMemoryBreakpoints s \<noteq> []"
  shows "\<exists>info. map_of (gMemoryBreakpoints s) (fst (hd (gMemoryBreakpoints s))) = Some info"
  using assms by (cases "gMemoryBreakpoints s") auto

lemma length_omap_erase_hd: "m \<noteq> [] \<Longrightarrow> length (omap_erase (fst (hd m)) m) < length m"
  by (cases m) (simp_all add: omap_erase_def less_Suc_eq_le)

text \<open>
  Each round of the loop forgets its breakpoint, in a live session and in a TTD session whose
  watchpoints the engine removes.
\<close>

definition removal_works :: "'w os \<Rightarrow> 'w titan \<Rightarrow> bool" where
  "removal_works os s \<longleftrightarrow> gSessionKind s \<noteq> UE_SESSION_TTD \<or>
     gTtdCursor s \<and> (\<forall>wp w. fst (tRemoveMemoryWatchpoint (ttd os) wp w))"

lemma releasePages_cursor [simp]: "gTtdCursor (snd (releasePages os ident pages r s)) = gTtdCursor s"
proof (induction os ident pages r s rule: releasePages.induct)
  case (2 os ident page pages r s)
  have "gTtdCursor (snd (protectMemoryBreakpointPage os page g t)) = gTtdCursor t" for g t
    using protectMemoryBreakpointPage_state [of os page g t] by auto
  then have "gTtdCursor (snd (releasePage os ident page s)) = gTtdCursor s"
    by (simp add: releasePage_def updatePage_def erasePage_def Let_def case_prod_unfold split: option.split)
  with 2 show ?case by (simp add: case_prod_unfold Let_def)
qed simp

lemma removal_step:
  assumes "memory_table_ok os s" and "removal_works os s" and "map_of (gMemoryBreakpoints s) ident = Some info"
  shows "gMemoryBreakpoints (snd (removeMemoryBreakpointById os ident s)) = omap_erase ident (gMemoryBreakpoints s)"
    and "removal_works os (snd (removeMemoryBreakpointById os ident s))"
  using assms by (auto simp: removeMemoryBreakpointById_def removal_works_def eraseMemoryBreakpoint_def
      case_prod_unfold Let_def fst_oscall)

lemma removeAllMemoryBreakpoints_ends:
  assumes "memory_table_ok os s" and "removal_works os s"
  shows "\<exists>r s'. removeAllMemoryBreakpoints os result s = Some (r, s') \<and> gMemoryBreakpoints s' = [] \<and>
    memory_table_ok os s' \<and> gSessionKind s' = gSessionKind s"
  using assms
proof (induction "length (gMemoryBreakpoints s)" arbitrary: s result rule: less_induct)
  case less
  show ?case
  proof (cases "gMemoryBreakpoints s = []")
    case True
    then show ?thesis using less.prems by (subst removeAllMemoryBreakpoints.simps) simp
  next
    case False
    let ?id = "fst (hd (gMemoryBreakpoints s))"
    let ?step = "removeMemoryBreakpointById os ?id s"
    obtain info where info: "map_of (gMemoryBreakpoints s) ?id = Some info" using hd_key [OF False] by blast
    note step = removal_step [OF less.prems info]
    have kind: "gSessionKind (snd ?step) = gSessionKind s"
      by (auto simp: removeMemoryBreakpointById_def eraseMemoryBreakpoint_def case_prod_unfold Let_def split: option.split)
    have "length (gMemoryBreakpoints (snd ?step)) < length (gMemoryBreakpoints s)"
      using step(1) length_omap_erase_hd [OF False] by simp
    from less.hyps [OF this removeMemoryBreakpointById_ok [OF less.prems(1)] step(2), of "fst ?step \<and> result"]
    show ?thesis using False kind by (subst removeAllMemoryBreakpoints.simps) simp
  qed
qed


text \<open>
  In a TTD session without a cursor the loop does not return: the first breakpoint can never be
  removed, so \<open>RemoveAllBreakPoints\<close> and \<open>DetachDebuggerEx\<close> hang.
\<close>

theorem removeAllMemoryBreakpoints_spins:
  assumes "gSessionKind s = UE_SESSION_TTD" and "\<not> gTtdCursor s" and "gMemoryBreakpoints s \<noteq> []"
  shows "removeAllMemoryBreakpoints os result s = None"
proof -
  have "\<not> (gSessionKind s = UE_SESSION_TTD \<and> \<not> gTtdCursor s \<and> gMemoryBreakpoints s \<noteq> [])"
    if "removeAllMemoryBreakpoints os result s = Some y" for y
  proof (rule removeAllMemoryBreakpoints.raw_induct [OF _ that], goal_cases)
    case (1 removeAll os result s y)
    show ?case
    proof
      assume stuck: "gSessionKind s = UE_SESSION_TTD \<and> \<not> gTtdCursor s \<and> gMemoryBreakpoints s \<noteq> []"
      then have "removeMemoryBreakpointById os (fst (hd (gMemoryBreakpoints s))) s = (False, s)"
        using hd_key [of s] by (auto simp: removeMemoryBreakpointById_def)
      then have "removeAll os False s = Some y" using 1(2) stuck by simp
      then show False using 1(1) stuck by blast
    qed
  qed
  then show ?thesis using assms by (cases "removeAllMemoryBreakpoints os result s") auto
qed

section \<open>The protection of the debuggee's pages\<close>

text \<open>
  What the adapter relies on: \<open>VirtualProtectEx\<close> changes the protection of the page it names when it
  succeeds and nothing when it fails; \<open>VirtualQueryEx\<close> reports the protection.
\<close>

definition protects :: "'w os \<Rightarrow> ('w \<Rightarrow> u64 \<Rightarrow> u32) \<Rightarrow> bool" where
  "protects os prot \<longleftrightarrow>
     (\<forall>h page n p w. prot (snd (snd (wVirtualProtectEx (win os) h page n p w))) =
        (if fst (fst (wVirtualProtectEx (win os) h page n p w)) then (prot w)(page := p) else prot w)) \<and>
     (\<forall>h page w. prot (snd (snd (wVirtualQueryEx (win os) h page w))) = prot w \<and>
        (\<forall>mbi. fst (wVirtualQueryEx (win os) h page w) = Some mbi \<longrightarrow> mbi_Protect mbi = prot w page))"

text \<open>
  The abstract state: the protection each page has apart from the guards of the breakpoints. The
  coupling invariant: every page of the table carries its guard.
\<close>

definition base_protection :: "('w \<Rightarrow> u64 \<Rightarrow> u32) \<Rightarrow> 'w titan \<Rightarrow> u64 \<Rightarrow> u32" where
  "base_protection prot s page = (case map_of (gMemoryBreakpointPages s) page of
     None \<Rightarrow> prot (world s) page | Some info \<Rightarrow> mp_originalProtect info)"

definition guards_in_place :: "('w \<Rightarrow> u64 \<Rightarrow> u32) \<Rightarrow> 'w titan \<Rightarrow> bool" where
  "guards_in_place prot s \<longleftrightarrow> (\<forall>page info. map_of (gMemoryBreakpointPages s) page = Some info \<longrightarrow>
     prot (world s) page = mp_originalProtect info OR PAGE_GUARD)"

lemma world_oscall [simp]: "world (snd (oscall f s)) = snd (snd (f (world s)))"
  by (simp add: oscall_def split: prod.splits)

lemma protect_effect:
  assumes "protects os prot" and "protectMemoryBreakpointPage os page guarded s = (True, s')"
    and "map_of (gMemoryBreakpointPages s) page = Some info"
  shows "prot (world s') = (prot (world s))(page := (if guarded then mp_originalProtect info OR PAGE_GUARD
                                                     else mp_originalProtect info))"
proof -
  let ?p = "if guarded then mp_originalProtect info OR PAGE_GUARD else mp_originalProtect info"
  let ?call = "wVirtualProtectEx (win os) (activeProcessHandle os s) page (targetPageSize os) ?p"
  from assms(2,3) have "fst (fst (?call (world s)))" and "world s' = snd (snd (?call (world s)))"
    by (auto simp: protectMemoryBreakpointPage_def Let_def case_prod_unfold fst_oscall split: if_splits)
  then show ?thesis using assms(1) by (simp add: protects_def)
qed

lemma guardPage_protection:
  assumes pr: "protects os prot" and gp: "guards_in_place prot s"
    and step: "guardPage os process ident page s = ((True, added), s')"
  shows "guards_in_place prot s' \<and> base_protection prot s' = base_protection prot s"
proof (cases "map_of (gMemoryBreakpointPages s) page")
  case (Some info)
  then show ?thesis using step gp
    by (auto simp: guardPage_def updatePage_def guards_in_place_def base_protection_def fun_eq_iff split: option.split if_splits)
next
  case None
  let ?q = "oscall (wVirtualQueryEx (win os) process page) s"
  from step None obtain mbi where mbi: "fst ?q = Some mbi"
    and prot: "protectMemoryBreakpointPage os page True
        (updatePage page \<lparr>mp_originalProtect = mbi_Protect mbi, mp_breakpointIds = [ident]\<rparr> (snd ?q)) = (True, s')"
    by (auto simp: guardPage_def Let_def case_prod_unfold prod_eq_iff split: option.splits if_splits)
  let ?u = "updatePage page \<lparr>mp_originalProtect = mbi_Protect mbi, mp_breakpointIds = [ident]\<rparr> (snd ?q)"
  have q: "prot (world (snd ?q)) = prot (world s)" "mbi_Protect mbi = prot (world s) page"
    using pr mbi by (simp_all add: protects_def fst_oscall)
  have eff: "prot (world s') = (prot (world s))(page := mbi_Protect mbi OR PAGE_GUARD)"
    using protect_effect [OF pr prot, of "\<lparr>mp_originalProtect = mbi_Protect mbi, mp_breakpointIds = [ident]\<rparr>"] q(1)
    by (simp add: updatePage_def)
  have "gMemoryBreakpointPages s' = gMemoryBreakpointPages ?u"
    using protectMemoryBreakpointPage_frame(2) [of os page True ?u] prot by simp
  then have pages: "map_of (gMemoryBreakpointPages s') =
      (map_of (gMemoryBreakpointPages s))(page \<mapsto> \<lparr>mp_originalProtect = mbi_Protect mbi, mp_breakpointIds = [ident]\<rparr>)"
    by (simp add: updatePage_def)
  show ?thesis using gp None q(2)
    by (auto simp: guards_in_place_def base_protection_def pages eff fun_eq_iff split: option.split if_splits)
qed

lemma guardPages_protection:
  assumes pr: "protects os prot" and "guards_in_place prot s"
    and "guardPages os process ident pages touched s = ((True, all), s')"
  shows "guards_in_place prot s' \<and> base_protection prot s' = base_protection prot s"
  using assms(2,3)
proof (induction pages arbitrary: touched s)
  case (Cons page pages)
  obtain go added s1 where step: "guardPage os process ident page s = ((go, added), s1)" by (metis prod.collapse)
  with Cons.prems(2) have go by (auto simp: Let_def split: if_splits)
  with step have step': "guardPage os process ident page s = ((True, added), s1)" by simp
  note one = guardPage_protection [OF pr Cons.prems(1) step']
  have "guardPages os process ident pages (if added then touched @ [page] else touched) s1 = ((True, all), s')"
    using Cons.prems(2) step' by (simp add: Let_def)
  from Cons.IH [OF conjunct1 [OF one] this] one show ?case by simp
qed simp

lemma releasePage_protection:
  assumes pr: "protects os prot" and gp: "guards_in_place prot s" and step: "releasePage os ident page s = (True, s')"
  shows "guards_in_place prot s' \<and> base_protection prot s' = base_protection prot s"
proof (cases "map_of (gMemoryBreakpointPages s) page")
  case None
  then show ?thesis using step gp by (simp add: releasePage_def)
next
  case (Some info)
  let ?info = "info\<lparr>mp_breakpointIds := oset_erase ident (mp_breakpointIds info)\<rparr>"
  show ?thesis
  proof (cases "mp_breakpointIds ?info = []")
    case False
    then show ?thesis using step Some gp
      by (auto simp: releasePage_def updatePage_def guards_in_place_def base_protection_def fun_eq_iff split: option.split if_splits)
  next
    case True
    let ?u = "updatePage page ?info s"
    obtain t where t: "protectMemoryBreakpointPage os page False ?u = (True, t)" and s': "s' = erasePage page t"
      using step Some True
      by (cases "protectMemoryBreakpointPage os page False ?u") (auto simp: releasePage_def Let_def)
    have eff: "prot (world t) = (prot (world s))(page := mp_originalProtect info)"
      using protect_effect [OF pr t, of ?info] by (simp add: updatePage_def)
    have "gMemoryBreakpointPages t = gMemoryBreakpointPages ?u"
      using protectMemoryBreakpointPage_frame(2) [of os page False ?u] t by simp
    then show ?thesis using gp Some
      by (auto simp: s' erasePage_def updatePage_def guards_in_place_def base_protection_def eff fun_eq_iff split: option.split if_splits)
  qed
qed

lemma releasePages_true: "fst (releasePages os ident pages r s) \<Longrightarrow> r"
  by (induction pages arbitrary: r s) (auto simp: case_prod_unfold Let_def dest: meta_spec)

lemma releasePages_protection:
  assumes pr: "protects os prot" and "guards_in_place prot s" and "releasePages os ident pages True s = (True, s')"
  shows "guards_in_place prot s' \<and> base_protection prot s' = base_protection prot s"
  using assms(2,3)
proof (induction pages arbitrary: s)
  case (Cons page pages)
  obtain ok s1 where step: "releasePage os ident page s = (ok, s1)" by (metis prod.collapse)
  with Cons.prems(2) have rest: "releasePages os ident pages ok s1 = (True, s')" by simp
  with releasePages_true [of os ident pages ok s1] have ok by simp
  with step rest have step': "releasePage os ident page s = (True, s1)"
    and rest': "releasePages os ident pages True s1 = (True, s')" by simp_all
  note one = releasePage_protection [OF pr Cons.prems(1) step']
  from Cons.IH [OF conjunct1 [OF one] rest'] one show ?case by simp
qed simp


section \<open>Instances\<close>

text \<open>
  A world whose state is the page protections, all pages committed and writable unless the page is
  0x2000, which is not committed.
\<close>

definition paged_os :: "(u64 \<Rightarrow> u32) os" where
  "paged_os = quiet_os\<lparr>win := quiet_win\<lparr>
       wVirtualProtectEx := (\<lambda>h page n p w. ((True, w page), None, w(page := p))),
       wVirtualQueryEx := (\<lambda>h page w. (if page = 0x2000 then None else
         Some \<lparr>mbi_BaseAddress = page, mbi_AllocationBase = page, mbi_AllocationProtect = 4, mbi_RegionSize = 0x1000,
               mbi_State = MEM_COMMIT, mbi_Protect = w page, mbi_Type = MEM_PRIVATE\<rparr>, None, w))\<rparr>,
     dbg := quiet_dbg\<lparr>dProcessIndex := (\<lambda>_. Some 0)\<rparr>\<rparr>"

lemma paged_os_calls [simp]:
  "wVirtualProtectEx (win paged_os) h page n p w = ((True, w page), None, w(page := p))"
  "wVirtualQueryEx (win paged_os) h page w = (if page = 0x2000 then None else
     Some \<lparr>mbi_BaseAddress = page, mbi_AllocationBase = page, mbi_AllocationProtect = 4, mbi_RegionSize = 0x1000,
           mbi_State = MEM_COMMIT, mbi_Protect = w page, mbi_Type = MEM_PRIVATE\<rparr>, None, w)"
  "dProcessIndex (dbg paged_os) w = Some 0"
  "targetPageSize paged_os = 0x1000"
  by (simp_all add: paged_os_def quiet_defs targetPageSize_def)

lemma paged_os_ok: "page_size_ok paged_os"
  by (auto simp: page_size_ok_def intro!: exI [of _ 12])

lemma paged_os_protects: "protects paged_os id"
  by (simp add: protects_def)

lemma live_titan_table: "memory_table_ok os (live_titan w)"
  by (simp add: memory_table_ok_def live_defs pageIds_def covered_by_def)

lemma live_titan_fields: "gSessionKind (live_titan w) \<noteq> UE_SESSION_TTD" "gNextMemoryBreakpointId (live_titan w) \<noteq> - 1"
  by (simp_all add: live_defs)

lemma live_guards: "guards_in_place prot (live_titan w)"
  by (simp add: guards_in_place_def live_defs)

lemma paged_one: "pagesCovered paged_os 0x1010 4 = [0x1000]"
  by (simp add: pagesCovered_def pageAddress_def)
     (subst pageRange.simps, simp)

lemma paged_two: "pagesCovered paged_os 0x1FFF 2 = [0x1000, 0x2000]"
  by (simp add: pagesCovered_def pageAddress_def)
     (subst pageRange.simps, simp, subst pageRange.simps, simp)

lemma paged_set_one:
  "SetMemoryBPXEx paged_os 0x1010 4 UE_MEMORY_WRITE True 5 (live_titan (\<lambda>_. PAGE_READWRITE)) =
     (True, snd (SetMemoryBPXEx paged_os 0x1010 4 UE_MEMORY_WRITE True 5 (live_titan (\<lambda>_. PAGE_READWRITE))))"
  by (simp add: prod_eq_iff SetMemoryBPXEx_def PauseLock_def live_defs paged_one activeProcessHandle_def guardPage_def
      updatePage_def oscall_def protectMemoryBreakpointPage_def)

lemma paged_set_two:
  "SetMemoryBPXEx paged_os 0x1FFF 2 UE_MEMORY_WRITE True 5 (live_titan (\<lambda>_. PAGE_READWRITE)) =
     (False, snd (SetMemoryBPXEx paged_os 0x1FFF 2 UE_MEMORY_WRITE True 5 (live_titan (\<lambda>_. PAGE_READWRITE))))"
  by (simp add: prod_eq_iff SetMemoryBPXEx_def PauseLock_def live_defs paged_two activeProcessHandle_def guardPage_def
      updatePage_def oscall_def protectMemoryBreakpointPage_def case_prod_unfold Let_def)

theorem SetMemoryBPXEx_rollback_witness:
  "gMemoryBreakpointPages (snd (SetMemoryBPXEx paged_os 0x1FFF 2 UE_MEMORY_WRITE True 5
     (live_titan (\<lambda>_. PAGE_READWRITE)))) = []"
  using SetMemoryBPXEx_rollback [OF live_titan_table paged_os_ok live_titan_fields(1) paged_set_two]
  by (simp add: live_defs)

theorem memory_breakpoint_operations_keep_table_witness:
  "memory_table_ok paged_os (snd (SetMemoryBPXEx paged_os 0x1010 4 UE_MEMORY_WRITE True 5
     (live_titan (\<lambda>_. PAGE_READWRITE))))"
  using memory_breakpoint_operations_keep_table [OF live_titan_table paged_os_ok live_titan_fields(2)] by blast


definition stuck_state :: "unit titan" where
  "stuck_state = (initial_titan ())\<lparr>gSessionKind := UE_SESSION_TTD,
     gMemoryBreakpoints := [(1, default_memory_breakpoint)]\<rparr>"

theorem removeAllMemoryBreakpoints_spins_witness:
  "removeAllMemoryBreakpoints quiet_os True stuck_state = None"
  by (rule removeAllMemoryBreakpoints_spins) (simp_all add: stuck_state_def initial_titan_def)


text \<open>
  The page loop of \<open>SetMemoryBPXEx\<close> and \<open>removeMemoryBreakpointById\<close> ends for every range that
  passes the guard, and visits exactly the pages that hold a byte of the range, each once.
\<close>

theorem memory_page_loop:
  assumes "page_size_ok os" and "start < start + sz"
  shows "\<exists>pages. pageRange (targetPageSize os) (pageAddress os start) (pageAddress os (start + sz - 1)) = Some pages \<and>
    set pages = pageAddress os ` {start..start + sz - 1} \<and> distinct pages"
proof -
  have "start \<le> start + sz - 1"
    using assms(2) inc_le [of start "start + sz"] less_inc_imp_less_eq [of start "start + sz - 1"] by simp
  from pageRange_range [OF assms(1) this] show ?thesis .
qed

theorem memory_page_loop_witness:
  "\<exists>pages. pageRange 0x1000 0x1000 0x2000 = Some pages \<and>
    set pages = pageAddress paged_os ` {0x1FFF..0x2000} \<and> distinct pages"
  using memory_page_loop [OF paged_os_ok, of "0x1FFF" 2] by (simp add: pageAddress_def)

end
