(* ===== verification/Breakpoints.thy ===== *)
theory Breakpoints
  imports Memory_Breakpoints
begin

text \<open>
  Software and hardware breakpoints (\<open>TitanEngine.cpp\<close>, lines 3026 to 3043, 4088 to 4228 and 5112 to 5387):
  native patches of live sessions, execute watchpoints of TTD sessions, the four
  hardware slots, and the removal of all of them.
\<close>

section \<open>Native patches\<close>

text \<open>The bytes to write, and whether all of them were written and the instruction cache flushed.\<close>

definition writeNativeBreakpointBytes :: "'w os \<Rightarrow> breakpoint_info \<Rightarrow> bool \<Rightarrow> 'w titan \<Rightarrow> bool \<times> 'w titan" where
  "writeNativeBreakpointBytes os info install s =
     (let process = sessionProcessHandle s
      in if process = 0 \<or> bp_patchSize info = 0 then (False, s)
         else (let bytes = take (bp_patchSize info) (if install then bp_patchBytes info else bp_originalBytes info);
                   ((ok, transferred), s) = oscall (wWriteProcessMemory (win os) process (bp_offset info) bytes) s
               in if \<not> ok \<or> transferred \<noteq> of_nat (bp_patchSize info) then (False, s)
                  else oscall (wFlushInstructionCache (win os) process (bp_offset info) (bp_patchSize info)) s))"

text \<open>\<open>ReadProcessMemory\<close> into \<open>originalBytes\<close>: what it transfers overwrites the front of the array.\<close>

definition captureOriginalBytes ::
  "'w os \<Rightarrow> HANDLE \<Rightarrow> breakpoint_info \<Rightarrow> 'w titan \<Rightarrow> (bool \<times> breakpoint_info) \<times> 'w titan" where
  "captureOriginalBytes os process info s =
     (let ((ok, bytes), s) = oscall (wReadProcessMemory (win os) process (bp_offset info) (of_nat (bp_patchSize info))) s
      in ((ok \<and> length bytes = bp_patchSize info,
           info\<lparr>bp_originalBytes := bytes @ drop (length bytes) (bp_originalBytes info)\<rparr>), s))"

definition insertBreakpointInfo :: "breakpoint_info \<Rightarrow> 'w titan \<Rightarrow> 'w titan" where
  "insertBreakpointInfo info s = s\<lparr>gBreakpoints := omap_insert (bp_id info) info (gBreakpoints s)\<rparr>"

definition eraseBreakpointInfo :: "u32 \<Rightarrow> 'w titan \<Rightarrow> 'w titan" where
  "eraseBreakpointInfo ident s = s\<lparr>gBreakpoints := omap_erase ident (gBreakpoints s)\<rparr>"

definition retireAddress :: "u64 \<Rightarrow> 'w titan \<Rightarrow> 'w titan" where
  "retireAddress address s = s\<lparr>gRetiredBreakpointAddresses := oset_insert address (gRetiredBreakpointAddresses s)\<rparr>"

definition nextNativeId :: "'w titan \<Rightarrow> u32 \<times> 'w titan" where
  "nextNativeId s = (gNextNativeBreakpointId s, s\<lparr>gNextNativeBreakpointId := gNextNativeBreakpointId s + 1\<rparr>)"

section \<open>Software breakpoints\<close>

definition SetBPXOptions :: "u32 \<Rightarrow> 'w titan \<Rightarrow> 'w titan" where
  "SetBPXOptions type s = s\<lparr>gDefaultBreakpointType := type\<rparr>"

definition softwareAt :: "u64 \<Rightarrow> u32 \<times> breakpoint_info \<Rightarrow> bool" where
  "softwareAt address = (\<lambda>(ident, info). bp_kind info = Software \<and> bp_offset info = address)"

definition IsBPXEnabled :: "u64 \<Rightarrow> 'w titan \<Rightarrow> bool" where
  "IsBPXEnabled address s = (PauseLock s \<and> list_ex (softwareAt address) (gBreakpoints s))"

text \<open>Execute watchpoints have the access mask 4.\<close>

definition executeWatchpoint :: "u64 \<Rightarrow> ttd_watchpoint" where
  "executeWatchpoint address = \<lparr>wp_Address = address, wp_Size = 1, wp_AccessMask = 4\<rparr>"

definition addTtdSoftwareBreakpoint ::
  "'w os \<Rightarrow> u64 \<Rightarrow> callback \<Rightarrow> bool \<Rightarrow> u32 \<Rightarrow> 'w titan \<Rightarrow> bool \<times> 'w titan" where
  "addTtdSoftwareBreakpoint os address bpCallback oneShot threadAffinity s =
     (let (added, s) = (if gTtdCursor s then oscall (tAddMemoryWatchpoint (ttd os) (executeWatchpoint address)) s
                        else (False, s))
      in if \<not> added then (False, SetLastError ERROR_GEN_FAILURE s)
         else (let (ident, s) = nextNativeId s;
                   info = default_breakpoint\<lparr>bp_id := ident, bp_kind := Software, bp_callback := bpCallback,
                     bp_offset := address, bp_oneShot := oneShot, bp_ttdThreadAffinity := threadAffinity\<rparr>
               in (True, s\<lparr>gBreakpoints := omap_emplace ident info (gBreakpoints s)\<rparr>)))"

text \<open>The type selected by the type bits of the request, None for bits that name no type.\<close>

definition selectedType :: "u32 \<Rightarrow> u32 \<Rightarrow> u32 option" where
  "selectedType defaultType bpxType =
     (let typeBits = bpxType AND 0xF0000000
      in if typeBits = 0 then Some defaultType
         else if typeBits = UE_BREAKPOINT_TYPE_INT3 then Some UE_BREAKPOINT_INT3
         else if typeBits = UE_BREAKPOINT_TYPE_LONG_INT3 then Some UE_BREAKPOINT_LONG_INT3
         else if typeBits = UE_BREAKPOINT_TYPE_UD2 then Some UE_BREAKPOINT_UD2
         else None)"

definition softwarePatch :: "u32 \<Rightarrow> u64 \<Rightarrow> callback \<Rightarrow> bool \<Rightarrow> breakpoint_info" where
  "softwarePatch selected address bpCallback oneShot =
     (let info = default_breakpoint\<lparr>bp_type := DEBUG_BREAKPOINT_CODE, bp_callback := bpCallback,
            bp_offset := address, bp_oneShot := oneShot\<rparr>
      in if selected = UE_BREAKPOINT_LONG_INT3
         then info\<lparr>bp_nativePatch := True, bp_patchSize := 2, bp_patchBytes := [0xCD, 0x03]\<rparr>
         else if selected = UE_BREAKPOINT_UD2
         then info\<lparr>bp_nativePatch := True, bp_patchSize := 2, bp_patchBytes := [0x0F, 0x0B]\<rparr>
         else info)"

text \<open>The lambda \<open>installNative\<close>: the record it has completed, when the patch is in place.\<close>

definition installNative :: "'w os \<Rightarrow> breakpoint_info \<Rightarrow> 'w titan \<Rightarrow> breakpoint_info option \<times> 'w titan" where
  "installNative os info s =
     (let process = sessionProcessHandle s
      in if process = 0 then (None, s)
         else (let info = (if bp_patchSize info = 0
                           then info\<lparr>bp_patchSize := 1, bp_patchBytes := [0xCC, bp_patchBytes info ! 1]\<rparr> else info);
                   ((ok, info), s) = captureOriginalBytes os process info s
               in if \<not> ok then (None, s)
                  else (let (ident, s) = nextNativeId s;
                            info = info\<lparr>bp_nativePatch := True, bp_id := ident\<rparr>;
                            (written, s) = writeNativeBreakpointBytes os info True s
                        in (if written then Some info else None, s))))"

definition SetBPX :: "'w os \<Rightarrow> u64 \<Rightarrow> u32 \<Rightarrow> callback \<Rightarrow> 'w titan \<Rightarrow> bool \<times> 'w titan" where
  "SetBPX os bpxAddress bpxType bpxCallBack s =
     (if bpxAddress = 0 \<or> bpxCallBack = 0 then (False, SetLastError ERROR_INVALID_PARAMETER s)
      else if \<not> PauseLock s \<and> \<not> gIsDebugging s then (False, SetLastError ERROR_INVALID_HANDLE s)
      else if list_ex (softwareAt bpxAddress) (gBreakpoints s) then (False, SetLastError ERROR_ALREADY_EXISTS s)
      else if gSessionKind s = UE_SESSION_TTD
      then addTtdSoftwareBreakpoint os bpxAddress bpxCallBack (bpxType AND UE_SINGLESHOOT \<noteq> 0) 0 s
      else (case selectedType (gDefaultBreakpointType s) bpxType of
          None \<Rightarrow> (False, SetLastError ERROR_INVALID_PARAMETER s)
        | Some selected \<Rightarrow>
            (let (installed, s) = installNative os
                   (softwarePatch selected bpxAddress bpxCallBack (bpxType AND UE_SINGLESHOOT \<noteq> 0)) s
             in case installed of
                  None \<Rightarrow> (False, s)
                | Some info \<Rightarrow>
                    (True, insertBreakpointInfo info
                       (s\<lparr>gRetiredBreakpointAddresses := oset_erase bpxAddress (gRetiredBreakpointAddresses s)\<rparr>)))))"

definition DeleteBPX :: "'w os \<Rightarrow> u64 \<Rightarrow> 'w titan \<Rightarrow> bool \<times> 'w titan" where
  "DeleteBPX os bpxAddress s = (case find (softwareAt bpxAddress) (gBreakpoints s) of
     None \<Rightarrow> (False, SetLastError ERROR_NOT_FOUND s)
   | Some (ident, info) \<Rightarrow>
       if gSessionKind s = UE_SESSION_TTD then
         (let (removed, s) = (if gTtdCursor s then oscall (tRemoveMemoryWatchpoint (ttd os) (executeWatchpoint bpxAddress)) s
                              else (False, s))
          in if \<not> removed then (False, s) else (True, eraseBreakpointInfo ident s))
       else (let (ok, s) = (if bp_nativePatch info then writeNativeBreakpointBytes os info False s
                            else (let (hr, s) = oscall (dRemoveBreakpoint2 (dbg os) (bp_object info)) s in (\<not> FAILED hr, s)))
             in if \<not> ok then (False, s) else (True, eraseBreakpointInfo ident (retireAddress bpxAddress s))))"

section \<open>Hardware breakpoints\<close>

definition hardwareRegisters :: "u32 list" where
  "hardwareRegisters = [UE_DR0, UE_DR1, UE_DR2, UE_DR3]"

definition isHardwareRegister :: "u32 \<Rightarrow> bool" where
  "isHardwareRegister reg = list_ex (\<lambda>r. r = reg) hardwareRegisters"

definition freeHardwareRegister :: "'w titan \<Rightarrow> u32 option" where
  "freeHardwareRegister s = find (\<lambda>reg. \<not> omap_contains (gHardwareBreakpointIds s) reg) hardwareRegisters"

definition busyError :: "'w titan \<Rightarrow> u32" where
  "busyError s = (if gIsDebugging s then ERROR_BUSY else ERROR_INVALID_HANDLE)"

text \<open>The result is the register written through the pointer, with the returned flag; None for a null pointer.\<close>

definition GetUnusedHardwareBreakPointRegister :: "bool \<Rightarrow> 'w titan \<Rightarrow> (bool \<times> u32 option) \<times> 'w titan" where
  "GetUnusedHardwareBreakPointRegister indexGiven s =
     (if \<not> indexGiven then ((False, None), SetLastError ERROR_INVALID_PARAMETER s)
      else if \<not> PauseLock s then ((False, Some 0), SetLastError (busyError s) s)
      else (case freeHardwareRegister s of
          Some reg \<Rightarrow> ((True, Some reg), s)
        | None \<Rightarrow> ((False, Some 0), SetLastError ERROR_NO_MORE_ITEMS s)))"

definition hardwareDataSize :: "u32 \<Rightarrow> u32 option" where
  "hardwareDataSize bpxSize =
     (if bpxSize = UE_HARDWARE_SIZE_1 then Some 1 else if bpxSize = UE_HARDWARE_SIZE_2 then Some 2
      else if bpxSize = UE_HARDWARE_SIZE_4 then Some 4 else if bpxSize = UE_HARDWARE_SIZE_8 then Some 8 else None)"

text \<open>The access bits and the size used for a type: execute breakpoints are one byte.\<close>

definition hardwareAccess :: "u32 \<Rightarrow> u32 \<Rightarrow> (u32 \<times> u32) option" where
  "hardwareAccess bpxType dataSize =
     (if bpxType = UE_HARDWARE_EXECUTE then Some (DEBUG_BREAK_EXECUTE, 1)
      else if bpxType = UE_HARDWARE_WRITE then Some (DEBUG_BREAK_WRITE, dataSize)
      else if bpxType = UE_HARDWARE_READWRITE then Some (DEBUG_BREAK_READ OR DEBUG_BREAK_WRITE, dataSize)
      else None)"

text \<open>The execute case: a native patch that takes the slot.\<close>

definition setExecuteBreakpoint :: "'w os \<Rightarrow> u64 \<Rightarrow> u32 \<Rightarrow> breakpoint_info \<Rightarrow> 'w titan \<Rightarrow> bool \<times> 'w titan" where
  "setExecuteBreakpoint os bpxAddress reg info s =
     (let process = sessionProcessHandle s;
          (ident, s) = nextNativeId s;
          info = info\<lparr>bp_nativePatch := True, bp_patchSize := 1, bp_patchBytes := [0xCC, bp_patchBytes info ! 1], bp_id := ident\<rparr>
      in if process = 0 then (False, s)
         else (let ((ok, info), s) = captureOriginalBytes os process info s
               in if \<not> ok then (False, s)
                  else (let (written, s) = writeNativeBreakpointBytes os info True s
                        in if \<not> written then (False, s)
                           else (True, (insertBreakpointInfo info s)
                             \<lparr>gHardwareBreakpointIds := omap_emplace reg ident (gHardwareBreakpointIds s)\<rparr>))))"

text \<open>The chain of \<open>SUCCEEDED(hr)\<close> calls that configures a DbgEng breakpoint object.\<close>

definition configureBreakpoint ::
  "'w os \<Rightarrow> u32 \<Rightarrow> u64 \<Rightarrow> u32 \<Rightarrow> u32 \<Rightarrow> 'w titan \<Rightarrow> (u32 \<times> u64 \<times> u32) \<times> 'w titan" where
  "configureBreakpoint os type address dataSize access s =
     (let ((hr, object), s) = oscall (dAddBreakpoint2 (dbg os) type) s;
          (hr, s) = (if FAILED hr then (hr, s) else oscall (dBpSetOffset (dbg os) object address) s);
          (hr, s) = (if FAILED hr \<or> type \<noteq> DEBUG_BREAKPOINT_DATA then (hr, s)
                     else oscall (dBpSetDataParameters (dbg os) object dataSize access) s);
          (hr, s) = (if FAILED hr then (hr, s) else oscall (dBpSetFlags (dbg os) object DEBUG_BREAKPOINT_ENABLED) s);
          ((hr, ident), s) = (if FAILED hr then ((hr, 0), s) else oscall (dBpGetId (dbg os) object) s)
      in ((hr, object, ident), s))"

definition SetHardwareBreakPoint ::
  "'w os \<Rightarrow> u64 \<Rightarrow> u32 \<Rightarrow> u32 \<Rightarrow> u32 \<Rightarrow> callback \<Rightarrow> 'w titan \<Rightarrow> bool \<times> 'w titan" where
  "SetHardwareBreakPoint os bpxAddress indexOfRegister bpxType bpxSize bpxCallBack s =
     (if bpxAddress = 0 \<or> bpxCallBack = 0 then (False, SetLastError ERROR_INVALID_PARAMETER s)
      else if \<not> PauseLock s then (False, SetLastError (busyError s) s)
      else (let reg = (if indexOfRegister = 0 then (case freeHardwareRegister s of Some r \<Rightarrow> r | None \<Rightarrow> 0) else indexOfRegister)
        in if \<not> isHardwareRegister reg then (False, SetLastError ERROR_INVALID_PARAMETER s)
           else if omap_contains (gHardwareBreakpointIds s) reg then (False, SetLastError ERROR_ALREADY_EXISTS s)
           else (case Option.bind (hardwareDataSize bpxSize) (hardwareAccess bpxType) of
               None \<Rightarrow> (False, SetLastError ERROR_INVALID_PARAMETER s)
             | Some (access, dataSize) \<Rightarrow>
                 if bpxAddress AND ucast (dataSize - 1) \<noteq> 0 then (False, SetLastError ERROR_MAPPED_ALIGNMENT s)
                 else (let type = (if bpxType = UE_HARDWARE_EXECUTE then DEBUG_BREAKPOINT_CODE else DEBUG_BREAKPOINT_DATA);
                           info = default_breakpoint\<lparr>bp_kind := Hardware, bp_type := type, bp_offset := bpxAddress,
                             bp_hardwareCallback := bpxCallBack, bp_hardwareRegister := reg\<rparr>
                   in if bpxType = UE_HARDWARE_EXECUTE then setExecuteBreakpoint os bpxAddress reg info s
                      else (let ((hr, object, ident), s) = configureBreakpoint os type bpxAddress dataSize access s
                        in if FAILED hr
                           then (let s = (if object \<noteq> 0 then snd (oscall (dRemoveBreakpoint2 (dbg os) object) s) else s)
                                 in (False, SetLastError (if HRESULT_CODE hr \<noteq> 0 then HRESULT_CODE hr else ERROR_GEN_FAILURE) s))
                           else (True, (insertBreakpointInfo (info\<lparr>bp_object := object, bp_id := ident\<rparr>) s)
                                  \<lparr>gHardwareBreakpointIds := omap_emplace reg ident (gHardwareBreakpointIds s)\<rparr>))))))"

definition eraseSlot :: "u32 \<Rightarrow> 'w titan \<Rightarrow> 'w titan" where
  "eraseSlot reg s = s\<lparr>gHardwareBreakpointIds := omap_erase reg (gHardwareBreakpointIds s)\<rparr>"

definition DeleteHardwareBreakPoint :: "'w os \<Rightarrow> u32 \<Rightarrow> 'w titan \<Rightarrow> bool \<times> 'w titan" where
  "DeleteHardwareBreakPoint os reg s =
     (if \<not> isHardwareRegister reg then (False, SetLastError ERROR_INVALID_PARAMETER s)
      else if \<not> PauseLock s then (False, SetLastError (busyError s) s)
      else (case map_of (gHardwareBreakpointIds s) reg of
          None \<Rightarrow> (False, SetLastError ERROR_NOT_FOUND s)
        | Some ident \<Rightarrow> (case map_of (gBreakpoints s) ident of
              None \<Rightarrow> (False, SetLastError ERROR_INVALID_DATA (eraseSlot reg s))
            | Some info \<Rightarrow>
                (let (hr, s) = (if bp_nativePatch info
                       then (let (ok, s) = writeNativeBreakpointBytes os info False s
                             in if \<not> ok then (HRESULT_FROM_WIN32 (lastError s), s) else (S_OK, retireAddress (bp_offset info) s))
                       else oscall (dRemoveBreakpoint2 (dbg os) (bp_object info)) s)
                 in if FAILED hr
                    then (False, SetLastError (if HRESULT_CODE hr \<noteq> 0 then HRESULT_CODE hr else ERROR_GEN_FAILURE) s)
                    else (True, eraseSlot reg (eraseBreakpointInfo ident s))))))"

section \<open>Removing all of them\<close>

fun restoreAllPatches :: "'w os \<Rightarrow> (u32 \<times> breakpoint_info) list \<Rightarrow> 'w titan \<Rightarrow> bool \<times> 'w titan" where
  "restoreAllPatches os [] s = (True, s)"
| "restoreAllPatches os ((ident, info) # rest) s =
     (let (ok, s) = (if bp_nativePatch info then writeNativeBreakpointBytes os info False s
                     else (let (hr, s) = oscall (dRemoveBreakpoint2 (dbg os) (bp_object info)) s in (\<not> FAILED hr, s)))
      in if ok then restoreAllPatches os rest s else (False, s))"

text \<open>None is the endless loop of \<open>removeAllMemoryBreakpoints\<close>.\<close>

definition RemoveAllBreakPoints :: "'w os \<Rightarrow> 'w titan \<Rightarrow> (bool \<times> 'w titan) option" where
  "RemoveAllBreakPoints os s =
     (if \<not> PauseLock s then
        (if \<not> gIsDebugging s
         then Some (True, s\<lparr>gBreakpoints := [], gHardwareBreakpointIds := [], gMemoryBreakpoints := [],
                gMemoryBreakpointPages := [], gRetiredBreakpointAddresses := []\<rparr>)
         else Some (False, s))
      else Option.bind (removeAllMemoryBreakpoints os True s) (\<lambda>(removed, s).
        if \<not> removed then Some (False, s)
        else (let (ok, s) = restoreAllPatches os (gBreakpoints s) s
              in if \<not> ok then Some (False, s)
                 else Some (True, s\<lparr>gBreakpoints := [], gHardwareBreakpointIds := [], gRetiredBreakpointAddresses := []\<rparr>))))"

section \<open>The debuggee's memory\<close>

text \<open>
  What the adapter relies on: reading returns the bytes of the debuggee and changes nothing;
  writing changes exactly the bytes written when it succeeds, and nothing when it fails.
\<close>

definition peek :: "(u64 \<Rightarrow> byte) \<Rightarrow> u64 \<Rightarrow> nat \<Rightarrow> byte list" where
  "peek m address n = map (\<lambda>i. m (address + of_nat i)) [0..<n]"

definition poke :: "(u64 \<Rightarrow> byte) \<Rightarrow> u64 \<Rightarrow> byte list \<Rightarrow> u64 \<Rightarrow> byte" where
  "poke m address bytes x = (if unat (x - address) < length bytes then bytes ! unat (x - address) else m x)"

definition process_memory :: "'w os \<Rightarrow> ('w \<Rightarrow> u64 \<Rightarrow> byte) \<Rightarrow> bool" where
  "process_memory os mem \<longleftrightarrow>
     (\<forall>h a n w ok bytes e w'. wReadProcessMemory (win os) h a n w = ((ok, bytes), e, w') \<longrightarrow>
        mem w' = mem w \<and> length bytes \<le> unat n \<and> bytes = peek (mem w) a (length bytes)) \<and>
     (\<forall>h a bytes w ok n e w'. wWriteProcessMemory (win os) h a bytes w = ((ok, n), e, w') \<longrightarrow>
        mem w' = (if ok \<and> n = of_nat (length bytes) then poke (mem w) a bytes else mem w)) \<and>
     (\<forall>h a n w ok e w'. wFlushInstructionCache (win os) h a n w = (ok, e, w') \<longrightarrow> mem w' = mem w)"

lemma process_memory_read:
  assumes "process_memory os mem" and "wReadProcessMemory (win os) h a n w = ((ok, bytes), e, w')"
  shows "mem w' = mem w \<and> length bytes \<le> unat n \<and> bytes = peek (mem w) a (length bytes)"
  by (rule assms(1) [unfolded process_memory_def, THEN conjunct1, rule_format, OF assms(2)])

lemma process_memory_write:
  assumes "process_memory os mem" and "wWriteProcessMemory (win os) h a bytes w = ((ok, n), e, w')"
  shows "mem w' = (if ok \<and> n = of_nat (length bytes) then poke (mem w) a bytes else mem w)"
  by (rule assms(1) [unfolded process_memory_def, THEN conjunct2, THEN conjunct1, rule_format, OF assms(2)])

lemma process_memory_flush:
  assumes "process_memory os mem" and "wFlushInstructionCache (win os) h a n w = (ok, e, w')"
  shows "mem w' = mem w"
  by (rule assms(1) [unfolded process_memory_def, THEN conjunct2, THEN conjunct2, rule_format, OF assms(2)])

lemma world_error_self [simp]: "\<exists>w e. s = s\<lparr>world := w, lastError := e\<rparr>"
  by (rule exI [of _ "world s"], rule exI [of _ "lastError s"]) simp

lemma length_peek [simp]: "length (peek m a n) = n"
  by (simp add: peek_def)

lemma poke_peek:
  assumes "length bytes = n"
  shows "poke (poke m a bytes) a (peek m a n) = m"
proof
  fix x
  have "a + of_nat (unat (x - a)) = x" by simp
  then show "poke (poke m a bytes) a (peek m a n) x = m x"
    using assms by (simp add: poke_def peek_def)
qed

lemma peek_poke: "length bytes \<le> 2 ^ 64 \<Longrightarrow> peek (poke m a bytes) a (length bytes) = bytes"
  by (rule nth_equalityI) (simp_all add: peek_def poke_def unsigned_of_nat take_bit_nat_eq_self)

lemma write_effect:
  assumes pm: "process_memory os mem" and run: "writeNativeBreakpointBytes os info install s = (ok, s')"
    and len: "length (bp_patchBytes info) = 2" "length (bp_originalBytes info) = 2" "bp_patchSize info \<le> 2"
  shows "ok \<Longrightarrow> mem (world s') = poke (mem (world s)) (bp_offset info)
      (take (bp_patchSize info) (if install then bp_patchBytes info else bp_originalBytes info))"
    and "\<exists>w e. s' = s\<lparr>world := w, lastError := e\<rparr>"
proof -
  let ?bytes = "take (bp_patchSize info) (if install then bp_patchBytes info else bp_originalBytes info)"
  let ?h = "sessionProcessHandle s"
  obtain ok1 n e1 w1 where wr: "wWriteProcessMemory (win os) ?h (bp_offset info) ?bytes (world s) = ((ok1, n), e1, w1)"
    by (metis prod.collapse)
  obtain ok2 e2 w2 where fl: "wFlushInstructionCache (win os) ?h (bp_offset info) (bp_patchSize info) w1 = (ok2, e2, w2)"
    by (metis prod.collapse)
  note mem = process_memory_write [OF pm wr] process_memory_flush [OF pm fl]
  have bytes: "length ?bytes = bp_patchSize info" using len by simp
  show "ok \<Longrightarrow> mem (world s') = poke (mem (world s)) (bp_offset info) ?bytes"
    using run wr fl mem bytes by (auto simp: writeNativeBreakpointBytes_def Let_def oscall_def split: if_splits)
  show "\<exists>w e. s' = s\<lparr>world := w, lastError := e\<rparr>"
    using run wr fl by (auto simp: writeNativeBreakpointBytes_def Let_def oscall_def split: if_splits)
qed

definition patch_shape :: "breakpoint_info \<Rightarrow> bool" where
  "patch_shape info \<longleftrightarrow> length (bp_patchBytes info) = 2 \<and> length (bp_originalBytes info) = 2 \<and> bp_patchSize info \<le> 2"

lemma capture_effect:
  assumes pm: "process_memory os mem" and sh: "patch_shape info"
    and run: "captureOriginalBytes os process info s = ((ok, info'), s')"
  shows "mem (world s') = mem (world s)" and "\<exists>w e. s' = s\<lparr>world := w, lastError := e\<rparr>"
    and "\<exists>bytes. length bytes = 2 \<and> info' = info\<lparr>bp_originalBytes := bytes\<rparr> \<and>
      (ok \<longrightarrow> take (bp_patchSize info) bytes = peek (mem (world s)) (bp_offset info) (bp_patchSize info))"
proof -
  let ?n = "of_nat (bp_patchSize info) :: u64"
  obtain ok1 bytes e w where rd: "wReadProcessMemory (win os) process (bp_offset info) ?n (world s) = ((ok1, bytes), e, w)"
    by (metis prod.collapse)
  note R = process_memory_read [OF pm rd]
  have "unat ?n = bp_patchSize info" using sh by (simp add: patch_shape_def unsigned_of_nat take_bit_nat_eq_self)
  with R sh have len: "length bytes \<le> 2" by (simp add: patch_shape_def)
  show "mem (world s') = mem (world s)" "\<exists>w e. s' = s\<lparr>world := w, lastError := e\<rparr>"
    using run rd R by (auto simp: captureOriginalBytes_def oscall_def split: option.split)
  show "\<exists>bytes. length bytes = 2 \<and> info' = info\<lparr>bp_originalBytes := bytes\<rparr> \<and>
      (ok \<longrightarrow> take (bp_patchSize info) bytes = peek (mem (world s)) (bp_offset info) (bp_patchSize info))"
  proof (intro exI [of _ "bytes @ drop (length bytes) (bp_originalBytes info)"] conjI)
    show "length (bytes @ drop (length bytes) (bp_originalBytes info)) = 2" using len sh by (simp add: patch_shape_def)
    show "info' = info\<lparr>bp_originalBytes := bytes @ drop (length bytes) (bp_originalBytes info)\<rparr>"
      using run rd by (simp add: captureOriginalBytes_def oscall_def)
    have "bytes = peek (mem (world s)) (bp_offset info) (length bytes)" using R by blast
    moreover have "ok \<longrightarrow> length bytes = bp_patchSize info" using run rd by (auto simp: captureOriginalBytes_def oscall_def)
    ultimately show "ok \<longrightarrow> take (bp_patchSize info) (bytes @ drop (length bytes) (bp_originalBytes info)) =
        peek (mem (world s)) (bp_offset info) (bp_patchSize info)"
      by (metis append_take_drop_id append_eq_conv_conj take_all_iff order_refl)
  qed
qed

lemma installNative_effect:
  assumes pm: "process_memory os mem" and sh: "patch_shape info"
    and run: "installNative os info s = (Some info', s')"
  shows "patch_shape info' \<and> bp_offset info' = bp_offset info \<and> bp_kind info' = bp_kind info \<and>
      bp_id info' = gNextNativeBreakpointId s \<and> bp_nativePatch info' \<and>
      bp_patchSize info' = max 1 (bp_patchSize info) \<and>
      bp_patchBytes info' = (if bp_patchSize info = 0 then [0xCC, bp_patchBytes info ! 1] else bp_patchBytes info) \<and>
      take (bp_patchSize info') (bp_originalBytes info') = peek (mem (world s)) (bp_offset info) (bp_patchSize info') \<and>
      mem (world s') = poke (mem (world s)) (bp_offset info) (take (bp_patchSize info') (bp_patchBytes info'))"
    and "\<exists>w e. s' = s\<lparr>world := w, lastError := e, gNextNativeBreakpointId := gNextNativeBreakpointId s + 1\<rparr>"
proof -
  let ?i = "if bp_patchSize info = 0 then info\<lparr>bp_patchSize := 1, bp_patchBytes := [0xCC, bp_patchBytes info ! 1]\<rparr> else info"
  let ?h = "sessionProcessHandle s"
  have shi: "patch_shape ?i" using sh by (simp add: patch_shape_def)
  obtain ok1 i1 s1 where c: "captureOriginalBytes os ?h ?i s = ((ok1, i1), s1)" by (metis prod.collapse)
  note C = capture_effect [OF pm shi c]
  have ok1: ok1 using run c by (auto simp: installNative_def Let_def split: if_splits)
  from C(3) ok1 obtain bytes where b: "length bytes = 2" "i1 = ?i\<lparr>bp_originalBytes := bytes\<rparr>"
    "take (bp_patchSize ?i) bytes = peek (mem (world s)) (bp_offset ?i) (bp_patchSize ?i)" by blast
  from C(2) obtain w1 e1 where s1: "s1 = s\<lparr>world := w1, lastError := e1\<rparr>" by blast
  let ?j = "i1\<lparr>bp_nativePatch := True, bp_id := gNextNativeBreakpointId s\<rparr>"
  let ?t = "s1\<lparr>gNextNativeBreakpointId := gNextNativeBreakpointId s + 1\<rparr>"
  obtain ok2 s2 where w: "writeNativeBreakpointBytes os ?j True ?t = (ok2, s2)" by (metis prod.collapse)
  have ok2: ok2 and info': "info' = ?j" and s': "s' = s2"
    using run c ok1 s1 w by (auto simp: installNative_def Let_def nextNativeId_def split: if_splits)
  have shj: "length (bp_patchBytes ?j) = 2" "length (bp_originalBytes ?j) = 2" "bp_patchSize ?j \<le> 2"
    using shi b by (simp_all add: patch_shape_def)
  note W = write_effect [OF pm w shj]
  have "bp_patchSize ?i = max 1 (bp_patchSize info)" by simp
  then show "patch_shape info' \<and> bp_offset info' = bp_offset info \<and> bp_kind info' = bp_kind info \<and>
      bp_id info' = gNextNativeBreakpointId s \<and> bp_nativePatch info' \<and>
      bp_patchSize info' = max 1 (bp_patchSize info) \<and>
      bp_patchBytes info' = (if bp_patchSize info = 0 then [0xCC, bp_patchBytes info ! 1] else bp_patchBytes info) \<and>
      take (bp_patchSize info') (bp_originalBytes info') = peek (mem (world s)) (bp_offset info) (bp_patchSize info') \<and>
      mem (world s') = poke (mem (world s)) (bp_offset info) (take (bp_patchSize info') (bp_patchBytes info'))"
    using W(1) [OF ok2] C(1) b shj by (simp add: info' s' patch_shape_def)
  from W(2) obtain w e where "s2 = ?t\<lparr>world := w, lastError := e\<rparr>" by blast
  then have "s' = s\<lparr>world := w, lastError := e, gNextNativeBreakpointId := gNextNativeBreakpointId s + 1\<rparr>"
    using s1 s' by simp
  then show "\<exists>w e. s' = s\<lparr>world := w, lastError := e, gNextNativeBreakpointId := gNextNativeBreakpointId s + 1\<rparr>"
    by blast
qed

lemma find_omap_insert:
  assumes "\<not> list_ex P m" and "P (k, v)"
  shows "find P (omap_insert k v m) = Some (k, v)"
  using assms by (induction k v m rule: omap_insert.induct) auto

section \<open>Setting and deleting a software breakpoint\<close>

text \<open>The bytes of each type of software breakpoint.\<close>

definition patchOf :: "u32 \<Rightarrow> byte list" where
  "patchOf selected = (if selected = UE_BREAKPOINT_LONG_INT3 then [0xCD, 0x03]
     else if selected = UE_BREAKPOINT_UD2 then [0x0F, 0x0B] else [0xCC])"

lemma softwarePatch_fields [simp]:
  "patch_shape (softwarePatch selected a cb one)"
  "bp_offset (softwarePatch selected a cb one) = a"
  "bp_kind (softwarePatch selected a cb one) = Software"
  by (simp_all add: softwarePatch_def patch_shape_def default_breakpoint_def Let_def)

lemma write_frame: "\<exists>w e. snd (writeNativeBreakpointBytes os info install s) = s\<lparr>world := w, lastError := e\<rparr>"
  unfolding writeNativeBreakpointBytes_def Let_def case_prod_unfold oscall_def by (simp split: if_splits) blast

lemma softwarePatch_bytes:
  "take (max 1 (bp_patchSize (softwarePatch selected a cb one)))
     (if bp_patchSize (softwarePatch selected a cb one) = 0 then [0xCC, x] else bp_patchBytes (softwarePatch selected a cb one)) =
   patchOf selected"
  "max 1 (bp_patchSize (softwarePatch selected a cb one)) = length (patchOf selected)"
  by (simp_all add: softwarePatch_def patchOf_def default_breakpoint_def Let_def)

lemma SetBPX_effect:
  assumes pm: "process_memory os mem" and live: "gSessionKind s \<noteq> UE_SESSION_TTD"
    and run: "SetBPX os a type cb s = (True, s1)"
  shows "\<exists>info selected w e. selectedType (gDefaultBreakpointType s) type = Some selected \<and>
    \<not> list_ex (softwareAt a) (gBreakpoints s) \<and>
    patch_shape info \<and> bp_offset info = a \<and> bp_kind info = Software \<and> bp_nativePatch info \<and>
    bp_id info = gNextNativeBreakpointId s \<and> bp_patchSize info = length (patchOf selected) \<and>
    take (bp_patchSize info) (bp_originalBytes info) = peek (mem (world s)) a (bp_patchSize info) \<and>
    mem w = poke (mem (world s)) a (patchOf selected) \<and>
    s1 = s\<lparr>world := w, lastError := e, gNextNativeBreakpointId := gNextNativeBreakpointId s + 1,
           gRetiredBreakpointAddresses := oset_erase a (gRetiredBreakpointAddresses s),
           gBreakpoints := omap_insert (gNextNativeBreakpointId s) info (gBreakpoints s)\<rparr>"
proof -
  from run live have none: "\<not> list_ex (softwareAt a) (gBreakpoints s)"
    by (auto simp: SetBPX_def split: if_splits)
  from run live none obtain selected where sel: "selectedType (gDefaultBreakpointType s) type = Some selected"
    by (auto simp: SetBPX_def split: if_splits option.splits)
  let ?i = "softwarePatch selected a cb (type AND UE_SINGLESHOOT \<noteq> 0)"
  obtain r t where inst: "installNative os ?i s = (r, t)" by (metis prod.collapse)
  from run live none sel inst obtain info where r: "r = Some info"
    by (auto simp: SetBPX_def split: if_splits option.splits)
  have s1: "s1 = insertBreakpointInfo info (t\<lparr>gRetiredBreakpointAddresses := oset_erase a (gRetiredBreakpointAddresses t)\<rparr>)"
    using run live none sel inst r by (simp add: SetBPX_def split: if_splits)
  note I = installNative_effect [OF pm softwarePatch_fields(1) inst [unfolded r]]
  from I(2) obtain w e where t: "t = s\<lparr>world := w, lastError := e, gNextNativeBreakpointId := gNextNativeBreakpointId s + 1\<rparr>"
    by blast
  have eq: "s1 = s\<lparr>world := w, lastError := e, gNextNativeBreakpointId := gNextNativeBreakpointId s + 1,
           gRetiredBreakpointAddresses := oset_erase a (gRetiredBreakpointAddresses s),
           gBreakpoints := omap_insert (gNextNativeBreakpointId s) info (gBreakpoints s)\<rparr>"
    using I(1) by (simp add: s1 t insertBreakpointInfo_def)
  have sz: "bp_patchSize info = max 1 (bp_patchSize ?i)"
    and pb: "bp_patchBytes info = (if bp_patchSize ?i = 0 then [0xCC, bp_patchBytes ?i ! 1] else bp_patchBytes ?i)"
    and mw: "mem w = poke (mem (world s)) a (take (bp_patchSize info) (bp_patchBytes info))"
    using I(1) by (simp_all add: t)
  have "mem w = poke (mem (world s)) a (patchOf selected)"
    unfolding mw pb sz by (simp only: softwarePatch_bytes(1))
  moreover have "bp_patchSize info = length (patchOf selected)"
    unfolding sz by (rule softwarePatch_bytes(2))
  moreover have "patch_shape info" "bp_offset info = a" "bp_kind info = Software" "bp_nativePatch info"
    "bp_id info = gNextNativeBreakpointId s"
    using I(1) by simp_all
  moreover have "take (bp_patchSize info) (bp_originalBytes info) = peek (mem (world s)) (bp_offset ?i) (bp_patchSize info)"
    using I(1) by blast
  then have "take (bp_patchSize info) (bp_originalBytes info) = peek (mem (world s)) a (bp_patchSize info)"
    unfolding softwarePatch_fields .
  ultimately show ?thesis using sel none eq by blast
qed

lemma softwareAt_iff: "softwareAt a (i, info) \<longleftrightarrow> bp_kind info = Software \<and> bp_offset info = a"
  by (simp add: softwareAt_def)

lemma DeleteBPX_effect:
  assumes pm: "process_memory os mem" and live: "gSessionKind s \<noteq> UE_SESSION_TTD"
    and found: "find (softwareAt a) (gBreakpoints s) = Some (i, info)"
    and native: "bp_nativePatch info" and shape: "patch_shape info" and at: "bp_offset info = a"
    and run: "DeleteBPX os a s = (ok, s1)"
  shows "ok \<Longrightarrow> mem (world s1) = poke (mem (world s)) a (take (bp_patchSize info) (bp_originalBytes info))"
    and "\<exists>w e. s1 = (if ok then eraseBreakpointInfo i (retireAddress a s) else s)\<lparr>world := w, lastError := e\<rparr>"
proof -
  obtain ok' t where w: "writeNativeBreakpointBytes os info False s = (ok', t)" by (metis prod.collapse)
  note W = write_effect [OF pm w] 
  have sh: "length (bp_patchBytes info) = 2" "length (bp_originalBytes info) = 2" "bp_patchSize info \<le> 2"
    using shape by (simp_all add: patch_shape_def)
  have R: "ok = ok'" "s1 = (if ok' then eraseBreakpointInfo i (retireAddress a t) else t)"
    using run live found native w by (auto simp: DeleteBPX_def split: if_splits)
  show "ok \<Longrightarrow> mem (world s1) = poke (mem (world s)) a (take (bp_patchSize info) (bp_originalBytes info))"
    using W(1) [OF sh] R at by (simp add: eraseBreakpointInfo_def retireAddress_def)
  from W(2) [OF sh] obtain v e where "t = s\<lparr>world := v, lastError := e\<rparr>" by blast
  then have "s1 = (if ok then eraseBreakpointInfo i (retireAddress a s) else s)\<lparr>world := v, lastError := e\<rparr>"
    using R by (simp add: eraseBreakpointInfo_def retireAddress_def)
  then show "\<exists>w e. s1 = (if ok then eraseBreakpointInfo i (retireAddress a s) else s)\<lparr>world := w, lastError := e\<rparr>"
    by blast
qed

text \<open>
  C1. Setting a software breakpoint in a live session writes the bytes of the selected type over the
  code and nothing else, and records one enabled breakpoint there. Deleting it either fails
  and forgets nothing, or gives back the memory as it was, byte for byte, removes the
  record, and leaves every other breakpoint alone.
\<close>

theorem SetBPX_DeleteBPX:
  assumes "process_memory os mem" and "gSessionKind s \<noteq> UE_SESSION_TTD"
    and "map_of (gBreakpoints s) (gNextNativeBreakpointId s) = None"
    and "SetBPX os a type cb s = (True, s1)" and "DeleteBPX os a s1 = (ok, s2)"
  shows "(\<exists>selected. selectedType (gDefaultBreakpointType s) type = Some selected \<and>
      mem (world s1) = poke (mem (world s)) a (patchOf selected)) \<and>
    (PauseLock s \<longrightarrow> \<not> IsBPXEnabled a s \<and> IsBPXEnabled a s1) \<and>
    (if ok then mem (world s2) = mem (world s) \<and> map_of (gBreakpoints s2) = map_of (gBreakpoints s) \<and>
        a \<in> set (gRetiredBreakpointAddresses s2)
     else gBreakpoints s2 = gBreakpoints s1)"
proof -
  obtain info selected w e where sel: "selectedType (gDefaultBreakpointType s) type = Some selected"
    and none: "\<not> list_ex (softwareAt a) (gBreakpoints s)"
    and info: "patch_shape info" "bp_offset info = a" "bp_kind info = Software" "bp_nativePatch info"
      "bp_patchSize info = length (patchOf selected)"
      "take (bp_patchSize info) (bp_originalBytes info) = peek (mem (world s)) a (bp_patchSize info)"
    and m: "mem w = poke (mem (world s)) a (patchOf selected)"
    and s1: "s1 = s\<lparr>world := w, lastError := e, gNextNativeBreakpointId := gNextNativeBreakpointId s + 1,
           gRetiredBreakpointAddresses := oset_erase a (gRetiredBreakpointAddresses s),
           gBreakpoints := omap_insert (gNextNativeBreakpointId s) info (gBreakpoints s)\<rparr>"
    using SetBPX_effect [OF assms(1,2,4)] by blast
  let ?id = "gNextNativeBreakpointId s"
  have at: "softwareAt a (?id, info)" using info by (simp add: softwareAt_iff)
  have found: "find (softwareAt a) (gBreakpoints s1) = Some (?id, info)"
    using find_omap_insert [of "softwareAt a", OF none at] by (simp add: s1)
  have "gSessionKind s1 \<noteq> UE_SESSION_TTD" using assms(2) by (simp add: s1)
  note D = DeleteBPX_effect [OF assms(1) this found info(4) info(1) info(2) assms(5)]
  have enabled: "PauseLock s \<longrightarrow> \<not> IsBPXEnabled a s \<and> IsBPXEnabled a s1"
    using none found by (auto simp: IsBPXEnabled_def PauseLock_def s1 find_Some_iff list_ex_iff)
  from D(2) obtain v f where s2: "s2 = (if ok then eraseBreakpointInfo ?id (retireAddress a s1) else s1)\<lparr>world := v, lastError := f\<rparr>"
    by blast
  have "mem (world s2) = mem (world s)" if ok
    using D(1) [OF that] info poke_peek [of "patchOf selected" _ "mem (world s)" a] by (simp add: s1 m)
  then show ?thesis
    using sel m enabled assms(3) by (auto simp: s2 s1 eraseBreakpointInfo_def retireAddress_def fun_upd_idem)
qed

section \<open>The hardware slots\<close>

text \<open>
  The slot table and the breakpoint table describe each other: a register is taken by a
  breakpoint exactly when the breakpoint is a hardware breakpoint recorded for that register,
  and only DR0 to DR3 are ever taken.
\<close>

definition slots_ok :: "'w titan \<Rightarrow> bool" where
  "slots_ok s \<longleftrightarrow> omap_ok (gHardwareBreakpointIds s) \<and> omap_ok (gBreakpoints s) \<and>
     (\<forall>reg i. map_of (gHardwareBreakpointIds s) reg = Some i \<longleftrightarrow>
        (\<exists>info. map_of (gBreakpoints s) i = Some info \<and> bp_kind info = Hardware \<and> bp_hardwareRegister info = reg)) \<and>
     (\<forall>reg. omap_contains (gHardwareBreakpointIds s) reg \<longrightarrow> isHardwareRegister reg)"

text \<open>The id DbgEng gives a new breakpoint object, and the adapter's next own id, are not in use.\<close>

definition fresh_ids :: "'w os \<Rightarrow> 'w titan \<Rightarrow> bool" where
  "fresh_ids os s \<longleftrightarrow> map_of (gBreakpoints s) (gNextNativeBreakpointId s) = None \<and>
     (\<forall>object w hr i e w'. dBpGetId (dbg os) object w = ((hr, i), e, w') \<longrightarrow> \<not> FAILED hr \<longrightarrow>
        map_of (gBreakpoints s) i = None)"

lemma slots_ok_cong:
  "gHardwareBreakpointIds t = gHardwareBreakpointIds s \<Longrightarrow> gBreakpoints t = gBreakpoints s \<Longrightarrow> slots_ok t = slots_ok s"
  by (simp add: slots_ok_def)

lemma slots_okD:
  assumes "slots_ok s"
  shows "map_of (gHardwareBreakpointIds s) reg = Some i \<longleftrightarrow>
     (\<exists>info. map_of (gBreakpoints s) i = Some info \<and> bp_kind info = Hardware \<and> bp_hardwareRegister info = reg)"
    and "omap_contains (gHardwareBreakpointIds s) reg \<Longrightarrow> isHardwareRegister reg"
  using assms by (simp_all add: slots_ok_def)

lemma slots_ok_software:
  assumes "slots_ok s" and "map_of (gBreakpoints s) i = None" and "bp_kind info = Software"
    and "gBreakpoints t = omap_insert i info (gBreakpoints s)" and "gHardwareBreakpointIds t = gHardwareBreakpointIds s"
  shows "slots_ok t"
  using assms unfolding slots_ok_def by (auto simp: omap_contains_def)

lemma slots_ok_erase_software:
  assumes "slots_ok s" and "map_of (gBreakpoints s) i = Some info" and "bp_kind info = Software"
    and "gBreakpoints t = omap_erase i (gBreakpoints s)" and "gHardwareBreakpointIds t = gHardwareBreakpointIds s"
  shows "slots_ok t"
proof -
  have "map_of (gHardwareBreakpointIds s) reg \<noteq> Some i" for reg using assms(1-3) by (auto simp: slots_ok_def)
  then show ?thesis using assms unfolding slots_ok_def by (auto simp: omap_contains_def)
qed

lemma slots_ok_hardware:
  assumes "slots_ok s" and "map_of (gBreakpoints s) i = None" and "map_of (gHardwareBreakpointIds s) reg = None"
    and "bp_kind info = Hardware" and "bp_hardwareRegister info = reg" and "isHardwareRegister reg"
    and "gBreakpoints t = omap_insert i info (gBreakpoints s)"
    and "gHardwareBreakpointIds t = omap_insert reg i (gHardwareBreakpointIds s)"
  shows "slots_ok t"
proof -
  have "\<not> (\<exists>x. map_of (gBreakpoints s) j = Some x \<and> bp_kind x = Hardware \<and> bp_hardwareRegister x = reg)" for j
    using slots_okD(1) [OF assms(1)] assms(3) by (metis option.distinct(1))
  moreover have "map_of (gHardwareBreakpointIds s) r \<noteq> Some i" for r using assms(1,2) by (auto simp: slots_ok_def)
  ultimately show ?thesis using assms unfolding slots_ok_def by (auto simp: omap_contains_def)
qed

lemma slots_ok_erase_hardware:
  assumes "slots_ok s" and "map_of (gHardwareBreakpointIds s) reg = Some i"
    and "gBreakpoints t = omap_erase i (gBreakpoints s)"
    and "gHardwareBreakpointIds t = omap_erase reg (gHardwareBreakpointIds s)"
  shows "slots_ok t"
proof -
  note D = slots_okD [OF assms(1)]
  have "(map_of (gHardwareBreakpointIds t) r = Some j) = (\<exists>info. map_of (gBreakpoints t) j = Some info \<and>
      bp_kind info = Hardware \<and> bp_hardwareRegister info = r)" for r j
  proof -
    have "r = reg \<Longrightarrow> j \<noteq> i \<Longrightarrow> \<not> (\<exists>info. map_of (gBreakpoints s) j = Some info \<and>
      bp_kind info = Hardware \<and> bp_hardwareRegister info = r)" using D(1) [of reg j] assms(2) by auto
    moreover have "r \<noteq> reg \<Longrightarrow> map_of (gHardwareBreakpointIds s) r \<noteq> Some i" using D(1) [of r i] D(1) [of reg i] assms(2) by auto
    ultimately show ?thesis using D(1) [of r j] assms(3,4) by (cases "r = reg"; cases "j = i") auto
  qed
  then show ?thesis using D(2) assms by (auto simp: slots_ok_def)
qed

lemma freeHardwareRegister_spec:
  "freeHardwareRegister s = Some reg \<Longrightarrow> isHardwareRegister reg \<and> \<not> omap_contains (gHardwareBreakpointIds s) reg"
  "freeHardwareRegister s = None \<longleftrightarrow> (\<forall>reg. isHardwareRegister reg \<longrightarrow> omap_contains (gHardwareBreakpointIds s) reg)"
proof -
  show "freeHardwareRegister s = Some reg \<Longrightarrow> isHardwareRegister reg \<and> \<not> omap_contains (gHardwareBreakpointIds s) reg"
    using nth_mem by (fastforce simp: freeHardwareRegister_def isHardwareRegister_def find_Some_iff list_ex_iff)
  show "freeHardwareRegister s = None \<longleftrightarrow> (\<forall>reg. isHardwareRegister reg \<longrightarrow> omap_contains (gHardwareBreakpointIds s) reg)"
    by (auto simp: freeHardwareRegister_def isHardwareRegister_def find_None_iff list_ex_iff)
qed

lemma configureBreakpoint_effect:
  assumes "configureBreakpoint os type a dataSize access s = ((hr, object, ident), t)"
  shows "\<exists>w e. t = s\<lparr>world := w, lastError := e\<rparr>"
    and "\<not> FAILED hr \<Longrightarrow> \<exists>w e w'. dBpGetId (dbg os) object w = ((hr, ident), e, w')"
proof -
  obtain h1 o1 s1 where 1: "oscall (dAddBreakpoint2 (dbg os) type) s = ((h1, o1), s1)" by (metis prod.collapse)
  obtain h2 s2 where 2: "(if FAILED h1 then (h1, s1) else oscall (dBpSetOffset (dbg os) o1 a) s1) = (h2, s2)"
    by (metis prod.collapse)
  obtain h3 s3 where 3: "(if FAILED h2 \<or> type \<noteq> DEBUG_BREAKPOINT_DATA then (h2, s2)
      else oscall (dBpSetDataParameters (dbg os) o1 dataSize access) s2) = (h3, s3)" by (metis prod.collapse)
  obtain h4 s4 where 4: "(if FAILED h3 then (h3, s3) else oscall (dBpSetFlags (dbg os) o1 DEBUG_BREAKPOINT_ENABLED) s3) = (h4, s4)"
    by (metis prod.collapse)
  obtain h5 i5 s5 where 5: "(if FAILED h4 then ((h4, 0), s4) else oscall (dBpGetId (dbg os) o1) s4) = ((h5, i5), s5)"
    by (metis prod.collapse)
  have R: "hr = h5" "object = o1" "ident = i5" "t = s5"
    using assms unfolding configureBreakpoint_def Let_def 1 prod.case 2 3 4 5 by auto
  have step: "(if c then (h, u) else oscall f u) = (h', u') \<Longrightarrow> \<exists>w e. u = s\<lparr>world := w, lastError := e\<rparr> \<Longrightarrow>
      \<exists>w e. u' = s\<lparr>world := w, lastError := e\<rparr>" for c h h' u u' and f :: "('a, 'b) call"
    by (auto simp: oscall_def split: if_splits prod.splits)
  have "\<exists>w e. s1 = s\<lparr>world := w, lastError := e\<rparr>" using oscall_state [OF 1] .
  from step [OF 5 step [OF 4 step [OF 3 step [OF 2 this]]]] R show "\<exists>w e. t = s\<lparr>world := w, lastError := e\<rparr>" by simp
  show "\<not> FAILED hr \<Longrightarrow> \<exists>w e w'. dBpGetId (dbg os) object w = ((hr, ident), e, w')"
    using 5 R by (cases "dBpGetId (dbg os) o1 (world s4)") (auto simp: oscall_def split: if_splits)
qed

text \<open>What an operation that sets a hardware breakpoint may have done to the state.\<close>

definition hardware_set :: "'w os \<Rightarrow> bool \<Rightarrow> 'w titan \<Rightarrow> 'w titan \<Rightarrow> bool" where
  "hardware_set os ok s t \<longleftrightarrow> (\<not> ok \<and> (\<exists>w e n. t = s\<lparr>world := w, lastError := e, gNextNativeBreakpointId := n\<rparr>)) \<or>
     (ok \<and> (\<exists>w e n reg i info. isHardwareRegister reg \<and> \<not> omap_contains (gHardwareBreakpointIds s) reg \<and>
       bp_kind info = Hardware \<and> bp_hardwareRegister info = reg \<and>
       (i = gNextNativeBreakpointId s \<or> (\<exists>object v hr f v'. dBpGetId (dbg os) object v = ((hr, i), f, v') \<and> \<not> FAILED hr)) \<and>
       t = s\<lparr>world := w, lastError := e, gNextNativeBreakpointId := n,
         gBreakpoints := omap_insert i info (gBreakpoints s),
         gHardwareBreakpointIds := omap_insert reg i (gHardwareBreakpointIds s)\<rparr>))"

lemma hardware_set_fails: "hardware_set os False s (s\<lparr>world := w, lastError := e, gNextNativeBreakpointId := n\<rparr>)"
  by (auto simp: hardware_set_def)

lemma hardware_set_False: "hardware_set os False s (s\<lparr>lastError := e\<rparr>)"
  using hardware_set_fails [where s = s and w = "world s" and e = e and n = "gNextNativeBreakpointId s"] by simp

lemma hardware_set_True:
  assumes "isHardwareRegister reg" and "\<not> omap_contains (gHardwareBreakpointIds s) reg"
    and "bp_kind info = Hardware" and "bp_hardwareRegister info = reg"
    and "i = gNextNativeBreakpointId s \<or> (\<exists>object v hr f v'. dBpGetId (dbg os) object v = ((hr, i), f, v') \<and> \<not> FAILED hr)"
    and "t = s\<lparr>world := w, lastError := e, gNextNativeBreakpointId := n,
         gBreakpoints := omap_insert i info (gBreakpoints s),
         gHardwareBreakpointIds := omap_insert reg i (gHardwareBreakpointIds s)\<rparr>"
  shows "hardware_set os True s t"
  unfolding hardware_set_def using assms by blast

lemma setExecuteBreakpoint_effect:
  assumes free: "isHardwareRegister reg" "\<not> omap_contains (gHardwareBreakpointIds s) reg"
    and info: "bp_kind info = Hardware" "bp_hardwareRegister info = reg"
    and run: "setExecuteBreakpoint os a reg info s = (ok, t)"
  shows "hardware_set os ok s t"
proof -
  let ?id = "gNextNativeBreakpointId s" and ?h = "sessionProcessHandle s"
  let ?i = "info\<lparr>bp_nativePatch := True, bp_patchSize := 1, bp_patchBytes := [0xCC, bp_patchBytes info ! 1], bp_id := ?id\<rparr>"
  let ?s = "s\<lparr>gNextNativeBreakpointId := ?id + 1\<rparr>"
  obtain ok1 i1 s1 where c: "captureOriginalBytes os ?h ?i ?s = ((ok1, i1), s1)" by (metis prod.collapse)
  have C: "\<exists>w e. s1 = ?s\<lparr>world := w, lastError := e\<rparr>" "\<exists>b. i1 = ?i\<lparr>bp_originalBytes := b\<rparr>"
    using c oscall_state by (fastforce simp: captureOriginalBytes_def Let_def split: prod.splits)+
  obtain ok2 s2 where w: "writeNativeBreakpointBytes os i1 True s1 = (ok2, s2)" by (metis prod.collapse)
  from C(1) write_frame [of os i1 True s1] w obtain v e where s2: "s2 = ?s\<lparr>world := v, lastError := e\<rparr>" by auto
  from C(1) obtain v1 e1 where s1: "s1 = ?s\<lparr>world := v1, lastError := e1\<rparr>" by blast
  have sh: "sessionProcessHandle ?s = ?h" by (simp add: sessionProcessHandle_def)
  show ?thesis
  proof (cases "?h \<noteq> 0 \<and> ok1 \<and> ok2")
    case True
    have "ok" and "t = (insertBreakpointInfo i1 s2)\<lparr>gHardwareBreakpointIds := omap_emplace reg ?id (gHardwareBreakpointIds s2)\<rparr>"
      using run True c w unfolding setExecuteBreakpoint_def Let_def nextNativeId_def insertBreakpointInfo_def by auto
    moreover obtain b where i1: "i1 = ?i\<lparr>bp_originalBytes := b\<rparr>" using C(2) by blast
    ultimately have "t = s\<lparr>world := v, lastError := e, gNextNativeBreakpointId := ?id + 1,
         gBreakpoints := omap_insert ?id i1 (gBreakpoints s),
         gHardwareBreakpointIds := omap_insert reg ?id (gHardwareBreakpointIds s)\<rparr>"
      using free by (simp add: s2 insertBreakpointInfo_def omap_emplace_def)
    moreover have "bp_kind i1 = Hardware" "bp_hardwareRegister i1 = reg" using info by (simp_all add: i1)
    ultimately have "hardware_set os True s t" using hardware_set_True [OF free] by blast
    then show ?thesis using \<open>ok\<close> by simp
  next
    case False
    have "\<not> ok" and "t = ?s \<or> t = s1 \<or> t = s2"
      using run False c w unfolding setExecuteBreakpoint_def Let_def nextNativeId_def by (auto split: if_splits)
    then have "t = s\<lparr>world := world s, lastError := lastError s, gNextNativeBreakpointId := ?id + 1\<rparr> \<or>
        t = s\<lparr>world := v1, lastError := e1, gNextNativeBreakpointId := ?id + 1\<rparr> \<or>
        t = s\<lparr>world := v, lastError := e, gNextNativeBreakpointId := ?id + 1\<rparr>"
      by (elim disjE) (simp_all add: s1 s2)
    with \<open>\<not> ok\<close> show ?thesis
      using hardware_set_fails [where s = s and w = "world s" and e = "lastError s" and n = "?id + 1"]
        hardware_set_fails [where s = s and w = v1 and e = e1 and n = "?id + 1"]
        hardware_set_fails [where s = s and w = v and e = e and n = "?id + 1"] by (elim disjE) (simp_all only: simp_thms)
  qed
qed

lemma SetHardwareBreakPoint_effect:
  assumes run: "SetHardwareBreakPoint os a index type sz cb s = (ok, t)"
  shows "hardware_set os ok s t"
proof (cases "\<exists>e. ok = False \<and> t = s\<lparr>lastError := e\<rparr>")
  case True
  then show ?thesis using hardware_set_False by blast
next
  case False
  let ?reg = "if index = 0 then (case freeHardwareRegister s of Some r \<Rightarrow> r | None \<Rightarrow> 0) else index"
  obtain access sz' where acc: "Option.bind (hardwareDataSize sz) (hardwareAccess type) = Some (access, sz')"
    using run False by (cases "Option.bind (hardwareDataSize sz) (hardwareAccess type)") (auto simp: SetHardwareBreakPoint_def Let_def split: if_splits)
  have free: "isHardwareRegister ?reg" "\<not> omap_contains (gHardwareBreakpointIds s) ?reg"
    using run False by (auto simp: SetHardwareBreakPoint_def Let_def simp del: split_paired_Ex split: if_splits)
  have guards: "a \<noteq> 0" "cb \<noteq> 0" "PauseLock s" "a AND ucast (sz' - 1) = 0"
    using run False acc free by (auto simp: SetHardwareBreakPoint_def Let_def split: if_splits)
  let ?type = "if type = UE_HARDWARE_EXECUTE then DEBUG_BREAKPOINT_CODE else DEBUG_BREAKPOINT_DATA"
  let ?info = "default_breakpoint\<lparr>bp_kind := Hardware, bp_type := ?type, bp_offset := a,
     bp_hardwareCallback := cb, bp_hardwareRegister := ?reg\<rparr>"
  have rest: "(ok, t) = (if type = UE_HARDWARE_EXECUTE then setExecuteBreakpoint os a ?reg ?info s
      else (let ((hr, object, ident), s) = configureBreakpoint os ?type a sz' access s
        in if FAILED hr
           then (let s = (if object \<noteq> 0 then snd (oscall (dRemoveBreakpoint2 (dbg os) object) s) else s)
                 in (False, SetLastError (if HRESULT_CODE hr \<noteq> 0 then HRESULT_CODE hr else ERROR_GEN_FAILURE) s))
           else (True, (insertBreakpointInfo (?info\<lparr>bp_object := object, bp_id := ident\<rparr>) s)
                  \<lparr>gHardwareBreakpointIds := omap_emplace ?reg ident (gHardwareBreakpointIds s)\<rparr>)))"
    using run [symmetric] guards acc free unfolding SetHardwareBreakPoint_def Let_def by simp
  show ?thesis
  proof (cases "type = UE_HARDWARE_EXECUTE")
    case True
    have "bp_kind ?info = Hardware" "bp_hardwareRegister ?info = ?reg" by simp_all
    note effect = setExecuteBreakpoint_effect [OF free this]
    have "setExecuteBreakpoint os a ?reg ?info s = (ok, t)" using rest [symmetric] by (simp only: True refl if_True)
    from effect [OF this] show ?thesis .
  next
    case data: False
    obtain hr object ident u where c: "configureBreakpoint os ?type a sz' access s = ((hr, object, ident), u)"
      by (metis prod.collapse)
    note C = configureBreakpoint_effect [OF c]
    obtain w e where u: "u = s\<lparr>world := w, lastError := e\<rparr>" using C(1) by blast
    show ?thesis
    proof (cases "FAILED hr")
      case True
      obtain w' e' where r: "snd (oscall (dRemoveBreakpoint2 (dbg os) object) u) = u\<lparr>world := w', lastError := e'\<rparr>"
        using snd_oscall [of "dRemoveBreakpoint2 (dbg os) object" u] by blast
      from rest data c True have "ok = False" and "\<exists>v f. t = s\<lparr>world := v, lastError := f\<rparr>"
        by (auto simp: r [unfolded u] u Let_def)
      then show ?thesis using hardware_set_fails [where s = s and n = "gNextNativeBreakpointId s"] by auto
    next
      case False
      have "ok = True" and t: "t = s\<lparr>world := w, lastError := e, gNextNativeBreakpointId := gNextNativeBreakpointId s,
         gBreakpoints := omap_insert ident (?info\<lparr>bp_object := object, bp_id := ident\<rparr>) (gBreakpoints s),
         gHardwareBreakpointIds := omap_insert ?reg ident (gHardwareBreakpointIds s)\<rparr>"
        using rest data c False free by (auto simp: u insertBreakpointInfo_def omap_emplace_def)
      have "\<exists>object v hr f v'. dBpGetId (dbg os) object v = ((hr, ident), f, v') \<and> \<not> FAILED hr"
        using C(2) False by blast
      from hardware_set_True [OF free _ _ disjI2 [OF this] t] \<open>ok = True\<close> show ?thesis by simp
    qed
  qed
qed

lemma hardware_set_slots:
  assumes ok: "slots_ok s" and fresh: "fresh_ids os s" and set: "hardware_set os r s t"
  shows "slots_ok t"
proof (cases r)
  case True
  from set obtain w e n reg i info where S: "isHardwareRegister reg" "\<not> omap_contains (gHardwareBreakpointIds s) reg"
    "bp_kind info = Hardware" "bp_hardwareRegister info = reg"
    "i = gNextNativeBreakpointId s \<or> (\<exists>object v hr f v'. dBpGetId (dbg os) object v = ((hr, i), f, v') \<and> \<not> FAILED hr)"
    "t = s\<lparr>world := w, lastError := e, gNextNativeBreakpointId := n,
         gBreakpoints := omap_insert i info (gBreakpoints s),
         gHardwareBreakpointIds := omap_insert reg i (gHardwareBreakpointIds s)\<rparr>"
    using True unfolding hardware_set_def by blast
  have "map_of (gBreakpoints s) i = None" using S(5) fresh unfolding fresh_ids_def by metis
  moreover have "map_of (gHardwareBreakpointIds s) reg = None" using S(2) by (simp add: omap_contains_def)
  ultimately show ?thesis using S(6) by (intro slots_ok_hardware [OF ok _ _ S(3,4,1)]) simp_all
next
  case False
  then show ?thesis using set ok by (auto simp: hardware_set_def slots_ok_def)
qed

lemma DeleteHardwareBreakPoint_effect:
  assumes run: "DeleteHardwareBreakPoint os reg s = (ok, t)"
  shows "(gBreakpoints t = gBreakpoints s \<and> gHardwareBreakpointIds t = gHardwareBreakpointIds s \<and> \<not> ok) \<or>
    (\<exists>i. map_of (gHardwareBreakpointIds s) reg = Some i \<and>
      (if ok then map_of (gBreakpoints s) i \<noteq> None \<and> gBreakpoints t = omap_erase i (gBreakpoints s)
       else map_of (gBreakpoints s) i = None \<and> gBreakpoints t = gBreakpoints s) \<and>
      gHardwareBreakpointIds t = omap_erase reg (gHardwareBreakpointIds s))"
proof -
  have frame: "gBreakpoints (snd (writeNativeBreakpointBytes os info b u)) = gBreakpoints u"
    "gHardwareBreakpointIds (snd (writeNativeBreakpointBytes os info b u)) = gHardwareBreakpointIds u" for info b and u :: "'a titan"
    using write_frame [of os info b u] by auto
  have fo: "gBreakpoints (snd (oscall f u)) = gBreakpoints u"
    "gHardwareBreakpointIds (snd (oscall f u)) = gHardwareBreakpointIds u" for f :: "('a, u32) call" and u :: "'a titan"
    using snd_oscall [of f u] by auto
  show ?thesis
    using run
    by (auto simp: DeleteHardwareBreakPoint_def Let_def case_prod_unfold eraseSlot_def eraseBreakpointInfo_def
        retireAddress_def frame fo split: if_splits option.splits)
qed

lemma write_tables [simp]:
  "gBreakpoints (snd (writeNativeBreakpointBytes os info b s)) = gBreakpoints s"
  "gHardwareBreakpointIds (snd (writeNativeBreakpointBytes os info b s)) = gHardwareBreakpointIds s"
  using write_frame [of os info b s] by auto

lemma oscall_slots [simp]:
  "gBreakpoints (snd (oscall f s)) = gBreakpoints s"
  "gHardwareBreakpointIds (snd (oscall f s)) = gHardwareBreakpointIds s"
  "gNextNativeBreakpointId (snd (oscall f s)) = gNextNativeBreakpointId s"
  using snd_oscall [of f s] by auto

lemma installNative_tables:
  "gBreakpoints (snd (installNative os info s)) = gBreakpoints s"
  "gHardwareBreakpointIds (snd (installNative os info s)) = gHardwareBreakpointIds s"
  "fst (installNative os info s) = Some info' \<Longrightarrow> bp_kind info' = bp_kind info \<and> bp_id info' = gNextNativeBreakpointId s"
  by (auto simp: installNative_def captureOriginalBytes_def nextNativeId_def Let_def case_prod_unfold split: if_splits)

text \<open>Setting a software breakpoint leaves the table alone or adds a software breakpoint under the next id.\<close>

definition software_added :: "'w titan \<Rightarrow> 'w titan \<Rightarrow> bool" where
  "software_added s t \<longleftrightarrow> gHardwareBreakpointIds t = gHardwareBreakpointIds s \<and>
    (gBreakpoints t = gBreakpoints s \<or>
     (\<exists>info. bp_kind info = Software \<and> (gBreakpoints t = omap_insert (gNextNativeBreakpointId s) info (gBreakpoints s) \<or>
       gBreakpoints t = omap_emplace (gNextNativeBreakpointId s) info (gBreakpoints s))))"

lemma software_added_same: "gHardwareBreakpointIds t = gHardwareBreakpointIds s \<Longrightarrow> gBreakpoints t = gBreakpoints s \<Longrightarrow> software_added s t"
  by (simp add: software_added_def)

lemma software_added_insert:
  assumes "gHardwareBreakpointIds t = gHardwareBreakpointIds s" and "bp_kind info = Software"
    and "gBreakpoints t = omap_insert (gNextNativeBreakpointId s) info (gBreakpoints s) \<or>
      gBreakpoints t = omap_emplace (gNextNativeBreakpointId s) info (gBreakpoints s)"
  shows "software_added s t"
  using assms unfolding software_added_def by blast

lemma addTtdSoftwareBreakpoint_tables: "software_added s (snd (addTtdSoftwareBreakpoint os a cb one affinity s))"
proof -
  let ?info = "default_breakpoint\<lparr>bp_id := gNextNativeBreakpointId s, bp_kind := Software, bp_callback := cb,
    bp_offset := a, bp_oneShot := one, bp_ttdThreadAffinity := affinity\<rparr>"
  let ?t = "snd (addTtdSoftwareBreakpoint os a cb one affinity s)"
  have "gHardwareBreakpointIds ?t = gHardwareBreakpointIds s" and "gBreakpoints ?t = gBreakpoints s \<or>
      gBreakpoints ?t = omap_emplace (gNextNativeBreakpointId s) ?info (gBreakpoints s)"
    unfolding addTtdSoftwareBreakpoint_def Let_def case_prod_unfold nextNativeId_def by auto
  then show ?thesis using software_added_same [of ?t s] software_added_insert [of ?t s ?info] by auto
qed

lemma SetBPX_tables: "software_added s (snd (SetBPX os a type cb s))"
proof (cases "a = 0 \<or> cb = 0 \<or> (\<not> PauseLock s \<and> \<not> gIsDebugging s) \<or> list_ex (softwareAt a) (gBreakpoints s) \<or>
    gSessionKind s = UE_SESSION_TTD \<or> selectedType (gDefaultBreakpointType s) type = None")
  case True
  then show ?thesis
    using addTtdSoftwareBreakpoint_tables [of s os a cb "type AND UE_SINGLESHOOT \<noteq> 0" 0]
    by (auto simp: SetBPX_def intro: software_added_same)
next
  case False
  then obtain selected where sel: "selectedType (gDefaultBreakpointType s) type = Some selected" by auto
  let ?i = "softwarePatch selected a cb (type AND UE_SINGLESHOOT \<noteq> 0)"
  obtain r t where inst: "installNative os ?i s = (r, t)" by (metis prod.collapse)
  have T: "gBreakpoints t = gBreakpoints s" "gHardwareBreakpointIds t = gHardwareBreakpointIds s"
    using installNative_tables(1,2) [of os ?i s] inst by simp_all
  show ?thesis
  proof (cases r)
    case None
    then show ?thesis using False sel inst T by (auto simp: SetBPX_def intro: software_added_same)
  next
    case (Some info)
    have info: "bp_kind info = Software" "bp_id info = gNextNativeBreakpointId s"
      using installNative_tables(3) [of os ?i s info] inst Some by simp_all
    have "snd (SetBPX os a type cb s) = insertBreakpointInfo info
        (t\<lparr>gRetiredBreakpointAddresses := oset_erase a (gRetiredBreakpointAddresses t)\<rparr>)"
      using False sel inst Some by (auto simp: SetBPX_def)
    then show ?thesis using T info
      by (intro software_added_insert [where info = info]) (simp_all add: insertBreakpointInfo_def)
  qed
qed

lemma slots_ok_SetBPX:
  assumes "slots_ok s" and "fresh_ids os s" and "SetBPX os a type cb s = (r, t)"
  shows "slots_ok t"
proof -
  have none: "map_of (gBreakpoints s) (gNextNativeBreakpointId s) = None" using assms(2) by (simp add: fresh_ids_def)
  have "gHardwareBreakpointIds t = gHardwareBreakpointIds s" and "gBreakpoints t = gBreakpoints s \<or>
     (\<exists>info. bp_kind info = Software \<and> gBreakpoints t = omap_insert (gNextNativeBreakpointId s) info (gBreakpoints s))"
    using SetBPX_tables [of s os a type cb] assms(3) none by (auto simp: software_added_def omap_emplace_def omap_contains_def)
  then show ?thesis using slots_ok_cong slots_ok_software [OF assms(1) none] assms(1) by blast
qed

lemma slots_ok_DeleteBPX:
  assumes ok: "slots_ok s" and run: "DeleteBPX os a s = (r, t)"
  shows "slots_ok t"
proof (cases "find (softwareAt a) (gBreakpoints s)")
  case None
  then show ?thesis using ok run by (auto simp: DeleteBPX_def slots_ok_def)
next
  case (Some e)
  obtain i info where e: "e = (i, info)" by (cases e)
  have "softwareAt a (i, info)" "(i, info) \<in> set (gBreakpoints s)"
    using Some e by (auto simp: find_Some_iff in_set_conv_nth)
  then have info: "bp_kind info = Software" "map_of (gBreakpoints s) i = Some info"
    using ok by (simp_all add: softwareAt_iff slots_ok_def omap_ok_map_of)
  have "gHardwareBreakpointIds t = gHardwareBreakpointIds s \<and>
    (gBreakpoints t = gBreakpoints s \<or> gBreakpoints t = omap_erase i (gBreakpoints s))"
    using run Some e by (auto simp: DeleteBPX_def eraseBreakpointInfo_def retireAddress_def Let_def case_prod_unfold split: if_splits)
  then show ?thesis using slots_ok_cong ok slots_ok_erase_software [OF ok info(2,1)] by blast
qed

lemma slots_ok_DeleteHardware:
  assumes ok: "slots_ok s" and run: "DeleteHardwareBreakPoint os reg s = (r, t)"
  shows "slots_ok t"
  using DeleteHardwareBreakPoint_effect [OF run]
proof (elim disjE exE conjE)
  assume "gBreakpoints t = gBreakpoints s" "gHardwareBreakpointIds t = gHardwareBreakpointIds s"
  then show ?thesis using slots_ok_cong ok by blast
next
  fix i
  assume i: "map_of (gHardwareBreakpointIds s) reg = Some i"
    and split: "if r then map_of (gBreakpoints s) i \<noteq> None \<and> gBreakpoints t = omap_erase i (gBreakpoints s)
       else map_of (gBreakpoints s) i = None \<and> gBreakpoints t = gBreakpoints s"
    and slots: "gHardwareBreakpointIds t = omap_erase reg (gHardwareBreakpointIds s)"
  have "map_of (gBreakpoints s) i \<noteq> None" using slots_okD(1) [OF ok] i by auto
  with split show ?thesis using slots_ok_erase_hardware [OF ok i _ slots] by (auto split: if_splits)
qed

lemma protect_slots [simp]:
  "gBreakpoints (snd (protectMemoryBreakpointPage os page b s)) = gBreakpoints s"
  "gHardwareBreakpointIds (snd (protectMemoryBreakpointPage os page b s)) = gHardwareBreakpointIds s"
  using protectMemoryBreakpointPage_state [of os page b s] by auto

lemma releasePages_slots [simp]:
  "gBreakpoints (snd (releasePages os i pages r s)) = gBreakpoints s"
  "gHardwareBreakpointIds (snd (releasePages os i pages r s)) = gHardwareBreakpointIds s"
  by (induction pages arbitrary: r s)
    (simp_all add: releasePage_def updatePage_def erasePage_def Let_def case_prod_unfold split: option.split)

lemma removeMemoryBreakpointById_slots [simp]:
  "gBreakpoints (snd (removeMemoryBreakpointById os i s)) = gBreakpoints s"
  "gHardwareBreakpointIds (snd (removeMemoryBreakpointById os i s)) = gHardwareBreakpointIds s"
  by (simp_all add: removeMemoryBreakpointById_def eraseMemoryBreakpoint_def Let_def case_prod_unfold split: option.split)

lemma removeAllMemoryBreakpoints_slots:
  assumes "removeAllMemoryBreakpoints os r s = Some (r', t)"
  shows "gBreakpoints t = gBreakpoints s \<and> gHardwareBreakpointIds t = gHardwareBreakpointIds s"
proof -
  have "case y of (r', t) \<Rightarrow> gBreakpoints t = gBreakpoints s \<and> gHardwareBreakpointIds t = gHardwareBreakpointIds s"
    if "removeAllMemoryBreakpoints os r s = Some y" for y
  proof (rule removeAllMemoryBreakpoints.raw_induct [OF _ that], goal_cases)
    case (1 f os r s y)
    show ?case
    proof (cases "gMemoryBreakpoints s = []")
      case True
      then show ?thesis using 1(2) by auto
    next
      case False
      with 1(1) 1(2) show ?thesis by fastforce
    qed
  qed
  with assms show ?thesis by fastforce
qed

lemma restoreAllPatches_slots [simp]:
  "gBreakpoints (snd (restoreAllPatches os es s)) = gBreakpoints s"
  "gHardwareBreakpointIds (snd (restoreAllPatches os es s)) = gHardwareBreakpointIds s"
  by (induction es arbitrary: s) (auto simp: Let_def case_prod_unfold)

lemma slots_ok_empty: "gBreakpoints t = [] \<Longrightarrow> gHardwareBreakpointIds t = [] \<Longrightarrow> slots_ok t"
  by (simp add: slots_ok_def)

lemma slots_ok_RemoveAll:
  assumes ok: "slots_ok s" and run: "RemoveAllBreakPoints os s = Some (r, t)"
  shows "slots_ok t \<and> (r \<longrightarrow> gBreakpoints t = [] \<and> gHardwareBreakpointIds t = [])"
proof (cases "PauseLock s")
  case False
  then show ?thesis using ok run by (auto simp: RemoveAllBreakPoints_def intro: slots_ok_empty split: if_splits)
next
  case True
  with run obtain r1 s1 where rm: "removeAllMemoryBreakpoints os True s = Some (r1, s1)"
    by (auto simp: RemoveAllBreakPoints_def bind_eq_Some_conv)
  have same: "slots_ok s1" using removeAllMemoryBreakpoints_slots [OF rm] ok slots_ok_cong by blast
  obtain r2 s2 where rs: "restoreAllPatches os (gBreakpoints s1) s1 = (r2, s2)" by (metis prod.collapse)
  have "slots_ok s2" using restoreAllPatches_slots [of os "gBreakpoints s1" s1] rs slots_ok_cong [of s2 s1] same by simp
  then show ?thesis using run rm rs same True
    by (cases r1; cases r2) (auto simp: RemoveAllBreakPoints_def intro: slots_ok_empty)
qed


section \<open>Two defects\<close>

text \<open>
  A failed removal of an execute breakpoint is reported as success when the failing call left no
  error code: \<open>HRESULT_FROM_WIN32(0)\<close> is \<open>S_OK\<close>. The slot and the record are dropped, and the memory
  keeps the breakpoint instruction.
\<close>

theorem DeleteHardwareBreakPoint_loses_patch:
  assumes "isHardwareRegister reg" and "PauseLock s"
    and "map_of (gHardwareBreakpointIds s) reg = Some i" and "map_of (gBreakpoints s) i = Some info"
    and "bp_nativePatch info" and "writeNativeBreakpointBytes os info False s = (False, t)" and "lastError t = 0"
  shows "DeleteHardwareBreakPoint os reg s = (True, eraseSlot reg (eraseBreakpointInfo i t))"
  using assms by (simp add: DeleteHardwareBreakPoint_def HRESULT_FROM_WIN32_def)

text \<open>A live session whose debuggee memory is the world, with working memory calls.\<close>

definition memory_os :: "(u64 \<Rightarrow> byte) os" where
  "memory_os = quiet_os\<lparr>win := quiet_win\<lparr>
     wReadProcessMemory := (\<lambda>h a n w. ((True, peek w a (unat n)), None, w)),
     wWriteProcessMemory := (\<lambda>h a bytes w. ((True, of_nat (length bytes)), None, poke w a bytes)),
     wFlushInstructionCache := (\<lambda>h a n w. (True, None, w))\<rparr>\<rparr>"

lemma memory_os_calls [simp]:
  "wReadProcessMemory (win memory_os) h a n w = ((True, peek w a (unat n)), None, w)"
  "wWriteProcessMemory (win memory_os) h a bytes w = ((True, of_nat (length bytes)), None, poke w a bytes)"
  "wFlushInstructionCache (win memory_os) h a k w = (True, None, w)"
  "dBpGetId (dbg memory_os) object w = ((E_FAIL, 0), None, w)"
  by (simp_all add: memory_os_def quiet_defs)

lemma memory_os_memory: "process_memory memory_os id"
  by (simp add: process_memory_def)

text \<open>One whose \<open>WriteProcessMemory\<close> transfers nothing and sets no error code.\<close>

definition partial_os :: "(u64 \<Rightarrow> byte) os" where
  "partial_os = quiet_os\<lparr>win := quiet_win\<lparr>wWriteProcessMemory := (\<lambda>h a bytes w. ((True, 0), None, w))\<rparr>\<rparr>"

definition patched_state :: "(u64 \<Rightarrow> byte) titan" where
  "patched_state = (live_titan ((\<lambda>_. 0x90)(0x1000 := 0xCC)))\<lparr>
     gHardwareBreakpointIds := [(UE_DR0, 0x80000000)],
     gBreakpoints := [(0x80000000, default_breakpoint\<lparr>bp_id := 0x80000000, bp_kind := Hardware, bp_offset := 0x1000,
       bp_hardwareCallback := 1, bp_hardwareRegister := UE_DR0, bp_nativePatch := True, bp_patchSize := 1,
       bp_originalBytes := [0x90, 0], bp_patchBytes := [0xCC, 0]\<rparr>)]\<rparr>"

theorem DeleteHardwareBreakPoint_loses_patch_witness:
  "\<exists>t. DeleteHardwareBreakPoint partial_os UE_DR0 patched_state = (True, t) \<and> gBreakpoints t = [] \<and>
     world t 0x1000 = 0xCC"
proof -
  let ?i = "0x80000000 :: u32" and ?info = "snd (hd (gBreakpoints patched_state))"
  have "writeNativeBreakpointBytes partial_os ?info False patched_state = (False, patched_state)"
    by (simp add: writeNativeBreakpointBytes_def partial_os_def quiet_defs patched_state_def live_defs sessionProcessHandle_def
        oscall_def default_breakpoint_def)
  from DeleteHardwareBreakPoint_loses_patch [OF _ _ _ _ _ this, of UE_DR0 ?i] show ?thesis
    by (simp add: isHardwareRegister_def hardwareRegisters_def PauseLock_def patched_state_def live_defs default_breakpoint_def
        eraseSlot_def eraseBreakpointInfo_def omap_erase_def)
qed

lemma peek_one: "peek m a (Suc 0) = [m a]"
  by (simp add: peek_def)

lemma poke_one: "poke m a [b] = m(a := b)"
  by (auto simp: poke_def fun_eq_iff unat_eq_zero)

lemmas native_run_defs = writeNativeBreakpointBytes_def captureOriginalBytes_def nextNativeId_def insertBreakpointInfo_def
  eraseBreakpointInfo_def retireAddress_def eraseSlot_def oscall_def sessionProcessHandle_def PauseLock_def
  default_breakpoint_def omap_emplace_def omap_erase_def softwareAt_def peek_one poke_one Let_def

text \<open>
  C39. Overlapping breakpoints must be removed in reverse order. An execute breakpoint of a hardware slot
  and a software breakpoint may both be set at one address, and the second one takes the
  first one's breakpoint instruction for the original byte. Removing the software breakpoint
  first restores the memory; removing the slot first leaves the instruction 0xCC in
  the debuggee, with no breakpoint recorded, although every call has succeeded.
\<close>

theorem overlapping_breakpoints:
  assumes "a \<noteq> 0" and "cb1 \<noteq> 0" and "cb2 \<noteq> 0"
    and s1: "SetHardwareBreakPoint memory_os a UE_DR0 UE_HARDWARE_EXECUTE UE_HARDWARE_SIZE_1 cb1 (live_titan m) = (ok1, s1)"
    and s2: "SetBPX memory_os a UE_BREAKPOINT_TYPE_INT3 cb2 s1 = (ok2, s2)"
    and s3: "DeleteHardwareBreakPoint memory_os UE_DR0 s2 = (ok3, s3)" and s4: "DeleteBPX memory_os a s3 = (ok4, s4)"
    and s5: "DeleteBPX memory_os a s2 = (ok5, s5)" and s6: "DeleteHardwareBreakPoint memory_os UE_DR0 s5 = (ok6, s6)"
  shows "ok1 \<and> ok2 \<and> ok3 \<and> ok4 \<and> ok5 \<and> ok6 \<and> gBreakpoints s4 = [] \<and> gBreakpoints s6 = [] \<and>
    world s4 = m(a := 0xCC) \<and> world s6 = m"
proof -
  let ?hw = "default_breakpoint\<lparr>bp_kind := Hardware, bp_type := DEBUG_BREAKPOINT_CODE,
    bp_offset := a, bp_hardwareCallback := cb1, bp_hardwareRegister := UE_DR0, bp_nativePatch := True,
    bp_patchSize := 1, bp_patchBytes := [0xCC, 0], bp_id := 0x80000000, bp_originalBytes := [m a, 0]\<rparr>"
  let ?sw = "default_breakpoint\<lparr>bp_type := DEBUG_BREAKPOINT_CODE, bp_callback := cb2, bp_offset := a,
    bp_nativePatch := True, bp_patchSize := 1, bp_patchBytes := [0xCC, 0], bp_id := 0x80000001, bp_originalBytes := [0xCC, 0]\<rparr>"
  let ?t1 = "(live_titan m)\<lparr>world := m(a := 0xCC), gNextNativeBreakpointId := 0x80000001,
    gHardwareBreakpointIds := [(UE_DR0, 0x80000000)], gBreakpoints := [(0x80000000, ?hw)]\<rparr>"
  let ?t2 = "?t1\<lparr>gNextNativeBreakpointId := 0x80000002, gBreakpoints := [(0x80000000, ?hw), (0x80000001, ?sw)]\<rparr>"
  let ?t3 = "?t2\<lparr>world := m, gHardwareBreakpointIds := [], gBreakpoints := [(0x80000001, ?sw)], gRetiredBreakpointAddresses := [a]\<rparr>"
  let ?t5 = "?t2\<lparr>gBreakpoints := [(0x80000000, ?hw)], gRetiredBreakpointAddresses := [a]\<rparr>"
  have r1: "SetHardwareBreakPoint memory_os a UE_DR0 UE_HARDWARE_EXECUTE UE_HARDWARE_SIZE_1 cb1 (live_titan m) = (True, ?t1)"
    using assms(1,2)
    by (simp add: SetHardwareBreakPoint_def isHardwareRegister_def hardwareRegisters_def hardwareDataSize_def
        hardwareAccess_def setExecuteBreakpoint_def native_run_defs live_defs)
  have r2: "SetBPX memory_os a UE_BREAKPOINT_TYPE_INT3 cb2 ?t1 = (True, ?t2)"
    using assms(1,3)
    by (simp add: SetBPX_def selectedType_def softwarePatch_def installNative_def native_run_defs live_defs oset_erase_def)
  have r3: "DeleteHardwareBreakPoint memory_os UE_DR0 ?t2 = (True, ?t3)"
    by (simp add: DeleteHardwareBreakPoint_def isHardwareRegister_def hardwareRegisters_def native_run_defs live_defs)
  have r4: "DeleteBPX memory_os a ?t3 = (True, ?t3\<lparr>world := m(a := 0xCC), gBreakpoints := []\<rparr>)"
    by (simp add: DeleteBPX_def native_run_defs live_defs)
  have r5: "DeleteBPX memory_os a ?t2 = (True, ?t5)"
    by (simp add: DeleteBPX_def native_run_defs live_defs)
  have r6: "DeleteHardwareBreakPoint memory_os UE_DR0 ?t5 =
      (True, ?t5\<lparr>world := m, gHardwareBreakpointIds := [], gBreakpoints := []\<rparr>)"
    by (simp add: DeleteHardwareBreakPoint_def isHardwareRegister_def hardwareRegisters_def native_run_defs live_defs)
  have t1: "ok1" "s1 = ?t1" using s1 unfolding r1 by auto
  have t2: "ok2" "s2 = ?t2" using s2 unfolding t1 r2 by auto
  have t3: "ok3" "s3 = ?t3" using s3 unfolding t2 r3 by auto
  have t4: "ok4" "s4 = ?t3\<lparr>world := m(a := 0xCC), gBreakpoints := []\<rparr>" using s4 unfolding t3 r4 by auto
  have t5: "ok5" "s5 = ?t5" using s5 unfolding t2 r5 by auto
  have t6: "ok6" "s6 = ?t5\<lparr>world := m, gHardwareBreakpointIds := [], gBreakpoints := []\<rparr>" using s6 unfolding t5 r6 by auto
  show ?thesis by (simp add: t1 t2 t3 t4 t5 t6)
qed

theorem overlapping_breakpoints_witness:
  "world (snd (DeleteBPX memory_os 4096 (snd (DeleteHardwareBreakPoint memory_os UE_DR0
     (snd (SetBPX memory_os 4096 UE_BREAKPOINT_TYPE_INT3 2
       (snd (SetHardwareBreakPoint memory_os 4096 UE_DR0 UE_HARDWARE_EXECUTE UE_HARDWARE_SIZE_1 1
         (live_titan (\<lambda>_. 0x90)))))))))) 4096 = 0xCC"
  using overlapping_breakpoints [of 4096 1 2 "\<lambda>_. 0x90", OF _ _ _ prod.collapse [symmetric] prod.collapse [symmetric]
      prod.collapse [symmetric] prod.collapse [symmetric] prod.collapse [symmetric] prod.collapse [symmetric]]
  by simp

theorem SetBPX_DeleteBPX_witness:
  "\<exists>s1 s2. SetBPX memory_os 4096 UE_BREAKPOINT_TYPE_UD2 1 (live_titan (\<lambda>_. 0x90)) = (True, s1) \<and>
     world s1 = (\<lambda>_. 0x90)(4096 := 0x0F, 4097 := 0x0B) \<and>
     DeleteBPX memory_os 4096 s1 = (True, s2) \<and> world s2 = (\<lambda>_. 0x90) \<and> gBreakpoints s2 = []"
proof -
  let ?s = "live_titan (\<lambda>_. 0x90 :: byte)"
  have two: "poke m 4096 [x, y] = m(4096 := x, 4097 := y)" for m :: "u64 \<Rightarrow> byte" and x y
  proof
    fix z :: u64
    have eq: "z - 4096 = 0 \<longleftrightarrow> z = 4096" "z - 4096 = 1 \<longleftrightarrow> z = 4097" by (auto simp: diff_eq_eq)
    have "unat (z - 4096) < 2 \<longleftrightarrow> z - 4096 = 0 \<or> z - 4096 = 1"
      by (auto simp: less_2_cases_iff word_unat_eq_iff [of _ 0] word_unat_eq_iff [of _ 1])
    then show "poke m 4096 [x, y] z = (m(4096 := x, 4097 := y)) z"
      unfolding eq by (auto simp: poke_def numeral_2_eq_2)
  qed
  have set: "fst (SetBPX memory_os 4096 UE_BREAKPOINT_TYPE_UD2 1 ?s)"
    by (simp add: SetBPX_def selectedType_def softwarePatch_def installNative_def native_run_defs live_defs)
  obtain s1 where s1: "SetBPX memory_os 4096 UE_BREAKPOINT_TYPE_UD2 1 ?s = (True, s1)" using set by (metis prod.collapse)
  have del: "fst (DeleteBPX memory_os 4096 s1)"
    using s1 [symmetric]
    by (simp add: SetBPX_def selectedType_def softwarePatch_def installNative_def native_run_defs live_defs DeleteBPX_def)
  obtain s2 where s2: "DeleteBPX memory_os 4096 s1 = (True, s2)" using del by (metis prod.collapse)
  have P: "gSessionKind ?s \<noteq> UE_SESSION_TTD" "map_of (gBreakpoints ?s) (gNextNativeBreakpointId ?s) = None"
    "selectedType (gDefaultBreakpointType ?s) UE_BREAKPOINT_TYPE_UD2 = Some UE_BREAKPOINT_UD2" "world ?s = (\<lambda>_. 0x90)"
    "gBreakpoints ?s = []"
    by (simp_all add: live_defs selectedType_def)
  have "world s1 = (\<lambda>_. 0x90)(4096 := 0x0F, 4097 := 0x0B)" "world s2 = (\<lambda>_. 0x90)" "map_of (gBreakpoints s2) = map_of []"
    using SetBPX_DeleteBPX [OF memory_os_memory P(1,2) s1 s2, unfolded P(3-5) id_apply if_True option.inject]
    by (auto simp: patchOf_def two)
  moreover have "gBreakpoints s2 = []" using calculation(3) by (cases "gBreakpoints s2") (auto simp: fun_eq_iff split: if_splits)
  ultimately show ?thesis using s1 s2 by blast
qed


end
