(* ===== verification/Memory_Access.thy ===== *)
theory Memory_Access
  imports Breakpoints "HOL-Library.Product_Lexorder"
begin

text \<open>
  Reading, writing and querying the debuggee's memory (\<open>TitanEngine.cpp\<close>, lines 344 to 405, 2447 to 2821 and
  4944 to 4976) and the memory reads of the replay wrapper (\<open>TTD/TTD.cpp\<close>). A buffer of the caller
  is the list of its bytes; an operation returns it with the bytes it has overwritten.
\<close>

section \<open>Memory of a recording\<close>

text \<open>
  \<open>QueryMemoryBuffer\<close> answers the address it found memory at and the bytes it put at the front of the
  destination. The loop collects contiguous bytes from \<open>address\<close> and stops at the first gap.
\<close>

function ReadMemoryPartial :: "'w os \<Rightarrow> 'w \<Rightarrow> u64 \<Rightarrow> nat \<Rightarrow> byte list \<Rightarrow> byte list" where
  "ReadMemoryPartial os w address sz got =
     (if length got < sz then
        (case tQueryMemoryBuffer (ttd os) (address + of_nat (length got)) (sz - length got) w of
           None \<Rightarrow> got
         | Some (found, bytes) \<Rightarrow>
             if found \<noteq> address + of_nat (length got) \<or> bytes = [] then got
             else ReadMemoryPartial os w address sz (got @ take (sz - length got) bytes))
      else got)"
  by pat_completeness auto

termination
  by (relation "measure (\<lambda>(os, w, address, sz, got). sz - length got)") (auto simp: neq_Nil_conv)

declare ReadMemoryPartial.simps [simp del]

text \<open>The bytes read when all of them could be read.\<close>

definition ReadMemory :: "'w os \<Rightarrow> 'w \<Rightarrow> u64 \<Rightarrow> nat \<Rightarrow> byte list option" where
  "ReadMemory os w address sz =
     (let bytes = ReadMemoryPartial os w address sz [] in if length bytes = sz then Some bytes else None)"

definition ttdTebAddress :: "'w os \<Rightarrow> u32 \<Rightarrow> 'w titan \<Rightarrow> u64" where
  "ttdTebAddress os threadId s = tTebAddress (ttd os) threadId (world s)"

definition ttdCurrentModules :: "'w os \<Rightarrow> 'w titan \<Rightarrow> ttd_module list" where
  "ttdCurrentModules os s = (if \<not> gTtdCursor s then [] else List.map_filter (\<lambda>m. m) (tModules (ttd os) (world s)))"

section \<open>Reading\<close>

text \<open>Writes to the front of a buffer, and to its inside.\<close>

definition copyFront :: "byte list \<Rightarrow> byte list \<Rightarrow> byte list" where
  "copyFront bytes buffer = bytes @ drop (length bytes) buffer"

definition copyInto :: "nat \<Rightarrow> byte list \<Rightarrow> byte list \<Rightarrow> byte list" where
  "copyInto at bytes buffer = take at buffer @ bytes @ drop (at + length bytes) buffer"

text \<open>The loop that exposes the watched pages of the range: the pages to guard again.\<close>

fun exposePages :: "'w os \<Rightarrow> u64 list \<Rightarrow> 'w titan \<Rightarrow> u64 list \<times> 'w titan" where
  "exposePages os [] s = ([], s)"
| "exposePages os (page # pages) s =
     (let (ok, s) = (if omap_contains (gMemoryBreakpointPages s) page then protectMemoryBreakpointPage os page False s
                     else (False, s));
          (guarded, s) = exposePages os pages s
      in (if ok then page # guarded else guarded, s))"

definition reguardPages :: "'w os \<Rightarrow> u64 list \<Rightarrow> 'w titan \<Rightarrow> 'w titan" where
  "reguardPages os pages s = fold (\<lambda>page s. snd (protectMemoryBreakpointPage os page True s)) pages s"

text \<open>
  The result is the returned flag, the number of bytes stored through \<open>lpNumberOfBytesRead\<close> when one is stored,
  and the buffer.
\<close>

definition MemoryReadUnsafe ::
  "'w os \<Rightarrow> HANDLE \<Rightarrow> u64 \<Rightarrow> byte list \<Rightarrow> 'w titan \<Rightarrow> (bool \<times> u64 option \<times> byte list) \<times> 'w titan" where
  "MemoryReadUnsafe os process lpBaseAddress buffer s =
     (let nSize = of_nat (length buffer)
      in if gSyntheticDebugString s \<noteq> 0 \<and> gSyntheticDebugString s \<le> lpBaseAddress \<and>
            lpBaseAddress + nSize \<le> gSyntheticDebugString s + gSyntheticDebugStringSize s
         then ((True, Some nSize, wLocalMemory (win os) lpBaseAddress nSize (world s)), s)
         else if process = 0 then ((False, None, buffer), s)
         else if lpBaseAddress < 0x10000 then ((False, None, buffer), s)
         else if \<not> PauseLock s then ((False, None, buffer), s)
         else if gSessionKind s = UE_SESSION_TTD then
           (if \<not> gTtdCursor s \<or> \<not> omap_contains (processHandleToIndex (gDebugIdMap s)) process \<or> 0xFFFFFFFF < length buffer
            then ((False, None, buffer), SetLastError (if \<not> gTtdCursor s then ERROR_INVALID_HANDLE else ERROR_INVALID_PARAMETER) s)
            else (let bytes = ReadMemoryPartial os (world s) lpBaseAddress (length buffer) []
                  in ((length bytes = length buffer, Some (of_nat (length bytes)), copyFront bytes buffer),
                      if length bytes \<noteq> length buffer then SetLastError ERROR_PARTIAL_COPY s else s)))
         else (case map_of (processHandleToIndex (gDebugIdMap s)) process of
             None \<Rightarrow>
               (let ((result, bytes), s) = oscall (wReadProcessMemory (win os) process lpBaseAddress nSize) s
                in ((result, Some (of_nat (length bytes)), copyFront bytes buffer), s))
           | Some processIndex \<Rightarrow> (case dProcessIndex (dbg os) (world s) of
                 None \<Rightarrow> ((False, None, buffer), s)
               | Some currentIndex \<Rightarrow>
                   if currentIndex \<noteq> processIndex then ((False, None, buffer), SetLastError ERROR_NOT_SUPPORTED s)
                   else if gSessionKind s = UE_SESSION_MINIDUMP \<or> gSessionKind s = UE_SESSION_TTD then
                     (if 0xFFFFFFFF < length buffer then ((False, None, buffer), SetLastError ERROR_INVALID_PARAMETER s)
                      else (let ((ok, bytes), s) = oscall (dReadVirtual (dbg os) lpBaseAddress (of_nat (length buffer))) s;
                                result = (\<not> ok \<or> length bytes \<noteq> length buffer)
                            in ((\<not> result, Some (of_nat (length bytes)), copyFront bytes buffer),
                                if result then SetLastError (if bytes \<noteq> [] then ERROR_PARTIAL_COPY else ERROR_READ_FAULT) s else s)))
                   else
                     (let pages = (if nSize \<noteq> 0 \<and> lpBaseAddress < lpBaseAddress + nSize
                                   then pagesCovered os lpBaseAddress nSize else []);
                          (guardedPages, s) = exposePages os pages s;
                          ((result, bytes), s) = oscall (wReadProcessMemory (win os) process lpBaseAddress nSize) s;
                          s = reguardPages os guardedPages s
                      in ((result \<and> length bytes = length buffer, Some (of_nat (length bytes)), copyFront bytes buffer), s)))))"

text \<open>One iteration of the loop that hides a software patch.\<close>

definition hidePatch :: "u64 \<Rightarrow> u64 \<Rightarrow> breakpoint_info \<Rightarrow> byte list \<Rightarrow> byte list" where
  "hidePatch readStart readEnd info buffer =
     (if bp_kind info \<noteq> Software \<or> \<not> bp_nativePatch info \<or> bp_patchSize info = 0 then buffer
      else (let breakpointStart = bp_offset info;
                breakpointEnd = breakpointStart + of_nat (bp_patchSize info);
                overlapStart = max readStart breakpointStart;
                overlapEnd = min readEnd breakpointEnd
            in if overlapStart < overlapEnd
               then copyInto (unat (overlapStart - readStart))
                      (take (unat (overlapEnd - overlapStart)) (drop (unat (overlapStart - breakpointStart)) (bp_originalBytes info)))
                      buffer
               else buffer))"

definition MemoryReadSafe ::
  "'w os \<Rightarrow> HANDLE \<Rightarrow> u64 \<Rightarrow> byte list \<Rightarrow> 'w titan \<Rightarrow> (bool \<times> u64 option \<times> byte list) \<times> 'w titan" where
  "MemoryReadSafe os process lpBaseAddress buffer s =
     (let ((ok, count, bytes), s) = MemoryReadUnsafe os process lpBaseAddress buffer s
      in if \<not> ok then ((False, count, bytes), s)
         else if \<not> PauseLock s then ((False, count, bytes), s)
         else ((True, count, fold (\<lambda>(ident, info). hidePatch lpBaseAddress (lpBaseAddress + of_nat (length buffer)) info)
                               (gBreakpoints s) bytes), s))"

section \<open>Writing\<close>

text \<open>The buffer is None for a null pointer. The result is the flag and the number of bytes written.\<close>

definition MemoryWriteSafe ::
  "'w os \<Rightarrow> HANDLE \<Rightarrow> u64 \<Rightarrow> byte list option \<Rightarrow> 'w titan \<Rightarrow> (bool \<times> u64) \<times> 'w titan" where
  "MemoryWriteSafe os process lpBaseAddress lpBuffer s = (case lpBuffer of
     None \<Rightarrow> ((False, 0), SetLastError ERROR_INVALID_PARAMETER s)
   | Some bytes \<Rightarrow>
       if process = 0 \<or> lpBaseAddress = 0 \<or> bytes = [] \<or> 0xFFFFFFFF < length bytes
       then ((False, 0), SetLastError ERROR_INVALID_PARAMETER s)
       else if \<not> PauseLock s then ((False, 0), SetLastError ERROR_BUSY s)
       else if gSessionKind s = UE_SESSION_MINIDUMP \<or> gSessionKind s = UE_SESSION_TTD
       then ((False, 0), SetLastError ERROR_NOT_SUPPORTED s)
       else (let ((ok, written), s) = oscall (dWriteVirtual (dbg os) lpBaseAddress bytes) s
             in if \<not> ok then ((False, ucast written), SetLastError ERROR_WRITE_FAULT s)
                else ((unat written = length bytes, ucast written), s)))"

text \<open>The loop of \<open>Fill\<close>, in chunks of at most 64 KiB.\<close>

function fillChunks :: "'w os \<Rightarrow> HANDLE \<Rightarrow> u64 \<Rightarrow> nat \<Rightarrow> byte \<Rightarrow> nat \<Rightarrow> 'w titan \<Rightarrow> bool \<times> 'w titan" where
  "fillChunks os process start amount byte offset s =
     (if offset < amount then
        (let count = min (min amount (64 * 1024)) (amount - offset);
             ((ok, written), s) = MemoryWriteSafe os process (start + of_nat offset) (Some (replicate count byte)) s
         in if \<not> ok \<or> written \<noteq> of_nat count then (False, s)
            else fillChunks os process start amount byte (offset + count) s)
      else (True, s))"
  by pat_completeness auto

termination
  by (relation "measure (\<lambda>(os, process, start, amount, byte, offset, s). amount - offset)") auto

declare fillChunks.simps [simp del]

definition Fill :: "'w os \<Rightarrow> u64 \<Rightarrow> u32 \<Rightarrow> byte option \<Rightarrow> 'w titan \<Rightarrow> bool \<times> 'w titan" where
  "Fill os MemoryStart MemorySize FillByte s =
     (if MemoryStart = 0 \<or> MemorySize = 0 then (False, SetLastError ERROR_INVALID_PARAMETER s)
      else if \<not> PauseLock s then (False, SetLastError (busyError s) s)
      else (let process = activeProcessHandle os s
            in if process = 0 then (False, SetLastError ERROR_INVALID_HANDLE s)
               else (let byte = (case FillByte of Some b \<Rightarrow> b | None \<Rightarrow> 0x90)
                     in fillChunks os process MemoryStart (unat MemorySize) byte 0 s)))"

section \<open>Querying\<close>

definition region :: "u64 \<Rightarrow> u64 \<Rightarrow> u32 \<Rightarrow> u32 \<Rightarrow> memory_information" where
  "region base sz protection type = \<lparr>mbi_BaseAddress = base, mbi_AllocationBase = base,
     mbi_AllocationProtect = protection, mbi_RegionSize = sz, mbi_State = MEM_COMMIT,
     mbi_Protect = protection, mbi_Type = type\<rparr>"

text \<open>
  The loops over the modules and over the thread ranges: the region of the first range that holds the address, or
  the ranges collected so far with those of this loop appended.
\<close>

fun searchRanges :: "u32 \<Rightarrow> u32 \<Rightarrow> u64 \<Rightarrow> (u64 \<times> u64) list \<Rightarrow> (u64 \<times> u64) list \<Rightarrow> memory_information + (u64 \<times> u64) list" where
  "searchRanges protection type address [] ranges = Inr ranges"
| "searchRanges protection type address ((start, stop) # rest) ranges =
     (if start \<le> address \<and> address < stop then Inl (region start (stop - start) protection type)
      else searchRanges protection type address rest (ranges @ [(start, stop)]))"

definition moduleRanges :: "ttd_module list \<Rightarrow> (u64 \<times> u64) list" where
  "moduleRanges modules = map (\<lambda>m. (tm_base m, tm_base m + tm_size m)) (filter (\<lambda>m. tm_size m \<noteq> 0) modules)"

definition bytesToWord64 :: "byte list \<Rightarrow> u64" where
  "bytesToWord64 bytes = word_rcat (rev bytes)"

text \<open>The stack of a thread, from the second and third pointer of its NT_TIB, then the page of its TEB.\<close>

definition threadRanges :: "'w os \<Rightarrow> u32 \<Rightarrow> 'w titan \<Rightarrow> (u64 \<times> u64) list" where
  "threadRanges os threadId s =
     (let teb = ttdTebAddress os threadId s
      in if teb = 0 then []
         else (case ReadMemory os (world s) teb 24 of
                 None \<Rightarrow> []
               | Some tib \<Rightarrow>
                   (let stackBase = bytesToWord64 (take 8 (drop 8 tib)); stackLimit = bytesToWord64 (drop 16 tib)
                    in if stackLimit \<noteq> 0 \<and> stackLimit < stackBase then [(stackLimit, stackBase)] else [])) @
              [(teb AND NOT 0xFFF, (teb AND NOT 0xFFF) + 0x1000)])"

definition maximumAddress :: u64 where
  "maximumAddress = 0x0000800000000000"

definition nextRange :: "u64 \<Rightarrow> (u64 \<times> u64) list \<Rightarrow> u64" where
  "nextRange address ranges = (case find (\<lambda>r. address < fst r) (sort ranges) of
     Some r \<Rightarrow> fst r | None \<Rightarrow> maximumAddress)"

definition freeRegion :: "u64 \<Rightarrow> (u64 \<times> u64) list \<Rightarrow> memory_information" where
  "freeRegion address ranges =
     (let page = address AND NOT 0xFFF
      in \<lparr>mbi_BaseAddress = page, mbi_AllocationBase = 0, mbi_AllocationProtect = 0,
          mbi_RegionSize = max 0x1000 (nextRange address ranges - page), mbi_State = MEM_FREE,
          mbi_Protect = PAGE_NOACCESS, mbi_Type = 0\<rparr>)"

definition activeThreadRanges :: "'w os \<Rightarrow> 'w titan \<Rightarrow> (u64 \<times> u64) list" where
  "activeThreadRanges os s = concat (map (\<lambda>(ident, threadId). threadRanges os threadId s)
     (List.map_filter (\<lambda>t. t) (tActiveThreads (ttd os) (world s))))"

definition queryTtdMemory :: "'w os \<Rightarrow> u64 \<Rightarrow> 'w titan \<Rightarrow> memory_information" where
  "queryTtdMemory os address s =
     (case searchRanges PAGE_EXECUTE_READ MEM_IMAGE address (moduleRanges (ttdCurrentModules os s)) [] of
        Inl info \<Rightarrow> info
      | Inr ranges \<Rightarrow>
          (case searchRanges PAGE_READWRITE MEM_PRIVATE address (activeThreadRanges os s) ranges of
             Inl info \<Rightarrow> info
           | Inr ranges \<Rightarrow>
               if ReadMemory os (world s) address 1 \<noteq> None
               then region (address AND NOT 0xFFF) 0x1000 PAGE_READWRITE MEM_PRIVATE
               else freeRegion address ranges))"

text \<open>The buffer is filled and its size returned exactly when the result is not None.\<close>

definition MemoryQuerySafe ::
  "'w os \<Rightarrow> HANDLE \<Rightarrow> u64 \<Rightarrow> bool \<Rightarrow> u64 \<Rightarrow> 'w titan \<Rightarrow> memory_information option \<times> 'w titan" where
  "MemoryQuerySafe os process address bufferGiven dwLength s =
     (if process = 0 \<or> \<not> bufferGiven \<or> dwLength < 48 then (None, SetLastError ERROR_INVALID_PARAMETER s)
      else if gSessionKind s = UE_SESSION_TTD then
        (if \<not> PauseLock s \<or> \<not> gTtdCursor s \<or> \<not> omap_contains (processHandleToIndex (gDebugIdMap s)) process
         then (None, SetLastError (if PauseLock s then ERROR_INVALID_HANDLE else ERROR_BUSY) s)
         else (Some (queryTtdMemory os address s), s))
      else if gSessionKind s = UE_SESSION_MINIDUMP then
        (if \<not> PauseLock s \<or> \<not> omap_contains (processHandleToIndex (gDebugIdMap s)) process
         then (None, SetLastError (if PauseLock s then ERROR_INVALID_HANDLE else ERROR_BUSY) s)
         else (case dQueryVirtual (dbg os) address (world s) of
             None \<Rightarrow> (None, SetLastError ERROR_INVALID_ADDRESS s)
           | Some info \<Rightarrow> (Some info, s)))
      else oscall (wVirtualQueryEx (win os) process address) s)"

section \<open>Allocation and protection\<close>

text \<open>Replayed sessions are immutable.\<close>

definition replayed :: "'w titan \<Rightarrow> bool" where
  "replayed s = (gSessionKind s = UE_SESSION_MINIDUMP \<or> gSessionKind s = UE_SESSION_TTD)"

definition MemoryAllocSafe :: "'w os \<Rightarrow> HANDLE \<Rightarrow> u64 \<Rightarrow> u64 \<Rightarrow> u32 \<Rightarrow> u32 \<Rightarrow> 'w titan \<Rightarrow> u64 \<times> 'w titan" where
  "MemoryAllocSafe os process lpAddress dwSize flAllocationType flProtect s =
     (if replayed s then (0, SetLastError ERROR_NOT_SUPPORTED s)
      else oscall (wVirtualAllocEx (win os) process lpAddress dwSize flAllocationType flProtect) s)"

definition MemoryFreeSafe :: "'w os \<Rightarrow> HANDLE \<Rightarrow> u64 \<Rightarrow> u64 \<Rightarrow> u32 \<Rightarrow> 'w titan \<Rightarrow> bool \<times> 'w titan" where
  "MemoryFreeSafe os process lpAddress dwSize dwFreeType s =
     (if replayed s then (False, SetLastError ERROR_NOT_SUPPORTED s)
      else oscall (wVirtualFreeEx (win os) process lpAddress dwSize dwFreeType) s)"

text \<open>The second component is the old protection, when one is stored.\<close>

definition MemoryProtectSafe ::
  "'w os \<Rightarrow> HANDLE \<Rightarrow> u64 \<Rightarrow> u64 \<Rightarrow> u32 \<Rightarrow> 'w titan \<Rightarrow> (bool \<times> u32 option) \<times> 'w titan" where
  "MemoryProtectSafe os process lpAddress dwSize flNewProtect s =
     (if replayed s then ((False, None), SetLastError ERROR_NOT_SUPPORTED s)
      else (let ((ok, previous), s) = oscall (wVirtualProtectEx (win os) process lpAddress dwSize flNewProtect) s
            in ((ok, Some previous), s)))"

definition ConvertVAtoFileOffsetEx :: "u64 \<Rightarrow> u32 \<Rightarrow> u64 \<Rightarrow> u64 \<Rightarrow> bool \<Rightarrow> bool \<Rightarrow> 'w titan \<Rightarrow> u64 \<times> 'w titan" where
  "ConvertVAtoFileOffsetEx FileMapVA FileSize ImageBase AddressToConvert AddressIsRVA ReturnType s =
     (0, SetLastError ERROR_NOT_SUPPORTED s)"

definition ConvertFileOffsetToVA :: "u64 \<Rightarrow> u64 \<Rightarrow> bool \<Rightarrow> 'w titan \<Rightarrow> u64 \<times> 'w titan" where
  "ConvertFileOffsetToVA FileMapVA AddressToConvert ReturnType s = (0, SetLastError ERROR_NOT_SUPPORTED s)"

section \<open>Reading a recording\<close>

text \<open>
  What the adapter relies on: the engine answers the queried address exactly when the memory there is
  recorded, with recorded bytes.
\<close>

definition recorded_memory :: "'w os \<Rightarrow> 'w \<Rightarrow> (u64 \<Rightarrow> byte) \<Rightarrow> (u64 \<Rightarrow> bool) \<Rightarrow> bool" where
  "recorded_memory os w mem mapped \<longleftrightarrow>
     (\<forall>a n bytes. tQueryMemoryBuffer (ttd os) a n w = Some (a, bytes) \<longrightarrow>
        bytes = peek mem a (length bytes) \<and> (\<forall>i < length bytes. mapped (a + of_nat i))) \<and>
     (\<forall>a n. 0 < n \<longrightarrow> mapped a \<longrightarrow> (\<exists>bytes. tQueryMemoryBuffer (ttd os) a n w = Some (a, bytes) \<and> bytes \<noteq> []))"

lemma peek_append: "peek m a (i + j) = peek m a i @ peek m (a + of_nat i) j"
  by (rule nth_equalityI) (auto simp: peek_def nth_append add.assoc)

lemma take_peek: "take k (peek m a n) = peek m a (min k n)"
  by (rule nth_equalityI) (auto simp: peek_def)

lemma ReadMemoryPartial_longest:
  assumes rec: "recorded_memory os w mem mapped"
    and "got = peek mem a (length got)" and "length got \<le> n" and "\<forall>i < length got. mapped (a + of_nat i)"
  shows "\<exists>k. ReadMemoryPartial os w a n got = peek mem a k \<and> length got \<le> k \<and> k \<le> n \<and>
    (\<forall>i < k. mapped (a + of_nat i)) \<and> (k = n \<or> \<not> mapped (a + of_nat k))"
  using assms(2-)
proof (induction "n - length got" arbitrary: got rule: less_induct)
  case less
  let ?at = "a + of_nat (length got)" and ?query = "\<lambda>n. tQueryMemoryBuffer (ttd os) (a + of_nat (length got)) n w"
  show ?case
  proof (cases "length got < n \<and> mapped ?at")
    case False
    have none: "bytes = []" if "?query m = Some (?at, bytes)" "\<not> mapped ?at" for m bytes
    proof (rule ccontr)
      assume "bytes \<noteq> []"
      moreover have "\<forall>i < length bytes. mapped (?at + of_nat i)" using rec that(1) unfolding recorded_memory_def by blast
      ultimately have "mapped (?at + of_nat 0)" by blast
      then show False using that(2) by simp
    qed
    have stop: "ReadMemoryPartial os w a n got = got"
      using False none by (subst ReadMemoryPartial.simps) (auto split: option.split)
    show ?thesis
      using less.prems False by (intro exI [of _ "length got"]) (auto simp: stop)
  next
    case True
    then obtain bytes where q: "?query (n - length got) = Some (?at, bytes)" "bytes \<noteq> []"
      using rec unfolding recorded_memory_def by (metis zero_less_diff)
    then have b: "bytes = peek mem ?at (length bytes)" "\<forall>i < length bytes. mapped (?at + of_nat i)"
      using rec unfolding recorded_memory_def by blast+
    let ?got = "got @ take (n - length got) bytes"
    have step: "ReadMemoryPartial os w a n got = ReadMemoryPartial os w a n ?got"
      using True q by (subst ReadMemoryPartial.simps) simp
    have len: "length got < length ?got" "length ?got \<le> n" using True q(2) by auto
    have peek: "?got = peek mem a (length ?got)"
    proof -
      have "take (n - length got) bytes = peek mem ?at (length (take (n - length got) bytes))"
        by (subst b(1)) (simp add: take_peek min.commute)
      then show ?thesis using less.prems(1) by (simp add: peek_append) 
    qed
    have "mapped (a + of_nat i)" if i: "i < length ?got" for i
    proof (cases "i < length got")
      case False
      then have "(of_nat i :: u64) = of_nat (length got) + of_nat (i - length got)" by (simp flip: of_nat_add)
      then have "a + of_nat i = ?at + of_nat (i - length got)" by (simp only: add.assoc)
      moreover have "i - length got < length bytes" using i False by auto
      then have "mapped (?at + of_nat (i - length got))" using b(2) by blast
      ultimately show ?thesis by (simp only:)
    qed (use less.prems in simp)
    then have all: "\<forall>i < length ?got. mapped (a + of_nat i)" by blast
    have "n - length ?got < n - length got" using len True by linarith
    from less.hyps [OF this peek len(2) all] obtain k where
      k: "ReadMemoryPartial os w a n ?got = peek mem a k" "length ?got \<le> k" "k \<le> n"
        "\<forall>i < k. mapped (a + of_nat i)" "k = n \<or> \<not> mapped (a + of_nat k)" by blast
    then have "length got \<le> k" using len(1) by linarith
    then show ?thesis unfolding step using k by blast
  qed
qed

text \<open>
  C29. Reading a recording ends and collects the longest run of recorded memory from the address on: the
  bytes read are the recorded ones, none is read past a gap, and either the whole request is read or
  the next byte is not recorded. A full read succeeds exactly when every byte of the range is recorded.
\<close>

theorem ReadMemoryPartial_reads_prefix:
  assumes "recorded_memory os w mem mapped"
  shows "(\<exists>k. ReadMemoryPartial os w a n [] = peek mem a k \<and> k \<le> n \<and> (\<forall>i < k. mapped (a + of_nat i)) \<and>
      (k = n \<or> \<not> mapped (a + of_nat k))) \<and>
    ReadMemory os w a n = (if \<forall>i < n. mapped (a + of_nat i) then Some (peek mem a n) else None)"
proof -
  obtain k where k: "ReadMemoryPartial os w a n [] = peek mem a k" "k \<le> n" "\<forall>i < k. mapped (a + of_nat i)"
    "k = n \<or> \<not> mapped (a + of_nat k)"
    using ReadMemoryPartial_longest [OF assms, of "[]" a n] by (auto simp: peek_def)
  then have "k = n \<longleftrightarrow> (\<forall>i < n. mapped (a + of_nat i))" by (metis le_neq_implies_less)
  then show ?thesis using k by (auto simp: ReadMemory_def)
qed

text \<open>A recording of the 16 bytes from 0x1000, which answers at most 4 bytes at a time.\<close>

definition recording_os :: "unit os" where
  "recording_os = quiet_os\<lparr>ttd := quiet_ttd\<lparr>tQueryMemoryBuffer := (\<lambda>a n w.
     if 0x1000 \<le> a \<and> a < 0x1010 then Some (a, peek (\<lambda>x. ucast x) a (min 4 (min n (unat (0x1010 - a))))) else None)\<rparr>\<rparr>"

lemma recording_os_query [simp]:
  "tQueryMemoryBuffer (ttd recording_os) a n w =
     (if 0x1000 \<le> a \<and> a < 0x1010 then Some (a, peek (\<lambda>x. ucast x) a (min 4 (min n (unat (0x1010 - a))))) else None)"
  by (simp add: recording_os_def)

lemma recording_os_recorded: "recorded_memory recording_os w (\<lambda>x. ucast x) (\<lambda>a. 0x1000 \<le> a \<and> a < 0x1010)"
proof -
  have "0x1000 \<le> a + of_nat i \<and> a + of_nat i < 0x1010"
    if "0x1000 \<le> a" "a < 0x1010" "i < unat (0x1010 - a)" for a :: u64 and i
  proof -
    have u: "unat (0x1010 - a) = 0x1010 - unat a" using that(2) by (simp add: unat_sub less_imp_le)
    with that have "unat a + i < 0x1010" by simp
    then have "unat (a + of_nat i) = unat a + i"
      by (simp add: unat_word_ariths unsigned_of_nat take_bit_nat_eq_self)
    then show ?thesis using that u by (simp add: word_le_nat_alt word_less_nat_alt)
  qed
  moreover have "0 < unat (0x1010 - a)" if "a < 0x1010" for a :: u64
    using that by (simp add: unat_sub less_imp_le word_less_nat_alt)
  ultimately show ?thesis by (auto simp: recorded_memory_def peek_def)
qed

lemma all_less_upt: "(\<forall>i < n. P i) \<longleftrightarrow> list_all P [0..<n]"
  by (auto simp: list_all_iff)

theorem ReadMemoryPartial_reads_prefix_witness:
  "ReadMemory recording_os () 0x1002 8 = Some [2, 3, 4, 5, 6, 7, 8, 9] \<and> ReadMemory recording_os () 0x100C 8 = None"
proof -
  have "\<not> (\<forall>i < 8. 0x1000 \<le> 0x100C + (of_nat i :: u64) \<and> 0x100C + (of_nat i :: u64) < 0x1010)"
    by (auto intro!: exI [of _ 4])
  moreover have "\<forall>i < 8. 0x1000 \<le> 0x1002 + (of_nat i :: u64) \<and> 0x1002 + (of_nat i :: u64) < 0x1010"
    unfolding all_less_upt by (simp add: upt_rec)
  ultimately show ?thesis
    using ReadMemoryPartial_reads_prefix [OF recording_os_recorded, of "()" "0x1002" 8]
      ReadMemoryPartial_reads_prefix [OF recording_os_recorded, of "()" "0x100C" 8]
    by (simp add: peek_def upt_rec)
qed

section \<open>Reading a live process\<close>

text \<open>The memory the user is shown: every recorded software patch replaced by the bytes it covers.\<close>

definition software_patch :: "breakpoint_info \<Rightarrow> bool" where
  "software_patch info \<longleftrightarrow> bp_kind info = Software \<and> bp_nativePatch info \<and> bp_patchSize info \<noteq> 0"

definition hide :: "breakpoint_info \<Rightarrow> (u64 \<Rightarrow> byte) \<Rightarrow> u64 \<Rightarrow> byte" where
  "hide info m = (if software_patch info then poke m (bp_offset info) (take (bp_patchSize info) (bp_originalBytes info)) else m)"

definition shown :: "(u32, breakpoint_info) omap \<Rightarrow> (u64 \<Rightarrow> byte) \<Rightarrow> u64 \<Rightarrow> byte" where
  "shown bps = fold (\<lambda>(ident, info). hide info) bps"

text \<open>The patch does not wrap around the address space and its original bytes are recorded.\<close>

definition patch_fits :: "breakpoint_info \<Rightarrow> bool" where
  "patch_fits info \<longleftrightarrow> unat (bp_offset info) + bp_patchSize info < 2 ^ 64 \<and> bp_patchSize info \<le> length (bp_originalBytes info)"

lemma unat_add_small:
  fixes a :: u64
  assumes "unat a + n < 2 ^ 64"
  shows "unat (a + of_nat n) = unat a + n"
  using assms by (simp add: unat_word_ariths unsigned_of_nat take_bit_nat_eq_self)

lemma unat_diff_wrap:
  fixes x a :: u64
  shows "unat (x - a) = (if unat a \<le> unat x then unat x - unat a else 2 ^ 64 + unat x - unat a)"
  by (auto simp: unat_sub_if_size word_size)

lemma poke_no_wrap:
  assumes "unat a + length bytes < 2 ^ 64"
  shows "poke m a bytes x = (if unat a \<le> unat x \<and> unat x < unat a + length bytes then bytes ! (unat x - unat a) else m x)"
  using assms unsigned_less [of x, where 'a = nat] by (auto simp: poke_def unat_diff_wrap)

lemma nth_copyInto:
  assumes "at + length bytes \<le> length buffer" and "i < length buffer"
  shows "copyInto at bytes buffer ! i = (if at \<le> i \<and> i < at + length bytes then bytes ! (i - at) else buffer ! i)"
  using assms by (auto simp: copyInto_def nth_append min_def)

lemma length_copyInto [simp]: "at + length bytes \<le> length buffer \<Longrightarrow> length (copyInto at bytes buffer) = length buffer"
  by (simp add: copyInto_def)

lemma hidePatch_peek:
  assumes fits: "patch_fits info" and range: "unat a + n < 2 ^ 64"
  shows "hidePatch a (a + of_nat n) info (peek m a n) = peek (hide info m) a n"
proof (cases "software_patch info")
  case False
  then show ?thesis by (auto simp: hidePatch_def hide_def software_patch_def)
next
  case True
  let ?b = "bp_offset info" and ?p = "bp_patchSize info" and ?orig = "take (bp_patchSize info) (bp_originalBytes info)"
  let ?lo = "max a ?b" and ?hi = "min (a + of_nat n) (?b + of_nat ?p)"
  have ub: "unat (a + of_nat n) = unat a + n" "unat (?b + of_nat ?p) = unat ?b + ?p"
    using range fits by (simp_all add: unat_add_small patch_fits_def del: of_nat_add)
  have lo: "unat ?lo = max (unat a) (unat ?b)" and hi: "unat ?hi = min (unat a + n) (unat ?b + ?p)"
    by (simp_all add: max_def min_def word_le_nat_alt ub del: of_nat_add)
  have len: "length ?orig = ?p" using fits by (simp add: patch_fits_def)
  have at: "poke m ?b ?orig (a + of_nat i) =
      (if unat ?b \<le> unat a + i \<and> unat a + i < unat ?b + ?p then bp_originalBytes info ! (unat a + i - unat ?b) else m (a + of_nat i))"
    if "i < n" for i
    using that range fits len by (subst poke_no_wrap) (auto simp: unat_add_small patch_fits_def simp del: of_nat_add)
  show ?thesis
  proof (cases "?lo < ?hi")
    case False
    then have "\<not> (unat ?b \<le> unat a + i \<and> unat a + i < unat ?b + ?p)" if "i < n" for i
      using that by (auto simp: word_less_nat_alt lo hi)
    then have "peek (hide info m) a n = peek m a n"
      using True at by (intro nth_equalityI) (auto simp: peek_def hide_def)
    then show ?thesis using False True by (auto simp: hidePatch_def software_patch_def Let_def)
  next
    case L: True
    let ?at = "unat (?lo - a)" and ?from = "unat (?lo - ?b)" and ?len = "unat (?hi - ?lo)"
    have s: "unat (?lo - a) = unat ?lo - unat a" "unat (?lo - ?b) = unat ?lo - unat ?b" "unat (?hi - ?lo) = unat ?hi - unat ?lo"
      using L by (simp_all only: unat_sub max.cobounded1 max.cobounded2 less_imp_le)
    let ?bytes = "take ?len (drop ?from (bp_originalBytes info))"
    have lb: "length ?bytes = ?len" using fits unfolding s lo hi by (auto simp: patch_fits_def)
    have room: "?at + ?len \<le> n" using L unfolding s lo hi word_less_nat_alt by auto
    have "copyInto ?at ?bytes (peek m a n) = peek (poke m ?b ?orig) a n"
    proof (rule nth_equalityI)
      show "length (copyInto ?at ?bytes (peek m a n)) = length (peek (poke m ?b ?orig) a n)"
        using lb room by simp
      fix i assume "i < length (copyInto ?at ?bytes (peek m a n))"
      then have i: "i < n" using lb room by simp
      have inside: "?at \<le> i \<and> i < ?at + ?len \<longleftrightarrow> unat ?b \<le> unat a + i \<and> unat a + i < unat ?b + ?p"
        using L i unfolding s lo hi word_less_nat_alt by auto
      have "?bytes ! (i - ?at) = bp_originalBytes info ! (unat a + i - unat ?b)" if "?at \<le> i \<and> i < ?at + ?len"
      proof -
        have "i - ?at < length ?bytes" using that unfolding lb by linarith
        then have "?from \<le> length (bp_originalBytes info)" "i - ?at < ?len" by auto
        moreover have "?from + (i - ?at) = unat a + i - unat ?b" using that unfolding s lo by (auto simp: max_def)
        ultimately show ?thesis by simp
      qed
      then show "copyInto ?at ?bytes (peek m a n) ! i = peek (poke m ?b ?orig) a n ! i"
        using i lb room inside at [OF i] by (simp add: nth_copyInto peek_def)
    qed
    then show ?thesis using L True by (simp add: hidePatch_def software_patch_def hide_def Let_def)
  qed
qed

lemma hidePatches_peek:
  assumes "\<forall>(ident, info) \<in> set bps. patch_fits info" and "unat a + n < 2 ^ 64"
  shows "fold (\<lambda>(ident, info). hidePatch a (a + of_nat n) info) bps (peek m a n) = peek (shown bps m) a n"
  using assms(1) by (induction bps arbitrary: m) (auto simp: shown_def hidePatch_peek [OF _ assms(2)])

text \<open>What the adapter relies on: changing the protection of a page leaves its content.\<close>

definition protection_keeps_memory :: "'w os \<Rightarrow> ('w \<Rightarrow> u64 \<Rightarrow> byte) \<Rightarrow> bool" where
  "protection_keeps_memory os mem \<longleftrightarrow>
     (\<forall>h page n p w. mem (snd (snd (wVirtualProtectEx (win os) h page n p w))) = mem w)"

lemma protect_memory:
  assumes "protection_keeps_memory os mem"
  shows "mem (world (snd (protectMemoryBreakpointPage os page guarded s))) = mem (world s)"
  using assms unfolding protectMemoryBreakpointPage_def Let_def case_prod_unfold protection_keeps_memory_def
  by (simp split: option.split)

lemma world_only_protect [simp]: "world_only s (snd (protectMemoryBreakpointPage os page guarded s))"
  using protectMemoryBreakpointPage_state by (simp add: world_only_def)

lemma exposePages_effect: "world_only s (snd (exposePages os pages s))"
proof (induction pages arbitrary: s)
  case (Cons page pages)
  let ?t = "snd (if omap_contains (gMemoryBreakpointPages s) page then protectMemoryBreakpointPage os page False s else (False, s))"
  have "world_only s ?t" by simp
  from world_only_trans [OF this Cons.IH] show ?case by (simp add: Let_def case_prod_unfold)
qed simp

lemma reguardPages_effect: "world_only s (reguardPages os pages s)"
proof (induction pages arbitrary: s)
  case (Cons page pages)
  from world_only_trans [OF world_only_protect Cons.IH] show ?case by (simp add: reguardPages_def)
qed (simp add: reguardPages_def)

lemma exposePages_memory:
  assumes "protection_keeps_memory os mem"
  shows "mem (world (snd (exposePages os pages s))) = mem (world s)"
proof (induction pages arbitrary: s)
  case (Cons page pages)
  then show ?case by (simp add: Let_def case_prod_unfold protect_memory [OF assms])
qed simp

lemma reguardPages_memory:
  assumes "protection_keeps_memory os mem"
  shows "mem (world (reguardPages os pages s)) = mem (world s)"
  by (induction pages arbitrary: s) (simp_all add: reguardPages_def protect_memory [OF assms])

text \<open>A read of the live process through its handle, as the debugger makes it while it is paused.\<close>

definition live_read :: "'w os \<Rightarrow> HANDLE \<Rightarrow> u64 \<Rightarrow> 'w titan \<Rightarrow> bool" where
  "live_read os process a s \<longleftrightarrow> PauseLock s \<and> gSessionKind s = UE_SESSION_LIVE \<and> gSyntheticDebugString s = 0 \<and>
     process \<noteq> 0 \<and> 0x10000 \<le> a \<and>
     (\<forall>i. map_of (processHandleToIndex (gDebugIdMap s)) process = Some i \<longrightarrow> dProcessIndex (dbg os) (world s) = Some i)"

lemma MemoryReadUnsafe_live:
  assumes pm: "process_memory os mem" and prot: "protection_keeps_memory os mem" and live: "live_read os process a s"
    and len: "length buffer < 2 ^ 64" and run: "MemoryReadUnsafe os process a buffer s = ((ok, count, bytes), s')"
  shows "\<exists>k \<le> length buffer. bytes = peek (mem (world s)) a k @ drop k buffer \<and> count = Some (of_nat k)"
    and "world_only s s'" and "mem (world s') = mem (world s)"
    and "ok \<Longrightarrow> map_of (processHandleToIndex (gDebugIdMap s)) process \<noteq> None \<Longrightarrow>
      bytes = peek (mem (world s)) a (length buffer)"
    and "ok \<Longrightarrow> map_of (processHandleToIndex (gDebugIdMap s)) process \<noteq> None \<Longrightarrow>
      count = Some (of_nat (length buffer))"
proof -
  let ?n = "of_nat (length buffer) :: u64"
  let ?mapped = "map_of (processHandleToIndex (gDebugIdMap s)) process"
  let ?pages = "if ?n \<noteq> 0 \<and> a < a + ?n then pagesCovered os a ?n else []"
  define ex where "ex = (if ?mapped = None then ([], s) else exposePages os ?pages s)"
  let ?rd = "oscall (wReadProcessMemory (win os) process a ?n) (snd ex)"
  have result: "MemoryReadUnsafe os process a buffer s =
      (((if ?mapped = None then fst (fst ?rd) else fst (fst ?rd) \<and> length (snd (fst ?rd)) = length buffer),
        Some (of_nat (length (snd (fst ?rd)))), copyFront (snd (fst ?rd)) buffer),
       if ?mapped = None then snd ?rd else reguardPages os (fst ex) (snd ?rd))"
    using live by (cases ?mapped) (auto simp: MemoryReadUnsafe_def live_read_def ex_def Let_def case_prod_unfold)
  have ex: "world_only s (snd ex)" "mem (world (snd ex)) = mem (world s)"
    unfolding ex_def using exposePages_effect exposePages_memory [OF prot] by auto
  obtain ok1 got e w1 where rd: "wReadProcessMemory (win os) process a ?n (world (snd ex)) = ((ok1, got), e, w1)"
    by (metis prod.collapse)
  have R: "mem w1 = mem (world s)" "length got \<le> length buffer" "got = peek (mem (world s)) a (length got)"
    using process_memory_read [OF pm rd] len ex(2) by (simp_all add: unsigned_of_nat take_bit_nat_eq_self)
  have rdf: "fst ?rd = (ok1, got)" "mem (world (snd ?rd)) = mem (world s)" "world_only s (snd ?rd)"
    using rd R(1) world_only_trans [OF ex(1) world_only_oscall] by (simp_all add: fst_oscall)
  have parts: "bytes = copyFront got buffer" "count = Some (of_nat (length got))"
    "s' = (if ?mapped = None then snd ?rd else reguardPages os (fst ex) (snd ?rd))"
    "ok \<Longrightarrow> ?mapped \<noteq> None \<Longrightarrow> length got = length buffer"
    using run unfolding result rdf by auto
  show "\<exists>k \<le> length buffer. bytes = peek (mem (world s)) a k @ drop k buffer \<and> count = Some (of_nat k)"
    using R(2,3) parts(1,2) by (intro exI [of _ "length got"]) (simp add: copyFront_def)
  show "world_only s s'" using rdf(3) world_only_trans [OF rdf(3) reguardPages_effect] parts(3) by simp
  show "mem (world s') = mem (world s)" using rdf(2) reguardPages_memory [OF prot] parts(3) by simp
  show "ok \<Longrightarrow> ?mapped \<noteq> None \<Longrightarrow> bytes = peek (mem (world s)) a (length buffer)"
    using parts(1,4) R(3) by (simp add: copyFront_def)
  show "ok \<Longrightarrow> ?mapped \<noteq> None \<Longrightarrow> count = Some (of_nat (length buffer))"
    using parts(2,4) by simp
qed

lemma read_shows:
  assumes "process_memory os mem" and "protection_keeps_memory os mem" and "live_read os process a s"
    and "omap_contains (processHandleToIndex (gDebugIdMap s)) process"
    and "unat a + length buffer < 2 ^ 64" and "\<forall>(ident, info) \<in> set (gBreakpoints s). patch_fits info"
    and "MemoryReadSafe os process a buffer s = ((ok, count, bytes), s')"
  shows "world_only s s' \<and> mem (world s') = mem (world s) \<and>
    (ok \<longrightarrow> bytes = peek (shown (gBreakpoints s) (mem (world s))) a (length buffer) \<and>
       count = Some (of_nat (length buffer)))"
proof -
  obtain ok1 count1 bytes1 s1 where unsafe: "MemoryReadUnsafe os process a buffer s = ((ok1, count1, bytes1), s1)"
    by (metis prod.collapse)
  have len: "length buffer < 2 ^ 64" using assms(5) by simp
  note U = MemoryReadUnsafe_live [OF assms(1-3) len unsafe]
  have same: "PauseLock s1" "gBreakpoints s1 = gBreakpoints s"
    using assms(3) world_only_fields [OF U(2)] by (simp_all add: PauseLock_def live_read_def)
  have out: "s' = s1" "ok = ok1" "count = count1" "ok1 \<Longrightarrow> bytes =
      fold (\<lambda>(ident, info). hidePatch a (a + of_nat (length buffer)) info) (gBreakpoints s) bytes1"
    using assms(7) unsafe same by (auto simp: MemoryReadSafe_def split: if_splits)
  have "bytes = peek (shown (gBreakpoints s) (mem (world s))) a (length buffer) \<and> count = Some (of_nat (length buffer))" if ok
  proof -
    have "bytes1 = peek (mem (world s)) a (length buffer)"
      using U(4) that out(2) assms(4) by (simp add: omap_contains_def)
    moreover have "count1 = Some (of_nat (length buffer))" using U(5) that out(2) assms(4) by (simp add: omap_contains_def)
    ultimately show ?thesis using out that hidePatches_peek [OF assms(6,5)] by simp
  qed
  then show ?thesis using U(2,3) out(1) by simp
qed


section \<open>Breakpoints are invisible\<close>

lemma set_omap_insert: "set (omap_insert k v m) \<subseteq> insert (k, v) (set m)"
  by (induction k v m rule: omap_insert.induct) auto

text \<open>The bytes of a patch lie outside the \<open>n\<close> bytes from \<open>a\<close>.\<close>

definition clear_of :: "u64 \<Rightarrow> nat \<Rightarrow> breakpoint_info \<Rightarrow> bool" where
  "clear_of a n info \<longleftrightarrow> software_patch info \<longrightarrow> patch_fits info \<and>
     (unat (bp_offset info) + bp_patchSize info \<le> unat a \<or> unat a + n \<le> unat (bp_offset info))"

lemma hide_clear:
  assumes "clear_of a (length bytes) info" and "unat a + length bytes < 2 ^ 64"
  shows "hide info (poke m a bytes) = poke (hide info m) a bytes"
    and "peek (hide info m) a (length bytes) = peek m a (length bytes)"
proof -
  have at: "hide info m x = (if software_patch info \<and> unat (bp_offset info) \<le> unat x \<and> unat x < unat (bp_offset info) + bp_patchSize info
      then bp_originalBytes info ! (unat x - unat (bp_offset info)) else m x)" for m x
    using assms(1) poke_no_wrap [of "bp_offset info" "take (bp_patchSize info) (bp_originalBytes info)"]
    by (auto simp: hide_def clear_of_def patch_fits_def min_def)
  show "hide info (poke m a bytes) = poke (hide info m) a bytes"
    using assms by (auto simp: fun_eq_iff at poke_no_wrap clear_of_def)
  show "peek (hide info m) a (length bytes) = peek m a (length bytes)"
    using assms unat_add_small [of a] by (intro nth_equalityI) (auto simp: peek_def at clear_of_def)
qed

lemma shown_insert:
  assumes "map_of bps k = None" and "\<forall>(i, info) \<in> set bps. clear_of a (length patch) info"
    and "unat a + length patch < 2 ^ 64" and "software_patch info" and "bp_offset info = a"
    and "bp_patchSize info = length patch" and "take (bp_patchSize info) (bp_originalBytes info) = peek m a (length patch)"
  shows "shown (omap_insert k info bps) (poke m a patch) = shown bps m"
  using assms(1,2,7)
proof (induction bps arbitrary: m)
  case Nil
  then show ?case using assms(4-6) poke_peek [of patch "length patch"] by (simp add: shown_def hide_def)
next
  case (Cons e bps)
  obtain i other where e: "e = (i, other)" by (cases e)
  have mine: "hide info (poke m a patch) = m"
    using assms(4-6) Cons.prems(3) poke_peek [of patch "length patch"] by (simp add: hide_def)
  have clear: "clear_of a (length patch) other" using Cons.prems(2) e by simp
  note H = hide_clear [OF clear assms(3), of m]
  have "shown (omap_insert k info bps) (poke (hide other m) a patch) = shown bps (hide other m)"
    using Cons.IH [of "hide other m"] Cons.prems H(2) e by (simp split: if_splits)
  then show ?case using Cons.prems(1) mine H(1) by (auto simp: shown_def e)
qed

lemma length_patchOf: "length (patchOf selected) \<le> 2" "patchOf selected \<noteq> []"
  by (simp_all add: patchOf_def)


text \<open>A paused live session whose process handle 8 has index 0, over the memory of \<open>memory_os\<close>.\<close>

definition reading_os :: "(u64 \<Rightarrow> byte) os" where
  "reading_os = memory_os\<lparr>dbg := quiet_dbg\<lparr>dProcessIndex := (\<lambda>_. Some 0)\<rparr>\<rparr>"

definition reading_state :: "(u64 \<Rightarrow> byte) titan" where
  "reading_state = (live_titan (\<lambda>_. 0x90))\<lparr>gDebugIdMap := empty_id_map
     \<lparr>processIndexToHandle := [(0, 8)], processHandleToIndex := [(8, 0)]\<rparr>\<rparr>"

lemma reading_os_calls [simp]:
  "wReadProcessMemory (win reading_os) h a n w = ((True, peek w a (unat n)), None, w)"
  "wWriteProcessMemory (win reading_os) h a bytes w = ((True, of_nat (length bytes)), None, poke w a bytes)"
  "wFlushInstructionCache (win reading_os) h a k w = (True, None, w)"
  "dProcessIndex (dbg reading_os) w = Some 0" "targetPageSize reading_os = 0x1000"
  "wVirtualProtectEx (win reading_os) h a n p w = ((False, 0), None, w)"
  by (simp_all add: reading_os_def memory_os_def quiet_defs targetPageSize_def)

lemma reading_os_memory: "process_memory reading_os id" "protection_keeps_memory reading_os id"
  by (simp_all add: process_memory_def protection_keeps_memory_def)

lemma reading_live: "live_read reading_os 8 0x20000 reading_state"
  "omap_contains (processHandleToIndex (gDebugIdMap reading_state)) 8"
  by (simp_all add: live_read_def reading_state_def live_defs PauseLock_def omap_contains_def)

lemma reading_pages: "pagesCovered reading_os 0x20000 4 = [0x20000]"
  by (simp add: pagesCovered_def pageAddress_def) (subst pageRange.simps, simp)

lemma reading_ok:
  assumes "gMemoryBreakpointPages s = []" and "live_read reading_os 8 0x20000 s"
    and "map_of (processHandleToIndex (gDebugIdMap s)) 8 = Some 0"
  shows "fst (fst (MemoryReadSafe reading_os 8 0x20000 [0, 0, 0, 0] s))"
  using assms
  by (simp add: MemoryReadSafe_def MemoryReadUnsafe_def live_read_def reading_pages oscall_def reguardPages_def
      case_prod_unfold Let_def PauseLock_def)



section \<open>Filling memory\<close>

text \<open>What the adapter relies on: \<open>WriteVirtual\<close> writes as many bytes from the front as it reports, even when it fails.\<close>

definition virtual_writes :: "'w os \<Rightarrow> ('w \<Rightarrow> u64 \<Rightarrow> byte) \<Rightarrow> bool" where
  "virtual_writes os mem \<longleftrightarrow> (\<forall>a bytes w ok n e w'. dWriteVirtual (dbg os) a bytes w = ((ok, n), e, w') \<longrightarrow>
     unat n \<le> length bytes \<and> mem w' = poke (mem w) a (take (unat n) bytes))"

lemma poke_append:
  assumes "length xs + length ys < 2 ^ 64"
  shows "poke (poke m a xs) (a + of_nat (length xs)) ys = poke m a (xs @ ys)"
proof
  fix x
  let ?n = "of_nat (length xs) :: u64"
  have n: "unat ?n = length xs" using assms by (simp add: unsigned_of_nat take_bit_nat_eq_self)
  have eq: "x - (a + ?n) = (x - a) - ?n" by (simp add: algebra_simps)
  have "unat (x - (a + ?n)) = (if length xs \<le> unat (x - a) then unat (x - a) - length xs
      else 2 ^ 64 + unat (x - a) - length xs)"
    unfolding eq unat_diff_wrap [of "x - a"] n ..
  then show "poke (poke m a xs) (a + ?n) ys x = poke m a (xs @ ys) x"
    using assms by (auto simp: poke_def nth_append)
qed

lemma poke_Nil [simp]: "poke m a [] = m"
  by (simp add: poke_def fun_eq_iff)

lemma MemoryWriteSafe_writes:
  assumes "virtual_writes os mem" and "MemoryWriteSafe os process a (Some bytes) s = ((ok, n), s')"
  shows "\<exists>k \<le> length bytes. mem (world s') = poke (mem (world s)) a (take k bytes) \<and> world_only s s' \<and>
    (ok \<longrightarrow> k = length bytes)"
proof (cases "process = 0 \<or> a = 0 \<or> bytes = [] \<or> 0xFFFFFFFF < length bytes \<or> \<not> PauseLock s \<or>
    gSessionKind s = UE_SESSION_MINIDUMP \<or> gSessionKind s = UE_SESSION_TTD")
  case True
  then show ?thesis using assms(2) by (intro exI [of _ 0]) (auto simp: MemoryWriteSafe_def split: if_splits)
next
  case False
  obtain ok1 m e w where wr: "dWriteVirtual (dbg os) a bytes (world s) = ((ok1, m), e, w)" by (metis prod.collapse)
  have "unat m \<le> length bytes" "mem w = poke (mem (world s)) a (take (unat m) bytes)"
    using assms(1) wr unfolding virtual_writes_def by blast+
  moreover have "world s' = w" "ok \<longrightarrow> unat m = length bytes"
    using False assms(2) wr by (auto simp: MemoryWriteSafe_def oscall_def split: if_splits)
  moreover have "world_only s s'"
    using False assms(2) world_only_oscall [of s "dWriteVirtual (dbg os) a bytes"]
    by (auto simp: MemoryWriteSafe_def case_prod_unfold Let_def split: if_splits)
  ultimately show ?thesis by (intro exI [of _ "unat m"]) auto
qed

lemma fillChunks_writes:
  assumes vw: "virtual_writes os mem" and small: "amount < 2 ^ 64"
    and "offset \<le> amount" and "mem (world s) = poke m start (replicate offset byte)"
    and "fillChunks os process start amount byte offset s = (ok, s')"
  shows "\<exists>k \<le> amount. mem (world s') = poke m start (replicate k byte) \<and> world_only s s' \<and> (ok \<longrightarrow> k = amount)"
  using assms(3-)
proof (induction "amount - offset" arbitrary: offset s rule: less_induct)
  case less
  show ?case
  proof (cases "offset < amount")
    case False
    then show ?thesis using less.prems by (subst (asm) fillChunks.simps) auto
  next
    case True
    define count where "count = min (min amount (64 * 1024)) (amount - offset)"
    then have count: "0 < count" "offset + count \<le> amount" using True by auto
    obtain ok1 n s1 where w: "MemoryWriteSafe os process (start + of_nat offset) (Some (replicate count byte)) s = ((ok1, n), s1)"
      by (metis prod.collapse)
    obtain k where "k \<le> length (replicate count byte)" "world_only s s1"
      "mem (world s1) = poke (mem (world s)) (start + of_nat offset) (take k (replicate count byte))"
      "ok1 \<longrightarrow> k = length (replicate count byte)"
      using MemoryWriteSafe_writes [OF vw w] by blast
    then have k: "k \<le> count" "mem (world s1) = poke (mem (world s)) (start + of_nat offset) (replicate k byte)"
      "world_only s s1" "ok1 \<longrightarrow> k = count"
      by (simp_all add: min_absorb1)
    have m1: "mem (world s1) = poke m start (replicate (offset + k) byte)"
      using poke_append [of "replicate offset byte" "replicate k byte" m start] k(1,2) less.prems(2) count small
      by (simp add: replicate_add)
    have step: "fillChunks os process start amount byte offset s =
        (if \<not> ok1 \<or> n \<noteq> of_nat count then (False, s1)
         else fillChunks os process start amount byte (offset + count) s1)"
      by (subst fillChunks.simps) (simp only: True if_True Let_def count_def [symmetric] w prod.case)
    show ?thesis
    proof (cases "ok1 \<and> n = of_nat count")
      case False
      then have "ok = False" "s' = s1" using less.prems(3) unfolding step by auto
      then show ?thesis using m1 k count by (intro exI [of _ "offset + k"]) auto
    next
      case go: True
      then have run: "fillChunks os process start amount byte (offset + count) s1 = (ok, s')"
        using less.prems(3) unfolding step by simp
      have m2: "mem (world s1) = poke m start (replicate (offset + count) byte)" using m1 k(4) go by simp
      have "amount - (offset + count) < amount - offset" "offset + count \<le> amount" using True count by auto
      from less.hyps [OF this m2 run] show ?thesis using world_only_trans [OF k(3)] by blast
    qed
  qed
qed

text \<open>
  C27. \<open>Fill\<close> ends, and when it succeeds the debuggee holds the requested number of copies of the byte (NOP
  when no byte is given) from the address on, and no other byte has changed. When it fails, it has written a
  prefix of them.
\<close>

theorem Fill_fills:
  assumes "virtual_writes os mem" and "Fill os start sz byte s = (ok, s')"
  shows "\<exists>k \<le> unat sz. mem (world s') = poke (mem (world s)) start (replicate k (case byte of Some b \<Rightarrow> b | None \<Rightarrow> 0x90)) \<and>
    world_only s s' \<and> (ok \<longrightarrow> k = unat sz \<and> PauseLock s)"
proof (cases "start = 0 \<or> sz = 0 \<or> \<not> PauseLock s \<or> activeProcessHandle os s = 0")
  case True
  then show ?thesis using assms(2) by (intro exI [of _ 0]) (auto simp: Fill_def split: if_splits)
next
  case False
  let ?b = "case byte of Some b \<Rightarrow> b | None \<Rightarrow> 0x90"
  from False assms(2) have run: "fillChunks os (activeProcessHandle os s) start (unat sz) ?b 0 s = (ok, s')"
    by (simp add: Fill_def)
  have "unat sz < 2 ^ 64" using unsigned_less [of sz, where 'a = nat] by simp
  from fillChunks_writes [OF assms(1) this _ _ run, of "mem (world s)"] show ?thesis using False by auto
qed

definition writing_os :: "(u64 \<Rightarrow> byte) os" where
  "writing_os = quiet_os\<lparr>dbg := quiet_dbg\<lparr>dProcessIndex := (\<lambda>_. Some 0),
     dWriteVirtual := (\<lambda>a bytes w. ((True, of_nat (length bytes)), None, poke w a (take (unat (of_nat (length bytes) :: u32)) bytes)))\<rparr>\<rparr>"

theorem Fill_fills_witness:
  "\<exists>s'. Fill writing_os 0x20000 3 None (live_titan (\<lambda>_. 0)) = (True, s') \<and>
     world s' = poke (\<lambda>_. 0) 0x20000 [0x90, 0x90, 0x90]"
proof -
  have vw: "virtual_writes writing_os id"
  proof -
    have "unat (of_nat n :: u32) \<le> n" for n by (simp add: unsigned_of_nat take_bit_nat_less_eq_self)
    then show ?thesis by (auto simp: virtual_writes_def writing_os_def quiet_defs)
  qed
  let ?run = "Fill writing_os 0x20000 3 None (live_titan (\<lambda>_. 0))"
  have "fst ?run"
    by (simp add: Fill_def PauseLock_def activeProcessHandle_def writing_os_def quiet_defs live_defs MemoryWriteSafe_def
        oscall_def fillChunks.simps)
  then obtain s' where run: "?run = (True, s')" by (cases ?run) auto
  have "world (live_titan m) = m" for m :: "u64 \<Rightarrow> byte" by (simp add: live_defs)
  moreover have "replicate 3 (0x90 :: byte) = [0x90, 0x90, 0x90]" by (simp add: numeral_3_eq_3)
  ultimately show ?thesis using Fill_fills [OF vw run] run by auto
qed

section \<open>The memory map of a recording\<close>

lemma searchRanges_hit:
  "searchRanges protection type a ranges seen = Inl info \<Longrightarrow>
   \<exists>start stop. start \<le> a \<and> a < stop \<and> info = region start (stop - start) protection type"
  by (induction protection type a ranges seen rule: searchRanges.induct) (auto split: if_splits)

lemma searchRanges_miss: "searchRanges protection type a ranges seen = Inr all \<Longrightarrow> all = seen @ ranges"
  by (induction protection type a ranges seen rule: searchRanges.induct) (auto split: if_splits)

lemma nextRange_least:
  assumes "r \<in> set ranges" and "a < fst r"
  shows "a < nextRange a ranges \<and> nextRange a ranges \<le> fst r"
proof -
  have "\<exists>q \<in> set (sort ranges). a < fst q" using assms by auto
  then obtain q where q: "find (\<lambda>r. a < fst r) (sort ranges) = Some q"
    by (metis find_None_iff2 not_None_eq)
  then obtain i where i: "i < length (sort ranges)" "a < fst q" "q = sort ranges ! i"
    "\<forall>j < i. \<not> a < fst (sort ranges ! j)" by (auto simp: find_Some_iff)
  from assms(1) obtain j where j: "j < length (sort ranges)" "r = sort ranges ! j"
    by (metis in_set_conv_nth set_sort)
  with i assms(2) have "i \<le> j" by (metis not_le)
  then have "q \<le> r" using i(3) j sorted_nth_mono [of "sort ranges" i j] by simp
  then have "fst q \<le> fst r" by (auto simp: less_eq_prod_def)
  then show ?thesis using q i(2) by (simp add: nextRange_def)
qed

lemma nextRange_none: "\<forall>r \<in> set ranges. \<not> a < fst r \<Longrightarrow> nextRange a ranges = maximumAddress"
proof -
  assume "\<forall>r \<in> set ranges. \<not> a < fst r"
  then have "find (\<lambda>r. a < fst r) (sort ranges) = None" by (auto simp: find_None_iff)
  then show "nextRange a ranges = maximumAddress" by (simp add: nextRange_def)
qed

lemma and_split:
  fixes a m :: u64
  shows "(a AND m) + (a AND NOT m) = a"
proof -
  have "(a AND m) AND (a AND NOT m) = 0" "(a AND m) OR (a AND NOT m) = a"
    by (auto intro!: bit_eqI simp: bit_and_iff bit_or_iff bit_not_iff dest: bit_imp_possible_bit)
  then show ?thesis using word_plus_and_or [of "a AND m" "a AND NOT m"] by simp
qed

lemma page_of:
  fixes a :: u64
  shows "a AND NOT 0xFFF \<le> a" and "a - (a AND NOT 0xFFF) < 0x1000"
proof -
  show "a AND NOT 0xFFF \<le> a" by (rule word_and_le2)
  have "(a AND 0xFFF) + (a AND NOT 0xFFF) = a" by (rule and_split)
  then have "a - (a AND NOT 0xFFF) = a AND 0xFFF" by (metis add_diff_cancel_right')
  also have "\<dots> = take_bit 12 a" by (simp add: take_bit_eq_mask mask_eq_exp_minus_1)
  also have "\<dots> < 0x1000" using take_bit_nat_less_exp [of 12 "unat a"] by (simp add: word_less_nat_alt unsigned_take_bit_eq)
  finally show "a - (a AND NOT 0xFFF) < 0x1000" .
qed

lemma word_diff_mono:
  fixes x y z :: u64
  shows "x \<le> y \<Longrightarrow> y \<le> z \<Longrightarrow> y - x \<le> z - x"
  by (simp add: word_le_nat_alt unat_diff_wrap)

text \<open>A region from \<open>base\<close> that holds \<open>a\<close> and ends after it.\<close>

lemma region_past:
  fixes a base sz :: u64
  assumes "base \<le> a" and "a - base < sz" and "unat base + unat sz < 2 ^ 64"
  shows "a < base + sz"
proof -
  have "unat (base + sz) = unat base + unat sz" using assms(3) by (simp add: unat_word_ariths)
  moreover have "unat (a - base) = unat a - unat base" using assms(1) by (simp add: unat_sub)
  ultimately show ?thesis using assms(1,2) by (simp add: word_less_nat_alt word_le_nat_alt)
qed

text \<open>Every range the query knows: the mapped modules, and the stacks and TEB pages of the active threads.\<close>

definition knownRanges :: "'w os \<Rightarrow> 'w titan \<Rightarrow> (u64 \<times> u64) list" where
  "knownRanges os s = moduleRanges (ttdCurrentModules os s) @ activeThreadRanges os s"

lemma queryTtdMemory_cases:
  obtains (known) start stop protection type where "start \<le> a" "a < stop"
      "queryTtdMemory os a s = region start (stop - start) protection type"
  | (readable) "queryTtdMemory os a s = region (a AND NOT 0xFFF) 0x1000 PAGE_READWRITE MEM_PRIVATE"
  | (unknown) "queryTtdMemory os a s = freeRegion a (knownRanges os s)" "ReadMemory os (world s) a 1 = None"
proof (cases "searchRanges PAGE_EXECUTE_READ MEM_IMAGE a (moduleRanges (ttdCurrentModules os s)) []")
  case (Inl info)
  then show ?thesis using known searchRanges_hit [OF Inl] by (auto simp: queryTtdMemory_def)
next
  case (Inr ranges)
  then have seen: "ranges = moduleRanges (ttdCurrentModules os s)" using searchRanges_miss by fastforce
  show ?thesis
  proof (cases "searchRanges PAGE_READWRITE MEM_PRIVATE a (activeThreadRanges os s) ranges")
    case (Inl info)
    then show ?thesis using known searchRanges_hit [OF Inl] Inr by (auto simp: queryTtdMemory_def)
  next
    case I: (Inr all)
    then have "all = knownRanges os s" using searchRanges_miss [OF I] seen by (simp add: knownRanges_def)
    then show ?thesis using readable unknown Inr I by (cases "ReadMemory os (world s) a 1") (auto simp: queryTtdMemory_def)
  qed
qed

text \<open>
  C28. The memory map of a recording. A query answers a region that holds the queried address, and for an
  address below the end of user space the region ends after it, so a walk from region to region
  advances. A free region of more than a page ends before the next known module, stack or TEB. From the end of user
  space on, the size of a free region wraps around: the region ends at the end of user space again, below
  the queried address.
\<close>

theorem MemoryQuerySafe_covers:
  assumes "gSessionKind s = UE_SESSION_TTD" and "MemoryQuerySafe os process a given len s = (Some info, s')"
  shows "s' = s \<and> mbi_BaseAddress info \<le> a \<and> a - mbi_BaseAddress info < mbi_RegionSize info \<and>
    (a < maximumAddress \<longrightarrow> a < mbi_BaseAddress info + mbi_RegionSize info) \<and>
    (mbi_State info = MEM_FREE \<longrightarrow>
      (\<forall>r \<in> set (knownRanges os s). a < fst r \<longrightarrow> mbi_RegionSize info \<le> max 0x1000 (fst r - mbi_BaseAddress info)) \<and>
      (maximumAddress < mbi_BaseAddress info \<longrightarrow> (\<forall>r \<in> set (knownRanges os s). \<not> a < fst r) \<longrightarrow>
        mbi_BaseAddress info + mbi_RegionSize info = maximumAddress))"
proof -
  have q: "s' = s" "info = queryTtdMemory os a s" using assms by (auto simp: MemoryQuerySafe_def split: if_splits)
  let ?page = "a AND NOT 0xFFF" and ?next = "nextRange a (knownRanges os s)"
  have low: "unat ?page \<le> unat a" "unat (a - ?page) < 0x1000"
    using page_of [of a] by (simp_all add: word_le_nat_alt word_less_nat_alt)
  have step: "a < ?page + 0x1000" if "a < maximumAddress"
    using region_past [of ?page a "0x1000"] page_of [of a] low that by (simp add: maximumAddress_def word_less_nat_alt)
  show ?thesis
  proof (cases os a s rule: queryTtdMemory_cases)
    case (known start stop protection type)
    then have "a - start < stop - start" by (simp add: word_less_nat_alt word_le_nat_alt unat_sub)
    then show ?thesis using q known by (simp add: region_def)
  next
    case readable
    then show ?thesis using q page_of [of a] step by (simp add: region_def)
  next
    case unknown
    have info: "mbi_BaseAddress info = ?page" "mbi_RegionSize info = max 0x1000 (?next - ?page)" "mbi_State info = MEM_FREE"
      using unknown(1) q(2) by (simp_all add: freeRegion_def Let_def)
    have after: "a < ?next" if "a < maximumAddress"
      using nextRange_least nextRange_none that by metis
    have region: "mbi_RegionSize info = 0x1000 \<or> mbi_RegionSize info = ?next - ?page" "0x1000 \<le> mbi_RegionSize info"
      unfolding info by (simp_all add: max_def)
    have least: "mbi_RegionSize info \<le> max 0x1000 (fst r - ?page)" if r: "r \<in> set (knownRanges os s)" "a < fst r" for r
    proof -
      have "?page \<le> ?next" "?next \<le> fst r" using nextRange_least [OF r] page_of(1) [of a] by auto
      then have "?next - ?page \<le> fst r - ?page" by (rule word_diff_mono)
      then show ?thesis unfolding info by (auto simp: max_def)
    qed
    have wrap: "?page + mbi_RegionSize info = maximumAddress"
      if "maximumAddress < ?page" "\<forall>r \<in> set (knownRanges os s). \<not> a < fst r"
    proof -
      have "unat ?page < 2 ^ 64" using unsigned_less [of ?page, where 'a = nat] by simp
      then have "0x1000 \<le> maximumAddress - ?page"
        using that(1) by (simp add: word_le_nat_alt word_less_nat_alt unat_diff_wrap maximumAddress_def)
      then show ?thesis unfolding info nextRange_none [OF that(2)] by (simp add: max_def)
    qed
    have "a - ?page < mbi_RegionSize info" using page_of(2) [of a] region(2) by (rule less_le_trans)
    moreover have "a < ?page + mbi_RegionSize info" if "a < maximumAddress"
      using region(1) step [OF that] after [OF that] by auto
    ultimately show ?thesis using least wrap page_of(1) [of a] q(1) unfolding info(1) by blast
  qed
qed

text \<open>A replayed session with the process token 8, one module at 0x400000, and no readable memory.\<close>

definition mapped_os :: "unit os" where
  "mapped_os = quiet_os\<lparr>ttd := quiet_ttd\<lparr>tModules := (\<lambda>_. [None, Some
     \<lparr>tm_base = 0x400000, tm_size = 0x2000, tm_checksum = 0, tm_path = []\<rparr>])\<rparr>\<rparr>"

definition mapped_state :: "unit titan" where
  "mapped_state = (initial_titan ())\<lparr>gSessionKind := UE_SESSION_TTD, gIsDebugging := True, gPaused := True,
     gTtdCursor := True, gDebugIdMap := empty_id_map\<lparr>processHandleToIndex := [(8, 0)]\<rparr>\<rparr>"

theorem MemoryQuerySafe_covers_witness:
  "\<exists>info. MemoryQuerySafe mapped_os 8 0x10234 True 48 mapped_state = (Some info, mapped_state) \<and>
     mbi_State info = MEM_FREE \<and> mbi_BaseAddress info = 0x10000 \<and> mbi_RegionSize info = 0x3F0000 \<and>
     0x10234 < mbi_BaseAddress info + mbi_RegionSize info"
proof -
  let ?run = "MemoryQuerySafe mapped_os 8 0x10234 True 48 mapped_state"
  have empty: "ReadMemory mapped_os () 0x10234 1 = None"
    by (simp add: ReadMemory_def ReadMemoryPartial.simps mapped_os_def quiet_defs)
  have run: "?run = (Some (freeRegion 0x10234 [(0x400000, 0x402000)]), mapped_state)"
    using empty by (simp add: MemoryQuerySafe_def queryTtdMemory_def mapped_state_def mapped_os_def quiet_defs live_defs PauseLock_def
        omap_contains_def ttdCurrentModules_def moduleRanges_def activeThreadRanges_def map_filter_simps)
  have kind: "gSessionKind mapped_state = UE_SESSION_TTD" by (simp add: mapped_state_def)
  from MemoryQuerySafe_covers [OF kind run] run show ?thesis
    by (simp add: freeRegion_def nextRange_def maximumAddress_def)
qed

end
