(* ===== verification/Registers.thy ===== *)
theory Registers
  imports Event_Core
begin

text \<open>
  The register cache \<open>gRegisterCache\<close> and the scope that selects a thread (\<open>TitanEngine.cpp\<close>, lines 1731
  to 2059 and 2150 to 2205). The abstract state is the register file each thread would have once
  the pending writes of the cache were flushed; the cache operations refine it.
\<close>

section \<open>Names\<close>

text \<open>\<open>_stricmp\<close> in the C locale: upper case letters are folded to lower case.\<close>

definition ascii_lower :: "char \<Rightarrow> char" where
  "ascii_lower c = (let n = of_char c :: nat in if 65 \<le> n \<and> n \<le> 90 then char_of (n + 32) else c)"

definition stricmp_equal :: "string \<Rightarrow> string \<Rightarrow> bool" where
  "stricmp_equal a b = (map ascii_lower a = map ascii_lower b)"

text \<open>
  \<open>TitanRegNameMap\<close> as it is written. The map's key is the address of the literal, so the pairs that
  repeat a literal are dropped when the compiler pools equal literals.
\<close>

definition TitanRegNameList :: "(string \<times> u32) list" where
  "TitanRegNameList =
   [(''eax'', UE_EAX), (''ebx'', UE_EBX), (''ecx'', UE_ECX), (''edx'', UE_EDX), (''edi'', UE_EDI),
    (''esi'', UE_ESI), (''ebp'', UE_EBP), (''esp'', UE_ESP), (''eip'', UE_EIP), (''efl'', UE_EFLAGS),
    (''dr0'', UE_DR0), (''dr1'', UE_DR1), (''dr2'', UE_DR2), (''dr3'', UE_DR3), (''dr6'', UE_DR6),
    (''dr7'', UE_DR7), (''rax'', UE_RAX), (''rbx'', UE_RBX), (''rcx'', UE_RCX), (''rdx'', UE_RDX),
    (''rdi'', UE_RDI), (''rsi'', UE_RSI), (''rbp'', UE_RBP), (''rsp'', UE_RSP), (''rip'', UE_RIP),
    (''efl'', UE_RFLAGS), (''r8'', UE_R8), (''r9'', UE_R9), (''r10'', UE_R10), (''r11'', UE_R11),
    (''r12'', UE_R12), (''r13'', UE_R13), (''r14'', UE_R14), (''r15'', UE_R15), (''rip'', UE_CIP),
    (''rsp'', UE_CSP), (''gs'', UE_SEG_GS), (''fs'', UE_SEG_FS), (''es'', UE_SEG_ES), (''ds'', UE_SEG_DS),
    (''cs'', UE_SEG_CS), (''ss'', UE_SEG_SS), (''st0'', 43), (''st1'', 44), (''st2'', 45), (''st3'', 46),
    (''st4'', 47), (''st5'', 48), (''st6'', 49), (''st7'', 50), (''fpsw'', UE_X87_STATUSWORD),
    (''fpcw'', UE_X87_CONTROLWORD), (''fptw'', UE_X87_TAGWORD), (''mxcsr'', UE_MXCSR), (''mm0'', 55),
    (''mm1'', 56), (''mm2'', 57), (''mm3'', 58), (''mm4'', 59), (''mm5'', 60), (''mm6'', 61), (''mm7'', 62),
    (''xmm0'', 63), (''xmm1'', 64), (''xmm2'', 65), (''xmm3'', 66), (''xmm4'', 67), (''xmm5'', 68),
    (''xmm6'', 69), (''xmm7'', 70), (''xmm8'', 71), (''xmm9'', 72), (''xmm10'', 73), (''xmm11'', 74),
    (''xmm12'', 75), (''xmm13'', 76), (''xmm14'', 77), (''xmm15'', 78), (''st0'', 79), (''st1'', 80),
    (''st2'', 81), (''st3'', 82), (''st4'', 83), (''st5'', 84), (''st6'', 85), (''st7'', 86), (''ymm0'', 87),
    (''ymm1'', 88), (''ymm2'', 89), (''ymm3'', 90), (''ymm4'', 91), (''ymm5'', 92), (''ymm6'', 93),
    (''ymm7'', 94), (''ymm8'', 95), (''ymm9'', 96), (''ymm10'', 97), (''ymm11'', 98), (''ymm12'', 99),
    (''ymm13'', 100), (''ymm14'', 101), (''ymm15'', 102)]"

fun firstByName :: "string list \<Rightarrow> (string \<times> u32) list \<Rightarrow> (string \<times> u32) list" where
  "firstByName seen [] = []"
| "firstByName seen ((name, reg) # rest) =
     (if name \<in> set seen then firstByName seen rest else (name, reg) # firstByName (name # seen) rest)"

definition TitanRegNameMap :: "'w os \<Rightarrow> (string \<times> u32) list" where
  "TitanRegNameMap os = (if wLiteralPooling (win os) then firstByName [] TitanRegNameList else TitanRegNameList)"

section \<open>Reading and writing\<close>

text \<open>The index map after the register called \<open>name\<close> has been described.\<close>

definition mapRegisterName :: "'w os \<Rightarrow> nat \<Rightarrow> string \<Rightarrow> (u32, nat) omap \<Rightarrow> (u32, nat) omap" where
  "mapRegisterName os i name m =
     (let m = fold (\<lambda>(titanName, reg) m. if stricmp_equal name titanName then omap_insert reg i m else m)
                (TitanRegNameMap os) m
      in if stricmp_equal name ''efl'' then omap_insert UE_RFLAGS i (omap_insert UE_EFLAGS i m)
         else if stricmp_equal name ''rip'' then omap_insert UE_CIP i m
         else if stricmp_equal name ''rsp'' then omap_insert UE_CSP i m
         else m)"

text \<open>The description loop: it stops at the first register the engine does not describe.\<close>

fun describeRegisters :: "'w os \<Rightarrow> 'w \<Rightarrow> nat list \<Rightarrow> register_cache \<Rightarrow> bool \<times> register_cache" where
  "describeRegisters os w [] cache = (True, cache)"
| "describeRegisters os w (i # is) cache = (case dRegisterName (dbg os) i w of
     None \<Rightarrow> (False, cache)
   | Some name \<Rightarrow> describeRegisters os w is
       (cache\<lparr>rc_Names := (rc_Names cache)[i := name],
              rc_TitanRegIndexMap := mapRegisterName os i name (rc_TitanRegIndexMap cache)\<rparr>))"

definition resizeCache :: "nat \<Rightarrow> register_cache \<Rightarrow> register_cache" where
  "resizeCache n cache = cache\<lparr>rc_Count := n, rc_Values := replicate n DV_INVALID,
     rc_Names := replicate n [], rc_Changed := replicate n False\<rparr>"

definition RegisterCache_Read :: "'w os \<Rightarrow> 'w titan \<Rightarrow> bool \<times> 'w titan" where
  "RegisterCache_Read os s =
     (let (described, cache) =
        (if rc_Count (gRegisterCache s) = 0
         then (case dNumberRegisters (dbg os) (world s) of
             None \<Rightarrow> (False, gRegisterCache s)
           | Some n \<Rightarrow> describeRegisters os (world s) [0..<n] (resizeCache n (gRegisterCache s)))
         else (True, gRegisterCache s));
        s = s\<lparr>gRegisterCache := cache\<rparr>
      in if \<not> described then (False, s)
         else (let (values, s) = oscall (dGetValues (dbg os) (rc_Count cache)) s
               in case values of
                    None \<Rightarrow> (False, s)
                  | Some vs \<Rightarrow> (True, s\<lparr>gRegisterCache := cache\<lparr>rc_Values := vs\<rparr>\<rparr>)))"

definition changedRegisters :: "register_cache \<Rightarrow> (nat \<times> debug_value) list" where
  "changedRegisters cache = [(i, rc_Values cache ! i). i \<leftarrow> [0..<rc_Count cache], rc_Changed cache ! i]"

definition RegisterCache_Flush :: "'w os \<Rightarrow> 'w titan \<Rightarrow> bool \<times> 'w titan" where
  "RegisterCache_Flush os s =
     (let changed = changedRegisters (gRegisterCache s)
      in if changed = [] then (True, s)
         else (let (ok, s) = oscall (dSetValues (dbg os) changed) s
               in if \<not> ok then (False, s)
                  else (True, s\<lparr>gRegisterCache := (gRegisterCache s)
                          \<lparr>rc_Changed := replicate (length (rc_Changed (gRegisterCache s))) False\<rparr>\<rparr>)))"

text \<open>Assigning an integer to a value keeps its type; the other types cannot be assigned.\<close>

definition assignInteger :: "u64 \<Rightarrow> debug_value \<Rightarrow> debug_value option" where
  "assignInteger newValue old = (case old of
     DV_INT8 _ \<Rightarrow> Some (DV_INT8 (ucast newValue))
   | DV_INT16 _ \<Rightarrow> Some (DV_INT16 (ucast newValue))
   | DV_INT32 _ \<Rightarrow> Some (DV_INT32 (ucast newValue))
   | DV_INT64 _ \<Rightarrow> Some (DV_INT64 newValue)
   | _ \<Rightarrow> None)"

definition RegisterCache_SetValue :: "u32 \<Rightarrow> u64 \<Rightarrow> 'w titan \<Rightarrow> bool \<times> 'w titan" where
  "RegisterCache_SetValue reg newValue s =
     (let cache = gRegisterCache s
      in case map_of (rc_TitanRegIndexMap cache) reg of
           None \<Rightarrow> (False, s)
         | Some index \<Rightarrow> (case assignInteger newValue (rc_Values cache ! index) of
               None \<Rightarrow> (False, SetLastError ERROR_NOT_SUPPORTED s)
             | Some v \<Rightarrow> (True, s\<lparr>gRegisterCache := cache
                   \<lparr>rc_Values := (rc_Values cache)[index := v], rc_Changed := (rc_Changed cache)[index := True]\<rparr>\<rparr>)))"

definition RegisterCache_FindValue :: "string \<Rightarrow> 'w titan \<Rightarrow> debug_value option" where
  "RegisterCache_FindValue name s =
     map_option snd (find (\<lambda>(n, v). stricmp_equal n name \<and> v \<noteq> DV_INVALID)
       (zip (rc_Names (gRegisterCache s)) (rc_Values (gRegisterCache s))))"

fun integerOf :: "debug_value \<Rightarrow> u64" where
  "integerOf (DV_INT8 v) = ucast v"
| "integerOf (DV_INT16 v) = ucast v"
| "integerOf (DV_INT32 v) = ucast v"
| "integerOf (DV_INT64 v) = v"
| "integerOf _ = 0"

definition RegisterCache_GetValue :: "u32 \<Rightarrow> 'w titan \<Rightarrow> u64" where
  "RegisterCache_GetValue reg s = (case map_of (rc_TitanRegIndexMap (gRegisterCache s)) reg of
     None \<Rightarrow> 0 | Some index \<Rightarrow> integerOf (rc_Values (gRegisterCache s) ! index))"

definition setCurrentInstructionPointer :: "u64 \<Rightarrow> 'w titan \<Rightarrow> 'w titan" where
  "setCurrentInstructionPointer address s = snd (RegisterCache_SetValue UE_CIP address s)"

section \<open>Selecting a thread\<close>

record thread_scope =
  ts_previousIndex :: u32
  ts_switched :: bool
  ts_valid :: bool

definition openThreadScope :: "'w os \<Rightarrow> HANDLE \<Rightarrow> 'w titan \<Rightarrow> thread_scope \<times> 'w titan" where
  "openThreadScope os threadHandle s = (case map_of (threadHandleToIndex (gDebugIdMap s)) threadHandle of
     None \<Rightarrow> (\<lparr>ts_previousIndex = 0, ts_switched = False, ts_valid = False\<rparr>, SetLastError ERROR_INVALID_HANDLE s)
   | Some requested \<Rightarrow> (case dThreadIndex (dbg os) (world s) of
         None \<Rightarrow> (\<lparr>ts_previousIndex = 0, ts_switched = False, ts_valid = False\<rparr>, s)
       | Some previous \<Rightarrow>
           if requested = previous
           then (\<lparr>ts_previousIndex = previous, ts_switched = False, ts_valid = True\<rparr>, s)
           else (let (flushed, s) = RegisterCache_Flush os s
                 in if \<not> flushed then (\<lparr>ts_previousIndex = previous, ts_switched = False, ts_valid = False\<rparr>, s)
                    else (let (selected, s) = oscall (dSetCurrentThread (dbg os) requested) s
                          in if \<not> selected
                             then (\<lparr>ts_previousIndex = previous, ts_switched = False, ts_valid = False\<rparr>, s)
                             else (let (ok, s) = RegisterCache_Read os s
                                   in (\<lparr>ts_previousIndex = previous, ts_switched = True, ts_valid = ok\<rparr>, s))))))"

definition closeThreadScope :: "'w os \<Rightarrow> thread_scope \<Rightarrow> 'w titan \<Rightarrow> 'w titan" where
  "closeThreadScope os scope s =
     (if \<not> ts_switched scope then s
      else (let (flushed, s) = RegisterCache_Flush os s;
                (selected, s) = oscall (dSetCurrentThread (dbg os) (ts_previousIndex scope)) s
            in if selected then snd (RegisterCache_Read os s) else s))"

section \<open>The engine's register files\<close>

text \<open>
  What DbgEng promises about registers: there is a current thread, every thread has a register
  file, selecting a thread changes no register, reading returns the file of the current
  thread, and writing changes exactly the registers named, in the current thread. A call
  that fails changes nothing. The number of registers is \<open>n\<close>.
\<close>

definition write_file :: "(nat \<times> debug_value) list \<Rightarrow> (nat \<Rightarrow> debug_value) \<Rightarrow> nat \<Rightarrow> debug_value" where
  "write_file updates rf = fold (\<lambda>(i, v) f. f(i := v)) updates rf"

definition register_engine :: "'w os \<Rightarrow> ('w \<Rightarrow> u32) \<Rightarrow> ('w \<Rightarrow> u32 \<Rightarrow> nat \<Rightarrow> debug_value) \<Rightarrow> bool" where
  "register_engine os cur rf \<longleftrightarrow>
     (\<forall>w. dThreadIndex (dbg os) w = Some (cur w)) \<and>
     (\<forall>i w. cur (snd (snd (dSetCurrentThread (dbg os) i w))) = (if fst (dSetCurrentThread (dbg os) i w) then i else cur w) \<and>
            rf (snd (snd (dSetCurrentThread (dbg os) i w))) = rf w) \<and>
     (\<forall>n w. fst (dGetValues (dbg os) n w) = Some (map (rf w (cur w)) [0..<n]) \<and>
            cur (snd (snd (dGetValues (dbg os) n w))) = cur w \<and> rf (snd (snd (dGetValues (dbg os) n w))) = rf w) \<and>
     (\<forall>ups w. cur (snd (snd (dSetValues (dbg os) ups w))) = cur w \<and>
            rf (snd (snd (dSetValues (dbg os) ups w))) =
              (if fst (dSetValues (dbg os) ups w) then (rf w)(cur w := write_file ups (rf w (cur w))) else rf w))"

text \<open>
  The shape of a cache that has been read, and its coherence with the file of the current
  thread: a register without a pending write holds the engine's value.
\<close>

definition cache_shape :: "register_cache \<Rightarrow> bool" where
  "cache_shape c \<longleftrightarrow> 0 < rc_Count c \<and> length (rc_Values c) = rc_Count c \<and> length (rc_Changed c) = rc_Count c \<and>
     (\<forall>reg index. map_of (rc_TitanRegIndexMap c) reg = Some index \<longrightarrow> index < rc_Count c)"

definition cache_coherent :: "('w \<Rightarrow> u32) \<Rightarrow> ('w \<Rightarrow> u32 \<Rightarrow> nat \<Rightarrow> debug_value) \<Rightarrow> 'w titan \<Rightarrow> bool" where
  "cache_coherent cur rf s \<longleftrightarrow> cache_shape (gRegisterCache s) \<and>
     (\<forall>i < rc_Count (gRegisterCache s). \<not> rc_Changed (gRegisterCache s) ! i \<longrightarrow>
        rc_Values (gRegisterCache s) ! i = rf (world s) (cur (world s)) i)"

text \<open>The abstract register file: the engine's, overlaid with the pending writes of the current thread.\<close>

definition registers :: "('w \<Rightarrow> u32) \<Rightarrow> ('w \<Rightarrow> u32 \<Rightarrow> nat \<Rightarrow> debug_value) \<Rightarrow> 'w titan \<Rightarrow> u32 \<Rightarrow> nat \<Rightarrow> debug_value" where
  "registers cur rf s thread i =
     (if thread = cur (world s) \<and> i < rc_Count (gRegisterCache s) \<and> rc_Changed (gRegisterCache s) ! i
      then rc_Values (gRegisterCache s) ! i else rf (world s) thread i)"

definition no_pending :: "'w titan \<Rightarrow> bool" where
  "no_pending s \<longleftrightarrow> (\<forall>i < rc_Count (gRegisterCache s). \<not> rc_Changed (gRegisterCache s) ! i)"

lemma oscall_parts [simp]:
  "world (snd (oscall f s)) = snd (snd (f (world s)))"
  "fst (oscall f s) = fst (f (world s))"
  "gRegisterCache (snd (oscall f s)) = gRegisterCache s"
  "gDebugIdMap (snd (oscall f s)) = gDebugIdMap s"
  "gSessionKind (snd (oscall f s)) = gSessionKind s"
  by (simp_all add: oscall_def split: prod.splits)

lemma write_file_changed:
  assumes "distinct (map fst ups)"
  shows "write_file ups rf i = (case map_of ups i of None \<Rightarrow> rf i | Some v \<Rightarrow> v)"
  using assms
proof (induction ups arbitrary: rf)
  case (Cons u ups)
  obtain a v where u: "u = (a, v)" by force
  have "map_of ups a = None" using Cons.prems by (simp add: u map_of_eq_None_iff)
  moreover have "write_file (u # ups) rf i = write_file ups (rf(a := v)) i" by (simp add: write_file_def u)
  ultimately show ?case using Cons by (cases "i = a") (simp_all add: u split: option.split)
qed (simp add: write_file_def)

lemma concat_map_if: "concat (map (\<lambda>i. if P i then [f i] else []) xs) = map f (filter P xs)"
  by (induction xs) auto

lemma changedRegisters_props:
  "distinct (map fst (changedRegisters c))"
  "map_of (changedRegisters c) i =
     (if i < rc_Count c \<and> rc_Changed c ! i then Some (rc_Values c ! i) else None)"
proof -
  have eq: "changedRegisters c = map (\<lambda>i. (i, rc_Values c ! i)) (filter (\<lambda>i. rc_Changed c ! i) [0..<rc_Count c])"
    unfolding changedRegisters_def by (rule concat_map_if)
  show "distinct (map fst (changedRegisters c))" by (simp add: eq comp_def)
  show "map_of (changedRegisters c) i = (if i < rc_Count c \<and> rc_Changed c ! i then Some (rc_Values c ! i) else None)"
    by (auto simp: eq map_of_map_restrict restrict_map_def)
qed

lemma changedRegisters_empty: "changedRegisters (gRegisterCache s) = [] \<longleftrightarrow> no_pending s"
  unfolding changedRegisters_def concat_map_if by (auto simp: no_pending_def filter_empty_conv)

section \<open>The cache refines the register files\<close>

text \<open>Flushing: no register changes in the abstract state, and nothing is pending afterwards.\<close>

lemma Flush_refines:
  assumes en: "register_engine os cur rf" and co: "cache_coherent cur rf s"
    and run: "RegisterCache_Flush os s = (ok, s')"
  shows "cache_coherent cur rf s'" and "registers cur rf s' = registers cur rf s"
    and "cur (world s') = cur (world s)" and "ok \<Longrightarrow> no_pending s'"
    and "gDebugIdMap s' = gDebugIdMap s" and "gSessionKind s' = gSessionKind s"
    and "rc_TitanRegIndexMap (gRegisterCache s') = rc_TitanRegIndexMap (gRegisterCache s)"
proof -
  let ?c = "gRegisterCache s" and ?ups = "changedRegisters (gRegisterCache s)"
  let ?call = "dSetValues (dbg os) ?ups (world s)"
  have en': "cur (snd (snd ?call)) = cur (world s)"
    "rf (snd (snd ?call)) = (if fst ?call then (rf (world s))(cur (world s) := write_file ?ups (rf (world s) (cur (world s)))) else rf (world s))"
    using en by (simp_all add: register_engine_def)
  note wf = write_file_changed [OF changedRegisters_props(1) [of ?c]] changedRegisters_props(2) [of ?c]
  have "cache_coherent cur rf s' \<and> registers cur rf s' = registers cur rf s \<and> cur (world s') = cur (world s) \<and>
    (ok \<longrightarrow> no_pending s') \<and> gDebugIdMap s' = gDebugIdMap s \<and> gSessionKind s' = gSessionKind s \<and>
    rc_TitanRegIndexMap (gRegisterCache s') = rc_TitanRegIndexMap ?c"
  proof (cases "?ups = []")
    case True
    then show ?thesis using run co changedRegisters_empty [of s] by (simp add: RegisterCache_Flush_def)
  next
    case False
    then show ?thesis
    proof (cases "fst ?call")
      case False
      then show ?thesis using run co en' \<open>?ups \<noteq> []\<close>
        by (auto simp: RegisterCache_Flush_def Let_def case_prod_unfold cache_coherent_def registers_def fun_eq_iff)
    next
      case True
      then have s': "ok" "gRegisterCache s' = ?c\<lparr>rc_Changed := replicate (length (rc_Changed ?c)) False\<rparr>"
        "world s' = snd (snd ?call)" "gDebugIdMap s' = gDebugIdMap s" "gSessionKind s' = gSessionKind s"
        using run \<open>?ups \<noteq> []\<close> by (auto simp: RegisterCache_Flush_def Let_def case_prod_unfold)
      have len: "length (rc_Changed ?c) = rc_Count ?c" using co by (simp add: cache_coherent_def cache_shape_def)
      have file': "rf (world s') th i = (if th = cur (world s) \<and> i < rc_Count ?c \<and> rc_Changed ?c ! i
          then rc_Values ?c ! i else rf (world s) th i)" for th i
        using True by (simp add: s'(3) en'(2) wf)
      have "no_pending s'" using s'(2) len by (simp add: no_pending_def)
      moreover have "registers cur rf s' = registers cur rf s"
        using s'(2,3) en'(1) file' len by (auto simp: registers_def fun_eq_iff)
      moreover have "cache_coherent cur rf s'"
        using co s'(2,3) en'(1) file' len by (simp add: cache_coherent_def cache_shape_def)
      ultimately show ?thesis using s' en'(1) by simp
    qed
  qed
  then show "cache_coherent cur rf s'" "registers cur rf s' = registers cur rf s" "cur (world s') = cur (world s)"
    "ok \<Longrightarrow> no_pending s'" "gDebugIdMap s' = gDebugIdMap s" "gSessionKind s' = gSessionKind s"
    "rc_TitanRegIndexMap (gRegisterCache s') = rc_TitanRegIndexMap ?c" by blast+
qed

text \<open>Reading with nothing pending: it succeeds, and the cache is coherent whatever it held before.\<close>

lemma Read_refines:
  assumes en: "register_engine os cur rf" and shape: "cache_shape (gRegisterCache s)" and np: "no_pending s"
    and run: "RegisterCache_Read os s = (ok, s')"
  shows "ok" and "cache_coherent cur rf s'" and "no_pending s'"
    and "rf (world s') = rf (world s)" and "cur (world s') = cur (world s)"
    and "gDebugIdMap s' = gDebugIdMap s" and "gSessionKind s' = gSessionKind s"
    and "rc_TitanRegIndexMap (gRegisterCache s') = rc_TitanRegIndexMap (gRegisterCache s)"
    and "rc_Count (gRegisterCache s') = rc_Count (gRegisterCache s)"
proof -
  let ?c = "gRegisterCache s"
  let ?call = "dGetValues (dbg os) (rc_Count ?c) (world s)"
  have "fst ?call = Some (map (rf (world s) (cur (world s))) [0..<rc_Count ?c])"
    "cur (snd (snd ?call)) = cur (world s)" "rf (snd (snd ?call)) = rf (world s)"
    using en by (simp_all add: register_engine_def)
  then have "ok \<and> cache_coherent cur rf s' \<and> no_pending s' \<and> rf (world s') = rf (world s) \<and>
      cur (world s') = cur (world s) \<and> gDebugIdMap s' = gDebugIdMap s \<and> gSessionKind s' = gSessionKind s \<and>
      rc_TitanRegIndexMap (gRegisterCache s') = rc_TitanRegIndexMap ?c \<and> rc_Count (gRegisterCache s') = rc_Count ?c"
    using run shape np
    by (auto simp: RegisterCache_Read_def Let_def case_prod_unfold cache_shape_def cache_coherent_def no_pending_def)
  then show "ok" "cache_coherent cur rf s'" "no_pending s'" "rf (world s') = rf (world s)"
    "cur (world s') = cur (world s)" "gDebugIdMap s' = gDebugIdMap s" "gSessionKind s' = gSessionKind s"
    "rc_TitanRegIndexMap (gRegisterCache s') = rc_TitanRegIndexMap ?c"
    "rc_Count (gRegisterCache s') = rc_Count ?c" by blast+
qed

text \<open>The scope: opening and closing it changes no register of any thread.\<close>

lemma coherent_lastError [simp]:
  "cache_coherent cur rf (s\<lparr>lastError := e\<rparr>) = cache_coherent cur rf s"
  "registers cur rf (s\<lparr>lastError := e\<rparr>) = registers cur rf s"
  by (simp_all add: cache_coherent_def registers_def fun_eq_iff)

lemma coherent_fileless:
  "cache_coherent cur rf s \<Longrightarrow> no_pending s \<Longrightarrow> registers cur rf s = rf (world s)"
  by (auto simp: registers_def no_pending_def fun_eq_iff)

lemma select_refines:
  assumes en: "register_engine os cur rf" and co: "cache_coherent cur rf s" and np: "no_pending s"
    and sel: "oscall (dSetCurrentThread (dbg os) i) s = (selected, s1)"
  shows "cache_shape (gRegisterCache s1)" and "no_pending s1" and "rf (world s1) = registers cur rf s"
    and "cur (world s1) = (if selected then i else cur (world s))"
    and "\<not> selected \<Longrightarrow> cache_coherent cur rf s1 \<and> registers cur rf s1 = registers cur rf s"
    and "gDebugIdMap s1 = gDebugIdMap s" and "gSessionKind s1 = gSessionKind s"
    and "gRegisterCache s1 = gRegisterCache s"
proof -
  have s1: "s1 = snd (oscall (dSetCurrentThread (dbg os) i) s)" and sl: "selected = fst (dSetCurrentThread (dbg os) i (world s))"
    using sel by (auto simp: prod_eq_iff)
  have en': "cur (world s1) = (if selected then i else cur (world s))" "rf (world s1) = rf (world s)"
    using en by (simp_all add: register_engine_def s1 sl)
  show "cur (world s1) = (if selected then i else cur (world s))" by (rule en')
  show "gRegisterCache s1 = gRegisterCache s" "gDebugIdMap s1 = gDebugIdMap s" "gSessionKind s1 = gSessionKind s"
    by (simp_all add: s1)
  then show "cache_shape (gRegisterCache s1)" "no_pending s1"
    using co np by (simp_all add: cache_coherent_def no_pending_def)
  show "rf (world s1) = registers cur rf s" using coherent_fileless [OF co np] en' by simp
  show "\<not> selected \<Longrightarrow> cache_coherent cur rf s1 \<and> registers cur rf s1 = registers cur rf s"
    using co en' by (simp add: cache_coherent_def registers_def fun_eq_iff s1)
qed

lemma openThreadScope_refines:
  assumes en: "register_engine os cur rf" and co: "cache_coherent cur rf s"
    and run: "openThreadScope os h s = (scope, s')"
  shows "cache_coherent cur rf s'" and "registers cur rf s' = registers cur rf s"
    and "ts_valid scope \<Longrightarrow> map_of (threadHandleToIndex (gDebugIdMap s)) h = Some (cur (world s'))"
    and "gDebugIdMap s' = gDebugIdMap s" and "gSessionKind s' = gSessionKind s"
    and "rc_TitanRegIndexMap (gRegisterCache s') = rc_TitanRegIndexMap (gRegisterCache s)"
    and "ts_switched scope \<Longrightarrow> ts_previousIndex scope = cur (world s)"
    and "\<not> ts_switched scope \<Longrightarrow> cur (world s') = cur (world s)"
    and "ts_switched scope \<Longrightarrow> no_pending s'"
proof -
  have idx: "dThreadIndex (dbg os) (world s) = Some (cur (world s))" using en by (simp add: register_engine_def)
  obtain flushed s1 where fl: "RegisterCache_Flush os s = (flushed, s1)" by force
  note F = Flush_refines [OF en co fl]
  have goal: "cache_coherent cur rf s' \<and> registers cur rf s' = registers cur rf s \<and>
    (ts_valid scope \<longrightarrow> map_of (threadHandleToIndex (gDebugIdMap s)) h = Some (cur (world s'))) \<and>
    gDebugIdMap s' = gDebugIdMap s \<and> gSessionKind s' = gSessionKind s \<and>
    rc_TitanRegIndexMap (gRegisterCache s') = rc_TitanRegIndexMap (gRegisterCache s) \<and>
    (ts_switched scope \<longrightarrow> ts_previousIndex scope = cur (world s)) \<and>
    (\<not> ts_switched scope \<longrightarrow> cur (world s') = cur (world s)) \<and> (ts_switched scope \<longrightarrow> no_pending s')"
  proof (cases "map_of (threadHandleToIndex (gDebugIdMap s)) h")
    case None
    then show ?thesis using run co by (auto simp: openThreadScope_def)
  next
    case (Some i)
    obtain selected s2 where sel: "oscall (dSetCurrentThread (dbg os) i) s1 = (selected, s2)" by force
    show ?thesis
    proof (cases "i = cur (world s) \<or> \<not> flushed")
      case True
      then have "s' = s \<and> \<not> ts_switched scope \<and> i = cur (world s) \<or> s' = s1 \<and> \<not> ts_valid scope \<and> \<not> ts_switched scope"
        using run Some idx fl True by (cases "i = cur (world s)") (auto simp: openThreadScope_def)
      then show ?thesis using Some co F(1,2,3,5,6,7) by auto
    next
      case False
      then have np: "no_pending s1" using F(4) by simp
      note S = select_refines [OF en F(1) np sel]
      show ?thesis
      proof (cases selected)
        case False
        then have "s' = s2 \<and> \<not> ts_valid scope \<and> \<not> ts_switched scope"
          using run Some idx fl sel \<open>\<not> (i = cur (world s) \<or> \<not> flushed)\<close> by (auto simp: openThreadScope_def)
        then show ?thesis using S(4,5,6,7,8) False F(2,3,5,6,7) by simp
      next
        case True
        obtain ok s3 where rd: "RegisterCache_Read os s2 = (ok, s3)" by force
        note R = Read_refines [OF en S(1,2) rd]
        have "registers cur rf s3 = registers cur rf s"
          using coherent_fileless [OF R(2,3)] R(4) S(3) F(2) by simp
        moreover have "s' = s3 \<and> ts_switched scope \<and> ts_previousIndex scope = cur (world s)"
          using run Some idx fl sel rd True \<open>\<not> (i = cur (world s) \<or> \<not> flushed)\<close> by (auto simp: openThreadScope_def)
        ultimately show ?thesis
          using Some True R(2,3,5,6,7,8) S(4,6,7,8) F(5,6,7) by simp
      qed
    qed
  qed
  then show "cache_coherent cur rf s'" "registers cur rf s' = registers cur rf s"
    "ts_valid scope \<Longrightarrow> map_of (threadHandleToIndex (gDebugIdMap s)) h = Some (cur (world s'))"
    "gDebugIdMap s' = gDebugIdMap s" "gSessionKind s' = gSessionKind s"
    "rc_TitanRegIndexMap (gRegisterCache s') = rc_TitanRegIndexMap (gRegisterCache s)"
    "ts_switched scope \<Longrightarrow> ts_previousIndex scope = cur (world s)"
    "\<not> ts_switched scope \<Longrightarrow> cur (world s') = cur (world s)"
    "ts_switched scope \<Longrightarrow> no_pending s'" by blast+
qed

lemma Flush_nothing: "no_pending s \<Longrightarrow> RegisterCache_Flush os s = (True, s)"
  using changedRegisters_empty [of s] by (simp add: RegisterCache_Flush_def)

lemma closeThreadScope_refines:
  assumes en: "register_engine os cur rf" and co: "cache_coherent cur rf s"
    and np: "ts_switched scope \<Longrightarrow> no_pending s"
  shows "cache_coherent cur rf (closeThreadScope os scope s)"
    and "registers cur rf (closeThreadScope os scope s) = registers cur rf s"
    and "gDebugIdMap (closeThreadScope os scope s) = gDebugIdMap s"
    and "gSessionKind (closeThreadScope os scope s) = gSessionKind s"
    and "rc_TitanRegIndexMap (gRegisterCache (closeThreadScope os scope s)) = rc_TitanRegIndexMap (gRegisterCache s)"
proof -
  let ?s' = "closeThreadScope os scope s"
  have "cache_coherent cur rf ?s' \<and> registers cur rf ?s' = registers cur rf s \<and>
    gDebugIdMap ?s' = gDebugIdMap s \<and> gSessionKind ?s' = gSessionKind s \<and>
    rc_TitanRegIndexMap (gRegisterCache ?s') = rc_TitanRegIndexMap (gRegisterCache s)"
  proof (cases "ts_switched scope")
    case False
    then show ?thesis using co by (simp add: closeThreadScope_def)
  next
    case True
    note np = np [OF True]
    obtain selected s2 where sel: "oscall (dSetCurrentThread (dbg os) (ts_previousIndex scope)) s = (selected, s2)" by force
    note S = select_refines [OF en co np sel]
    show ?thesis
    proof (cases selected)
      case False
      then have "?s' = s2" using \<open>ts_switched scope\<close> sel Flush_nothing [OF np] by (simp add: closeThreadScope_def)
      then show ?thesis using S(5-8) False by simp
    next
      case True
      obtain ok s3 where rd: "RegisterCache_Read os s2 = (ok, s3)" by force
      note R = Read_refines [OF en S(1,2) rd]
      have "?s' = s3" using True \<open>ts_switched scope\<close> sel rd Flush_nothing [OF np] by (simp add: closeThreadScope_def)
      moreover have "registers cur rf s3 = registers cur rf s"
        using coherent_fileless [OF R(2,3)] R(4) S(3) by simp
      ultimately show ?thesis using R(2,6,7,8) S(6,7,8) by simp
    qed
  qed
  then show "cache_coherent cur rf ?s'" "registers cur rf ?s' = registers cur rf s"
    "gDebugIdMap ?s' = gDebugIdMap s" "gSessionKind ?s' = gSessionKind s"
    "rc_TitanRegIndexMap (gRegisterCache ?s') = rc_TitanRegIndexMap (gRegisterCache s)" by blast+
qed

text \<open>Assigning through the cache changes exactly one register of the current thread.\<close>

lemma coherent_value:
  "cache_coherent cur rf s \<Longrightarrow> i < rc_Count (gRegisterCache s) \<Longrightarrow>
   rc_Values (gRegisterCache s) ! i = registers cur rf s (cur (world s)) i"
  by (simp add: cache_coherent_def registers_def)

lemma SetValue_refines:
  assumes co: "cache_coherent cur rf s" and run: "RegisterCache_SetValue reg v s = (True, s')"
  shows "\<exists>i new. map_of (rc_TitanRegIndexMap (gRegisterCache s)) reg = Some i \<and>
      assignInteger v (registers cur rf s (cur (world s)) i) = Some new \<and>
      registers cur rf s' = (registers cur rf s)(cur (world s) := (registers cur rf s (cur (world s)))(i := new)) \<and>
      cache_coherent cur rf s' \<and> cur (world s') = cur (world s) \<and> gDebugIdMap s' = gDebugIdMap s \<and>
      gSessionKind s' = gSessionKind s \<and>
      rc_TitanRegIndexMap (gRegisterCache s') = rc_TitanRegIndexMap (gRegisterCache s)"
proof -
  let ?c = "gRegisterCache s"
  obtain i where i: "map_of (rc_TitanRegIndexMap ?c) reg = Some i"
    using run by (cases "map_of (rc_TitanRegIndexMap ?c) reg") (auto simp: RegisterCache_SetValue_def)
  have shape: "i < rc_Count ?c" "length (rc_Values ?c) = rc_Count ?c" "length (rc_Changed ?c) = rc_Count ?c"
    using co i by (auto simp: cache_coherent_def cache_shape_def)
  obtain new where new: "assignInteger v (rc_Values ?c ! i) = Some new"
    using run i by (cases "assignInteger v (rc_Values ?c ! i)") (auto simp: RegisterCache_SetValue_def)
  have s': "s' = s\<lparr>gRegisterCache := ?c\<lparr>rc_Values := (rc_Values ?c)[i := new], rc_Changed := (rc_Changed ?c)[i := True]\<rparr>\<rparr>"
    using run i new by (simp add: RegisterCache_SetValue_def Let_def)
  have "registers cur rf s' = (registers cur rf s)(cur (world s) := (registers cur rf s (cur (world s)))(i := new))"
    using shape by (auto simp: s' registers_def fun_eq_iff nth_list_update)
  moreover have "cache_coherent cur rf s'"
    using co shape by (auto simp: s' cache_coherent_def cache_shape_def nth_list_update)
  ultimately show ?thesis
    using i new coherent_value [OF co shape(1)] by (intro exI [of _ i] exI [of _ new]) (simp add: s')
qed

lemma assigned_integer:
  fixes v :: u64
  shows "ucast (ucast v :: 8 word) = take_bit 8 v" "ucast (ucast v :: 16 word) = take_bit 16 v"
    "ucast (ucast v :: 32 word) = take_bit 32 v" "take_bit 64 v = v"
  by (simp_all add: unsigned_ucast_eq take_bit_word_eq_self)



section \<open>Aliases\<close>

lemma map_of_fold_aliases:
  "map_of (fold (\<lambda>(titanName, r) m. if stricmp_equal name titanName then omap_insert r i m else m) xs m) reg =
     (if \<exists>titanName. (titanName, reg) \<in> set xs \<and> stricmp_equal name titanName then Some i else map_of m reg)"
  by (induction xs arbitrary: m) auto

lemma named_registers:
  "(''rip'', UE_RIP) \<in> set (TitanRegNameMap os)" "(''rsp'', UE_RSP) \<in> set (TitanRegNameMap os)"
  by (simp_all add: TitanRegNameMap_def TitanRegNameList_def)

text \<open>
  The generic names resolve whether or not the compiler pools equal literals (which drops the second
  entry of every repeated name from \<open>TitanRegNameMap\<close>): once the engine describes \<open>rip\<close>, \<open>rsp\<close> or
  \<open>efl\<close>, in any case, \<open>UE_RIP\<close> and \<open>UE_CIP\<close>, \<open>UE_RSP\<close> and \<open>UE_CSP\<close>, \<open>UE_EFLAGS\<close> and \<open>UE_RFLAGS\<close> name that register.
\<close>

theorem register_aliases_resolve:
  "(stricmp_equal name ''rip'' \<longrightarrow> map_of (mapRegisterName os i name m) UE_RIP = Some i \<and>
      map_of (mapRegisterName os i name m) UE_CIP = Some i) \<and>
   (stricmp_equal name ''rsp'' \<longrightarrow> map_of (mapRegisterName os i name m) UE_RSP = Some i \<and>
      map_of (mapRegisterName os i name m) UE_CSP = Some i) \<and>
   (stricmp_equal name ''efl'' \<longrightarrow> map_of (mapRegisterName os i name m) UE_EFLAGS = Some i \<and>
      map_of (mapRegisterName os i name m) UE_RFLAGS = Some i)"
proof -
  have via: "stricmp_equal name x \<Longrightarrow> stricmp_equal name y = stricmp_equal x y" for x y
    by (simp add: stricmp_equal_def)
  have ne: "\<not> stricmp_equal ''rip'' ''efl''" "\<not> stricmp_equal ''rsp'' ''efl''" "\<not> stricmp_equal ''rsp'' ''rip''"
    by code_simp+
  have "stricmp_equal name ''rip'' \<Longrightarrow> \<not> stricmp_equal name ''efl''"
    and "stricmp_equal name ''rsp'' \<Longrightarrow> \<not> stricmp_equal name ''efl'' \<and> \<not> stricmp_equal name ''rip''"
    using via ne by blast+
  then show ?thesis
    using named_registers [of os] by (auto simp: mapRegisterName_def Let_def map_of_fold_aliases)
qed

theorem register_aliases_resolve_witness:
  "map_of (mapRegisterName quiet_os 16 ''RIP'' []) UE_CIP = Some 16"
proof -
  have "stricmp_equal ''RIP'' ''rip''" by code_simp
  then show ?thesis using register_aliases_resolve [of "''RIP''" quiet_os 16 "[]"] by blast
qed

section \<open>What the register operations leave alone\<close>

text \<open>They touch the world, the last-error code and the cache; every other variable is kept.\<close>

definition register_frame :: "'w titan \<Rightarrow> 'w titan \<Rightarrow> bool" where
  "register_frame s s' \<longleftrightarrow> (\<exists>w e c. s' = s\<lparr>world := w, lastError := e, gRegisterCache := c\<rparr>)"

lemma register_frame_refl [simp]: "register_frame s s"
  unfolding register_frame_def
  by (rule exI [of _ "world s"], rule exI [of _ "lastError s"], rule exI [of _ "gRegisterCache s"]) simp

lemma register_frame_error:
  assumes "register_frame s t" shows "register_frame s (t\<lparr>lastError := e\<rparr>)"
proof -
  from assms obtain w' e' c' where "t = s\<lparr>world := w', lastError := e', gRegisterCache := c'\<rparr>"
    by (auto simp: register_frame_def)
  then have "t\<lparr>lastError := e\<rparr> = s\<lparr>world := w', lastError := e, gRegisterCache := c'\<rparr>" by simp
  then show ?thesis unfolding register_frame_def by blast
qed

lemma register_frame_cache:
  assumes "register_frame s t" shows "register_frame s (t\<lparr>gRegisterCache := c\<rparr>)"
proof -
  from assms obtain w' e' c' where "t = s\<lparr>world := w', lastError := e', gRegisterCache := c'\<rparr>"
    by (auto simp: register_frame_def)
  then have "t\<lparr>gRegisterCache := c\<rparr> = s\<lparr>world := w', lastError := e', gRegisterCache := c\<rparr>" by simp
  then show ?thesis unfolding register_frame_def by blast
qed

lemma register_frame_world:
  assumes "register_frame s t" shows "register_frame s (t\<lparr>world := w\<rparr>)"
proof -
  from assms obtain w' e' c' where "t = s\<lparr>world := w', lastError := e', gRegisterCache := c'\<rparr>"
    by (auto simp: register_frame_def)
  then have "t\<lparr>world := w\<rparr> = s\<lparr>world := w, lastError := e', gRegisterCache := c'\<rparr>" by simp
  then show ?thesis unfolding register_frame_def by blast
qed

lemma register_frame_oscall: "register_frame s t \<Longrightarrow> register_frame s (snd (oscall f t))"
  by (auto simp: oscall_def split: prod.split intro!: register_frame_world register_frame_error)

lemma register_frame_Flush: "register_frame s t \<Longrightarrow> register_frame s (snd (RegisterCache_Flush os t))"
  by (simp add: RegisterCache_Flush_def Let_def case_prod_unfold register_frame_oscall register_frame_cache)

lemma register_frame_Read: "register_frame s t \<Longrightarrow> register_frame s (snd (RegisterCache_Read os t))"
  by (simp add: RegisterCache_Read_def Let_def case_prod_unfold register_frame_oscall register_frame_cache
      split: option.split)

lemma register_frame_SetValue: "register_frame s t \<Longrightarrow> register_frame s (snd (RegisterCache_SetValue reg v t))"
  by (simp add: RegisterCache_SetValue_def Let_def register_frame_cache register_frame_error split: option.split)

lemma register_frame_open: "register_frame s t \<Longrightarrow> register_frame s (snd (openThreadScope os h t))"
  by (simp add: openThreadScope_def Let_def case_prod_unfold register_frame_error register_frame_oscall
      register_frame_Flush register_frame_Read split: option.split)

lemma register_frame_close: "register_frame s t \<Longrightarrow> register_frame s (closeThreadScope os scope t)"
  by (simp add: closeThreadScope_def Let_def case_prod_unfold register_frame_oscall
      register_frame_Flush register_frame_Read)

lemmas register_frames = register_frame_error register_frame_cache register_frame_oscall register_frame_Flush
  register_frame_Read register_frame_SetValue register_frame_open register_frame_close

lemma register_frame_fields:
  assumes "register_frame s s'"
  shows "gPaused s' = gPaused s" and "gIsDebugging s' = gIsDebugging s" and "gSessionKind s' = gSessionKind s"
    and "gDebugIdMap s' = gDebugIdMap s" and "gHandleRegistry s' = gHandleRegistry s"
    and "gSessionGeneration s' = gSessionGeneration s" and "PauseLock s' = PauseLock s"
  using assms by (auto simp: register_frame_def PauseLock_def)

text \<open>When selecting and writing succeed, a known thread's scope is valid.\<close>

lemma openThreadScope_valid:
  assumes en: "register_engine os cur rf" and co: "cache_coherent cur rf s"
    and th: "map_of (threadHandleToIndex (gDebugIdMap s)) h = Some th"
    and works: "\<And>w. fst (dSetCurrentThread (dbg os) th w)" "\<And>ups w. fst (dSetValues (dbg os) ups w)"
    and run: "openThreadScope os h s = (scope, s')"
  shows "ts_valid scope"
proof -
  have idx: "dThreadIndex (dbg os) (world s) = Some (cur (world s))" using en by (simp add: register_engine_def)
  obtain flushed s1 where fl: "RegisterCache_Flush os s = (flushed, s1)" by force
  note F = Flush_refines [OF en co fl]
  have flushed: "flushed" using fl works(2) by (auto simp: RegisterCache_Flush_def Let_def case_prod_unfold split: if_splits)
  obtain selected s2 where sel: "oscall (dSetCurrentThread (dbg os) th) s1 = (selected, s2)" by force
  have selected: "selected" using oscall_parts(2) [of "dSetCurrentThread (dbg os) th" s1] sel works(1) by simp
  note S = select_refines [OF en F(1) F(4) [OF flushed] sel]
  obtain ok s3 where rd: "RegisterCache_Read os s2 = (ok, s3)" by force
  show ?thesis
    using run th idx fl flushed sel selected rd Read_refines(1) [OF en S(1,2) rd]
    by (cases "th = cur (world s)") (auto simp: openThreadScope_def)
qed

end
