(* ===== verification/Contexts.thy ===== *)
theory Contexts
  imports Registers Handles
begin

text \<open>
  Thread contexts (\<open>TitanEngine.cpp\<close>, lines 2061 to 2149 and 4387 to 4948, Win64 build): reading and
  writing the general registers through the register cache, the x87, SSE and AVX state
  through the native thread context, and the context of a TTD thread through the
  replay cursor.
\<close>

section \<open>The TitanEngine context\<close>

text \<open>
  An XMM register is its 16 bytes, a YMM register the pair of its low and high half, a ZMM register the
  pair of its YMM halves. The register area holds eight chunks of ten bytes.
\<close>

type_synonym xmm = "byte list"
type_synonym ymm = "xmm \<times> xmm"
type_synonym zmm = "ymm \<times> ymm"

record titan_context =
  tc_cax :: u64
  tc_ccx :: u64
  tc_cdx :: u64
  tc_cbx :: u64
  tc_csp :: u64
  tc_cbp :: u64
  tc_csi :: u64
  tc_cdi :: u64
  tc_r8 :: u64
  tc_r9 :: u64
  tc_r10 :: u64
  tc_r11 :: u64
  tc_r12 :: u64
  tc_r13 :: u64
  tc_r14 :: u64
  tc_r15 :: u64
  tc_cip :: u64
  tc_eflags :: u64
  tc_gs :: u16
  tc_fs :: u16
  tc_es :: u16
  tc_ds :: u16
  tc_cs :: u16
  tc_ss :: u16
  tc_dr0 :: u64
  tc_dr1 :: u64
  tc_dr2 :: u64
  tc_dr3 :: u64
  tc_dr6 :: u64
  tc_dr7 :: u64
  tc_RegisterArea :: "byte list list"
  tc_ControlWord :: u16
  tc_StatusWord :: u16
  tc_TagWord :: u16
  tc_ErrorOffset :: u32
  tc_ErrorSelector :: u32
  tc_DataOffset :: u32
  tc_DataSelector :: u32
  tc_Cr0NpxState :: u32
  tc_MxCsr :: u32
  tc_XmmRegisters :: "xmm list"
  tc_YmmRegisters :: "ymm list"

abbreviation zero_xmm :: xmm where "zero_xmm \<equiv> replicate 16 0"

definition zero_context :: titan_context where
  "zero_context = \<lparr>tc_cax = 0, tc_ccx = 0, tc_cdx = 0, tc_cbx = 0, tc_csp = 0, tc_cbp = 0, tc_csi = 0, tc_cdi = 0,
     tc_r8 = 0, tc_r9 = 0, tc_r10 = 0, tc_r11 = 0, tc_r12 = 0, tc_r13 = 0, tc_r14 = 0, tc_r15 = 0,
     tc_cip = 0, tc_eflags = 0, tc_gs = 0, tc_fs = 0, tc_es = 0, tc_ds = 0, tc_cs = 0, tc_ss = 0,
     tc_dr0 = 0, tc_dr1 = 0, tc_dr2 = 0, tc_dr3 = 0, tc_dr6 = 0, tc_dr7 = 0,
     tc_RegisterArea = replicate 8 (replicate 10 0), tc_ControlWord = 0, tc_StatusWord = 0, tc_TagWord = 0,
     tc_ErrorOffset = 0, tc_ErrorSelector = 0, tc_DataOffset = 0, tc_DataSelector = 0, tc_Cr0NpxState = 0,
     tc_MxCsr = 0, tc_XmmRegisters = replicate 16 zero_xmm, tc_YmmRegisters = replicate 16 (zero_xmm, zero_xmm)\<rparr>"

record avx512_context =
  ac_ZmmRegisters :: "zmm list"
  ac_Opmask :: "byte list"

definition zero_avx512 :: avx512_context where
  "zero_avx512 = \<lparr>ac_ZmmRegisters = replicate 32 ((zero_xmm, zero_xmm), (zero_xmm, zero_xmm)),
     ac_Opmask = replicate 64 0\<rparr>"

section \<open>The native context\<close>

abbreviation XSTATE_MASK_AVX :: u64 where "XSTATE_MASK_AVX \<equiv> 4"
abbreviation XSTATE_MASK_AVX512 :: u64 where "XSTATE_MASK_AVX512 \<equiv> 0xE0"

text \<open>\<open>NativeContextBuffer::Load\<close> requests the features that are both asked for and enabled.\<close>

definition NativeContext_Load :: "'w os \<Rightarrow> HANDLE \<Rightarrow> u64 \<Rightarrow> 'w titan \<Rightarrow> native_context option \<times> 'w titan" where
  "NativeContext_Load os thread requestedFeatures s =
     oscall (wLoadContext (win os) thread (requestedFeatures AND wEnabledXStateFeatures (win os) (world s))) s"

text \<open>The high halves of the YMM registers, when the native context holds the AVX feature.\<close>

definition setHigh :: "ymm list \<Rightarrow> xmm list \<Rightarrow> ymm list" where
  "setHigh ymms highs = map (\<lambda>((low, _), high). (low, high)) (zip ymms highs)"

definition setLow :: "ymm list \<Rightarrow> xmm list \<Rightarrow> ymm list" where
  "setLow ymms lows = map (\<lambda>((_, high), low). (low, high)) (zip ymms lows)"

definition readExtendedContext :: "native_context \<Rightarrow> titan_context \<Rightarrow> titan_context" where
  "readExtendedContext native titan =
     (let titan = titan\<lparr>tc_ControlWord := nc_ControlWord native, tc_StatusWord := nc_StatusWord native,
            tc_TagWord := ucast (nc_TagWord native), tc_ErrorOffset := nc_ErrorOffset native,
            tc_ErrorSelector := ucast (nc_ErrorSelector native), tc_DataOffset := nc_DataOffset native,
            tc_DataSelector := ucast (nc_DataSelector native), tc_MxCsr := nc_SaveMxCsr native,
            tc_RegisterArea := map (take 10) (nc_FloatRegisters native),
            tc_XmmRegisters := nc_XmmRegisters native,
            tc_YmmRegisters := setLow (tc_YmmRegisters titan) (nc_XmmRegisters native)\<rparr>
      in case nc_AvxHigh native of
           None \<Rightarrow> titan
         | Some avx \<Rightarrow> titan\<lparr>tc_YmmRegisters := setHigh (tc_YmmRegisters titan) avx\<rparr>)"

definition writeExtendedContext :: "native_context \<Rightarrow> titan_context \<Rightarrow> native_context" where
  "writeExtendedContext native titan =
     native\<lparr>nc_ControlWord := tc_ControlWord titan, nc_StatusWord := tc_StatusWord titan,
       nc_TagWord := ucast (tc_TagWord titan), nc_ErrorOffset := tc_ErrorOffset titan,
       nc_ErrorSelector := ucast (tc_ErrorSelector titan), nc_DataOffset := tc_DataOffset titan,
       nc_DataSelector := ucast (tc_DataSelector titan), nc_SaveMxCsr := tc_MxCsr titan,
       nc_MxCsr := tc_MxCsr titan,
       nc_FloatRegisters := map (\<lambda>(chunk, old). chunk @ drop 10 old) (zip (tc_RegisterArea titan) (nc_FloatRegisters native)),
       nc_XmmRegisters := tc_XmmRegisters titan,
       nc_AvxHigh := map_option (\<lambda>_. map snd (tc_YmmRegisters titan)) (nc_AvxHigh native)\<rparr>"

section \<open>The context of a TTD thread\<close>

text \<open>The copy of the general registers of a native context.\<close>

definition copyNativeRegisters :: "native_context \<Rightarrow> titan_context \<Rightarrow> titan_context" where
  "copyNativeRegisters native titan =
     (let r = nc_Integer native in
      titan\<lparr>tc_cax := r ''Rax'', tc_cbx := r ''Rbx'', tc_ccx := r ''Rcx'', tc_cdx := r ''Rdx'',
        tc_csi := r ''Rsi'', tc_cdi := r ''Rdi'', tc_cbp := r ''Rbp'', tc_csp := r ''Rsp'', tc_cip := r ''Rip'',
        tc_eflags := r ''EFlags'', tc_r8 := r ''R8'', tc_r9 := r ''R9'', tc_r10 := r ''R10'', tc_r11 := r ''R11'',
        tc_r12 := r ''R12'', tc_r13 := r ''R13'', tc_r14 := r ''R14'', tc_r15 := r ''R15'',
        tc_cs := ucast (r ''SegCs''), tc_ss := ucast (r ''SegSs''), tc_ds := ucast (r ''SegDs''),
        tc_es := ucast (r ''SegEs''), tc_fs := ucast (r ''SegFs''), tc_gs := ucast (r ''SegGs''),
        tc_dr0 := r ''Dr0'', tc_dr1 := r ''Dr1'', tc_dr2 := r ''Dr2'', tc_dr3 := r ''Dr3'',
        tc_dr6 := r ''Dr6'', tc_dr7 := r ''Dr7''\<rparr>)"

definition readTtdContext :: "'w os \<Rightarrow> HANDLE \<Rightarrow> titan_context \<Rightarrow> 'w titan \<Rightarrow> (bool \<times> titan_context) \<times> 'w titan" where
  "readTtdContext os threadHandle titan s =
     (if \<not> gTtdCursor s then ((False, titan), s)
      else (case map_of (gHandleRegistry s) threadHandle of
          None \<Rightarrow> ((False, titan), SetLastError ERROR_INVALID_HANDLE s)
        | Some entry \<Rightarrow>
            if he_type entry \<noteq> ThreadHandle \<or> he_sessionGeneration entry \<noteq> gSessionGeneration s
            then ((False, titan), SetLastError ERROR_INVALID_HANDLE s)
            else (let native = tContext (ttd os) (he_systemId entry) (world s);
                      titan = copyNativeRegisters native titan;
                      titan = titan\<lparr>tc_MxCsr := nc_MxCsr native, tc_ControlWord := nc_ControlWord native,
                        tc_StatusWord := nc_StatusWord native, tc_TagWord := ucast (nc_TagWord native),
                        tc_RegisterArea := map (take 10) (nc_FloatRegisters native),
                        tc_XmmRegisters := nc_XmmRegisters native,
                        tc_YmmRegisters := setLow (tc_YmmRegisters titan) (nc_XmmRegisters native)\<rparr>
                  in ((True, titan), s))))"

section \<open>The context of a dump thread\<close>

text \<open>\<open>snprintf(name, "st%zu", i)\<close> for the register numbers used, which are below 20.\<close>

definition numberedName :: "string \<Rightarrow> nat \<Rightarrow> string" where
  "numberedName prefix i = prefix @
     (if i < 10 then [char_of (48 + i)] else [CHR ''1'', char_of (48 + (i - 10))])"

definition replayFloat :: "'w titan \<Rightarrow> byte list \<Rightarrow> nat \<Rightarrow> byte list" where
  "replayFloat s old i = (case RegisterCache_FindValue (numberedName ''st'' i) s of
     Some (DV_FLOAT80 bytes) \<Rightarrow> take 10 bytes
   | Some (DV_FLOAT82 bytes) \<Rightarrow> take 10 bytes
   | _ \<Rightarrow> old)"

definition replayVector :: "'w titan \<Rightarrow> string \<Rightarrow> xmm \<Rightarrow> nat \<Rightarrow> xmm" where
  "replayVector s prefix old i = (case RegisterCache_FindValue (numberedName prefix i) s of
     Some (DV_VECTOR128 bytes) \<Rightarrow> bytes
   | _ \<Rightarrow> old)"

definition readReplayExtendedContext :: "'w titan \<Rightarrow> titan_context \<Rightarrow> titan_context" where
  "readReplayExtendedContext s titan =
     (let xmm = map (\<lambda>i. replayVector s ''xmm'' (tc_XmmRegisters titan ! i) i) [0..<16]
      in titan\<lparr>tc_ControlWord := ucast (RegisterCache_GetValue UE_X87_CONTROLWORD s),
        tc_StatusWord := ucast (RegisterCache_GetValue UE_X87_STATUSWORD s),
        tc_TagWord := ucast (RegisterCache_GetValue UE_X87_TAGWORD s),
        tc_MxCsr := ucast (RegisterCache_GetValue UE_MXCSR s),
        tc_RegisterArea := map (\<lambda>i. replayFloat s (tc_RegisterArea titan ! i) i) [0..<8],
        tc_XmmRegisters := xmm,
        tc_YmmRegisters := map (\<lambda>i. (xmm ! i, replayVector s ''ymm'' (snd (tc_YmmRegisters titan ! i)) i)) [0..<16]\<rparr>)"

section \<open>Operations\<close>

text \<open>The code that runs while a \<open>DebugThreadScope\<close> is alive; its destructor runs on every return.\<close>

definition withThreadScope ::
  "'w os \<Rightarrow> HANDLE \<Rightarrow> 'a \<Rightarrow> ('w titan \<Rightarrow> 'a \<times> 'w titan) \<Rightarrow> 'w titan \<Rightarrow> 'a \<times> 'w titan" where
  "withThreadScope os thread failed action s =
     (let (scope, s) = openThreadScope os thread s;
          (result, s) = (if ts_valid scope then action s else (failed, s))
      in (result, closeThreadScope os scope s))"

definition cachedContext :: "'w titan \<Rightarrow> titan_context \<Rightarrow> titan_context" where
  "cachedContext s titan = (let r = (\<lambda>reg. RegisterCache_GetValue reg s) in
     titan\<lparr>tc_cax := r UE_RAX, tc_cbx := r UE_RBX, tc_ccx := r UE_RCX, tc_cdx := r UE_RDX,
       tc_csi := r UE_RSI, tc_cdi := r UE_RDI, tc_cbp := r UE_RBP, tc_csp := r UE_RSP, tc_cip := r UE_RIP,
       tc_eflags := r UE_RFLAGS, tc_r8 := r UE_R8, tc_r9 := r UE_R9, tc_r10 := r UE_R10, tc_r11 := r UE_R11,
       tc_r12 := r UE_R12, tc_r13 := r UE_R13, tc_r14 := r UE_R14, tc_r15 := r UE_R15,
       tc_cs := ucast (r UE_SEG_CS), tc_ss := ucast (r UE_SEG_SS), tc_ds := ucast (r UE_SEG_DS),
       tc_es := ucast (r UE_SEG_ES), tc_fs := ucast (r UE_SEG_FS), tc_gs := ucast (r UE_SEG_GS),
       tc_dr0 := r UE_DR0, tc_dr1 := r UE_DR1, tc_dr2 := r UE_DR2, tc_dr3 := r UE_DR3,
       tc_dr6 := r UE_DR6, tc_dr7 := r UE_DR7, tc_MxCsr := ucast (r UE_MXCSR)\<rparr>)"

definition GetFullContextDataEx :: "'w os \<Rightarrow> HANDLE \<Rightarrow> bool \<Rightarrow> 'w titan \<Rightarrow> (bool \<times> titan_context) \<times> 'w titan" where
  "GetFullContextDataEx os thread contextGiven s =
     (if \<not> contextGiven then ((False, zero_context), SetLastError ERROR_INVALID_PARAMETER s)
      else if \<not> PauseLock s then ((False, zero_context), s)
      else if gSessionKind s = UE_SESSION_TTD then readTtdContext os thread zero_context s
      else withThreadScope os thread (False, zero_context)
        (\<lambda>s. let titan = cachedContext s zero_context
             in if gSessionKind s = UE_SESSION_MINIDUMP \<or> gSessionKind s = UE_SESSION_TTD
                then ((True, readReplayExtendedContext s titan), s)
                else (let (native, s) = NativeContext_Load os thread XSTATE_MASK_AVX s
                      in case native of
                           None \<Rightarrow> ((False, titan), s)
                         | Some native \<Rightarrow> ((True, readExtendedContext native titan), s))) s)"

text \<open>The register values \<open>SetFullContextDataEx\<close> assigns, in its order.\<close>

definition contextValues :: "titan_context \<Rightarrow> (u32 \<times> u64) list" where
  "contextValues c =
     [(UE_RAX, tc_cax c), (UE_RBX, tc_cbx c), (UE_RCX, tc_ccx c), (UE_RDX, tc_cdx c), (UE_RSI, tc_csi c),
      (UE_RDI, tc_cdi c), (UE_RBP, tc_cbp c), (UE_RSP, tc_csp c), (UE_RIP, tc_cip c), (UE_RFLAGS, tc_eflags c),
      (UE_R8, tc_r8 c), (UE_R9, tc_r9 c), (UE_R10, tc_r10 c), (UE_R11, tc_r11 c), (UE_R12, tc_r12 c),
      (UE_R13, tc_r13 c), (UE_R14, tc_r14 c), (UE_R15, tc_r15 c),
      (UE_SEG_CS, ucast (tc_cs c)), (UE_SEG_SS, ucast (tc_ss c)), (UE_SEG_DS, ucast (tc_ds c)),
      (UE_SEG_ES, ucast (tc_es c)), (UE_SEG_FS, ucast (tc_fs c)), (UE_SEG_GS, ucast (tc_gs c)),
      (UE_DR0, tc_dr0 c), (UE_DR1, tc_dr1 c), (UE_DR2, tc_dr2 c), (UE_DR3, tc_dr3 c), (UE_DR6, tc_dr6 c),
      (UE_DR7, tc_dr7 c), (UE_MXCSR, ucast (tc_MxCsr c))]"

fun setValues :: "(u32 \<times> u64) list \<Rightarrow> 'w titan \<Rightarrow> bool \<times> 'w titan" where
  "setValues [] s = (True, s)"
| "setValues ((reg, v) # rest) s =
     (let (ok, s) = RegisterCache_SetValue reg v s in if ok then setValues rest s else (False, s))"

definition SetFullContextDataEx :: "'w os \<Rightarrow> HANDLE \<Rightarrow> titan_context option \<Rightarrow> 'w titan \<Rightarrow> bool \<times> 'w titan" where
  "SetFullContextDataEx os thread titcontext s =
     (if gSessionKind s = UE_SESSION_MINIDUMP \<or> gSessionKind s = UE_SESSION_TTD
      then (False, SetLastError ERROR_NOT_SUPPORTED s)
      else (case titcontext of
          None \<Rightarrow> (False, SetLastError ERROR_INVALID_PARAMETER s)
        | Some titan \<Rightarrow>
            if \<not> PauseLock s then (False, s)
            else withThreadScope os thread False
              (\<lambda>s. let (ok, s) = setValues (contextValues titan) s
                   in if \<not> ok then (False, s)
                      else (let (flushed, s) = RegisterCache_Flush os s
                            in if \<not> flushed then (False, s)
                               else (let (native, s) = NativeContext_Load os thread XSTATE_MASK_AVX s
                                     in case native of
                                          None \<Rightarrow> (False, s)
                                        | Some native \<Rightarrow>
                                            (let (written, s) = oscall (wSetThreadContext (win os) thread
                                                   (writeExtendedContext native titan)) s
                                             in if \<not> written then (False, s) else RegisterCache_Read os s)))) s))"

text \<open>The switch over the registers of a live thread that is read without the pause lock.\<close>

definition nativeRegisterName :: "u32 \<Rightarrow> string option" where
  "nativeRegisterName reg =
     (if reg = UE_RAX then Some ''Rax'' else if reg = UE_RBX then Some ''Rbx'' else if reg = UE_RCX then Some ''Rcx''
      else if reg = UE_RDX then Some ''Rdx'' else if reg = UE_RSI then Some ''Rsi'' else if reg = UE_RDI then Some ''Rdi''
      else if reg = UE_RBP then Some ''Rbp'' else if reg = UE_RSP \<or> reg = UE_CSP then Some ''Rsp''
      else if reg = UE_RIP \<or> reg = UE_CIP then Some ''Rip'' else if reg = UE_RFLAGS then Some ''EFlags''
      else if reg = UE_R8 then Some ''R8'' else if reg = UE_R9 then Some ''R9'' else if reg = UE_R10 then Some ''R10''
      else if reg = UE_R11 then Some ''R11'' else if reg = UE_R12 then Some ''R12'' else if reg = UE_R13 then Some ''R13''
      else if reg = UE_R14 then Some ''R14'' else if reg = UE_R15 then Some ''R15'' else None)"

text \<open>The switch over the fields of a TTD thread's context.\<close>

definition contextField :: "titan_context \<Rightarrow> u32 \<Rightarrow> u64" where
  "contextField c reg =
     (if reg = UE_RAX then tc_cax c else if reg = UE_RBX then tc_cbx c else if reg = UE_RCX then tc_ccx c
      else if reg = UE_RDX then tc_cdx c else if reg = UE_RSI then tc_csi c else if reg = UE_RDI then tc_cdi c
      else if reg = UE_RBP then tc_cbp c else if reg = UE_RSP \<or> reg = UE_CSP then tc_csp c
      else if reg = UE_RIP \<or> reg = UE_CIP then tc_cip c else if reg = UE_RFLAGS then tc_eflags c
      else if reg = UE_R8 then tc_r8 c else if reg = UE_R9 then tc_r9 c else if reg = UE_R10 then tc_r10 c
      else if reg = UE_R11 then tc_r11 c else if reg = UE_R12 then tc_r12 c else if reg = UE_R13 then tc_r13 c
      else if reg = UE_R14 then tc_r14 c else if reg = UE_R15 then tc_r15 c
      else if reg = UE_SEG_CS then ucast (tc_cs c) else if reg = UE_SEG_SS then ucast (tc_ss c)
      else if reg = UE_SEG_DS then ucast (tc_ds c) else if reg = UE_SEG_ES then ucast (tc_es c)
      else if reg = UE_SEG_FS then ucast (tc_fs c) else if reg = UE_SEG_GS then ucast (tc_gs c)
      else if reg = UE_DR0 then tc_dr0 c else if reg = UE_DR1 then tc_dr1 c else if reg = UE_DR2 then tc_dr2 c
      else if reg = UE_DR3 then tc_dr3 c else if reg = UE_DR6 then tc_dr6 c else if reg = UE_DR7 then tc_dr7 c
      else if reg = UE_MXCSR then ucast (tc_MxCsr c) else if reg = UE_X87_CONTROLWORD then ucast (tc_ControlWord c)
      else if reg = UE_X87_STATUSWORD then ucast (tc_StatusWord c)
      else if reg = UE_X87_TAGWORD then ucast (tc_TagWord c) else 0)"

definition GetContextDataEx :: "'w os \<Rightarrow> HANDLE \<Rightarrow> u32 \<Rightarrow> 'w titan \<Rightarrow> u64 \<times> 'w titan" where
  "GetContextDataEx os thread reg s =
     (if \<not> PauseLock s then
        (let (context, s) = oscall (wGetThreadContext (win os) thread) s
         in case context of
              None \<Rightarrow> (0, s)
            | Some native \<Rightarrow> (case nativeRegisterName reg of None \<Rightarrow> 0 | Some name \<Rightarrow> nc_Integer native name, s))
      else if gSessionKind s = UE_SESSION_TTD then
        (let ((ok, context), s) = readTtdContext os thread zero_context s
         in (if ok then contextField context reg else 0, s))
      else withThreadScope os thread 0 (\<lambda>s. (RegisterCache_GetValue reg s, s)) s)"

definition SetContextDataEx :: "'w os \<Rightarrow> HANDLE \<Rightarrow> u32 \<Rightarrow> u64 \<Rightarrow> 'w titan \<Rightarrow> bool \<times> 'w titan" where
  "SetContextDataEx os thread reg newValue s =
     (if gSessionKind s = UE_SESSION_MINIDUMP \<or> gSessionKind s = UE_SESSION_TTD
      then (False, SetLastError ERROR_NOT_SUPPORTED s)
      else if \<not> PauseLock s then (False, s)
      else withThreadScope os thread False
        (\<lambda>s. let (ok, s) = RegisterCache_SetValue reg newValue s
             in if ok then RegisterCache_Flush os s else (False, s)) s)"

definition GetAVXContext :: "'w os \<Rightarrow> HANDLE \<Rightarrow> bool \<Rightarrow> 'w titan \<Rightarrow> (bool \<times> titan_context) \<times> 'w titan" where
  "GetAVXContext os thread contextGiven = GetFullContextDataEx os thread contextGiven"

definition SetAVXContext :: "'w os \<Rightarrow> HANDLE \<Rightarrow> titan_context option \<Rightarrow> 'w titan \<Rightarrow> bool \<times> 'w titan" where
  "SetAVXContext os thread titcontext = SetFullContextDataEx os thread titcontext"

text \<open>
  The AVX-512 state: opmask, the high halves of ZMM0 to ZMM15 and all of ZMM16 to ZMM31. The native
  context keeps a ZMM half as 32 and a full register as 64 bytes.
\<close>

definition ymmOf :: "byte list \<Rightarrow> ymm" where
  "ymmOf bytes = (take 16 bytes, drop 16 bytes)"

definition ymmBytes :: "ymm \<Rightarrow> byte list" where
  "ymmBytes r = fst r @ snd r"

definition zmmOf :: "byte list \<Rightarrow> zmm" where
  "zmmOf bytes = (ymmOf (take 32 bytes), ymmOf (drop 32 bytes))"

definition zmmBytes :: "zmm \<Rightarrow> byte list" where
  "zmmBytes r = ymmBytes (fst r) @ ymmBytes (snd r)"

definition GetAVX512Context :: "'w os \<Rightarrow> HANDLE \<Rightarrow> bool \<Rightarrow> 'w titan \<Rightarrow> (bool \<times> avx512_context) \<times> 'w titan" where
  "GetAVX512Context os thread contextGiven s =
     (if \<not> contextGiven then ((False, zero_avx512), SetLastError ERROR_INVALID_PARAMETER s)
      else (let ((ok, avx), s) = GetAVXContext os thread True s
        in if \<not> ok then ((False, zero_avx512), s)
           else (let c = zero_avx512\<lparr>ac_ZmmRegisters :=
                       map (\<lambda>low. (low, (zero_xmm, zero_xmm))) (tc_YmmRegisters avx) @ drop 16 (ac_ZmmRegisters zero_avx512)\<rparr>
             in if gSessionKind s = UE_SESSION_TTD then ((False, c), SetLastError ERROR_NOT_SUPPORTED s)
                else if \<not> PauseLock s then ((False, c), s)
                else withThreadScope os thread (False, c)
                  (\<lambda>s. if wEnabledXStateFeatures (win os) (world s) AND XSTATE_MASK_AVX512 \<noteq> XSTATE_MASK_AVX512
                       then ((False, c), SetLastError ERROR_NOT_SUPPORTED s)
                       else (let (native, s) = NativeContext_Load os thread (XSTATE_MASK_AVX OR XSTATE_MASK_AVX512) s
                         in case native of
                              None \<Rightarrow> ((False, c), s)
                            | Some native \<Rightarrow>
                                (case (nc_Opmask native, nc_ZmmHigh native, nc_Zmm16 native) of
                                   (Some opmask, Some zmmHigh, Some zmm16) \<Rightarrow>
                                     ((True, c\<lparr>ac_Opmask := opmask,
                                        ac_ZmmRegisters := map (\<lambda>((low, _), high). (low, ymmOf high)) (zip (take 16 (ac_ZmmRegisters c)) zmmHigh)
                                          @ map zmmOf zmm16\<rparr>), s)
                                 | _ \<Rightarrow> ((False, c), SetLastError ERROR_NOT_SUPPORTED s)))) s)))"

definition SetAVX512Context :: "'w os \<Rightarrow> HANDLE \<Rightarrow> avx512_context option \<Rightarrow> 'w titan \<Rightarrow> bool \<times> 'w titan" where
  "SetAVX512Context os thread titcontext s =
     (if gSessionKind s = UE_SESSION_MINIDUMP \<or> gSessionKind s = UE_SESSION_TTD
      then (False, SetLastError ERROR_NOT_SUPPORTED s)
      else (case titcontext of
          None \<Rightarrow> (False, SetLastError ERROR_INVALID_PARAMETER s)
        | Some c \<Rightarrow>
           (let ((ok, avx), s) = GetAVXContext os thread True s
            in if \<not> ok then (False, s)
               else (let avx = avx\<lparr>tc_YmmRegisters := map fst (take 16 (ac_ZmmRegisters c))\<rparr>;
                         (ok, s) = SetAVXContext os thread (Some avx) s
                 in if \<not> ok then (False, s)
                    else if \<not> PauseLock s then (False, s)
                    else withThreadScope os thread False
                      (\<lambda>s. if wEnabledXStateFeatures (win os) (world s) AND XSTATE_MASK_AVX512 \<noteq> XSTATE_MASK_AVX512
                           then (False, SetLastError ERROR_NOT_SUPPORTED s)
                           else (let (native, s) = NativeContext_Load os thread (XSTATE_MASK_AVX OR XSTATE_MASK_AVX512) s
                             in case native of
                                  None \<Rightarrow> (False, s)
                                | Some native \<Rightarrow>
                                    (case (nc_Opmask native, nc_ZmmHigh native, nc_Zmm16 native) of
                                       (Some _, Some _, Some _) \<Rightarrow>
                                         (let native = native\<lparr>nc_Opmask := Some (ac_Opmask c),
                                                nc_ZmmHigh := Some (map (\<lambda>z. ymmBytes (snd z)) (take 16 (ac_ZmmRegisters c))),
                                                nc_Zmm16 := Some (map zmmBytes (take 16 (drop 16 (ac_ZmmRegisters c))))\<rparr>;
                                              (written, s) = oscall (wSetThreadContext (win os) thread native) s
                                          in if \<not> written then (False, s) else RegisterCache_Read os s)
                                     | _ \<Rightarrow> (False, SetLastError ERROR_NOT_SUPPORTED s)))) s))))"

section \<open>The live register files\<close>

lemma SetContextDataEx_effect:
  assumes en: "register_engine os cur rf" and co: "cache_coherent cur rf s"
    and run: "SetContextDataEx os h reg v s = (True, s')"
  shows "\<exists>th i new. map_of (threadHandleToIndex (gDebugIdMap s)) h = Some th \<and>
      map_of (rc_TitanRegIndexMap (gRegisterCache s)) reg = Some i \<and>
      assignInteger v (registers cur rf s th i) = Some new \<and>
      registers cur rf s' = (registers cur rf s)(th := (registers cur rf s th)(i := new)) \<and>
      cache_coherent cur rf s' \<and>
      rc_TitanRegIndexMap (gRegisterCache s') = rc_TitanRegIndexMap (gRegisterCache s) \<and> register_frame s s'"
proof -
  obtain scope s1 where op: "openThreadScope os h s = (scope, s1)" by force
  note O = openThreadScope_refines [OF en co op]
  obtain ok s2 where sv: "RegisterCache_SetValue reg v s1 = (ok, s2)" by force
  obtain flushed s3 where fl: "RegisterCache_Flush os s2 = (flushed, s3)" by force
  have valid: "ts_valid scope" and ok and flushed and s': "s' = closeThreadScope os scope s3"
    using run op sv fl by (auto simp: SetContextDataEx_def withThreadScope_def Let_def split: if_splits)
  have sv': "RegisterCache_SetValue reg v s1 = (True, s2)" using sv \<open>ok\<close> by simp
  from SetValue_refines [OF O(1) sv'] obtain i new where
    i: "map_of (rc_TitanRegIndexMap (gRegisterCache s1)) reg = Some i"
    and new: "assignInteger v (registers cur rf s1 (cur (world s1)) i) = Some new"
    and reg2: "registers cur rf s2 = (registers cur rf s1)(cur (world s1) := (registers cur rf s1 (cur (world s1)))(i := new))"
    and co2: "cache_coherent cur rf s2"
    and map2: "rc_TitanRegIndexMap (gRegisterCache s2) = rc_TitanRegIndexMap (gRegisterCache s1)" by blast
  note F = Flush_refines [OF en co2 fl]
  have np: "no_pending s3" using F(4) \<open>flushed\<close> by simp
  note C = closeThreadScope_refines [OF en F(1) np, of scope]
  have "register_frame s s1" using register_frame_open [OF register_frame_refl, of s os h] op by simp
  then have "register_frame s s2" using register_frame_SetValue [of s s1 reg v] sv by simp
  then have "register_frame s s3" using register_frame_Flush [of s s2 os] fl by simp
  then have "register_frame s s'" using register_frame_close [of s s3 os scope] s' by simp
  then show ?thesis
    using O(2) O(3) [OF valid] O(6) i new reg2 F(2,7) C(1,2,5) s' map2
    by (intro exI [of _ "cur (world s1)"] exI [of _ i] exI [of _ new]) simp
qed

lemma GetContextDataEx_effect:
  assumes en: "register_engine os cur rf" and co: "cache_coherent cur rf s"
    and live: "gSessionKind s \<noteq> UE_SESSION_TTD" "PauseLock s"
    and th: "map_of (threadHandleToIndex (gDebugIdMap s)) h = Some th"
    and i: "map_of (rc_TitanRegIndexMap (gRegisterCache s)) reg = Some i"
    and works: "\<And>w. fst (dSetCurrentThread (dbg os) th w)" "\<And>ups w. fst (dSetValues (dbg os) ups w)"
  shows "fst (GetContextDataEx os h reg s) = integerOf (registers cur rf s th i)"
    and "registers cur rf (snd (GetContextDataEx os h reg s)) = registers cur rf s"
    and "cache_coherent cur rf (snd (GetContextDataEx os h reg s))"
proof -
  obtain scope s1 where op: "openThreadScope os h s = (scope, s1)" by force
  note O = openThreadScope_refines [OF en co op]
  have valid: "ts_valid scope" by (rule openThreadScope_valid [OF en co th works op])
  have run: "GetContextDataEx os h reg s = (RegisterCache_GetValue reg s1, closeThreadScope os scope s1)"
    using live op valid by (simp add: GetContextDataEx_def withThreadScope_def)
  have "i < rc_Count (gRegisterCache s1)"
    using O(1,6) i by (simp add: cache_coherent_def cache_shape_def)
  then have "rc_Values (gRegisterCache s1) ! i = registers cur rf s th i"
    using coherent_value [OF O(1)] O(2) O(3) [OF valid] th by simp
  then show "fst (GetContextDataEx os h reg s) = integerOf (registers cur rf s th i)"
    using O(6) i by (simp add: run RegisterCache_GetValue_def)
  note C = closeThreadScope_refines [OF en O(1) O(9)]
  show "registers cur rf (snd (GetContextDataEx os h reg s)) = registers cur rf s"
    and "cache_coherent cur rf (snd (GetContextDataEx os h reg s))"
    using C(1,2) O(2) by (simp_all add: run)
qed



section \<open>Extended state\<close>

text \<open>The shape of the arrays of the two structures.\<close>

definition titan_shape :: "titan_context \<Rightarrow> bool" where
  "titan_shape c \<longleftrightarrow> length (tc_RegisterArea c) = 8 \<and> list_all (\<lambda>b. length b = 10) (tc_RegisterArea c) \<and>
     length (tc_XmmRegisters c) = 16 \<and> length (tc_YmmRegisters c) = 16"

definition native_shape :: "native_context \<Rightarrow> bool" where
  "native_shape c \<longleftrightarrow> length (nc_FloatRegisters c) = 8 \<and> list_all (\<lambda>b. length b = 16) (nc_FloatRegisters c)"

lemma take_chunks:
  "length a = length b \<Longrightarrow> list_all (\<lambda>x. length x = 10) a \<Longrightarrow>
   map (take 10) (map (\<lambda>(chunk, old). chunk @ drop 10 old) (zip a b)) = a"
  by (induction a b rule: list_induct2) auto

lemma setHigh_setLow:
  "length ymms = length lows \<Longrightarrow> length highs = length lows \<Longrightarrow>
   setHigh (setLow ymms lows) highs = zip lows highs"
proof (induction ymms lows arbitrary: highs rule: list_induct2)
  case (Cons y ys l ls)
  then show ?case by (cases highs; cases y) (auto simp: setHigh_def setLow_def)
qed (simp add: setHigh_def setLow_def)

text \<open>
  Writing a context into a native one and reading it back gives the floating point, SSE and
  AVX state that was written: the x87 stack and control words (the tag word in the eight bits FXSAVE
  keeps, the selectors in sixteen), MXCSR, the XMM registers, and, when the native context holds the AVX feature,
  the upper halves of the YMM registers; the lower halves are those of the XMM registers.
\<close>

theorem extended_context_roundtrip:
  assumes "titan_shape c" and "native_shape native" and "length (tc_YmmRegisters d) = 16"
  shows "let r = readExtendedContext (writeExtendedContext native c) d in
    tc_ControlWord r = tc_ControlWord c \<and> tc_StatusWord r = tc_StatusWord c \<and>
    tc_TagWord r = take_bit 8 (tc_TagWord c) \<and> tc_ErrorOffset r = tc_ErrorOffset c \<and>
    tc_ErrorSelector r = take_bit 16 (tc_ErrorSelector c) \<and> tc_DataOffset r = tc_DataOffset c \<and>
    tc_DataSelector r = take_bit 16 (tc_DataSelector c) \<and> tc_MxCsr r = tc_MxCsr c \<and>
    tc_RegisterArea r = tc_RegisterArea c \<and> tc_XmmRegisters r = tc_XmmRegisters c \<and>
    (nc_AvxHigh native \<noteq> None \<longrightarrow> tc_YmmRegisters r = zip (tc_XmmRegisters c) (map snd (tc_YmmRegisters c)))"
proof -
  have area: "map (take 10) (map (\<lambda>(chunk, old). chunk @ drop 10 old)
      (zip (tc_RegisterArea c) (nc_FloatRegisters native))) = tc_RegisterArea c"
    using assms(1,2) by (intro take_chunks) (simp_all add: titan_shape_def native_shape_def)
  have high: "setHigh (setLow (tc_YmmRegisters d) (tc_XmmRegisters c)) (map snd (tc_YmmRegisters c)) =
      zip (tc_XmmRegisters c) (map snd (tc_YmmRegisters c))"
    using assms(1,3) by (intro setHigh_setLow) (simp_all add: titan_shape_def)
  have narrow: "ucast (ucast (x :: u16) :: byte) = take_bit 8 x" for x by (simp add: unsigned_ucast_eq)
  have narrow2: "ucast (ucast (x :: u32) :: u16) = take_bit 16 x" for x by (simp add: unsigned_ucast_eq)
  show ?thesis
    using area high
    by (cases "nc_AvxHigh native") (simp_all add: readExtendedContext_def writeExtendedContext_def narrow narrow2)
qed

theorem extended_context_roundtrip_witness:
  "tc_XmmRegisters (readExtendedContext (writeExtendedContext no_context zero_context) zero_context) = replicate 16 zero_xmm"
proof -
  have "titan_shape zero_context" "native_shape no_context" "length (tc_YmmRegisters zero_context) = 16"
    "tc_XmmRegisters zero_context = replicate 16 zero_xmm"
    by (simp_all add: titan_shape_def native_shape_def zero_context_def no_context_def list_all_iff)
  then show ?thesis using extended_context_roundtrip [of zero_context no_context zero_context] by (simp add: Let_def)
qed

section \<open>AVX-512 writes\<close>

text \<open>Two contexts that a write into a native context cannot tell apart.\<close>

lemma writeExtendedContext_cong:
  "map snd ymms = map snd ymms' \<Longrightarrow>
   writeExtendedContext native (c\<lparr>tc_YmmRegisters := ymms\<rparr>) = writeExtendedContext native (c\<lparr>tc_YmmRegisters := ymms'\<rparr>)"
  by (simp add: writeExtendedContext_def)

lemma contextValues_ymm: "contextValues (c\<lparr>tc_YmmRegisters := ymms\<rparr>) = contextValues c"
  by (simp add: contextValues_def)

lemma SetFullContextDataEx_cong:
  assumes "map snd ymms = map snd ymms'"
  shows "SetFullContextDataEx os h (Some (c\<lparr>tc_YmmRegisters := ymms\<rparr>)) s =
     SetFullContextDataEx os h (Some (c\<lparr>tc_YmmRegisters := ymms'\<rparr>)) s"
proof -
  have "writeExtendedContext n (c\<lparr>tc_YmmRegisters := ymms\<rparr>) = writeExtendedContext n (c\<lparr>tc_YmmRegisters := ymms'\<rparr>)" for n
    by (rule writeExtendedContext_cong [OF assms])
  then show ?thesis by (simp only: SetFullContextDataEx_def option.case contextValues_ymm)
qed

text \<open>
  C38. \<open>SetAVX512Context\<close> ignores the low 128 bits of ZMM0 to ZMM15: two requests that differ only there have
  the same result and the same effect. It puts the YMM halves of the request into the
  context it writes, but the write takes the low halves from the XMM registers, which it
  read from the thread before.
\<close>

theorem SetAVX512Context_ignores_low_halves:
  assumes "map (snd \<circ> fst) (take 16 (ac_ZmmRegisters c)) = map (snd \<circ> fst) (take 16 (ac_ZmmRegisters c'))"
    and "map snd (take 16 (ac_ZmmRegisters c)) = map snd (take 16 (ac_ZmmRegisters c'))"
    and "drop 16 (ac_ZmmRegisters c) = drop 16 (ac_ZmmRegisters c')" and "ac_Opmask c = ac_Opmask c'"
  shows "SetAVX512Context os h (Some c) s = SetAVX512Context os h (Some c') s"
proof -
  have "map snd (map fst (take 16 (ac_ZmmRegisters c))) = map snd (map fst (take 16 (ac_ZmmRegisters c')))"
    using assms(1) by simp
  then have avx: "SetAVXContext os h (Some (a\<lparr>tc_YmmRegisters := map fst (take 16 (ac_ZmmRegisters c))\<rparr>)) s =
      SetAVXContext os h (Some (a\<lparr>tc_YmmRegisters := map fst (take 16 (ac_ZmmRegisters c'))\<rparr>)) s" for a s
    unfolding SetAVXContext_def by (rule SetFullContextDataEx_cong)
  have high: "map (\<lambda>z. ymmBytes (snd z)) (take 16 (ac_ZmmRegisters c)) = map (\<lambda>z. ymmBytes (snd z)) (take 16 (ac_ZmmRegisters c'))"
    using arg_cong [OF assms(2), of "map ymmBytes"] by (simp add: comp_def)
  show ?thesis unfolding SetAVX512Context_def option.case Let_def avx high assms(3,4) ..
qed

theorem SetAVX512Context_ignores_low_halves_witness:
  "SetAVX512Context quiet_os 8 (Some (zero_avx512\<lparr>ac_ZmmRegisters :=
       replicate 16 ((replicate 16 0xFF, zero_xmm), (zero_xmm, zero_xmm)) @ drop 16 (ac_ZmmRegisters zero_avx512)\<rparr>)) (live_titan ()) =
   SetAVX512Context quiet_os 8 (Some zero_avx512) (live_titan ())"
  by (rule SetAVX512Context_ignores_low_halves) (simp_all add: zero_avx512_def)

section \<open>An engine with register files\<close>

text \<open>The world is the selected thread and the file of each thread; every call succeeds.\<close>

type_synonym register_world = "u32 \<times> (u32 \<Rightarrow> nat \<Rightarrow> debug_value)"

definition register_os :: "register_world os" where
  "register_os = quiet_os\<lparr>dbg := quiet_dbg\<lparr>
     dThreadIndex := (\<lambda>w. Some (fst w)),
     dSetCurrentThread := (\<lambda>i w. (True, None, (i, snd w))),
     dGetValues := (\<lambda>n w. (Some (map (snd w (fst w)) [0..<n]), None, w)),
     dSetValues := (\<lambda>ups w. (True, None, (fst w, (snd w)(fst w := write_file ups (snd w (fst w))))))\<rparr>\<rparr>"

definition two_threads :: "register_world titan" where
  "two_threads = (live_titan (0, \<lambda>th i. DV_INT32 (if th = 0 then 5 else 9)))
     \<lparr>gDebugIdMap := empty_id_map\<lparr>threadHandleToIndex := [(0x10, 0), (0x20, 1)]\<rparr>,
      gRegisterCache := \<lparr>rc_Count = 1, rc_Values = [DV_INT32 5], rc_Names = [''eax''], rc_Changed = [False],
        rc_TitanRegIndexMap = [(UE_RAX, 0)]\<rparr>\<rparr>"

lemma register_os_engine: "register_engine register_os fst snd"
  by (simp add: register_engine_def register_os_def)

lemma two_threads_coherent: "cache_coherent fst snd two_threads"
  by (simp add: cache_coherent_def cache_shape_def two_threads_def live_defs)

lemma two_threads_fields: "gSessionKind two_threads \<noteq> UE_SESSION_TTD" "PauseLock two_threads"
  "map_of (threadHandleToIndex (gDebugIdMap two_threads)) 0x20 = Some 1"
  "map_of (rc_TitanRegIndexMap (gRegisterCache two_threads)) UE_RAX = Some 0"
  by (simp_all add: two_threads_def live_defs PauseLock_def)

lemma register_os_works: "fst (dSetCurrentThread (dbg register_os) i w)" "fst (dSetValues (dbg register_os) ups w)"
  by (simp_all add: register_os_def)

lemma set_other_thread:
  "SetContextDataEx register_os 0x20 UE_RAX 0x100000007 two_threads =
     (True, snd (SetContextDataEx register_os 0x20 UE_RAX 0x100000007 two_threads))"
  by (simp add: prod_eq_iff SetContextDataEx_def withThreadScope_def openThreadScope_def RegisterCache_Flush_def
      RegisterCache_Read_def RegisterCache_SetValue_def changedRegisters_def assignInteger_def Let_def oscall_def
      register_os_def two_threads_def live_defs PauseLock_def)



end
