(* ===== verification/Immutability.thy ===== *)
theory Immutability
  imports Memory_Access Contexts
begin

text \<open>
  Minidumps and recordings cannot be changed. Every exported function that would write the debuggee's
  memory or registers refuses in a replayed session; the contract is the locale
  \<open>refused_in_replay\<close>, interpreted on the memory functions and on the context functions.
\<close>

locale refused_in_replay =
  fixes perform :: "'r \<Rightarrow> 'w titan \<Rightarrow> bool \<times> 'w titan"
  assumes refuses: "replayed s \<Longrightarrow> \<exists>e. perform request s = (False, s\<lparr>lastError := e\<rparr>)"
begin

lemma never_succeeds: "replayed s \<Longrightarrow> \<not> fst (perform request s)"
  using refuses [of s request] by auto

lemma nothing_changes:
  assumes "replayed s"
  shows "\<exists>e. fold (\<lambda>request s. snd (perform request s)) requests s = s\<lparr>lastError := e\<rparr>"
  using assms
proof (induction requests arbitrary: s)
  case Nil
  show ?case by (rule exI [of _ "lastError s"]) simp
next
  case (Cons request requests)
  obtain e where e: "perform request s = (False, s\<lparr>lastError := e\<rparr>)" using refuses [OF Cons.prems] by blast
  have "replayed (s\<lparr>lastError := e\<rparr>)" using Cons.prems by (simp add: replayed_def)
  from Cons.IH [OF this] show ?case by (auto simp: e)
qed

end

section \<open>The functions that change the debuggee\<close>

datatype memory_request =
    WriteMemory HANDLE u64 "byte list option"
  | FillMemory u64 u32 "byte option"
  | AllocMemory HANDLE u64 u64 u32 u32
  | FreeMemory HANDLE u64 u64 u32
  | ProtectMemory HANDLE u64 u64 u32

definition performMemory :: "'w os \<Rightarrow> memory_request \<Rightarrow> 'w titan \<Rightarrow> bool \<times> 'w titan" where
  "performMemory os request s = (case request of
     WriteMemory process a buffer \<Rightarrow> (let ((ok, n), s) = MemoryWriteSafe os process a buffer s in (ok, s))
   | FillMemory a sz byte \<Rightarrow> Fill os a sz byte s
   | AllocMemory process a sz type protection \<Rightarrow>
       (let (p, s) = MemoryAllocSafe os process a sz type protection s in (p \<noteq> 0, s))
   | FreeMemory process a sz type \<Rightarrow> MemoryFreeSafe os process a sz type s
   | ProtectMemory process a sz protection \<Rightarrow>
       (let ((ok, old), s) = MemoryProtectSafe os process a sz protection s in (ok, s)))"

datatype context_request =
    SetRegister HANDLE u32 u64
  | SetContext HANDLE "titan_context option"
  | SetAVX HANDLE "titan_context option"
  | SetAVX512 HANDLE "avx512_context option"

definition performContext :: "'w os \<Rightarrow> context_request \<Rightarrow> 'w titan \<Rightarrow> bool \<times> 'w titan" where
  "performContext os request s = (case request of
     SetRegister thread reg v \<Rightarrow> SetContextDataEx os thread reg v s
   | SetContext thread context \<Rightarrow> SetFullContextDataEx os thread context s
   | SetAVX thread context \<Rightarrow> SetAVXContext os thread context s
   | SetAVX512 thread context \<Rightarrow> SetAVX512Context os thread context s)"

text \<open>A record update that changes nothing, as the existential statements need it.\<close>

lemma error_self: "s = s\<lparr>lastError := lastError s\<rparr>"
  by simp

lemma MemoryWriteSafe_refuses:
  assumes "replayed s"
  shows "\<exists>e. MemoryWriteSafe os process a buffer s = ((False, 0), s\<lparr>lastError := e\<rparr>)"
  using assms unfolding replayed_def MemoryWriteSafe_def by (auto split: option.split)

lemma Fill_refuses:
  assumes "replayed s"
  shows "\<exists>e. Fill os a sz byte s = (False, s\<lparr>lastError := e\<rparr>)"
proof (cases "a = 0 \<or> sz = 0 \<or> \<not> PauseLock s \<or> activeProcessHandle os s = 0")
  case True
  then show ?thesis by (auto simp: Fill_def)
next
  case False
  let ?b = "case byte of Some b \<Rightarrow> b | None \<Rightarrow> 0x90"
  have pos: "0 < unat sz" using False by (simp add: unat_gt_0)
  obtain e where "MemoryWriteSafe os (activeProcessHandle os s) a (Some (replicate (min (unat sz) 65536) ?b)) s =
      ((False, 0), s\<lparr>lastError := e\<rparr>)"
    using MemoryWriteSafe_refuses [OF assms] by blast
  then have "fillChunks os (activeProcessHandle os s) a (unat sz) ?b 0 s = (False, s\<lparr>lastError := e\<rparr>)"
    using pos by (subst fillChunks.simps) (simp add: min.absorb1 min.commute min.left_commute)
  then show ?thesis using False by (auto simp: Fill_def)
qed

interpretation memory_requests: refused_in_replay "performMemory os"
proof
  fix s :: "'a titan" and request
  assume r: "replayed s"
  show "\<exists>e. performMemory os request s = (False, s\<lparr>lastError := e\<rparr>)"
  proof (cases request)
    case (WriteMemory process a buffer)
    then show ?thesis using MemoryWriteSafe_refuses [OF r, of os process a buffer] by (auto simp: performMemory_def)
  next
    case (FillMemory a sz byte)
    then show ?thesis using Fill_refuses [OF r] by (simp add: performMemory_def)
  qed (use r in \<open>auto simp: performMemory_def MemoryAllocSafe_def MemoryFreeSafe_def MemoryProtectSafe_def\<close>)
qed

interpretation context_requests: refused_in_replay "performContext os"
proof
  fix s :: "'a titan" and request
  assume r: "replayed s"
  show "\<exists>e. performContext os request s = (False, s\<lparr>lastError := e\<rparr>)"
    using r by (cases request) (auto simp: performContext_def replayed_def SetContextDataEx_def SetFullContextDataEx_def
        SetAVXContext_def SetAVX512Context_def)
qed

text \<open>
  C20. Replayed sessions are immutable. In a minidump or a recording, whatever sequence of memory writes, fills,
  allocations, releases, protection changes and register writes is requested, each of them is refused, and the
  outside world and every variable of the adapter but the error code stay as they were.
\<close>

theorem replayed_sessions_immutable:
  assumes "replayed s"
  shows "\<not> fst (performMemory os m s) \<and> \<not> fst (performContext os c s) \<and>
    (\<exists>e. fold (\<lambda>r s. snd (performContext os r s)) contexts (fold (\<lambda>r s. snd (performMemory os r s)) memories s) =
      s\<lparr>lastError := e\<rparr>)"
proof -
  obtain e where e: "fold (\<lambda>r s. snd (performMemory os r s)) memories s = s\<lparr>lastError := e\<rparr>"
    using memory_requests.nothing_changes [OF assms] by blast
  have "replayed (s\<lparr>lastError := e\<rparr>)" using assms by (simp add: replayed_def)
  then show ?thesis
    using memory_requests.never_succeeds [OF assms] context_requests.never_succeeds [OF assms]
      context_requests.nothing_changes [of "s\<lparr>lastError := e\<rparr>" os contexts] by (simp add: e)
qed

theorem replayed_sessions_immutable_witness:
  "\<exists>e. snd (performMemory memory_os (WriteMemory 8 0x20000 (Some [1])) (live_titan (\<lambda>_. 0)\<lparr>gSessionKind := UE_SESSION_MINIDUMP\<rparr>)) =
     live_titan (\<lambda>_. 0)\<lparr>gSessionKind := UE_SESSION_MINIDUMP, lastError := e\<rparr>"
  using replayed_sessions_immutable [of "live_titan (\<lambda>_. 0)\<lparr>gSessionKind := UE_SESSION_MINIDUMP\<rparr>" memory_os
      "WriteMemory 8 0x20000 (Some [1])" "SetRegister 0 0 0" "[]" "[WriteMemory 8 0x20000 (Some [1])]"]
  by (simp add: replayed_def)

end
