(* ===== verification/Stepping.thy ===== *)
theory Stepping
  imports Breakpoints Contexts
begin

text \<open>
  Internal steps (\<open>TitanEngine.cpp\<close>, lines 852 to 955): executing one instruction with every other
  thread suspended, to put a guard page or a native patch back; and the steps of the user
  (4985 to 5015). The closures of \<open>gInternalStepCallbacks\<close> are values of the type \<open>internal_step\<close>.
\<close>

section \<open>Operations\<close>

text \<open>Running a closure: the two lambdas passed to \<open>scheduleInternalStep\<close>, and the two ways it combines them.\<close>

primrec runInternalStep :: "'w os \<Rightarrow> 'w client \<Rightarrow> internal_step \<Rightarrow> 'w titan \<Rightarrow> 'w titan" where
  "runInternalStep os cl (RearmPage page) s =
     (if omap_contains (gMemoryBreakpointPages s) page then snd (protectMemoryBreakpointPage os page True s) else s)"
| "runInternalStep os cl (RearmNative ident) s = (case map_of (gBreakpoints s) ident of
     None \<Rightarrow> s | Some info \<Rightarrow> snd (writeNativeBreakpointBytes os info True s))"
| "runInternalStep os cl (BothSteps previous callback) s =
     runInternalStep os cl callback (runInternalStep os cl previous s)"
| "runInternalStep os cl (ThenUserStep callback userStep) s =
     (let s = runInternalStep os cl callback s
      in if userStep = 0 then s else cl userStep NoArgument s)"

text \<open>The loop over the other threads; the accumulator is the vector of suspended handles.\<close>

fun suspendOthers :: "'w os \<Rightarrow> u32 \<Rightarrow> (u32, HANDLE) omap \<Rightarrow> HANDLE list \<Rightarrow> 'w titan \<Rightarrow> HANDLE list \<times> 'w titan" where
  "suspendOthers os threadIndex [] suspended s = (suspended, s)"
| "suspendOthers os threadIndex ((otherIndex, otherHandle) # rest) suspended s =
     (if otherIndex = threadIndex then suspendOthers os threadIndex rest suspended s
      else (let (count, s) = TitanSuspendThread os otherHandle s
            in suspendOthers os threadIndex rest (if count \<noteq> - 1 then suspended @ [otherHandle] else suspended) s))"

definition resumeAll :: "'w os \<Rightarrow> HANDLE list \<Rightarrow> 'w titan \<Rightarrow> 'w titan" where
  "resumeAll os handles s = fold (\<lambda>handle s. snd (TitanResumeThread os handle s)) handles s"

definition scheduleInternalStep :: "'w os \<Rightarrow> internal_step \<Rightarrow> 'w titan \<Rightarrow> 'w titan" where
  "scheduleInternalStep os callback s = (case dThreadIndex (dbg os) (world s) of
     None \<Rightarrow> s
   | Some threadIndex \<Rightarrow> (case map_of (gInternalStepCallbacks s) threadIndex of
         Some previous \<Rightarrow>
           s\<lparr>gInternalStepCallbacks := omap_insert threadIndex (BothSteps previous callback) (gInternalStepCallbacks s)\<rparr>
       | None \<Rightarrow>
           (let (userStep, s) = (case map_of (gStepCallbacks s) threadIndex of
                  None \<Rightarrow> (0, s)
                | Some step \<Rightarrow> (step, s\<lparr>gStepCallbacks := omap_erase threadIndex (gStepCallbacks s),
                                   gStepThreadSystemIds := omap_erase threadIndex (gStepThreadSystemIds s)\<rparr>))
            in case map_of (threadIndexToHandle (gDebugIdMap s)) threadIndex of
                 None \<Rightarrow> s
               | Some thread \<Rightarrow>
                   (let existing = (case map_of (gInternalStepSuspendedThreads s) threadIndex of None \<Rightarrow> [] | Some hs \<Rightarrow> hs);
                        (suspended, s) = suspendOthers os threadIndex (threadIndexToHandle (gDebugIdMap s)) existing s;
                        s = s\<lparr>gInternalStepSuspendedThreads :=
                               omap_insert threadIndex suspended (gInternalStepSuspendedThreads s)\<rparr>;
                        (flags, s) = GetContextDataEx os thread UE_CFLAGS s;
                        (ok, s) = SetContextDataEx os thread UE_CFLAGS (flags OR 0x100) s
                    in if \<not> ok
                       then (resumeAll os suspended s)\<lparr>gInternalStepSuspendedThreads :=
                              omap_erase threadIndex (gInternalStepSuspendedThreads (resumeAll os suspended s))\<rparr>
                       else s\<lparr>gInternalStepCallbacks :=
                                omap_insert threadIndex (ThenUserStep callback userStep) (gInternalStepCallbacks s),
                              gStepStatuses := omap_insert threadIndex DEBUG_STATUS_GO_HANDLED (gStepStatuses s)\<rparr>))))"

definition scheduleMemoryBreakpointRearm :: "'w os \<Rightarrow> u64 \<Rightarrow> 'w titan \<Rightarrow> 'w titan" where
  "scheduleMemoryBreakpointRearm os page s = scheduleInternalStep os (RearmPage page) s"

definition clearTrapFlag :: "'w os \<Rightarrow> u32 \<Rightarrow> 'w titan \<Rightarrow> 'w titan" where
  "clearTrapFlag os threadIndex s = (case map_of (threadIndexToHandle (gDebugIdMap s)) threadIndex of
     None \<Rightarrow> s
   | Some thread \<Rightarrow>
       (let (flags, s) = GetContextDataEx os thread UE_CFLAGS s
        in snd (SetContextDataEx os thread UE_CFLAGS (flags AND NOT 0x100) s)))"

definition completeInternalStep :: "'w os \<Rightarrow> 'w client \<Rightarrow> u32 \<Rightarrow> 'w titan \<Rightarrow> bool \<times> 'w titan" where
  "completeInternalStep os cl threadIndex s = (case map_of (gInternalStepCallbacks s) threadIndex of
     None \<Rightarrow> (False, s)
   | Some step \<Rightarrow>
       (let s = clearTrapFlag os threadIndex s;
            s = s\<lparr>gInternalStepCallbacks := omap_erase threadIndex (gInternalStepCallbacks s),
                  gStepStatuses := omap_erase threadIndex (gStepStatuses s),
                  gNextExecutionStatus := DEBUG_STATUS_GO_HANDLED\<rparr>;
            s = runInternalStep os cl step s
        in (True, case map_of (gInternalStepSuspendedThreads s) threadIndex of
                    None \<Rightarrow> s
                  | Some suspended \<Rightarrow> (resumeAll os suspended s)\<lparr>gInternalStepSuspendedThreads :=
                      omap_erase threadIndex (gInternalStepSuspendedThreads (resumeAll os suspended s))\<rparr>)))"

definition debugStep :: "'w os \<Rightarrow> u32 \<Rightarrow> callback \<Rightarrow> 'w titan \<Rightarrow> 'w titan" where
  "debugStep os status stepCallback s =
     (if \<not> PauseLock s then s
      else (case dThreadIndex (dbg os) (world s) of
          None \<Rightarrow> s
        | Some threadIndex \<Rightarrow>
            if omap_contains (gStepCallbacks s) threadIndex then s
            else (let threadSystemId = (case dThreadSystemId (dbg os) (world s) of None \<Rightarrow> 0 | Some ident \<Rightarrow> ident)
                  in s\<lparr>gNextExecutionStatus := status,
                       gStepCallbacks := omap_emplace threadIndex stepCallback (gStepCallbacks s),
                       gStepThreadSystemIds := omap_insert threadIndex threadSystemId (gStepThreadSystemIds s),
                       gStepStatuses := omap_emplace threadIndex status (gStepStatuses s)\<rparr>)))"

text \<open>The workaround exists in the Win32 build only; the Win64 build returns false.\<close>

definition scheduleWow64TransitionStep :: "callback \<Rightarrow> 'w titan \<Rightarrow> bool \<times> 'w titan" where
  "scheduleWow64TransitionStep stepCallback s = (False, s)"

section \<open>Suspension counts\<close>

text \<open>
  What the operating system promises about suspension: a successful SuspendThread adds one to the
  count of the thread, a successful ResumeThread takes one away, and the calls that read and
  write registers, protections and memory leave the counts alone.
\<close>

definition suspend_counts :: "'w os \<Rightarrow> ('w \<Rightarrow> HANDLE \<Rightarrow> int) \<Rightarrow> bool" where
  "suspend_counts os cnt \<longleftrightarrow>
     (\<forall>h w. cnt (snd (snd (wSuspendThread (win os) h w))) =
        (if fst (wSuspendThread (win os) h w) \<noteq> - 1 then (cnt w)(h := cnt w h + 1) else cnt w)) \<and>
     (\<forall>h w. cnt (snd (snd (wResumeThread (win os) h w))) =
        (if fst (wResumeThread (win os) h w) \<noteq> - 1 then (cnt w)(h := cnt w h - 1) else cnt w)) \<and>
     (\<forall>i w. cnt (snd (snd (dSetCurrentThread (dbg os) i w))) = cnt w) \<and>
     (\<forall>n w. cnt (snd (snd (dGetValues (dbg os) n w))) = cnt w) \<and>
     (\<forall>u w. cnt (snd (snd (dSetValues (dbg os) u w))) = cnt w) \<and>
     (\<forall>h w. cnt (snd (snd (wGetThreadContext (win os) h w))) = cnt w) \<and>
     (\<forall>h p n a w. cnt (snd (snd (wVirtualProtectEx (win os) h p n a w))) = cnt w) \<and>
     (\<forall>h p b w. cnt (snd (snd (wWriteProcessMemory (win os) h p b w))) = cnt w) \<and>
     (\<forall>h p n w. cnt (snd (snd (wFlushInstructionCache (win os) h p n w))) = cnt w)"

lemma suspend_countsD:
  assumes "suspend_counts os cnt"
  shows "cnt (snd (snd (wSuspendThread (win os) h w))) =
      (if fst (wSuspendThread (win os) h w) \<noteq> - 1 then (cnt w)(h := cnt w h + 1) else cnt w)"
    and "cnt (snd (snd (wResumeThread (win os) h w))) =
      (if fst (wResumeThread (win os) h w) \<noteq> - 1 then (cnt w)(h := cnt w h - 1) else cnt w)"
    and "cnt (snd (snd (dSetCurrentThread (dbg os) i w))) = cnt w"
    and "cnt (snd (snd (dGetValues (dbg os) n w))) = cnt w"
    and "cnt (snd (snd (dSetValues (dbg os) u w))) = cnt w"
    and "cnt (snd (snd (wGetThreadContext (win os) h w))) = cnt w"
    and "cnt (snd (snd (wVirtualProtectEx (win os) h p sz a w))) = cnt w"
    and "cnt (snd (snd (wWriteProcessMemory (win os) h p b w))) = cnt w"
    and "cnt (snd (snd (wFlushInstructionCache (win os) h p k w))) = cnt w"
  using assms by (auto simp: suspend_counts_def)

lemma registry_ok_frame [simp]: "registry_ok (s\<lparr>world := w\<rparr>) = registry_ok s" "registry_ok (s\<lparr>lastError := e\<rparr>) = registry_ok s"
  by (rule registry_ok_cong; simp)+

lemma usable_frame [simp]: "usable h type (s\<lparr>world := w, lastError := e\<rparr>) = usable h type s"
  by (simp add: usable_def)

text \<open>Suspending: a failed call changes no count.\<close>

lemma TitanSuspendThread_counts:
  assumes "suspend_counts os cnt" and "registry_ok s" and "TitanSuspendThread os h s = (r, t)"
  shows "\<exists>w e. t = s\<lparr>world := w, lastError := e\<rparr>"
    and "cnt (world t) = (if r \<noteq> - 1 then (cnt (world s))(h := cnt (world s) h + 1) else cnt (world s))"
    and "r \<noteq> - 1 \<Longrightarrow> usable h ThreadHandle s"
    and "usable h ThreadHandle s \<Longrightarrow> r = fst (wSuspendThread (win os) h (world s))"
proof -
  have U: "usable h ThreadHandle s \<Longrightarrow> oscall (wSuspendThread (win os) h) s = (r, t)"
    using assms(3) by (simp add: TitanSuspendThread_def withNativeHandle_usable [OF assms(2)])
  have N: "\<not> usable h ThreadHandle s \<Longrightarrow> r = - 1 \<and> t = s\<lparr>lastError := ERROR_INVALID_HANDLE\<rparr>"
    using assms(3) by (simp add: TitanSuspendThread_def withNativeHandle_unusable)
  show "\<exists>w e. t = s\<lparr>world := w, lastError := e\<rparr>"
  proof (cases "usable h ThreadHandle s")
    case True
    then show ?thesis using oscall_state [OF U] by blast
  next
    case False
    then have "t = s\<lparr>world := world s, lastError := ERROR_INVALID_HANDLE\<rparr>" using N by simp
    then show ?thesis by blast
  qed
  show "cnt (world t) = (if r \<noteq> - 1 then (cnt (world s))(h := cnt (world s) h + 1) else cnt (world s))"
  proof (cases "usable h ThreadHandle s")
    case True
    then show ?thesis using U suspend_countsD(1) [OF assms(1), of h "world s"]
      by (auto simp: oscall_def split: prod.splits)
  next
    case False
    then show ?thesis using N by simp
  qed
  show "r \<noteq> - 1 \<Longrightarrow> usable h ThreadHandle s" using N by blast
  show "usable h ThreadHandle s \<Longrightarrow> r = fst (wSuspendThread (win os) h (world s))"
    using U by (auto simp: oscall_def split: prod.splits)
qed

lemma TitanResumeThread_counts:
  assumes "suspend_counts os cnt" and "registry_ok s" and "usable h ThreadHandle s"
    and "\<And>w. fst (wResumeThread (win os) h w) \<noteq> - 1"
  shows "\<exists>w e. snd (TitanResumeThread os h s) = s\<lparr>world := w, lastError := e\<rparr>"
    and "cnt (world (snd (TitanResumeThread os h s))) = (cnt (world s))(h := cnt (world s) h - 1)"
proof -
  have U: "TitanResumeThread os h s = oscall (wResumeThread (win os) h) s"
    using withNativeHandle_usable [OF assms(2,3)] by (simp add: TitanResumeThread_def)
  show "\<exists>w e. snd (TitanResumeThread os h s) = s\<lparr>world := w, lastError := e\<rparr>" by (simp add: U snd_oscall)
  show "cnt (world (snd (TitanResumeThread os h s))) = (cnt (world s))(h := cnt (world s) h - 1)"
    using suspend_countsD(2) [OF assms(1), of h "world s"] assms(4) by (simp add: U)
qed

definition added :: "('w \<Rightarrow> HANDLE \<Rightarrow> int) \<Rightarrow> 'w \<Rightarrow> 'w \<Rightarrow> HANDLE list \<Rightarrow> bool" where
  "added cnt w w' hs \<longleftrightarrow> (\<forall>n. cnt w' n = cnt w n + int (count_list hs n))"

lemma suspendOthers_counts:
  assumes counts: "suspend_counts os cnt"
  shows "registry_ok s \<Longrightarrow> suspendOthers os ti es acc s = (hs, t) \<Longrightarrow>
    \<exists>new. hs = acc @ new \<and> added cnt (world s) (world t) new \<and> (\<exists>w e. t = s\<lparr>world := w, lastError := e\<rparr>) \<and>
      (\<forall>h \<in> set new. usable h ThreadHandle s) \<and>
      (\<forall>(i, h) \<in> set es. i \<noteq> ti \<longrightarrow> usable h ThreadHandle s \<longrightarrow> (\<forall>w. fst (wSuspendThread (win os) h w) \<noteq> - 1) \<longrightarrow> h \<in> set new)"
proof (induction es arbitrary: acc s)
  case Nil
  then show ?case by (auto simp: added_def)
next
  case (Cons entry rest)
  obtain i h where entry: "entry = (i, h)" by force
  note prems = Cons.prems [unfolded entry]
  show ?case
  proof (cases "i = ti")
    case True
    then show ?thesis using Cons.IH [OF prems(1), of acc] prems(2) by (simp add: entry)
  next
    case False
    obtain r u where sus: "TitanSuspendThread os h s = (r, u)" by force
    note S = TitanSuspendThread_counts [OF counts prems(1) sus]
    obtain w e where u: "u = s\<lparr>world := w, lastError := e\<rparr>" using S(1) by blast
    have reg: "registry_ok u" using prems(1) by (simp add: u)
    let ?acc = "if r \<noteq> - 1 then acc @ [h] else acc"
    have rest: "suspendOthers os ti rest ?acc u = (hs, t)" using prems(2) False sus by simp
    from Cons.IH [OF reg rest] obtain new where
      new: "hs = ?acc @ new" "added cnt (world u) (world t) new" "\<exists>w e. t = u\<lparr>world := w, lastError := e\<rparr>"
        "\<forall>h \<in> set new. usable h ThreadHandle u"
        "\<forall>(i, h) \<in> set rest. i \<noteq> ti \<longrightarrow> usable h ThreadHandle u \<longrightarrow> (\<forall>w. fst (wSuspendThread (win os) h w) \<noteq> - 1) \<longrightarrow> h \<in> set new"
      by blast
    let ?new = "if r \<noteq> - 1 then h # new else new"
    have "hs = acc @ ?new" using new(1) by simp
    moreover have "added cnt (world s) (world t) ?new"
      using new(2) S(2) by (auto simp: added_def)
    moreover have "\<exists>w e. t = s\<lparr>world := w, lastError := e\<rparr>" using new(3) by (auto simp: u)
    moreover have "\<forall>h \<in> set ?new. usable h ThreadHandle s" using new(4) S(3) by (auto simp: u)
    moreover have "\<forall>(j, h') \<in> set ((i, h) # rest). j \<noteq> ti \<longrightarrow> usable h' ThreadHandle s \<longrightarrow>
        (\<forall>w. fst (wSuspendThread (win os) h' w) \<noteq> - 1) \<longrightarrow> h' \<in> set ?new"
      using new(5) S(4) by (auto simp: u)
    ultimately show ?thesis unfolding entry by blast
  qed
qed

lemma resumeAll_counts:
  assumes counts: "suspend_counts os cnt" and works: "\<And>h w. fst (wResumeThread (win os) h w) \<noteq> - 1"
  shows "registry_ok s \<Longrightarrow> \<forall>h \<in> set hs. usable h ThreadHandle s \<Longrightarrow>
    added cnt (world (resumeAll os hs s)) (world s) hs \<and> (\<exists>w e. resumeAll os hs s = s\<lparr>world := w, lastError := e\<rparr>)"
proof (induction hs arbitrary: s)
  case Nil
  then show ?case by (simp add: resumeAll_def added_def)
next
  case (Cons h hs)
  let ?u = "snd (TitanResumeThread os h s)"
  have us: "usable h ThreadHandle s" using Cons.prems by simp
  note R = TitanResumeThread_counts [OF counts Cons.prems(1) us works]
  obtain w e where u: "?u = s\<lparr>world := w, lastError := e\<rparr>" using R(1) by blast
  have "registry_ok ?u" "\<forall>h \<in> set hs. usable h ThreadHandle ?u"
    using Cons.prems by (simp_all add: u)
  from Cons.IH [OF this] have I: "added cnt (world (resumeAll os hs ?u)) (world ?u) hs"
    "\<exists>w e. resumeAll os hs ?u = ?u\<lparr>world := w, lastError := e\<rparr>" by blast+
  have eq: "resumeAll os (h # hs) s = resumeAll os hs ?u" by (simp add: resumeAll_def)
  have "added cnt (world (resumeAll os hs ?u)) (world s) (h # hs)"
    using I(1) R(2) by (auto simp: added_def split: if_splits)
  moreover have "\<exists>w e. resumeAll os hs ?u = s\<lparr>world := w, lastError := e\<rparr>" using I(2) by (auto simp: u)
  ultimately show ?case by (simp only: eq)
qed

text \<open>Reading and writing registers leaves the counts alone.\<close>

lemma register_counts:
  assumes counts: "suspend_counts os cnt"
  shows "cnt (world (snd (RegisterCache_Flush os s))) = cnt (world s)"
    and "cnt (world (snd (RegisterCache_Read os s))) = cnt (world s)"
    and "cnt (world (snd (RegisterCache_SetValue reg v s))) = cnt (world s)"
  by (simp_all add: RegisterCache_Flush_def RegisterCache_Read_def RegisterCache_SetValue_def Let_def case_prod_unfold
      suspend_countsD [OF counts] split: option.split)

lemma thread_scope_counts:
  assumes counts: "suspend_counts os cnt"
  shows "cnt (world (snd (openThreadScope os h s))) = cnt (world s)"
    and "cnt (world (closeThreadScope os scope s)) = cnt (world s)"
  by (simp_all add: openThreadScope_def closeThreadScope_def Let_def case_prod_unfold
      suspend_countsD [OF counts] register_counts [OF counts] split: option.split)

lemma GetContextDataEx_counts:
  assumes counts: "suspend_counts os cnt" and "gSessionKind s \<noteq> UE_SESSION_TTD"
  shows "cnt (world (snd (GetContextDataEx os h reg s))) = cnt (world s)"
    and "register_frame s (snd (GetContextDataEx os h reg s))"
  using assms(2)
  by (simp_all add: GetContextDataEx_def withThreadScope_def Let_def case_prod_unfold suspend_countsD [OF counts]
      thread_scope_counts [OF counts] register_frames split: option.split)

lemma SetContextDataEx_counts:
  assumes counts: "suspend_counts os cnt"
  shows "cnt (world (snd (SetContextDataEx os h reg v s))) = cnt (world s)"
    and "register_frame s (snd (SetContextDataEx os h reg v s))"
  by (simp_all add: SetContextDataEx_def withThreadScope_def Let_def case_prod_unfold suspend_countsD [OF counts]
      thread_scope_counts [OF counts] register_counts [OF counts] register_frames)

text \<open>Closures without a user step act on the world alone.\<close>

primrec pure_step :: "internal_step \<Rightarrow> bool" where
  "pure_step (RearmPage page) = True"
| "pure_step (RearmNative ident) = True"
| "pure_step (BothSteps previous callback) = (pure_step previous \<and> pure_step callback)"
| "pure_step (ThenUserStep callback userStep) = (pure_step callback \<and> userStep = 0)"

lemma pure_step_effect:
  assumes counts: "suspend_counts os cnt"
  shows "pure_step step \<Longrightarrow> cnt (world (runInternalStep os cl step s)) = cnt (world s) \<and>
    (\<exists>w e. runInternalStep os cl step s = s\<lparr>world := w, lastError := e\<rparr>)"
proof (induction step arbitrary: s)
  case (RearmPage page)
  then show ?case
    using protectMemoryBreakpointPage_state [of os page True s]
    by (auto simp: protectMemoryBreakpointPage_def Let_def case_prod_unfold suspend_countsD [OF counts] split: option.split)
next
  case (RearmNative ident)
  then show ?case
    using write_frame [of os _ True s]
    by (auto simp: writeNativeBreakpointBytes_def Let_def case_prod_unfold suspend_countsD [OF counts] split: option.split)
next
  case (BothSteps a b)
  obtain w e where a: "runInternalStep os cl a s = s\<lparr>world := w, lastError := e\<rparr>"
    using BothSteps.IH(1) [of s] BothSteps.prems by auto
  then show ?case using BothSteps.IH(1) [of s] BothSteps.IH(2) [of "s\<lparr>world := w, lastError := e\<rparr>"] BothSteps.prems by auto
next
  case (ThenUserStep a cb)
  then show ?case by simp
qed

section \<open>Suspension is balanced\<close>

lemma schedule_effect:
  assumes counts: "suspend_counts os cnt" and works: "\<And>h w. fst (wResumeThread (win os) h w) \<noteq> - 1"
    and reg: "registry_ok s" and live: "gSessionKind s \<noteq> UE_SESSION_TTD"
    and cur: "dThreadIndex (dbg os) (world s) = Some ti"
    and none: "map_of (gInternalStepCallbacks s) ti = None" "map_of (gInternalStepSuspendedThreads s) ti = None"
      "map_of (gStepCallbacks s) ti = None"
  shows "(cnt (world (scheduleInternalStep os step s)) = cnt (world s) \<and>
      gInternalStepCallbacks (scheduleInternalStep os step s) = gInternalStepCallbacks s \<and>
      map_of (gInternalStepSuspendedThreads (scheduleInternalStep os step s)) ti = None) \<or>
    (\<exists>hs w e c. scheduleInternalStep os step s = s\<lparr>world := w, lastError := e, gRegisterCache := c,
       gInternalStepSuspendedThreads := omap_insert ti hs (gInternalStepSuspendedThreads s),
       gInternalStepCallbacks := omap_insert ti (ThenUserStep step 0) (gInternalStepCallbacks s),
       gStepStatuses := omap_insert ti DEBUG_STATUS_GO_HANDLED (gStepStatuses s)\<rparr> \<and>
     added cnt (world s) w hs \<and> (\<forall>h \<in> set hs. usable h ThreadHandle s) \<and>
     (\<forall>(i, h) \<in> set (threadIndexToHandle (gDebugIdMap s)). i \<noteq> ti \<longrightarrow> usable h ThreadHandle s \<longrightarrow>
        (\<forall>w. fst (wSuspendThread (win os) h w) \<noteq> - 1) \<longrightarrow> h \<in> set hs))"
proof (cases "map_of (threadIndexToHandle (gDebugIdMap s)) ti")
  case None
  then show ?thesis using cur none by (simp add: scheduleInternalStep_def)
next
  case (Some thread)
  obtain hs t where sus: "suspendOthers os ti (threadIndexToHandle (gDebugIdMap s)) [] s = (hs, t)" by force
  from suspendOthers_counts [OF counts reg sus] obtain w e where
    S: "added cnt (world s) (world t) hs" "t = s\<lparr>world := w, lastError := e\<rparr>" "\<forall>h \<in> set hs. usable h ThreadHandle s"
      "\<forall>(i, h) \<in> set (threadIndexToHandle (gDebugIdMap s)). i \<noteq> ti \<longrightarrow> usable h ThreadHandle s \<longrightarrow>
        (\<forall>w. fst (wSuspendThread (win os) h w) \<noteq> - 1) \<longrightarrow> h \<in> set hs" by auto
  let ?u = "t\<lparr>gInternalStepSuspendedThreads := omap_insert ti hs (gInternalStepSuspendedThreads t)\<rparr>"
  obtain flags u1 where g: "GetContextDataEx os thread UE_CFLAGS ?u = (flags, u1)" by force
  obtain ok u2 where st: "SetContextDataEx os thread UE_CFLAGS (flags OR 0x100) u1 = (ok, u2)" by force
  have kind: "gSessionKind ?u \<noteq> UE_SESSION_TTD" using live by (simp add: S(2))
  note G = GetContextDataEx_counts [OF counts kind, where h = thread and reg = UE_CFLAGS, unfolded g snd_conv]
  note W = SetContextDataEx_counts [OF counts, where h = thread and reg = UE_CFLAGS and v = "flags OR 0x100" and s = u1,
      unfolded st snd_conv]
  obtain w1 e1 c1 where u1: "u1 = ?u\<lparr>world := w1, lastError := e1, gRegisterCache := c1\<rparr>"
    using G(2) by (auto simp: register_frame_def)
  obtain w2 e2 c2 where u2': "u2 = u1\<lparr>world := w2, lastError := e2, gRegisterCache := c2\<rparr>"
    using W(2) by (auto simp: register_frame_def)
  have u2: "u2 = s\<lparr>world := w2, lastError := e2, gRegisterCache := c2,
      gInternalStepSuspendedThreads := omap_insert ti hs (gInternalStepSuspendedThreads s)\<rparr>"
    by (simp add: u2' u1 S(2))
  have cnt2: "added cnt (world s) (world u2) hs" using S(1) G(1) W(1) by (simp add: added_def)
  have run: "scheduleInternalStep os step s = (if \<not> ok
      then (resumeAll os hs u2)\<lparr>gInternalStepSuspendedThreads := omap_erase ti (gInternalStepSuspendedThreads (resumeAll os hs u2))\<rparr>
      else u2\<lparr>gInternalStepCallbacks := omap_insert ti (ThenUserStep step 0) (gInternalStepCallbacks u2),
              gStepStatuses := omap_insert ti DEBUG_STATUS_GO_HANDLED (gStepStatuses u2)\<rparr>)"
    unfolding scheduleInternalStep_def using cur none Some sus g st by simp
  show ?thesis
  proof (cases ok)
    case True
    then have "scheduleInternalStep os step s = s\<lparr>world := w2, lastError := e2, gRegisterCache := c2,
       gInternalStepSuspendedThreads := omap_insert ti hs (gInternalStepSuspendedThreads s),
       gInternalStepCallbacks := omap_insert ti (ThenUserStep step 0) (gInternalStepCallbacks s),
       gStepStatuses := omap_insert ti DEBUG_STATUS_GO_HANDLED (gStepStatuses s)\<rparr>"
      unfolding run by (simp add: u2)
    moreover have "added cnt (world s) w2 hs" using cnt2 by (simp add: u2)
    ultimately show ?thesis using S(3,4) by blast
  next
    case False
    have reg2: "registry_ok u2" and us: "\<forall>h \<in> set hs. usable h ThreadHandle u2"
      using reg registry_ok_cong [of u2 s] S(3) by (simp_all add: u2 usable_def)
    from resumeAll_counts [OF counts works reg2 us] obtain w3 e3 where
      R: "added cnt (world (resumeAll os hs u2)) (world u2) hs" "resumeAll os hs u2 = u2\<lparr>world := w3, lastError := e3\<rparr>"
      by blast
    have "cnt (world (resumeAll os hs u2)) = cnt (world s)" using R(1) cnt2 by (auto simp: added_def fun_eq_iff)
    then show ?thesis using False by (simp add: run R(2) [unfolded u2] u2)
  qed
qed

lemma complete_effect:
  assumes counts: "suspend_counts os cnt" and works: "\<And>h w. fst (wResumeThread (win os) h w) \<noteq> - 1"
    and reg: "registry_ok s" and live: "gSessionKind s \<noteq> UE_SESSION_TTD"
    and step: "map_of (gInternalStepCallbacks s) ti = Some step" "pure_step step"
    and hs: "map_of (gInternalStepSuspendedThreads s) ti = Some hs" "\<forall>h \<in> set hs. usable h ThreadHandle s"
  shows "fst (completeInternalStep os cl ti s)"
    and "added cnt (world (snd (completeInternalStep os cl ti s))) (world s) hs"
    and "gInternalStepCallbacks (snd (completeInternalStep os cl ti s)) = omap_erase ti (gInternalStepCallbacks s)"
    and "gInternalStepSuspendedThreads (snd (completeInternalStep os cl ti s)) = omap_erase ti (gInternalStepSuspendedThreads s)"
    and "gStepStatuses (snd (completeInternalStep os cl ti s)) = omap_erase ti (gStepStatuses s)"
    and "gNextExecutionStatus (snd (completeInternalStep os cl ti s)) = DEBUG_STATUS_GO_HANDLED"
proof -
  let ?clear = "clearTrapFlag os ti s"
  have clear: "\<exists>w e c. ?clear = s\<lparr>world := w, lastError := e, gRegisterCache := c\<rparr> \<and> cnt w = cnt (world s)"
  proof (cases "map_of (threadIndexToHandle (gDebugIdMap s)) ti")
    case None
    have "s = s\<lparr>world := world s, lastError := lastError s, gRegisterCache := gRegisterCache s\<rparr>" by simp
    then show ?thesis using None unfolding clearTrapFlag_def by (metis option.simps(4))
  next
    case (Some thread)
    let ?g = "GetContextDataEx os thread UE_CFLAGS s"
    let ?u = "snd (SetContextDataEx os thread UE_CFLAGS (fst ?g AND NOT 0x100) (snd ?g))"
    note G = GetContextDataEx_counts [OF counts live, where h = thread and reg = UE_CFLAGS]
    note W = SetContextDataEx_counts [OF counts, where h = thread and reg = UE_CFLAGS and v = "fst ?g AND NOT 0x100" and s = "snd ?g"]
    obtain w1 e1 c1 where "snd ?g = s\<lparr>world := w1, lastError := e1, gRegisterCache := c1\<rparr>"
      using G(2) by (auto simp: register_frame_def)
    moreover obtain w2 e2 c2 where "?u = (snd ?g)\<lparr>world := w2, lastError := e2, gRegisterCache := c2\<rparr>"
      using W(2) by (auto simp: register_frame_def)
    ultimately have u: "?u = s\<lparr>world := w2, lastError := e2, gRegisterCache := c2\<rparr>" by simp
    moreover have "cnt (world ?u) = cnt (world s)" using G(1) W(1) by simp
    then have "cnt w2 = cnt (world s)" unfolding u by simp
    moreover have "?clear = ?u" using Some by (simp only: clearTrapFlag_def option.case Let_def case_prod_unfold)
    ultimately show ?thesis unfolding u by (intro exI [of _ w2] exI [of _ e2] exI [of _ c2] conjI)
  qed
  then obtain w e c where cl1: "?clear = s\<lparr>world := w, lastError := e, gRegisterCache := c\<rparr>" and cw: "cnt w = cnt (world s)"
    by blast
  let ?t = "s\<lparr>world := w, lastError := e, gRegisterCache := c, gInternalStepCallbacks := omap_erase ti (gInternalStepCallbacks s),
    gStepStatuses := omap_erase ti (gStepStatuses s), gNextExecutionStatus := DEBUG_STATUS_GO_HANDLED\<rparr>"
  from pure_step_effect [OF counts step(2), of cl ?t] obtain v f where
    run: "runInternalStep os cl step ?t = ?t\<lparr>world := v, lastError := f\<rparr>" and cv: "cnt (world (runInternalStep os cl step ?t)) = cnt w"
    by auto
  let ?v = "?t\<lparr>world := v, lastError := f\<rparr>"
  have cv: "cnt v = cnt (world s)" using cv cw by (simp add: run)
  have reg2: "registry_ok ?v" and us: "\<forall>h \<in> set hs. usable h ThreadHandle ?v"
    using reg registry_ok_cong [of ?v s] hs(2) by (simp_all add: usable_def)
  from resumeAll_counts [OF counts works reg2 us] obtain w3 e3 where
    R: "added cnt (world (resumeAll os hs ?v)) (world ?v) hs" "resumeAll os hs ?v = ?v\<lparr>world := w3, lastError := e3\<rparr>" by blast
  have fin: "completeInternalStep os cl ti s = (True, ?v\<lparr>world := w3, lastError := e3,
      gInternalStepSuspendedThreads := omap_erase ti (gInternalStepSuspendedThreads s)\<rparr>)"
    unfolding completeInternalStep_def step(1) option.case cl1 Let_def using run hs(1) R(2) by simp
  show "fst (completeInternalStep os cl ti s)"
    "gInternalStepCallbacks (snd (completeInternalStep os cl ti s)) = omap_erase ti (gInternalStepCallbacks s)"
    "gInternalStepSuspendedThreads (snd (completeInternalStep os cl ti s)) = omap_erase ti (gInternalStepSuspendedThreads s)"
    "gStepStatuses (snd (completeInternalStep os cl ti s)) = omap_erase ti (gStepStatuses s)"
    "gNextExecutionStatus (snd (completeInternalStep os cl ti s)) = DEBUG_STATUS_GO_HANDLED"
    by (simp_all add: fin)
  show "added cnt (world (snd (completeInternalStep os cl ti s))) (world s) hs"
    using R cv by (simp add: fin added_def)
qed


text \<open>
  A system of two threads, the first of which is current, whose world is the number of
  suspensions of each thread; its one register is the flags.
\<close>

definition counting_os :: "(HANDLE \<Rightarrow> int) os" where
  "counting_os = quiet_os\<lparr>
     win := quiet_win\<lparr>wSuspendThread := (\<lambda>h w. (0, None, w(h := w h + 1))),
       wResumeThread := (\<lambda>h w. (1, None, w(h := w h - 1)))\<rparr>,
     dbg := quiet_dbg\<lparr>dThreadIndex := (\<lambda>w. Some 0), dSetCurrentThread := (\<lambda>i w. (True, None, w)),
       dSetValues := (\<lambda>u w. (True, None, w))\<rparr>\<rparr>"

lemma counting_os_calls [simp]:
  "wSuspendThread (win counting_os) h w = (0, None, w(h := w h + 1))"
  "wResumeThread (win counting_os) h w = (1, None, w(h := w h - 1))"
  "dThreadIndex (dbg counting_os) w = Some 0"
  "dSetValues (dbg counting_os) u w = (True, None, w)"
  by (simp_all add: counting_os_def)

lemma counting_os_counts: "suspend_counts counting_os id"
  by (simp add: suspend_counts_def counting_os_def quiet_defs)

definition stepping_state :: "(HANDLE \<Rightarrow> int) titan" where
  "stepping_state = (live_titan (\<lambda>_. 0))\<lparr>
     gDebugIdMap := \<lparr>processIndexToHandle = [(0, 4)], processHandleToIndex = [(4, 0)],
       threadIndexToHandle = [(0, 8), (1, 12)], threadHandleToIndex = [(8, 0), (12, 1)]\<rparr>,
     gHandleRegistry := [(8, \<lparr>he_type = ThreadHandle, he_dbgengId = 0, he_systemId = 70, he_nativeHandle = 8,
         he_callerOwned = False, he_sessionGeneration = 0\<rparr>),
       (12, \<lparr>he_type = ThreadHandle, he_dbgengId = 1, he_systemId = 71, he_nativeHandle = 12,
         he_callerOwned = False, he_sessionGeneration = 0\<rparr>)],
     gRegisterCache := \<lparr>rc_Count = 1, rc_Values = [DV_INT32 2], rc_Names = [''efl''], rc_Changed = [False],
       rc_TitanRegIndexMap = [(UE_CFLAGS, 0)]\<rparr>\<rparr>"

lemma stepping_state_registry: "registry_ok stepping_state"
  by (simp add: registry_ok_def stepping_state_def live_defs entry_ok_def omap_ok_def)

lemma stepping_run:
  "fst (completeInternalStep counting_os cl 0 (scheduleInternalStep counting_os (RearmPage 0x1000) stepping_state))"
  "world (scheduleInternalStep counting_os (RearmPage 0x1000) stepping_state) 12 = 1"
  by (simp_all add: scheduleInternalStep_def stepping_state_def live_defs TitanSuspendThread_def withNativeHandle_def
      registeredNativeHandle_def oscall_def GetContextDataEx_def SetContextDataEx_def withThreadScope_def PauseLock_def
      openThreadScope_def closeThreadScope_def RegisterCache_GetValue_def RegisterCache_SetValue_def RegisterCache_Flush_def
      changedRegisters_def assignInteger_def completeInternalStep_def Let_def case_prod_unfold)


end
