(* ===== verification/Events.thy ===== *)
theory Events
  imports Stepping Memory_Access
begin

text \<open>
  Debug events: the callbacks DbgEng calls from inside WaitForEvent (\<open>TitanEngine.cpp\<close>, lines 957 to 1613), the
  output callback (1694 to 1724), and the work they queue, which the debug loop runs once the debuggee has
  stopped. A queued closure is a value of the type \<open>work\<close>; \<open>runWork\<close> is what calling it does.
\<close>

section \<open>Delivery\<close>

text \<open>The copy of the exception record: at most 15 parameters.\<close>

definition copyParameters :: "u32 \<Rightarrow> u64 list \<Rightarrow> u64 list" where
  "copyParameters number parameters =
     (let n = min (unat number) EXCEPTION_MAXIMUM_PARAMETERS
      in take n parameters @ replicate (EXCEPTION_MAXIMUM_PARAMETERS - n) 0)"

definition copyException :: "exception_info \<Rightarrow> exception_info" where
  "copyException e = exception_zero\<lparr>ei_firstChance := ei_firstChance e, ei_address := ei_address e, ei_code := ei_code e,
     ei_flags := ei_flags e, ei_numberParameters := ei_numberParameters e,
     ei_information := copyParameters (ei_numberParameters e) (ei_information e)\<rparr>"

definition isOutputException :: "exception_info \<Rightarrow> bool" where
  "isOutputException e = ((ei_code e = DBG_PRINTEXCEPTION_C \<or> ei_code e = DBG_PRINTEXCEPTION_WIDE_C) \<and>
     2 \<le> ei_numberParameters e)"

text \<open>The callbacks \<open>Breakpoint\<close>, \<open>Exception\<close>, \<open>CreateThread\<close>, \<open>ExitThread\<close>, \<open>ExitProcess\<close>, \<open>LoadModule\<close> and \<open>UnloadModule\<close>.\<close>

definition onBreakpoint :: "'w os \<Rightarrow> u64 option \<Rightarrow> u32 option \<Rightarrow> 'w titan \<Rightarrow> 'w titan" where
  "onBreakpoint os offset ident s =
     queueCallback (BreakpointWork (case ident of Some i \<Rightarrow> i | None \<Rightarrow> - 1) (case offset of Some a \<Rightarrow> a | None \<Rightarrow> - 1)
       (debugProcessId os s) (debugThreadId os s)) s"

definition onException :: "'w os \<Rightarrow> exception_info \<Rightarrow> 'w titan \<Rightarrow> 'w titan" where
  "onException os e s =
     (if isOutputException e
      then queueCallback (OutputStringWork (ei_information e ! 1) (ei_code e = DBG_PRINTEXCEPTION_WIDE_C)
             (ucast (min (ei_information e ! 0) 0xFFFF))) s
      else queueCallback (ExceptionWork (copyException e) (debugProcessId os s) (debugThreadId os s)) s)"

definition onCreateThread :: "HANDLE \<Rightarrow> u64 \<Rightarrow> u64 \<Rightarrow> 'w titan \<Rightarrow> 'w titan" where
  "onCreateThread handle dataOffset startOffset s = queueCallback (CreateThreadWork handle dataOffset startOffset) s"

definition onExitThread :: "u32 \<Rightarrow> 'w titan \<Rightarrow> 'w titan" where
  "onExitThread exitCode s = queueCallback (ExitThreadWork exitCode) s"

text \<open>The first process that is created becomes the debuggee, and InitDebugW is told.\<close>

definition onCreateProcess ::
  "'w os \<Rightarrow> HANDLE \<Rightarrow> HANDLE \<Rightarrow> u64 \<Rightarrow> HANDLE \<Rightarrow> u64 \<Rightarrow> u64 \<Rightarrow> 'w titan \<Rightarrow> 'w titan" where
  "onCreateProcess os imageFileHandle handle baseOffset initialThreadHandle threadDataOffset startOffset s =
     (let s = (if dwProcessId (gProcessInfo s) = 0
               then s\<lparr>gProcessInfo := \<lparr>hProcess = handle, hThread = initialThreadHandle,
                        dwProcessId = debugProcessId os s, dwThreadId = debugThreadId os s\<rparr>,
                      gProcessCreated := True\<rparr>
               else s)
      in queueCallback (CreateProcessWork imageFileHandle handle baseOffset initialThreadHandle threadDataOffset startOffset) s)"

definition onExitProcess :: "u32 \<Rightarrow> 'w titan \<Rightarrow> 'w titan" where
  "onExitProcess exitCode s = queueCallback (ExitProcessWork exitCode) s"

definition onLoadModule :: "HANDLE \<Rightarrow> u64 \<Rightarrow> 'w titan \<Rightarrow> 'w titan" where
  "onLoadModule imageFileHandle baseOffset s = queueCallback (LoadModuleWork imageFileHandle baseOffset) s"

definition onUnloadModule :: "u64 \<Rightarrow> 'w titan \<Rightarrow> 'w titan" where
  "onUnloadModule baseOffset s = queueCallback (UnloadModuleWork baseOffset) s"

text \<open>
  Debuggee output is delivered to the handlers at once, with the converted text at \<open>text\<close> readable as long as
  they run.
\<close>

definition onOutput :: "'w client \<Rightarrow> bool \<Rightarrow> u64 \<Rightarrow> u64 \<Rightarrow> 'w titan \<Rightarrow> 'w titan" where
  "onOutput cl debuggee utf8 utf8Size s =
     (if \<not> debuggee then s
      else (let info = DebugStringInfo utf8 False (ucast (min (utf8Size + 1) 0xFFFF));
                s = s\<lparr>gSyntheticDebugString := utf8, gSyntheticDebugStringSize := utf8Size + 1,
                      gFakeDebugEvent := \<lparr>dwDebugEventCode = OUTPUT_DEBUG_STRING_EVENT,
                        devProcessId = devProcessId (gFakeDebugEvent s), devThreadId = devThreadId (gFakeDebugEvent s),
                        devInfo = info\<rparr>\<rparr>;
                s = invokeCustomHandler cl UE_CH_DEBUGEVENT (EventArgument (gFakeDebugEvent s)) s;
                s = invokeCustomHandler cl UE_CH_OUTPUTDEBUGSTRING (InfoArgument info) s
            in s\<lparr>gSyntheticDebugString := 0, gSyntheticDebugStringSize := 0\<rparr>))"

fun deliverEvent :: "'w os \<Rightarrow> 'w client \<Rightarrow> dbg_event \<Rightarrow> 'w titan \<Rightarrow> 'w titan" where
  "deliverEvent os cl (EvBreakpoint offset ident) s = onBreakpoint os offset ident s"
| "deliverEvent os cl (EvException e) s = onException os e s"
| "deliverEvent os cl (EvCreateThread handle dataOffset startOffset) s = onCreateThread handle dataOffset startOffset s"
| "deliverEvent os cl (EvExitThread exitCode) s = onExitThread exitCode s"
| "deliverEvent os cl (EvCreateProcess file process base thread threadData startOffset) s =
     onCreateProcess os file process base thread threadData startOffset s"
| "deliverEvent os cl (EvExitProcess exitCode) s = onExitProcess exitCode s"
| "deliverEvent os cl (EvLoadModule file base) s = onLoadModule file base s"
| "deliverEvent os cl (EvUnloadModule base) s = onUnloadModule base s"
| "deliverEvent os cl (EvOutput debuggee utf8 utf8Size) s = onOutput cl debuggee utf8 utf8Size s"

text \<open>The events of one call into the engine, in the order it delivers them.\<close>

definition deliverEvents :: "'w os \<Rightarrow> 'w client \<Rightarrow> dbg_event list \<Rightarrow> 'w titan \<Rightarrow> 'w titan" where
  "deliverEvents os cl events s = fold (deliverEvent os cl) events s"

section \<open>Queued work\<close>

text \<open>An exception record with only a code and an address.\<close>

definition exceptionAt :: "u32 \<Rightarrow> u64 \<Rightarrow> exception_info" where
  "exceptionAt code address = exception_zero\<lparr>ei_code := code, ei_address := address\<rparr>"

text \<open>The callback of a breakpoint: the hardware callback gets the breakpoint's address.\<close>

definition callBreakpoint :: "'w client \<Rightarrow> breakpoint_info \<Rightarrow> 'w titan \<Rightarrow> 'w titan" where
  "callBreakpoint cl info s =
     (if bp_kind info = Hardware
      then (if bp_hardwareCallback info \<noteq> 0 then cl (bp_hardwareCallback info) (AddressArgument (bp_offset info)) s else s)
      else (if bp_callback info \<noteq> 0 then cl (bp_callback info) NoArgument s else s))"

definition runBreakpointWork :: "'w os \<Rightarrow> 'w client \<Rightarrow> u32 \<Rightarrow> u64 \<Rightarrow> u32 \<Rightarrow> u32 \<Rightarrow> 'w titan \<Rightarrow> bool \<times> 'w titan" where
  "runBreakpointWork os cl ident offset pid tid s = (case map_of (gBreakpoints s) ident of
     None \<Rightarrow>
       (let info = exceptionAt EXCEPTION_BREAKPOINT offset;
            s = setEventIds pid tid (setFakeDebugEvent os (ExceptionInfo info) s)
        in (True, if gExpectSystemBreakpoint s
                  then dispatchSystemBreakpoint cl (InfoArgument (ExceptionInfo info)) (s\<lparr>gExpectSystemBreakpoint := False\<rparr>)
                  else dispatchDebugEvent cl UE_CH_UNHANDLEDEXCEPTION (InfoArgument (ExceptionInfo info)) True s))
   | Some bpInfo \<Rightarrow>
       (let info = exceptionAt (if bp_kind bpInfo = Hardware then EXCEPTION_SINGLE_STEP else EXCEPTION_BREAKPOINT) offset;
            s = setEventIds pid tid (setFakeDebugEvent os (ExceptionInfo info) s);
            s = callBreakpoint cl bpInfo (beginDebugEvent cl False s);
            s = (if bp_kind bpInfo = Software \<and> bp_oneShot bpInfo
                 then (case map_of (gBreakpoints s) ident of
                         None \<Rightarrow> s
                       | Some current \<Rightarrow>
                           if bp_kind current = Software \<and> bp_offset current = bp_offset bpInfo
                           then eraseBreakpointInfo ident s else s)
                 else s)
        in (True, finishDebugEvent False s)))"

text \<open>The native patch an exception at \<open>address\<close> comes from; the two-byte INT 3 reports its second byte.\<close>

definition nativeBreakpointAt :: "u64 \<Rightarrow> u32 \<times> breakpoint_info \<Rightarrow> bool" where
  "nativeBreakpointAt address = (\<lambda>(ident, bp).
     let longInt3Address = bp_patchSize bp = 2 \<and> bp_patchBytes bp ! 0 = 0xCD \<and> bp_patchBytes bp ! 1 = 0x03 \<and>
           bp_offset bp + 1 = address
     in bp_nativePatch bp \<and> (bp_offset bp = address \<or> longInt3Address))"

text \<open>The assignment to the exception code of \<open>gFakeDebugEvent\<close>.\<close>

definition setEventCode :: "u32 \<Rightarrow> 'w titan \<Rightarrow> 'w titan" where
  "setEventCode code s = s\<lparr>gFakeDebugEvent := (gFakeDebugEvent s)\<lparr>devInfo := (case devInfo (gFakeDebugEvent s) of
     ExceptionInfo e \<Rightarrow> ExceptionInfo (e\<lparr>ei_code := code\<rparr>) | other \<Rightarrow> other)\<rparr>\<rparr>"

text \<open>
  A native patch was executed: the original bytes are put back, the handlers run, and a breakpoint that is
  still set is armed again after one instruction.
\<close>

definition dispatchNativeBreakpoint :: "'w os \<Rightarrow> 'w client \<Rightarrow> u32 \<Rightarrow> breakpoint_info \<Rightarrow> 'w titan \<Rightarrow> bool \<times> 'w titan" where
  "dispatchNativeBreakpoint os cl ident bpInfo s =
     (let (restored, s) = writeNativeBreakpointBytes os bpInfo False s
      in if \<not> restored then (False, s)
         else (let s = setCurrentInstructionPointer (bp_offset bpInfo) s;
                   s = (if bp_kind bpInfo = Hardware then setEventCode EXCEPTION_SINGLE_STEP s else s);
                   s = (if bp_oneShot bpInfo then eraseBreakpointInfo ident (retireAddress (bp_offset bpInfo) s) else s);
                   s = callBreakpoint cl bpInfo (beginDebugEvent cl False s);
                   s = (if \<not> bp_oneShot bpInfo \<and> omap_contains (gBreakpoints s) ident
                        then scheduleInternalStep os (RearmNative ident) s else s)
               in (True, finishDebugEvent False s)))"

definition hitMemoryBreakpoint :: "u64 \<Rightarrow> u64 \<Rightarrow> 'w titan \<Rightarrow> u64 \<Rightarrow> bool" where
  "hitMemoryBreakpoint accessType accessAddress s ident = (case map_of (gMemoryBreakpoints s) ident of
     None \<Rightarrow> False
   | Some bp \<Rightarrow> mb_start bp \<le> accessAddress \<and> accessAddress - mb_start bp < mb_size bp \<and>
       memoryAccessMatches (mb_type bp) accessType)"

definition dispatchMemoryBreakpointException :: "'w os \<Rightarrow> 'w client \<Rightarrow> exception_info \<Rightarrow> 'w titan \<Rightarrow> bool \<times> 'w titan" where
  "dispatchMemoryBreakpointException os cl info s =
     (if ei_numberParameters info < 2 then (False, s)
      else (let accessType = ei_information info ! 0; accessAddress = ei_information info ! 1;
                page = pageAddress os accessAddress
        in case map_of (gMemoryBreakpointPages s) page of
             None \<Rightarrow> (False, s)
           | Some pageInfo \<Rightarrow>
               (let hit = (case find (hitMemoryBreakpoint accessType accessAddress s) (mp_breakpointIds pageInfo) of
                      Some ident \<Rightarrow> the (map_of (gMemoryBreakpoints s) ident)
                    | None \<Rightarrow> default_memory_breakpoint);
                    s = beginDebugEvent cl False (setFakeDebugEvent os (ExceptionInfo info) s);
                    s = (if mb_id hit \<noteq> 0
                         then (let s = (if \<not> mb_restoreOnHit hit then snd (removeMemoryBreakpointById os (mb_id hit) s) else s)
                               in if mb_callback hit \<noteq> 0 then cl (mb_callback hit) (AddressArgument accessAddress) s else s)
                         else s);
                    s = (if omap_contains (gMemoryBreakpointPages s) page
                         then scheduleMemoryBreakpointRearm os page (snd (protectMemoryBreakpointPage os page False s))
                         else s)
                in (True, finishDebugEvent False s))))"

text \<open>The branch for breakpoint and illegal-instruction exceptions.\<close>

definition dispatchBreakpointException :: "'w os \<Rightarrow> 'w client \<Rightarrow> exception_info \<Rightarrow> 'w titan \<Rightarrow> bool \<times> 'w titan" where
  "dispatchBreakpointException os cl info s =
     (let address = ei_address info
      in case find (nativeBreakpointAt address) (gBreakpoints s) of
           Some (ident, bpInfo) \<Rightarrow> dispatchNativeBreakpoint os cl ident bpInfo s
         | None \<Rightarrow>
             if address \<in> set (gRetiredBreakpointAddresses s) \<or>
                (address \<noteq> 0 \<and> address - 1 \<in> set (gRetiredBreakpointAddresses s))
             then (True, finishDebugEvent False (beginDebugEvent cl False s))
             else (True, dispatchDebugEvent cl UE_CH_UNHANDLEDEXCEPTION (InfoArgument (ExceptionInfo info)) True s))"

text \<open>The handlers in the order of the code; each answers whether it has taken the exception.\<close>

definition runExceptionWork :: "'w os \<Rightarrow> 'w client \<Rightarrow> exception_info \<Rightarrow> u32 \<Rightarrow> u32 \<Rightarrow> 'w titan \<Rightarrow> bool \<times> 'w titan" where
  "runExceptionWork os cl info pid tid s =
     (let s = setEventIds pid tid (setFakeDebugEvent os (ExceptionInfo info) s);
          (taken, s) = (if ei_code info = EXCEPTION_SINGLE_STEP
             then (case dThreadIndex (dbg os) (world s) of
                     None \<Rightarrow> (False, s) | Some threadIndex \<Rightarrow> completeInternalStep os cl threadIndex s)
             else (False, s))
      in if taken then (True, s)
         else (let (taken, s) = (if ei_code info = STATUS_GUARD_PAGE_VIOLATION \<or> ei_code info = EXCEPTION_ACCESS_VIOLATION
                      then dispatchMemoryBreakpointException os cl info s else (False, s))
               in if taken then (True, s)
                  else if ei_code info = EXCEPTION_BREAKPOINT \<and> gExpectSystemBreakpoint s
                  then (True, dispatchSystemBreakpoint cl (InfoArgument (ExceptionInfo info)) (s\<lparr>gExpectSystemBreakpoint := False\<rparr>))
                  else if ei_code info = EXCEPTION_BREAKPOINT \<or> ei_code info = EXCEPTION_ILLEGAL_INSTRUCTION
                  then dispatchBreakpointException os cl info s
                  else (True, dispatchDebugEvent cl UE_CH_UNHANDLEDEXCEPTION (InfoArgument (ExceptionInfo info)) True s)))"

text \<open>Threads and processes come and go.\<close>

definition currentIndex :: "u32 option \<Rightarrow> u32" where
  "currentIndex query = (case query of Some index \<Rightarrow> index | None \<Rightarrow> - 1)"

definition runCreateThreadWork :: "'w os \<Rightarrow> 'w client \<Rightarrow> HANDLE \<Rightarrow> u64 \<Rightarrow> u64 \<Rightarrow> 'w titan \<Rightarrow> bool \<times> 'w titan" where
  "runCreateThreadWork os cl handle dataOffset startOffset s =
     (let info = CreateThreadInfo handle dataOffset startOffset;
          s = cacheTeb handle dataOffset s;
          s = (if gSessionKind s = UE_SESSION_LIVE
               then (let threadIndex = currentIndex (dThreadIndex (dbg os) (world s));
                         s = mapThread threadIndex handle s
                     in registerTitanHandle handle ThreadHandle threadIndex (debugThreadId os s) False handle s)
               else s);
          s = setFakeDebugEvent os info s;
          s = (if gSessionKind s \<noteq> UE_SESSION_LIVE
               then (case map_of (gHandleRegistry s) handle of
                       None \<Rightarrow> s | Some entry \<Rightarrow> setEventThread (he_systemId entry) s)
               else s)
      in (True, dispatchDebugEvent cl UE_CH_CREATETHREAD (InfoArgument info) False s))"

text \<open>Forgetting a thread that has ended.\<close>

definition forgetThread :: "u32 \<Rightarrow> HANDLE \<Rightarrow> 'w titan \<Rightarrow> 'w titan" where
  "forgetThread threadIndex handle s =
     unregisterTitanHandle handle (s\<lparr>gProcessTebCache := omap_erase handle (gProcessTebCache s),
       gDebugIdMap := (gDebugIdMap s)\<lparr>threadHandleToIndex := omap_erase handle (threadHandleToIndex (gDebugIdMap s)),
         threadIndexToHandle := omap_erase threadIndex (threadIndexToHandle (gDebugIdMap s))\<rparr>\<rparr>)"

definition forgetSteps :: "u32 \<Rightarrow> 'w titan \<Rightarrow> 'w titan" where
  "forgetSteps threadIndex s = s\<lparr>gStepCallbacks := omap_erase threadIndex (gStepCallbacks s),
     gStepThreadSystemIds := omap_erase threadIndex (gStepThreadSystemIds s),
     gInternalStepCallbacks := omap_erase threadIndex (gInternalStepCallbacks s),
     gInternalStepSuspendedThreads := omap_erase threadIndex (gInternalStepSuspendedThreads s),
     gStepStatuses := omap_erase threadIndex (gStepStatuses s)\<rparr>"

definition runExitThreadWork :: "'w os \<Rightarrow> 'w client \<Rightarrow> u32 \<Rightarrow> 'w titan \<Rightarrow> bool \<times> 'w titan" where
  "runExitThreadWork os cl exitCode s =
     (let info = ExitThreadInfo exitCode;
          s = setFakeDebugEvent os info s;
          threadIndex = (case dThreadIndex (dbg os) (world s) of Some index \<Rightarrow> index | None \<Rightarrow> DEBUG_ANY_ID);
          threadHandle = (case map_of (threadIndexToHandle (gDebugIdMap s)) threadIndex of Some handle \<Rightarrow> handle | None \<Rightarrow> 0);
          s = dispatchDebugEvent cl UE_CH_EXITTHREAD (InfoArgument info) False s;
          s = (if threadHandle \<noteq> 0 then forgetThread threadIndex threadHandle s else s)
      in (True, forgetSteps threadIndex s))"

definition registerCreatedProcess :: "'w os \<Rightarrow> HANDLE \<Rightarrow> HANDLE \<Rightarrow> 'w titan \<Rightarrow> 'w titan" where
  "registerCreatedProcess os process thread s =
     (let processIndex = currentIndex (dProcessIndex (dbg os) (world s));
          s = mapProcess processIndex process s;
          s = (if gSessionKind s = UE_SESSION_LIVE
               then registerTitanHandle process ProcessHandle processIndex (debugProcessId os s) False process s else s);
          threadIndex = currentIndex (dThreadIndex (dbg os) (world s));
          s = mapThread threadIndex thread s;
          s = (if gSessionKind s = UE_SESSION_LIVE
               then registerTitanHandle thread ThreadHandle threadIndex (debugThreadId os s) False thread s else s)
      in cachePeb process (case dProcessPeb (dbg os) (world s) of Some peb \<Rightarrow> peb | None \<Rightarrow> 0) s)"

definition runCreateProcessWork ::
  "'w os \<Rightarrow> 'w client \<Rightarrow> HANDLE \<Rightarrow> HANDLE \<Rightarrow> u64 \<Rightarrow> HANDLE \<Rightarrow> u64 \<Rightarrow> u64 \<Rightarrow> 'w titan \<Rightarrow> bool \<times> 'w titan" where
  "runCreateProcessWork os cl file process base thread threadData startOffset s =
     (let info = CreateProcessInfo file process thread base threadData startOffset;
          s = cacheTeb thread threadData s;
          s = (if gSessionKind s \<noteq> UE_SESSION_TTD then registerCreatedProcess os process thread s else s);
          s = setFakeDebugEvent os info s
      in (True, dispatchDebugEvent cl UE_CH_CREATEPROCESS (InfoArgument info) False s))"

definition forgetProcess :: "u32 \<Rightarrow> HANDLE \<Rightarrow> 'w titan \<Rightarrow> 'w titan" where
  "forgetProcess processIndex handle s =
     unregisterTitanHandle handle (s\<lparr>gProcessPebCache := omap_erase handle (gProcessPebCache s),
       gDebugIdMap := (gDebugIdMap s)\<lparr>processHandleToIndex := omap_erase handle (processHandleToIndex (gDebugIdMap s)),
         processIndexToHandle := omap_erase processIndex (processIndexToHandle (gDebugIdMap s))\<rparr>\<rparr>)"

definition runExitProcessWork :: "'w os \<Rightarrow> 'w client \<Rightarrow> u32 \<Rightarrow> 'w titan \<Rightarrow> bool \<times> 'w titan" where
  "runExitProcessWork os cl exitCode s =
     (let info = ExitProcessInfo exitCode;
          s = setFakeDebugEvent os info s;
          processIndex = (case dProcessIndex (dbg os) (world s) of Some index \<Rightarrow> index | None \<Rightarrow> DEBUG_ANY_ID);
          processHandle = (case map_of (processIndexToHandle (gDebugIdMap s)) processIndex of Some handle \<Rightarrow> handle | None \<Rightarrow> 0);
          s = dispatchDebugEvent cl UE_CH_EXITPROCESS (InfoArgument info) False s
      in (True, if processHandle \<noteq> 0 then forgetProcess processIndex processHandle s else s))"

text \<open>A work that only announces its event.\<close>

definition announce :: "'w os \<Rightarrow> 'w client \<Rightarrow> u32 \<Rightarrow> debug_info \<Rightarrow> 'w titan \<Rightarrow> bool \<times> 'w titan" where
  "announce os cl handler info s =
     (True, dispatchDebugEvent cl handler (InfoArgument info) False (setFakeDebugEvent os info s))"

text \<open>The works that call a callback of the user, and those of the replayed sessions.\<close>

definition runPauseWork :: "'w os \<Rightarrow> 'w client \<Rightarrow> callback \<Rightarrow> 'w titan \<Rightarrow> bool \<times> 'w titan" where
  "runPauseWork os cl callback s =
     (let s = setEventIds (debugProcessId os s) (debugThreadId os s) s;
          s = cl callback NoArgument (beginDebugEvent cl False s)
      in (True, finishDebugEvent False s))"

definition runStepWork :: "'w os \<Rightarrow> 'w client \<Rightarrow> callback \<Rightarrow> u32 \<Rightarrow> 'w titan \<Rightarrow> bool \<times> 'w titan" where
  "runStepWork os cl callback threadSystemId s =
     (let s = setEventIds (debugProcessId os s) threadSystemId s
      in (True, cl callback NoArgument (s\<lparr>gNextExecutionStatus := DEBUG_STATUS_GO\<rparr>)))"

definition runInitialExceptionWork :: "'w os \<Rightarrow> 'w client \<Rightarrow> exception_info \<Rightarrow> 'w titan \<Rightarrow> bool \<times> 'w titan" where
  "runInitialExceptionWork os cl info s =
     (True, dispatchSystemBreakpoint cl (InfoArgument (ExceptionInfo info)) (setFakeDebugEvent os (ExceptionInfo info) s))"

definition runTtdHitWork ::
  "'w os \<Rightarrow> 'w client \<Rightarrow> u32 \<Rightarrow> ttd_watch_hit \<Rightarrow> callback \<Rightarrow> callback_argument \<Rightarrow> 'w titan \<Rightarrow> bool \<times> 'w titan" where
  "runTtdHitWork os cl code hit callback argument s =
     (let info = (exceptionAt code (wh_address hit))\<lparr>ei_firstChance := 1\<rparr>;
          s = setEventThread (wh_threadId hit) (setFakeDebugEvent os (ExceptionInfo info) s);
          s = beginDebugEvent cl False s;
          s = (if callback \<noteq> 0 then cl callback argument s else s)
      in (True, finishDebugEvent False s))"

definition ttdBoundary :: "'w os \<Rightarrow> 'w titan \<Rightarrow> exception_info" where
  "ttdBoundary os s = (exceptionAt EXCEPTION_BREAKPOINT (tProgramCounter (ttd os) (world s)))\<lparr>ei_firstChance := 1\<rparr>"

definition runTtdPauseWork :: "'w os \<Rightarrow> 'w client \<Rightarrow> callback \<Rightarrow> 'w titan \<Rightarrow> bool \<times> 'w titan" where
  "runTtdPauseWork os cl pauseCallback s =
     (let boundary = ttdBoundary os s;
          s = setFakeDebugEvent os (ExceptionInfo boundary) s
      in (True, if pauseCallback \<noteq> 0
                then finishDebugEvent False (cl pauseCallback NoArgument (beginDebugEvent cl False s))
                else dispatchSystemBreakpoint cl (InfoArgument (ExceptionInfo boundary)) s))"

definition runTtdExitThreadWork :: "'w os \<Rightarrow> 'w client \<Rightarrow> u32 \<Rightarrow> 'w titan \<Rightarrow> bool \<times> 'w titan" where
  "runTtdExitThreadWork os cl systemId s =
     (let info = ExitThreadInfo 0;
          s = setEventThread systemId (setFakeDebugEvent os info s)
      in (True, dispatchDebugEvent cl UE_CH_EXITTHREAD (InfoArgument info) False s))"

fun runWork :: "'w os \<Rightarrow> 'w client \<Rightarrow> work \<Rightarrow> 'w titan \<Rightarrow> bool \<times> 'w titan" where
  "runWork os cl (BreakpointWork ident offset pid tid) s = runBreakpointWork os cl ident offset pid tid s"
| "runWork os cl (ExceptionWork info pid tid) s = runExceptionWork os cl info pid tid s"
| "runWork os cl (OutputStringWork text unicode len) s =
     announce os cl UE_CH_OUTPUTDEBUGSTRING (DebugStringInfo text unicode len) s"
| "runWork os cl (CreateThreadWork handle dataOffset startOffset) s = runCreateThreadWork os cl handle dataOffset startOffset s"
| "runWork os cl (ExitThreadWork exitCode) s = runExitThreadWork os cl exitCode s"
| "runWork os cl (CreateProcessWork file process base thread threadData startOffset) s =
     runCreateProcessWork os cl file process base thread threadData startOffset s"
| "runWork os cl (ExitProcessWork exitCode) s = runExitProcessWork os cl exitCode s"
| "runWork os cl (LoadModuleWork file base) s = announce os cl UE_CH_LOADDLL (LoadDllInfo file base) s"
| "runWork os cl (UnloadModuleWork base) s = announce os cl UE_CH_UNLOADDLL (UnloadDllInfo base) s"
| "runWork os cl (InitialExceptionWork info) s = runInitialExceptionWork os cl info s"
| "runWork os cl (PauseWork callback) s = runPauseWork os cl callback s"
| "runWork os cl (InternalStepWork threadIndex) s = completeInternalStep os cl threadIndex s"
| "runWork os cl (StepWork callback threadSystemId) s = runStepWork os cl callback threadSystemId s"
| "runWork os cl (ReplayStepWork callback) s = runPauseWork os cl callback s"
| "runWork os cl (TtdExitThreadWork systemId) s = runTtdExitThreadWork os cl systemId s"
| "runWork os cl (TtdBreakpointWork hit callback) s =
     runTtdHitWork os cl EXCEPTION_BREAKPOINT hit callback NoArgument s"
| "runWork os cl (TtdMemoryBreakpointWork hit callback) s =
     runTtdHitWork os cl EXCEPTION_SINGLE_STEP hit callback (AddressArgument (wh_address hit)) s"
| "runWork os cl (TtdPauseWork callback) s = runTtdPauseWork os cl callback s"
| "runWork os cl TtdExitProcessWork s = announce os cl UE_CH_EXITPROCESS (ExitProcessInfo 0) s"
| "runWork os cl TtdBoundaryWork s = runInitialExceptionWork os cl (ttdBoundary os s) s"

text \<open>
  Running the queue: the work of the front is popped before it runs. The live loop stops at a work that answers
  false and leaves the rest for its next round; the loop of a recording goes on. A handler may queue more work, so the loops may go on as long as handlers do.
\<close>

partial_function (option) runQueue :: "'w os \<Rightarrow> 'w client \<Rightarrow> bool \<Rightarrow> 'w titan \<Rightarrow> 'w titan option" where
  "runQueue os cl stopOnFailure s = (case popCallback s of
     None \<Rightarrow> Some s
   | Some (work, s) \<Rightarrow>
       (case runWork os cl work s of (ok, s) \<Rightarrow>
          if \<not> ok \<and> stopOnFailure then Some s else runQueue os cl stopOnFailure s))"

section \<open>A thread or process that has ended is forgotten\<close>

lemma forgetThread_fields:
  "map_of (gProcessTebCache (forgetThread i h s)) = (map_of (gProcessTebCache s))(h := None)"
  "map_of (threadHandleToIndex (gDebugIdMap (forgetThread i h s))) = (map_of (threadHandleToIndex (gDebugIdMap s)))(h := None)"
  "map_of (threadIndexToHandle (gDebugIdMap (forgetThread i h s))) = (map_of (threadIndexToHandle (gDebugIdMap s)))(i := None)"
  "map_of (gHandleRegistry (forgetThread i h s)) = (map_of (gHandleRegistry s))(h := None)"
  by (simp_all add: forgetThread_def unregisterTitanHandle_def)

lemma forgetSteps_fields:
  "gProcessTebCache (forgetSteps i s) = gProcessTebCache s" "gDebugIdMap (forgetSteps i s) = gDebugIdMap s"
  "gHandleRegistry (forgetSteps i s) = gHandleRegistry s" "gNextExecutionStatus (forgetSteps i s) = gNextExecutionStatus s"
  "map_of (gStepCallbacks (forgetSteps i s)) = (map_of (gStepCallbacks s))(i := None)"
  "map_of (gStepThreadSystemIds (forgetSteps i s)) = (map_of (gStepThreadSystemIds s))(i := None)"
  "map_of (gInternalStepCallbacks (forgetSteps i s)) = (map_of (gInternalStepCallbacks s))(i := None)"
  "map_of (gInternalStepSuspendedThreads (forgetSteps i s)) = (map_of (gInternalStepSuspendedThreads s))(i := None)"
  "map_of (gStepStatuses (forgetSteps i s)) = (map_of (gStepStatuses s))(i := None)"
  by (simp_all add: forgetSteps_def)

lemma forgetProcess_fields:
  "map_of (gProcessPebCache (forgetProcess i h s)) = (map_of (gProcessPebCache s))(h := None)"
  "map_of (processHandleToIndex (gDebugIdMap (forgetProcess i h s))) = (map_of (processHandleToIndex (gDebugIdMap s)))(h := None)"
  "map_of (processIndexToHandle (gDebugIdMap (forgetProcess i h s))) = (map_of (processIndexToHandle (gDebugIdMap s)))(i := None)"
  "map_of (gHandleRegistry (forgetProcess i h s)) = (map_of (gHandleRegistry s))(h := None)"
  by (simp_all add: forgetProcess_def unregisterTitanHandle_def)

text \<open>The handle the tables hold for the current thread or process when its exit is announced.\<close>

definition exitingThread :: "'w os \<Rightarrow> 'w titan \<Rightarrow> u32 \<Rightarrow> HANDLE \<Rightarrow> bool" where
  "exitingThread os s i h \<longleftrightarrow> dThreadIndex (dbg os) (world s) = Some i \<and>
     map_of (threadIndexToHandle (gDebugIdMap s)) i = Some h \<and> h \<noteq> 0"

definition exitingProcess :: "'w os \<Rightarrow> 'w titan \<Rightarrow> u32 \<Rightarrow> HANDLE \<Rightarrow> bool" where
  "exitingProcess os s i h \<longleftrightarrow> dProcessIndex (dbg os) (world s) = Some i \<and>
     map_of (processIndexToHandle (gDebugIdMap s)) i = Some h \<and> h \<noteq> 0"

text \<open>
  C25. A thread that has exited leaves no trace. Whatever the handlers do while its exit is announced, when the
  work has run no table maps its index or its handle: not the id maps, the TEB cache, the handle
  registry, nor any table of pending steps. Likewise for a process that has exited.
\<close>

theorem exited_threads_are_forgotten:
  assumes "exitingThread os s i h" and "runWork os cl (ExitThreadWork code) s = (ok, s')"
    and "exitingProcess os t j p" and "runWork os cl (ExitProcessWork code) t = (ok', t')"
  shows "ok \<and> \<not> omap_contains (threadIndexToHandle (gDebugIdMap s')) i \<and> \<not> omap_contains (threadHandleToIndex (gDebugIdMap s')) h \<and>
      \<not> omap_contains (gProcessTebCache s') h \<and> \<not> omap_contains (gHandleRegistry s') h \<and>
      \<not> omap_contains (gStepCallbacks s') i \<and> \<not> omap_contains (gStepThreadSystemIds s') i \<and>
      \<not> omap_contains (gInternalStepCallbacks s') i \<and> \<not> omap_contains (gInternalStepSuspendedThreads s') i \<and>
      \<not> omap_contains (gStepStatuses s') i \<and>
    ok' \<and> \<not> omap_contains (processIndexToHandle (gDebugIdMap t')) j \<and>
      \<not> omap_contains (processHandleToIndex (gDebugIdMap t')) p \<and> \<not> omap_contains (gProcessPebCache t') p \<and>
      \<not> omap_contains (gHandleRegistry t') p"
proof -
  have fake: "world (setFakeDebugEvent os info u) = world u" "gDebugIdMap (setFakeDebugEvent os info u) = gDebugIdMap u"
    for info and u :: "'a titan" by (simp_all add: setFakeDebugEvent_def)
  obtain u where s': "ok" "s' = forgetSteps i (forgetThread i h u)"
    using assms(1,2) by (auto simp: runExitThreadWork_def exitingThread_def fake Let_def)
  obtain v where t': "ok'" "t' = forgetProcess j p v"
    using assms(3,4) by (auto simp: runExitProcessWork_def exitingProcess_def fake Let_def)
  show ?thesis
    using s'(1) t'(1) by (simp add: s'(2) t'(2) omap_contains_def forgetThread_fields forgetSteps_fields forgetProcess_fields)
qed

text \<open>A live session whose thread has index 3 and handle 12, its process index 0 and handle 8.\<close>

definition exiting_os :: "unit os" where
  "exiting_os = quiet_os\<lparr>dbg := quiet_dbg\<lparr>dThreadIndex := (\<lambda>_. Some 3), dProcessIndex := (\<lambda>_. Some 0)\<rparr>\<rparr>"

definition exiting_state :: "unit titan" where
  "exiting_state = mapThread 3 12 (live_titan ())"

theorem exited_threads_are_forgotten_witness:
  "\<not> omap_contains (threadIndexToHandle (gDebugIdMap (snd (runWork exiting_os (\<lambda>_ _ s. s) (ExitThreadWork 1) exiting_state)))) 3 \<and>
   \<not> omap_contains (processIndexToHandle (gDebugIdMap (snd (runWork exiting_os (\<lambda>_ _ s. s) (ExitProcessWork 1) exiting_state)))) 0"
  using exited_threads_are_forgotten [of exiting_os exiting_state 3 12 "\<lambda>_ _ s. s" 1, OF _ prod.collapse [symmetric] _ prod.collapse [symmetric],
      of exiting_state 0 8]
  by (simp add: exitingThread_def exitingProcess_def exiting_os_def exiting_state_def mapThread_def live_defs del: runWork.simps)

end
