(* ===== verification/Event_Properties.thy ===== *)
theory Event_Properties
  imports Events
begin

text \<open>
  What the work of the debug loop guarantees: every event that has been handled leaves an execution status
  for the engine, and a breakpoint that is hit is armed again after one instruction.
\<close>

section \<open>Every handled event resumes the debuggee\<close>

text \<open>No pending step has the status that means none was chosen.\<close>

definition steps_resume :: "'w titan \<Rightarrow> bool" where
  "steps_resume s \<longleftrightarrow> (\<forall>(thread, status) \<in> set (gStepStatuses s). status \<noteq> DEBUG_STATUS_NO_CHANGE)"

text \<open>What the loop relies on: a handler does not take back a status that was chosen.\<close>

definition handlers_resume :: "'w client \<Rightarrow> bool" where
  "handlers_resume cl \<longleftrightarrow> (\<forall>callback argument s. steps_resume s \<longrightarrow> steps_resume (cl callback argument s) \<and>
     (gNextExecutionStatus s \<noteq> DEBUG_STATUS_NO_CHANGE \<longrightarrow>
       gNextExecutionStatus (cl callback argument s) \<noteq> DEBUG_STATUS_NO_CHANGE))"

text \<open>The part of the state a step status is chosen from.\<close>

definition status_view :: "'w titan \<Rightarrow> (u32, u32) omap \<times> u32" where
  "status_view s = (gStepStatuses s, gNextExecutionStatus s)"

lemma steps_resume_view: "status_view t = status_view s \<Longrightarrow> steps_resume t = steps_resume s"
  by (simp add: status_view_def steps_resume_def)

lemma status_view_world_only: "world_only s t \<Longrightarrow> status_view t = status_view s"
  by (simp add: status_view_def world_only_fields)

lemma status_view_register_frame: "register_frame s t \<Longrightarrow> status_view t = status_view s"
  by (auto simp: status_view_def register_frame_def)

lemma status_view_oscall [simp]: "status_view (snd (oscall f s)) = status_view s"
  by (rule status_view_world_only) simp

lemma status_view_updates [simp]:
  "status_view (s\<lparr>world := w\<rparr>) = status_view s" "status_view (s\<lparr>lastError := e\<rparr>) = status_view s"
  "status_view (s\<lparr>gMemoryBreakpointPages := p\<rparr>) = status_view s" "status_view (s\<lparr>gMemoryBreakpoints := b\<rparr>) = status_view s"
  "status_view (s\<lparr>gBreakpoints := b'\<rparr>) = status_view s" "status_view (s\<lparr>gRetiredBreakpointAddresses := r\<rparr>) = status_view s"
  "status_view (s\<lparr>gFakeDebugEvent := d\<rparr>) = status_view s" "status_view (s\<lparr>gNextContinueStatus := c\<rparr>) = status_view s"
  "status_view (s\<lparr>gStepCallbacks := sc\<rparr>) = status_view s" "status_view (s\<lparr>gStepThreadSystemIds := si\<rparr>) = status_view s"
  "status_view (s\<lparr>gInternalStepSuspendedThreads := su\<rparr>) = status_view s"
  "status_view (s\<lparr>gInternalStepCallbacks := ic\<rparr>) = status_view s"
  "status_view (s\<lparr>gExpectSystemBreakpoint := x\<rparr>) = status_view s" "status_view (s\<lparr>gAttachCallback := a\<rparr>) = status_view s"
  "status_view (s\<lparr>gDebugIdMap := m\<rparr>) = status_view s" "status_view (s\<lparr>gHandleRegistry := h\<rparr>) = status_view s"
  "status_view (s\<lparr>gProcessTebCache := tc\<rparr>) = status_view s" "status_view (s\<lparr>gProcessPebCache := pc\<rparr>) = status_view s"
  "status_view (s\<lparr>gRegisterCache := rc\<rparr>) = status_view s"
  by (simp_all add: status_view_def)

lemma status_view_memory [simp]:
  "status_view (snd (protectMemoryBreakpointPage os page guarded s)) = status_view s"
  "status_view (snd (writeNativeBreakpointBytes os info install s)) = status_view s"
  "status_view (snd (releasePage os ident page s)) = status_view s"
proof -
  show p: "status_view (snd (protectMemoryBreakpointPage os page guarded s)) = status_view s" for page guarded s
    by (rule status_view_world_only) simp
  show "status_view (snd (writeNativeBreakpointBytes os info install s)) = status_view s"
    using write_frame [of os info install s] by (intro status_view_world_only) (simp add: world_only_def)
  show "status_view (snd (releasePage os ident page s)) = status_view s"
    by (simp add: releasePage_def updatePage_def erasePage_def Let_def case_prod_unfold p split: option.split)
qed

lemma status_view_releasePages [simp]: "status_view (snd (releasePages os ident pages result s)) = status_view s"
  by (induction pages arbitrary: result s) (simp_all add: Let_def case_prod_unfold)

lemma status_view_removeMemory [simp]: "status_view (snd (removeMemoryBreakpointById os ident s)) = status_view s"
  by (simp add: removeMemoryBreakpointById_def eraseMemoryBreakpoint_def Let_def case_prod_unfold split: option.split)

lemma withNativeHandle_world_only [simp]: "world_only s (snd (withNativeHandle h type failed action s))"
proof -
  have reg: "world_only s (snd (registeredNativeHandle h type s))"
    using registeredNativeHandle_state [of h type s] by (elim disjE) simp_all
  then show ?thesis
    by (simp add: withNativeHandle_def case_prod_unfold Let_def world_only_trans [OF reg world_only_oscall])
qed

lemma suspendOthers_world_only: "world_only s (snd (suspendOthers os i es acc s))"
proof (induction es arbitrary: acc s)
  case (Cons e es)
  obtain j h where e: "e = (j, h)" by force
  have "world_only s (snd (TitanSuspendThread os h s))" by (simp add: TitanSuspendThread_def)
  from world_only_trans [OF this Cons.IH] Cons.IH show ?case by (simp add: e Let_def case_prod_unfold)
qed simp

lemma resumeAll_world_only: "world_only s (resumeAll os hs s)"
proof (induction hs arbitrary: s)
  case (Cons h hs)
  have "world_only s (snd (TitanResumeThread os h s))" by (simp add: TitanResumeThread_def)
  from world_only_trans [OF this Cons.IH] show ?case by (simp add: resumeAll_def)
qed (simp add: resumeAll_def)

lemma register_frame_world_only: "world_only s t \<Longrightarrow> register_frame s t"
proof -
  assume "world_only s t"
  then obtain w e where "t = s\<lparr>world := w, lastError := e\<rparr>" by (auto simp: world_only_def)
  then have "t = s\<lparr>world := w, lastError := e, gRegisterCache := gRegisterCache s\<rparr>" by simp
  then show "register_frame s t" unfolding register_frame_def by blast
qed

lemma GetContextDataEx_frame: "register_frame s (snd (GetContextDataEx os h reg s))"
  by (simp add: GetContextDataEx_def readTtdContext_def withThreadScope_def Let_def case_prod_unfold register_frames
      split: option.split)

lemma SetContextDataEx_frame: "register_frame s (snd (SetContextDataEx os h reg v s))"
  by (simp add: SetContextDataEx_def withThreadScope_def Let_def case_prod_unfold register_frames)

lemma status_view_threads [simp]:
  "status_view (snd (suspendOthers os i es acc s)) = status_view s" "status_view (resumeAll os hs s) = status_view s"
  "status_view (snd (GetContextDataEx os h reg s)) = status_view s"
  "status_view (snd (SetContextDataEx os h reg v s)) = status_view s"
  "status_view (snd (RegisterCache_SetValue reg v s)) = status_view s"
  "status_view (clearTrapFlag os i s) = status_view s"
proof -
  show get: "status_view (snd (GetContextDataEx os h reg s)) = status_view s" for h reg s
    by (rule status_view_register_frame [OF GetContextDataEx_frame])
  show set: "status_view (snd (SetContextDataEx os h reg v s)) = status_view s" for h reg v s
    by (rule status_view_register_frame [OF SetContextDataEx_frame])
  show "status_view (clearTrapFlag os i s) = status_view s"
    by (simp add: clearTrapFlag_def Let_def case_prod_unfold get set split: option.split)
qed (rule status_view_world_only status_view_register_frame, rule suspendOthers_world_only resumeAll_world_only
      register_frame_SetValue register_frame_refl, (rule register_frame_refl)?)+

lemma status_insert:
  "steps_resume s \<Longrightarrow> status \<noteq> DEBUG_STATUS_NO_CHANGE \<Longrightarrow> steps_resume (s\<lparr>gStepStatuses := omap_insert i status (gStepStatuses s)\<rparr>)"
  using set_omap_insert [of i status "gStepStatuses s"] by (fastforce simp: steps_resume_def)

lemma status_erase: "steps_resume s \<Longrightarrow> steps_resume (s\<lparr>gStepStatuses := omap_erase i (gStepStatuses s)\<rparr>)"
  by (auto simp: steps_resume_def omap_erase_def)

lemma status_schedule:
  assumes "steps_resume s"
  shows "steps_resume (scheduleInternalStep os callback s)"
    and "gNextExecutionStatus (scheduleInternalStep os callback s) = gNextExecutionStatus s"
proof -
  define R where "R t \<longleftrightarrow> steps_resume t \<and> gNextExecutionStatus t = gNextExecutionStatus s" for t :: "'a titan"
  have view: "R t" if "status_view t = status_view s" for t
    using steps_resume_view [OF that] assms that by (simp add: R_def status_view_def)
  have ins: "R (t\<lparr>gInternalStepCallbacks := c, gStepStatuses := omap_insert i DEBUG_STATUS_GO_HANDLED (gStepStatuses t)\<rparr>)"
    if "status_view t = status_view s" for t c i
  proof -
    have "steps_resume (t\<lparr>gInternalStepCallbacks := c\<rparr>)" using view [OF that] by (simp add: R_def steps_resume_def)
    from status_insert [OF this, of DEBUG_STATUS_GO_HANDLED i] show ?thesis
      using view [OF that] by (simp add: R_def)
  qed
  have "R (scheduleInternalStep os callback s)"
    unfolding scheduleInternalStep_def Let_def case_prod_unfold
    by (auto split: option.split intro!: view ins)
  then show "steps_resume (scheduleInternalStep os callback s)"
    and "gNextExecutionStatus (scheduleInternalStep os callback s) = gNextExecutionStatus s" by (simp_all add: R_def)
qed

definition resumes :: "'w titan \<Rightarrow> bool" where
  "resumes s \<longleftrightarrow> steps_resume s \<and> gNextExecutionStatus s \<noteq> DEBUG_STATUS_NO_CHANGE"

lemma resumes_view: "status_view t = status_view s \<Longrightarrow> resumes t = resumes s"
  by (simp add: resumes_def status_view_def steps_resume_def)

lemma handlers_resumeD:
  assumes "handlers_resume cl"
  shows "steps_resume s \<Longrightarrow> steps_resume (cl callback argument s)" and "resumes s \<Longrightarrow> resumes (cl callback argument s)"
  using assms by (auto simp: handlers_resume_def resumes_def)

lemma finish_resumes [simp]: "steps_resume s \<Longrightarrow> resumes (finishDebugEvent unhandled s)"
  by (cases "gStepStatuses s") (auto simp: finishDebugEvent_eq resume_status_def resumes_def steps_resume_def)

text \<open>Updates of other variables, for the simplifier.\<close>

lemma steps_resume_updates [simp]:
  "steps_resume (s\<lparr>gMemoryBreakpointPages := p\<rparr>) = steps_resume s" "steps_resume (s\<lparr>gMemoryBreakpoints := b\<rparr>) = steps_resume s"
  "steps_resume (s\<lparr>gBreakpoints := b'\<rparr>) = steps_resume s" "steps_resume (s\<lparr>gRetiredBreakpointAddresses := r\<rparr>) = steps_resume s"
  "steps_resume (s\<lparr>gFakeDebugEvent := d\<rparr>) = steps_resume s" "steps_resume (s\<lparr>gNextContinueStatus := c\<rparr>) = steps_resume s"
  "steps_resume (s\<lparr>gExpectSystemBreakpoint := x\<rparr>) = steps_resume s" "steps_resume (s\<lparr>gAttachCallback := a\<rparr>) = steps_resume s"
  "steps_resume (s\<lparr>gNextExecutionStatus := n\<rparr>) = steps_resume s" "steps_resume (s\<lparr>lastError := e\<rparr>) = steps_resume s"
  "steps_resume (s\<lparr>gDebugIdMap := m\<rparr>) = steps_resume s" "steps_resume (s\<lparr>gHandleRegistry := h\<rparr>) = steps_resume s"
  "steps_resume (s\<lparr>gProcessTebCache := tc\<rparr>) = steps_resume s" "steps_resume (s\<lparr>gProcessPebCache := pc\<rparr>) = steps_resume s"
  "steps_resume (s\<lparr>gInternalStepCallbacks := ic\<rparr>) = steps_resume s"
  "steps_resume (s\<lparr>gInternalStepSuspendedThreads := su\<rparr>) = steps_resume s"
  by (simp_all add: steps_resume_def)

lemma steps_resume_operations [simp]:
  "steps_resume (snd (protectMemoryBreakpointPage os page guarded s)) = steps_resume s"
  "steps_resume (snd (writeNativeBreakpointBytes os bp install s)) = steps_resume s"
  "steps_resume (snd (removeMemoryBreakpointById os ident s)) = steps_resume s"
  "steps_resume (setCurrentInstructionPointer address s) = steps_resume s"
  "steps_resume (setEventCode code s) = steps_resume s" "steps_resume (setFakeDebugEvent os info s) = steps_resume s"
  "steps_resume (setEventIds pid tid s) = steps_resume s" "steps_resume (setEventThread tid s) = steps_resume s"
  "steps_resume (eraseBreakpointInfo bpId s) = steps_resume s" "steps_resume (retireAddress address s) = steps_resume s"
  "steps_resume (registerTitanHandle h type i j owned native s) = steps_resume s"
  by (rule steps_resume_view, simp add: setCurrentInstructionPointer_def setEventCode_def event_defs
      eraseBreakpointInfo_def retireAddress_def registerTitanHandle_def)+

lemma steps_resume_maps [simp]:
  "steps_resume (cacheTeb h v s) = steps_resume s" "steps_resume (cachePeb h v s) = steps_resume s"
  "steps_resume (mapThread i h s) = steps_resume s" "steps_resume (mapProcess i h s) = steps_resume s"
  "steps_resume (registerCreatedProcess os p t s) = steps_resume s"
  by (simp_all add: handle_map_defs registerCreatedProcess_def Let_def steps_resume_def registerTitanHandle_def)

lemma begin_steps [simp]:
  "handlers_resume cl \<Longrightarrow> steps_resume s \<Longrightarrow> steps_resume (beginDebugEvent cl unhandled s)"
  "handlers_resume cl \<Longrightarrow> steps_resume s \<Longrightarrow> steps_resume (invokeCustomHandler cl ident argument s)"
  by (auto simp: beginDebugEvent_def invokeCustomHandler_def handlers_resumeD Let_def split: option.split)

lemma dispatch_resumes [simp]:
  "handlers_resume cl \<Longrightarrow> steps_resume s \<Longrightarrow> resumes (dispatchDebugEvent cl ident argument unhandled s)"
  "handlers_resume cl \<Longrightarrow> steps_resume s \<Longrightarrow> resumes (dispatchSystemBreakpoint cl argument s)"
  by (auto simp: dispatchDebugEvent_def dispatchSystemBreakpoint_def Let_def handlers_resumeD)

lemma callBreakpoint_steps [simp]:
  "handlers_resume cl \<Longrightarrow> steps_resume s \<Longrightarrow> steps_resume (callBreakpoint cl info s)"
  by (simp add: callBreakpoint_def handlers_resumeD)

lemma runInternalStep_resumes:
  assumes "handlers_resume cl"
  shows "resumes s \<Longrightarrow> resumes (runInternalStep os cl step s)"
proof (induction step arbitrary: s)
  case (RearmPage page)
  then show ?case by (simp add: resumes_view [of "snd (protectMemoryBreakpointPage os page True s)" s])
next
  case (RearmNative ident)
  have "resumes (snd (writeNativeBreakpointBytes os info True s)) = resumes s" for info by (rule resumes_view) simp
  then show ?case using RearmNative by (simp split: option.split)
qed (simp_all add: Let_def handlers_resumeD [OF assms])

lemma completeInternalStep_resumes:
  assumes cl: "handlers_resume cl" and "steps_resume s" and "completeInternalStep os cl i s = (True, s')"
  shows "resumes s'"
proof -
  from assms(3) obtain step where step: "map_of (gInternalStepCallbacks s) i = Some step"
    by (auto simp: completeInternalStep_def split: option.splits)
  let ?t = "clearTrapFlag os i s"
  have "steps_resume ?t" using assms(2) steps_resume_view [of ?t s] by simp
  then have "resumes (?t\<lparr>gInternalStepCallbacks := omap_erase i (gInternalStepCallbacks ?t),
      gStepStatuses := omap_erase i (gStepStatuses ?t), gNextExecutionStatus := DEBUG_STATUS_GO_HANDLED\<rparr>)" (is "resumes ?u")
    using status_erase [of ?t i] by (simp add: resumes_def steps_resume_def)
  then have run: "resumes (runInternalStep os cl step ?u)" by (rule runInternalStep_resumes [OF cl])
  have tail: "status_view ((resumeAll os hs v)\<lparr>gInternalStepSuspendedThreads := m\<rparr>) = status_view v" for hs v m by simp
  show ?thesis
    using assms(3) run resumes_view [OF tail] by (auto simp: completeInternalStep_def step Let_def split: option.splits)
qed

section \<open>The works\<close>

lemma breakpoint_work_resumes:
  assumes cl: "handlers_resume cl" and s: "steps_resume s"
  shows "resumes (snd (runBreakpointWork os cl ident offset pid tid s))"
  using assms by (simp add: runBreakpointWork_def Let_def split: option.split)

lemma native_breakpoint_resumes:
  assumes cl: "handlers_resume cl" and s: "steps_resume s" and "dispatchNativeBreakpoint os cl ident info s = (True, s')"
  shows "resumes s'"
  using assms by (auto simp: dispatchNativeBreakpoint_def Let_def case_prod_unfold status_schedule(1) split: if_splits)

lemma breakpoint_exception_resumes:
  assumes cl: "handlers_resume cl" and s: "steps_resume s" and "dispatchBreakpointException os cl info s = (True, s')"
  shows "resumes s'"
  using assms
  by (auto simp: dispatchBreakpointException_def Let_def split: option.splits if_splits elim: native_breakpoint_resumes [rotated 2])

lemma memory_exception_resumes:
  assumes cl: "handlers_resume cl" and s: "steps_resume s"
  shows "if fst (dispatchMemoryBreakpointException os cl info s) then resumes (snd (dispatchMemoryBreakpointException os cl info s))
    else snd (dispatchMemoryBreakpointException os cl info s) = s"
  using assms
  by (auto simp: dispatchMemoryBreakpointException_def Let_def case_prod_unfold scheduleMemoryBreakpointRearm_def
      status_schedule(1) handlers_resumeD split: option.split)

lemma complete_keeps:
  assumes cl: "handlers_resume cl" and s: "steps_resume s"
  shows "if fst (completeInternalStep os cl i s) then resumes (snd (completeInternalStep os cl i s))
    else snd (completeInternalStep os cl i s) = s"
  using completeInternalStep_resumes [OF cl s, of os i]
  by (cases "completeInternalStep os cl i s") (auto simp: completeInternalStep_def Let_def split: option.splits)

lemma exception_work_resumes:
  assumes cl: "handlers_resume cl" and s: "steps_resume s" and "runExceptionWork os cl info pid tid s = (True, s')"
  shows "resumes s'"
proof -
  let ?t = "setEventIds pid tid (setFakeDebugEvent os (ExceptionInfo info) s)"
  define step where "step = (if ei_code info = EXCEPTION_SINGLE_STEP
     then (case dThreadIndex (dbg os) (world ?t) of
             None \<Rightarrow> (False, ?t) | Some threadIndex \<Rightarrow> completeInternalStep os cl threadIndex ?t)
     else (False, ?t))"
  define guard where "guard = (if ei_code info = STATUS_GUARD_PAGE_VIOLATION \<or> ei_code info = EXCEPTION_ACCESS_VIOLATION
     then dispatchMemoryBreakpointException os cl info (snd step) else (False, snd step))"
  have t: "steps_resume ?t" using s by simp
  have step: "if fst step then resumes (snd step) else snd step = ?t"
    using complete_keeps [OF cl t, of os] by (auto simp: step_def split: option.split if_splits)
  have guard: "\<not> fst step \<Longrightarrow> if fst guard then resumes (snd guard) else snd guard = ?t"
    using memory_exception_resumes [OF cl t, of os info] step by (auto simp: guard_def split: if_splits)
  have run: "runExceptionWork os cl info pid tid s =
     (if fst step then (True, snd step) else if fst guard then (True, snd guard)
      else if ei_code info = EXCEPTION_BREAKPOINT \<and> gExpectSystemBreakpoint (snd guard)
      then (True, dispatchSystemBreakpoint cl (InfoArgument (ExceptionInfo info)) ((snd guard)\<lparr>gExpectSystemBreakpoint := False\<rparr>))
      else if ei_code info = EXCEPTION_BREAKPOINT \<or> ei_code info = EXCEPTION_ILLEGAL_INSTRUCTION
      then dispatchBreakpointException os cl info (snd guard)
      else (True, dispatchDebugEvent cl UE_CH_UNHANDLEDEXCEPTION (InfoArgument (ExceptionInfo info)) True (snd guard)))"
    unfolding runExceptionWork_def Let_def case_prod_unfold step_def guard_def by (rule refl)
  show ?thesis
    using assms(3) step guard t cl unfolding run
    by (auto split: if_splits elim: breakpoint_exception_resumes [rotated 2])
qed

lemma forgetting_resumes:
  "resumes s \<Longrightarrow> resumes (forgetSteps i (if b then forgetThread i h s else s))"
  "resumes s \<Longrightarrow> resumes (if b then forgetProcess i h s else s)"
  by (auto simp: forgetSteps_def forgetThread_def forgetProcess_def unregisterTitanHandle_def resumes_def
      steps_resume_def omap_erase_def)

lemma resumes_chosen: "steps_resume s \<Longrightarrow> status \<noteq> DEBUG_STATUS_NO_CHANGE \<Longrightarrow> resumes (s\<lparr>gNextExecutionStatus := status\<rparr>)"
  by (simp add: resumes_def)

lemma announcing_resumes:
  assumes "handlers_resume cl" and "steps_resume s"
  shows "resumes (snd (announce os cl handler info s))"
    and "resumes (snd (runInitialExceptionWork os cl e s))" and "resumes (snd (runPauseWork os cl callback s))"
    and "resumes (snd (runTtdHitWork os cl code hit callback argument s))" and "resumes (snd (runTtdPauseWork os cl callback s))"
    and "resumes (snd (runTtdExitThreadWork os cl i s))" and "resumes (snd (runStepWork os cl callback i s))"
    and "resumes (snd (runCreateThreadWork os cl h d st s))" and "resumes (snd (runExitThreadWork os cl c s))"
    and "resumes (snd (runCreateProcessWork os cl h1 h2 d1 h3 d2 d3 s))" and "resumes (snd (runExitProcessWork os cl c s))"
  using assms
  by (simp_all add: announce_def runInitialExceptionWork_def runPauseWork_def runTtdHitWork_def runTtdPauseWork_def
      runTtdExitThreadWork_def runStepWork_def runCreateThreadWork_def runExitThreadWork_def runCreateProcessWork_def
      runExitProcessWork_def Let_def handlers_resumeD forgetting_resumes resumes_chosen split: option.split)

lemma failing_works:
  assumes "runWork os cl work s = (False, s')"
  shows "(\<exists>i. work = InternalStepWork i \<and> map_of (gInternalStepCallbacks s) i = None \<and> s' = s) \<or>
      (\<exists>info pid tid. work = ExceptionWork info pid tid \<and>
        (ei_code info = EXCEPTION_BREAKPOINT \<or> ei_code info = EXCEPTION_ILLEGAL_INSTRUCTION))"
proof (cases work)
  case (InternalStepWork i)
  then show ?thesis using assms by (auto simp: completeInternalStep_def Let_def split: option.splits)
next
  case (ExceptionWork info pid tid)
  then show ?thesis using assms by (auto simp: runExceptionWork_def Let_def case_prod_unfold split: if_splits)
qed (use assms in \<open>auto simp: announce_def runInitialExceptionWork_def runPauseWork_def runTtdHitWork_def runTtdPauseWork_def
      runTtdExitThreadWork_def runStepWork_def runCreateThreadWork_def runExitThreadWork_def runCreateProcessWork_def
      runExitProcessWork_def runBreakpointWork_def Let_def split: option.splits if_splits\<close>)

lemma work_resumes:
  assumes "handlers_resume cl" and "steps_resume s"
  shows "fst (runWork os cl work s) \<longrightarrow> resumes (snd (runWork os cl work s))"
proof (cases work)
  case (ExceptionWork info pid tid)
  then show ?thesis
    using exception_work_resumes [OF assms, of os info pid tid] by (cases "runExceptionWork os cl info pid tid s") auto
next
  case (InternalStepWork i)
  then show ?thesis
    using completeInternalStep_resumes [OF assms, of os i] by (cases "completeInternalStep os cl i s") auto
qed (simp_all add: announcing_resumes [OF assms] breakpoint_work_resumes [OF assms])

text \<open>
  C4. No event leaves the debuggee stopped for good. When the handlers do not take back an execution status that was
  chosen, every work that has run successfully leaves a status for the engine to resume with, and keeps
  the pending steps resumable. A work that fails is a completed step no internal step waits for, or a
  breakpoint whose original bytes could not be put back.
\<close>

theorem every_work_resumes:
  assumes "handlers_resume cl" and "steps_resume s" and "runWork os cl work s = (ok, s')"
  shows "if ok then steps_resume s' \<and> gNextExecutionStatus s' \<noteq> DEBUG_STATUS_NO_CHANGE
    else (\<exists>i. work = InternalStepWork i \<and> map_of (gInternalStepCallbacks s) i = None \<and> s' = s) \<or>
      (\<exists>info pid tid. work = ExceptionWork info pid tid \<and>
        (ei_code info = EXCEPTION_BREAKPOINT \<or> ei_code info = EXCEPTION_ILLEGAL_INSTRUCTION))"
  using assms(3) work_resumes [OF assms(1,2), of os work] failing_works [of os cl work s s']
  by (cases ok) (auto simp: resumes_def)

theorem every_work_resumes_witness:
  "gNextExecutionStatus (snd (runWork quiet_os (\<lambda>_ _ s. s) (LoadModuleWork 0 0x1000) (live_titan ()))) \<noteq> DEBUG_STATUS_NO_CHANGE"
proof -
  let ?run = "runWork quiet_os (\<lambda>_ _ s. s) (LoadModuleWork 0 0x1000) (live_titan ())"
  have "?run = (True, snd ?run)" by (simp add: announce_def)
  from every_work_resumes [OF _ _ this] show ?thesis
    by (simp add: handlers_resume_def steps_resume_def live_defs del: runWork.simps)
qed

section \<open>A breakpoint that is hit is armed again\<close>

text \<open>
  What the adapter relies on: selecting threads, suspending and resuming them and reading and writing
  registers changes no memory; and the handlers called at a breakpoint change neither memory nor the tables.
\<close>

definition threads_keep_memory :: "'w os \<Rightarrow> ('w \<Rightarrow> u64 \<Rightarrow> byte) \<Rightarrow> bool" where
  "threads_keep_memory os mem \<longleftrightarrow>
     (\<forall>h w. mem (snd (snd (wSuspendThread (win os) h w))) = mem w) \<and>
     (\<forall>h w. mem (snd (snd (wResumeThread (win os) h w))) = mem w) \<and>
     (\<forall>i w. mem (snd (snd (dSetCurrentThread (dbg os) i w))) = mem w) \<and>
     (\<forall>n w. mem (snd (snd (dGetValues (dbg os) n w))) = mem w) \<and>
     (\<forall>u w. mem (snd (snd (dSetValues (dbg os) u w))) = mem w) \<and>
     (\<forall>h w. mem (snd (snd (wGetThreadContext (win os) h w))) = mem w)"

definition neutral_handlers :: "'w client \<Rightarrow> ('w \<Rightarrow> u64 \<Rightarrow> byte) \<Rightarrow> bool" where
  "neutral_handlers cl mem \<longleftrightarrow> (\<forall>callback argument s. world_only s (cl callback argument s) \<and>
     mem (world (cl callback argument s)) = mem (world s))"

text \<open>Writes of the debuggee's memory succeed.\<close>

definition writes_work :: "'w os \<Rightarrow> bool" where
  "writes_work os \<longleftrightarrow> (\<forall>h a bytes w. fst (wWriteProcessMemory (win os) h a bytes w) = (True, of_nat (length bytes))) \<and>
     (\<forall>h a n w. fst (wFlushInstructionCache (win os) h a n w))"

text \<open>The part of the state the patches live in.\<close>

definition patch_view :: "('w \<Rightarrow> u64 \<Rightarrow> byte) \<Rightarrow> 'w titan \<Rightarrow> (u64 \<Rightarrow> byte) \<times> (u32, breakpoint_info) omap \<times> debug_id_map" where
  "patch_view mem s = (mem (world s), gBreakpoints s, gDebugIdMap s)"

lemma patch_view_world: "world_only s t \<Longrightarrow> mem (world t) = mem (world s) \<Longrightarrow> patch_view mem t = patch_view mem s"
  by (simp add: patch_view_def world_only_fields)

lemma patch_view_registers: "register_frame s t \<Longrightarrow> mem (world t) = mem (world s) \<Longrightarrow> patch_view mem t = patch_view mem s"
  by (auto simp: patch_view_def register_frame_def)

lemma patch_view_updates [simp]:
  "patch_view mem (s\<lparr>lastError := e\<rparr>) = patch_view mem s" "patch_view mem (s\<lparr>gFakeDebugEvent := d\<rparr>) = patch_view mem s"
  "patch_view mem (s\<lparr>gNextContinueStatus := c\<rparr>) = patch_view mem s" "patch_view mem (s\<lparr>gNextExecutionStatus := n\<rparr>) = patch_view mem s"
  "patch_view mem (s\<lparr>gStepCallbacks := sc\<rparr>) = patch_view mem s" "patch_view mem (s\<lparr>gStepThreadSystemIds := si\<rparr>) = patch_view mem s"
  "patch_view mem (s\<lparr>gInternalStepCallbacks := ic\<rparr>) = patch_view mem s" "patch_view mem (s\<lparr>gStepStatuses := st\<rparr>) = patch_view mem s"
  "patch_view mem (s\<lparr>gInternalStepSuspendedThreads := su\<rparr>) = patch_view mem s"
  "patch_view mem (s\<lparr>gRegisterCache := rc\<rparr>) = patch_view mem s"
  by (simp_all add: patch_view_def)

lemma threads_memory:
  assumes "threads_keep_memory os mem"
  shows "mem (snd (snd (wSuspendThread (win os) h w))) = mem w" "mem (snd (snd (wResumeThread (win os) h w))) = mem w"
    "mem (snd (snd (dSetCurrentThread (dbg os) i w))) = mem w" "mem (snd (snd (dGetValues (dbg os) n w))) = mem w"
    "mem (snd (snd (dSetValues (dbg os) u w))) = mem w" "mem (snd (snd (wGetThreadContext (win os) h w))) = mem w"
  using assms by (auto simp: threads_keep_memory_def)

lemma register_memory:
  assumes th: "threads_keep_memory os mem"
  shows "mem (world (snd (RegisterCache_Flush os s))) = mem (world s)"
    and "mem (world (snd (RegisterCache_Read os s))) = mem (world s)"
    and "mem (world (snd (RegisterCache_SetValue reg v s))) = mem (world s)"
  by (simp_all add: RegisterCache_Flush_def RegisterCache_Read_def RegisterCache_SetValue_def Let_def case_prod_unfold
      threads_memory [OF th] split: option.split)

lemma thread_scope_memory:
  assumes th: "threads_keep_memory os mem"
  shows "mem (world (snd (openThreadScope os h s))) = mem (world s)"
    and "mem (world (closeThreadScope os scope s)) = mem (world s)"
  by (simp_all add: openThreadScope_def closeThreadScope_def Let_def case_prod_unfold
      threads_memory [OF th] register_memory [OF th] split: option.split)

lemma patch_view_context:
  assumes th: "threads_keep_memory os mem"
  shows "patch_view mem (snd (GetContextDataEx os h reg s)) = patch_view mem s"
    and "patch_view mem (snd (SetContextDataEx os h reg v s)) = patch_view mem s"
    and "patch_view mem (setCurrentInstructionPointer a s) = patch_view mem s"
proof -
  show "patch_view mem (snd (GetContextDataEx os h reg s)) = patch_view mem s"
    by (rule patch_view_registers [OF GetContextDataEx_frame])
       (simp add: GetContextDataEx_def readTtdContext_def withThreadScope_def Let_def case_prod_unfold threads_memory [OF th]
         thread_scope_memory [OF th] split: option.split)
  show "patch_view mem (snd (SetContextDataEx os h reg v s)) = patch_view mem s"
    by (rule patch_view_registers [OF SetContextDataEx_frame])
       (simp add: SetContextDataEx_def withThreadScope_def Let_def case_prod_unfold threads_memory [OF th]
         thread_scope_memory [OF th] register_memory [OF th])
  show "patch_view mem (setCurrentInstructionPointer a s) = patch_view mem s"
    unfolding setCurrentInstructionPointer_def
    by (rule patch_view_registers [OF register_frame_SetValue [OF register_frame_refl]]) (rule register_memory [OF th])
qed

lemma patch_view_suspension:
  assumes th: "threads_keep_memory os mem"
  shows "patch_view mem (snd (suspendOthers os i es acc s)) = patch_view mem s"
    and "patch_view mem (resumeAll os hs s) = patch_view mem s"
proof -
  have one: "patch_view mem (snd (TitanSuspendThread os h s)) = patch_view mem s"
    "patch_view mem (snd (TitanResumeThread os h s)) = patch_view mem s" for h s
    by (rule patch_view_world; simp add: TitanSuspendThread_def TitanResumeThread_def;
        simp add: withNativeHandle_def registeredNativeHandle_def Let_def case_prod_unfold threads_memory [OF th] split: option.split)+
  show "patch_view mem (snd (suspendOthers os i es acc s)) = patch_view mem s"
    by (induction es arbitrary: acc s) (auto simp: Let_def case_prod_unfold one)
  show "patch_view mem (resumeAll os hs s) = patch_view mem s"
    by (induction hs arbitrary: s) (simp_all add: resumeAll_def one)
qed

lemma patch_view_steps:
  assumes th: "threads_keep_memory os mem"
  shows "patch_view mem (scheduleInternalStep os callback s) = patch_view mem s"
    and "patch_view mem (clearTrapFlag os i s) = patch_view mem s"
  by (simp_all add: scheduleInternalStep_def clearTrapFlag_def Let_def case_prod_unfold patch_view_suspension [OF th]
      patch_view_context [OF th] split: option.split)

lemma patch_view_handlers:
  assumes "neutral_handlers cl mem"
  shows "patch_view mem (cl callback argument s) = patch_view mem s"
    and "patch_view mem (beginDebugEvent cl unhandled s) = patch_view mem s"
    and "patch_view mem (callBreakpoint cl info s) = patch_view mem s"
    and "patch_view mem (finishDebugEvent unhandled s) = patch_view mem s"
proof -
  show h: "patch_view mem (cl callback argument s) = patch_view mem s" for callback argument s
    using assms by (intro patch_view_world) (simp_all add: neutral_handlers_def)
  show "patch_view mem (beginDebugEvent cl unhandled s) = patch_view mem s"
    by (simp add: beginDebugEvent_def invokeCustomHandler_def h Let_def split: option.split)
  show "patch_view mem (callBreakpoint cl info s) = patch_view mem s" by (simp add: callBreakpoint_def h)
  show "patch_view mem (finishDebugEvent unhandled s) = patch_view mem s" by (simp add: finishDebugEvent_eq)
qed

lemma patch_viewD:
  assumes "patch_view mem t = patch_view mem s"
  shows "mem (world t) = mem (world s)" "gBreakpoints t = gBreakpoints s" "sessionProcessHandle t = sessionProcessHandle s"
  using assms by (simp_all add: patch_view_def sessionProcessHandle_def)

text \<open>A patch write that goes through.\<close>

lemma write_works:
  assumes pm: "process_memory os mem" and ww: "writes_work os" and shape: "patch_shape info" "bp_patchSize info \<noteq> 0"
    and process: "sessionProcessHandle s \<noteq> 0" and run: "writeNativeBreakpointBytes os info install s = (ok, t)"
  shows "ok" and "world_only s t"
    and "mem (world t) = poke (mem (world s)) (bp_offset info)
      (take (bp_patchSize info) (if install then bp_patchBytes info else bp_originalBytes info))"
proof -
  have sh: "length (bp_patchBytes info) = 2" "length (bp_originalBytes info) = 2" "bp_patchSize info \<le> 2"
    using shape(1) by (simp_all add: patch_shape_def)
  have len: "length (take (bp_patchSize info) (if install then bp_patchBytes info else bp_originalBytes info)) = bp_patchSize info"
    using sh by simp
  show ok: ok
    using run process shape(2) ww len
    by (auto simp: writeNativeBreakpointBytes_def writes_work_def oscall_def Let_def case_prod_unfold simp del: length_take
        split: if_splits)
  show "world_only s t" using write_effect(2) [OF pm run sh] by (simp add: world_only_def)
  show "mem (world t) = poke (mem (world s)) (bp_offset info)
      (take (bp_patchSize info) (if install then bp_patchBytes info else bp_originalBytes info))"
    by (rule write_effect(1) [OF pm run sh ok])
qed

lemma poke_poke: "length xs = length ys \<Longrightarrow> poke (poke m a xs) a ys = poke m a ys"
  by (auto simp: poke_def)

lemma poke_in_place: "peek m a (length bytes) = bytes \<Longrightarrow> poke m a bytes = m"
  using poke_peek [of bytes "length bytes" m a] poke_poke [of bytes bytes m a] by simp


text \<open>A live session with one thread, stopped at the INT 3 of a software breakpoint at 0x1000.\<close>

definition hit_os :: "(u64 \<Rightarrow> byte) os" where
  "hit_os = memory_os\<lparr>dbg := quiet_dbg\<lparr>dThreadIndex := (\<lambda>w. Some 0), dSetValues := (\<lambda>u w. (True, None, w))\<rparr>\<rparr>"

definition hit_breakpoint :: breakpoint_info where
  "hit_breakpoint = default_breakpoint\<lparr>bp_id := 5, bp_offset := 0x1000, bp_callback := 1, bp_nativePatch := True,
     bp_patchSize := 1, bp_originalBytes := [0x90, 0], bp_patchBytes := [0xCC, 0]\<rparr>"

definition hit_state :: "(u64 \<Rightarrow> byte) titan" where
  "hit_state = (live_titan ((\<lambda>_. 0x90)(0x1000 := 0xCC)))\<lparr>
     gDebugIdMap := \<lparr>processIndexToHandle = [(0, 4)], processHandleToIndex = [(4, 0)],
       threadIndexToHandle = [(0, 8)], threadHandleToIndex = [(8, 0)]\<rparr>,
     gBreakpoints := [(5, hit_breakpoint)],
     gRegisterCache := \<lparr>rc_Count = 1, rc_Values = [DV_INT32 2], rc_Names = [''efl''], rc_Changed = [False],
       rc_TitanRegIndexMap = [(UE_CFLAGS, 0)]\<rparr>\<rparr>"

lemma hit_os_calls [simp]:
  "wReadProcessMemory (win hit_os) h a n w = ((True, peek w a (unat n)), None, w)"
  "wWriteProcessMemory (win hit_os) h a bytes w = ((True, of_nat (length bytes)), None, poke w a bytes)"
  "wFlushInstructionCache (win hit_os) h a k w = (True, None, w)"
  "dThreadIndex (dbg hit_os) w = Some 0" "dSetValues (dbg hit_os) u w = (True, None, w)"
  by (simp_all add: hit_os_def memory_os_def quiet_defs)

lemma hit_run:
  "fst (dispatchBreakpointException hit_os (\<lambda>_ _ s. s) (exceptionAt EXCEPTION_BREAKPOINT 0x1000) hit_state)"
  "map_of (gInternalStepCallbacks (snd (dispatchBreakpointException hit_os (\<lambda>_ _ s. s) (exceptionAt EXCEPTION_BREAKPOINT 0x1000)
     hit_state))) 0 = Some (ThenUserStep (RearmNative 5) 0)"
  by (simp_all add: dispatchBreakpointException_def dispatchNativeBreakpoint_def nativeBreakpointAt_def exceptionAt_def exception_zero_def
      hit_state_def hit_breakpoint_def live_defs native_run_defs setCurrentInstructionPointer_def RegisterCache_SetValue_def
      beginDebugEvent_def invokeCustomHandler_def callBreakpoint_def scheduleInternalStep_def GetContextDataEx_def
      SetContextDataEx_def withThreadScope_def openThreadScope_def closeThreadScope_def RegisterCache_GetValue_def
      RegisterCache_Flush_def changedRegisters_def assignInteger_def finishDebugEvent_eq omap_contains_def case_prod_unfold)


section \<open>A fault on a watched page\<close>

lemma begin_other_handlers:
  assumes "\<And>callback argument s. callback \<noteq> h \<Longrightarrow> cl1 callback argument s = cl2 callback argument s"
    and "map_of (gCustomHandlers s) UE_CH_DEBUGEVENT \<noteq> Some h"
  shows "beginDebugEvent cl1 unhandled s = beginDebugEvent cl2 unhandled s"
  using assms by (simp add: beginDebugEvent_def invokeCustomHandler_def Let_def split: option.split) metis

text \<open>
  C40. A genuine fault of the debuggee on a watched page is not reported. When an access violation hits a page
  that holds a memory breakpoint but no breakpoint covers the address, the event is taken as handled, and what the
  registered handler of unhandled exceptions would do makes no difference: it is not called.
\<close>

theorem unrelated_faults_swallowed:
  assumes "ei_code info = EXCEPTION_ACCESS_VIOLATION" and "2 \<le> ei_numberParameters info"
    and "map_of (gMemoryBreakpointPages s) (pageAddress os (ei_information info ! 1)) = Some page"
    and "\<forall>i \<in> set (mp_breakpointIds page). \<not> hitMemoryBreakpoint (ei_information info ! 0) (ei_information info ! 1) s i"
    and "map_of (gCustomHandlers s) UE_CH_UNHANDLEDEXCEPTION = Some h"
    and "map_of (gCustomHandlers s) UE_CH_DEBUGEVENT \<noteq> Some h"
    and "\<And>callback argument s. callback \<noteq> h \<Longrightarrow> cl1 callback argument s = cl2 callback argument s"
  shows "fst (runExceptionWork os cl1 info pid tid s) \<and>
    runExceptionWork os cl1 info pid tid s = runExceptionWork os cl2 info pid tid s"
proof -
  let ?t = "setEventIds pid tid (setFakeDebugEvent os (ExceptionInfo info) s)"
  have same: "gMemoryBreakpointPages ?t = gMemoryBreakpointPages s" "gMemoryBreakpoints ?t = gMemoryBreakpoints s"
    "gCustomHandlers (setFakeDebugEvent os (ExceptionInfo info) ?t) = gCustomHandlers s"
    by (simp_all add: event_defs)
  have none: "find (hitMemoryBreakpoint (ei_information info ! 0) (ei_information info ! 1) ?t) (mp_breakpointIds page) = None"
    using assms(4) by (simp add: find_None_iff hitMemoryBreakpoint_def same)
  have run: "runExceptionWork os cl info pid tid s = dispatchMemoryBreakpointException os cl info ?t"
    if "fst (dispatchMemoryBreakpointException os cl info ?t)" for cl
    using that assms(1) by (auto simp: runExceptionWork_def Let_def case_prod_unfold prod_eq_iff)
  have taken: "fst (dispatchMemoryBreakpointException os cl info ?t)" for cl
    using assms(2,3) none by (simp add: dispatchMemoryBreakpointException_def same Let_def)
  have "dispatchMemoryBreakpointException os cl1 info ?t = dispatchMemoryBreakpointException os cl2 info ?t"
    using assms(2,3) none begin_other_handlers [OF assms(7), where s = "setFakeDebugEvent os (ExceptionInfo info) ?t"] assms(6)
    by (simp add: dispatchMemoryBreakpointException_def same Let_def default_memory_breakpoint_def)
  then show ?thesis using run taken by simp
qed

theorem unrelated_faults_swallowed_witness:
  "runExceptionWork paged_os (\<lambda>h a s. if h = 7 then s\<lparr>gPauseCallback := 9\<rparr> else s)
     (exceptionAt EXCEPTION_ACCESS_VIOLATION 0\<lparr>ei_numberParameters := 2, ei_information := [1, 0x1008]\<rparr>) 0 0
     (live_titan (\<lambda>_. 4)\<lparr>gMemoryBreakpointPages := [(0x1000, \<lparr>mp_originalProtect = 4, mp_breakpointIds = []\<rparr>)],
        gCustomHandlers := [(UE_CH_UNHANDLEDEXCEPTION, 7)]\<rparr>) =
   runExceptionWork paged_os (\<lambda>_ _ s. s)
     (exceptionAt EXCEPTION_ACCESS_VIOLATION 0\<lparr>ei_numberParameters := 2, ei_information := [1, 0x1008]\<rparr>) 0 0
     (live_titan (\<lambda>_. 4)\<lparr>gMemoryBreakpointPages := [(0x1000, \<lparr>mp_originalProtect = 4, mp_breakpointIds = []\<rparr>)],
        gCustomHandlers := [(UE_CH_UNHANDLEDEXCEPTION, 7)]\<rparr>)"
proof -
  let ?s = "live_titan (\<lambda>_. 4)\<lparr>gMemoryBreakpointPages := [(0x1000, \<lparr>mp_originalProtect = 4, mp_breakpointIds = []\<rparr>)],
        gCustomHandlers := [(UE_CH_UNHANDLEDEXCEPTION, 7)]\<rparr>"
  let ?e = "exceptionAt EXCEPTION_ACCESS_VIOLATION 0\<lparr>ei_numberParameters := 2, ei_information := [1, 0x1008]\<rparr>"
  have P: "ei_code ?e = EXCEPTION_ACCESS_VIOLATION" "2 \<le> ei_numberParameters ?e"
    "map_of (gMemoryBreakpointPages ?s) (pageAddress paged_os (ei_information ?e ! 1)) =
      Some \<lparr>mp_originalProtect = 4, mp_breakpointIds = []\<rparr>"
    "map_of (gCustomHandlers ?s) UE_CH_UNHANDLEDEXCEPTION = Some 7" "map_of (gCustomHandlers ?s) UE_CH_DEBUGEVENT \<noteq> Some 7"
    by (simp_all add: exceptionAt_def pageAddress_def)
  show ?thesis
    by (rule unrelated_faults_swallowed [OF P(1-3) _ P(4,5), THEN conjunct2]) simp_all
qed

end
