(* ===== verification/Ttd_Replay.thy ===== *)
theory Ttd_Replay
  imports Events
begin

text \<open>
  Replay of a recording (\<open>TitanEngine.cpp\<close>, lines 368 to 378, 2941 to 3024, 3485 to 4043 and 5054 to 5112): the callbacks
  the replay engine calls while it moves the cursor, the timeline the adapter derives from the
  cursor (threads and modules that appear and disappear), and the movements: one step, a step over a
  call, a run in either direction.

  RequestPause and StopDebug run on other threads while the engine replays. What they do in the meantime
  is the parameter \<open>peers\<close>, applied after every call of the engine that replays.
\<close>

section \<open>Watchpoint and call callbacks\<close>

text \<open>Data accesses of the replay engine: Read is 0, Write is 1, and Execute and CodeFetch are greater.\<close>

definition ttdMemoryBreakpointMatches :: "memory_breakpoint \<Rightarrow> u64 \<Rightarrow> u64 \<Rightarrow> bool" where
  "ttdMemoryBreakpointMatches bp address accessType =
     (if address < mb_start bp \<or> mb_size bp \<le> address - mb_start bp then False
      else mb_type bp = UE_MEMORY \<or>
           (mb_type bp = UE_MEMORY_READ \<and> accessType = 0) \<or>
           (mb_type bp = UE_MEMORY_WRITE \<and> accessType = 1) \<or>
           (mb_type bp = UE_MEMORY_EXECUTE \<and> 1 < accessType))"

definition ttdCallReturnCallback :: "u64 \<Rightarrow> ttd_thread_view option \<Rightarrow> 'w titan \<Rightarrow> 'w titan" where
  "ttdCallReturnCallback returnAddress threadView s = (case (gTtdStepOverProbe s, threadView) of
     (Some probe, Some view) \<Rightarrow>
       if returnAddress \<noteq> 0 \<and> tv_uniqueThreadId view = probe_uniqueThreadId probe
       then s\<lparr>gTtdStepOverProbe := Some (probe\<lparr>probe_returnAddress := returnAddress\<rparr>)\<rparr> else s
   | _ \<Rightarrow> s)"

text \<open>
  The two loops of the watchpoint callback only decide whether some breakpoint takes the access: a
  registered access that is not accepted is dropped like one that is not registered.
\<close>

definition softwareTakes :: "u64 \<Rightarrow> u32 \<Rightarrow> u32 \<times> breakpoint_info \<Rightarrow> bool" where
  "softwareTakes address uniqueThreadId = (\<lambda>(ident, bp).
     bp_kind bp = Software \<and> bp_offset bp = address \<and>
     (bp_ttdThreadAffinity bp = 0 \<or> bp_ttdThreadAffinity bp = uniqueThreadId))"

definition memoryTakes :: "u64 \<Rightarrow> u64 \<Rightarrow> u64 \<times> memory_breakpoint \<Rightarrow> bool" where
  "memoryTakes address accessType = (\<lambda>(ident, bp). ttdMemoryBreakpointMatches bp address accessType)"

definition watchHitOf :: "ttd_access \<Rightarrow> ttd_thread_view \<Rightarrow> ttd_watch_hit" where
  "watchHitOf result view = \<lparr>wh_pending = True, wh_address = ta_Address result, wh_size = ta_Size result,
     wh_flags = ta_AccessType result, wh_sequence = ttdSequence (tv_position view), wh_steps = ttdSteps (tv_position view),
     wh_uniqueThreadId = tv_uniqueThreadId view, wh_threadId = tv_systemThreadId view\<rparr>"

definition ttdMemoryWatchpointCallback :: "ttd_access \<Rightarrow> ttd_thread_view option \<Rightarrow> 'w titan \<Rightarrow> bool \<times> 'w titan" where
  "ttdMemoryWatchpointCallback result threadView s = (case threadView of
     None \<Rightarrow> (False, s)
   | Some view \<Rightarrow>
       (let accepted = list_ex (softwareTakes (ta_Address result) (tv_uniqueThreadId view)) (gBreakpoints s) \<or>
              list_ex (memoryTakes (ta_Address result) (ta_AccessType result)) (gMemoryBreakpoints s)
        in if accepted then (True, s\<lparr>gTtdWatchHit := watchHitOf result view\<rparr>) else (False, s)))"

fun deliverNotification :: "ttd_notification \<Rightarrow> 'w titan \<Rightarrow> 'w titan" where
  "deliverNotification (MemoryAccess result view) s = snd (ttdMemoryWatchpointCallback result view s)"
| "deliverNotification (CallReturn returnAddress view) s = ttdCallReturnCallback returnAddress view s"

text \<open>
  A replay. The engine's largest step count is 2^64 - 2. The call callback is installed exactly while there is a step-over
  probe.
\<close>

definition ttdReplay ::
  "'w os \<Rightarrow> ('w titan \<Rightarrow> 'w titan) \<Rightarrow> bool \<Rightarrow> ttd_position \<Rightarrow> u64 \<Rightarrow> 'w titan \<Rightarrow> (u64 \<times> int) \<times> 'w titan" where
  "ttdReplay os peers reverse limit maxSteps s =
     (let steps = (if maxSteps = - 1 then - 2 else maxSteps);
          ((result, notifications), s) = oscall (tReplay (ttd os) reverse limit steps
             (\<lambda>access view. fst (ttdMemoryWatchpointCallback access view s)) (gTtdStepOverProbe s \<noteq> None)) s
      in (result, peers (fold deliverNotification notifications s)))"

definition wordAt :: "'w os \<Rightarrow> u64 \<Rightarrow> nat \<Rightarrow> 'w titan \<Rightarrow> u64 option" where
  "wordAt os address sz s = map_option bytesToWord64 (ReadMemory os (world s) address sz)"

definition ttdModuleMachineType :: "'w os \<Rightarrow> u64 \<Rightarrow> 'w titan \<Rightarrow> u32" where
  "ttdModuleMachineType os imageBase s =
     (if \<not> gTtdCursor s \<or> imageBase = 0 then IMAGE_FILE_MACHINE_UNKNOWN
      else (case ReadMemory os (world s) imageBase 64 of
          None \<Rightarrow> IMAGE_FILE_MACHINE_UNKNOWN
        | Some dosHeader \<Rightarrow>
            (let e_magic = bytesToWord64 (take 2 dosHeader); e_lfanew = ucast (bytesToWord64 (drop 60 dosHeader)) :: u32
             in if e_magic \<noteq> ucast IMAGE_DOS_SIGNATURE \<or> sint e_lfanew \<le> 0 \<or> 0x1000000 < sint e_lfanew
                then IMAGE_FILE_MACHINE_UNKNOWN
                else (let ntHeaders = imageBase + ucast e_lfanew
                  in case (wordAt os ntHeaders 4 s, wordAt os (ntHeaders + 4) 2 s) of
                       (Some signature, Some machine) \<Rightarrow>
                         if signature = ucast IMAGE_NT_SIGNATURE then ucast machine else IMAGE_FILE_MACHINE_UNKNOWN
                     | _ \<Rightarrow> IMAGE_FILE_MACHINE_UNKNOWN))))"

section \<open>The timeline\<close>

definition updateTtdCursorIdentity :: "'w os \<Rightarrow> 'w titan \<Rightarrow> bool \<times> 'w titan" where
  "updateTtdCursorIdentity os s =
     (if \<not> gTtdCursor s then (False, s)
      else (let s = s\<lparr>gTtdCurrentThreadId := snd (tThreadInfo (ttd os) (world s))\<rparr>
            in (True, (setEventIds (gTtdProcessId s) (gTtdCurrentThreadId s) s)\<lparr>gTtdCursorChanged := True\<rparr>)))"

text \<open>A thread that has appeared since the cursor was last looked at.\<close>

definition announceThread :: "'w os \<Rightarrow> u32 \<times> u32 \<Rightarrow> 'w titan \<Rightarrow> 'w titan" where
  "announceThread os info s = (case info of (uniqueId, systemId) \<Rightarrow>
     if omap_contains (threadIndexToHandle (gDebugIdMap s)) uniqueId then s
     else (let (token, s) = createSyntheticTitanHandle ThreadHandle uniqueId systemId False s;
               s = mapThread uniqueId token s;
               teb = ttdTebAddress os systemId s;
               s = cacheTeb token teb s
           in onCreateThread token teb 0 s))"

definition activeThreads :: "'w os \<Rightarrow> 'w titan \<Rightarrow> (u32 \<times> u32) list" where
  "activeThreads os s = List.map_filter (\<lambda>t. t) (tActiveThreads (ttd os) (world s))"

text \<open>The threads of the tables that are no longer active, with the system ids of their registry entries.\<close>

definition terminatedThreads :: "u32 set \<Rightarrow> 'w titan \<Rightarrow> (u32 \<times> HANDLE \<times> u32) list" where
  "terminatedThreads active s =
     map (\<lambda>(index, handle). (index, handle,
            case map_of (gHandleRegistry s) handle of Some entry \<Rightarrow> he_systemId entry | None \<Rightarrow> 0))
       (filter (\<lambda>(index, handle). index \<notin> active) (threadIndexToHandle (gDebugIdMap s)))"

definition retireThread :: "u32 \<times> HANDLE \<times> u32 \<Rightarrow> 'w titan \<Rightarrow> 'w titan" where
  "retireThread thread s = (case thread of (index, handle, systemId) \<Rightarrow>
     unregisterTitanHandle handle ((queueCallback (TtdExitThreadWork systemId) s)
       \<lparr>gDebugIdMap := (gDebugIdMap s)\<lparr>threadIndexToHandle := omap_erase index (threadIndexToHandle (gDebugIdMap s)),
          threadHandleToIndex := omap_erase handle (threadHandleToIndex (gDebugIdMap s))\<rparr>,
        gProcessTebCache := omap_erase handle (gProcessTebCache s)\<rparr>))"

definition refreshThreads :: "'w os \<Rightarrow> 'w titan \<Rightarrow> 'w titan" where
  "refreshThreads os s =
     (let active = activeThreads os s;
          s = fold (announceThread os) active s
      in fold retireThread (terminatedThreads (set (map fst active)) s) s)"

definition announceModule :: "ttd_module \<Rightarrow> 'w titan \<Rightarrow> 'w titan" where
  "announceModule info s = (if omap_contains (gTtdActiveModules s) (tm_base info) then s else onLoadModule 0 (tm_base info) s)"

definition currentModules :: "ttd_module list \<Rightarrow> (u64, u16 list) omap" where
  "currentModules modules = fold (\<lambda>info. omap_insert (tm_base info) (tm_path info)) modules []"

definition retireModule :: "(u64, u16 list) omap \<Rightarrow> u64 \<times> u16 list \<Rightarrow> 'w titan \<Rightarrow> 'w titan" where
  "retireModule current entry s = (if omap_contains current (fst entry) then s else onUnloadModule (fst entry) s)"

definition refreshModules :: "'w os \<Rightarrow> 'w titan \<Rightarrow> 'w titan" where
  "refreshModules os s =
     (let modules = ttdCurrentModules os s;
          current = currentModules modules;
          s = fold announceModule modules s;
          s = fold (retireModule current) (gTtdActiveModules s) s
      in s\<lparr>gTtdActiveModules := current\<rparr>)"

definition refreshTtdTimeline :: "'w os \<Rightarrow> 'w titan \<Rightarrow> 'w titan" where
  "refreshTtdTimeline os s = (if \<not> gTtdCursor s then s else refreshModules os (refreshThreads os s))"

section \<open>Reporting a watchpoint\<close>

text \<open>
  The first software breakpoint that takes the hit, else the first memory breakpoint: a one-shot breakpoint is removed
  and the event is queued.
\<close>

definition queueTtdWatchpointHit :: "'w os \<Rightarrow> ttd_watch_hit \<Rightarrow> 'w titan \<Rightarrow> bool \<times> 'w titan" where
  "queueTtdWatchpointHit os hit s =
     (if \<not> wh_pending hit then (False, s)
      else (case find (softwareTakes (wh_address hit) (wh_uniqueThreadId hit)) (gBreakpoints s) of
          Some (ident, bp) \<Rightarrow>
            (let s = (if bp_oneShot bp
                      then eraseBreakpointInfo ident (snd (oscall (tRemoveMemoryWatchpoint (ttd os) (executeWatchpoint (bp_offset bp))) s))
                      else s)
             in (True, queueCallback (TtdBreakpointWork hit (bp_callback bp)) s))
        | None \<Rightarrow>
            (case find (memoryTakes (wh_address hit) (wh_flags hit)) (gMemoryBreakpoints s) of
               Some (ident, bp) \<Rightarrow>
                 (let s = (if \<not> mb_restoreOnHit bp then snd (removeMemoryBreakpointById os ident s) else s)
                  in (True, queueCallback (TtdMemoryBreakpointWork hit (mb_callback bp)) s))
             | None \<Rightarrow> (False, s))))"

section \<open>Positions\<close>

text \<open>An absent pointer is the argument False or None. A position given is overwritten with zeros first.\<close>

abbreviation zeroPosition :: ttd_position where "zeroPosition \<equiv> TtdPosition 0 0"

definition ReplayGetPosition :: "'w os \<Rightarrow> bool \<Rightarrow> 'w titan \<Rightarrow> (bool \<times> ttd_position option) \<times> 'w titan" where
  "ReplayGetPosition os wanted s =
     (if \<not> wanted then ((False, None), SetLastError ERROR_INVALID_PARAMETER s)
      else if gSessionKind s \<noteq> UE_SESSION_TTD \<or> \<not> gTtdCursor s then ((False, Some zeroPosition), SetLastError ERROR_NOT_SUPPORTED s)
      else ((True, Some (tPosition (ttd os) (world s))), s))"

definition ReplayGetExtent ::
  "bool \<Rightarrow> bool \<Rightarrow> 'w titan \<Rightarrow> (bool \<times> ttd_position option \<times> ttd_position option) \<times> 'w titan" where
  "ReplayGetExtent wantFirst wantLast s =
     (let zero = (\<lambda>wanted. if wanted then Some zeroPosition else None)
      in if \<not> wantFirst \<or> \<not> wantLast
         then ((False, zero wantFirst, zero wantLast), SetLastError ERROR_INVALID_PARAMETER s)
         else if gSessionKind s \<noteq> UE_SESSION_TTD \<or> \<not> gTtdCursor s
         then ((False, zero True, zero True), SetLastError ERROR_NOT_SUPPORTED s)
         else ((True, Some (gTtdFirstPosition s), Some (gTtdLastPosition s)), s))"

definition ReplaySetPosition :: "'w os \<Rightarrow> ttd_position option \<Rightarrow> 'w titan \<Rightarrow> bool \<times> 'w titan" where
  "ReplaySetPosition os position s = (case position of
     None \<Rightarrow> (False, SetLastError ERROR_INVALID_PARAMETER s)
   | Some requested \<Rightarrow>
       if gSessionKind s \<noteq> UE_SESSION_TTD \<or> \<not> gTtdCursor s then (False, SetLastError ERROR_NOT_SUPPORTED s)
       else if requested < gTtdFirstPosition s \<or> gTtdLastPosition s < requested \<or> (gIsDebugging s \<and> \<not> gPaused s)
       then (False, SetLastError (if gIsDebugging s \<and> \<not> gPaused s then ERROR_BUSY else ERROR_INVALID_PARAMETER) s)
       else (let s = s\<lparr>world := tSetPosition (ttd os) requested (world s)\<rparr>
             in if tPosition (ttd os) (world s) \<noteq> requested then (False, SetLastError ERROR_INVALID_DATA s)
                else (let (updated, s) = updateTtdCursorIdentity os s
                      in if updated then (True, refreshTtdTimeline os s)
                         else (False, SetLastError ERROR_INVALID_DATA s))))"

definition ReplayRunBack :: "'w titan \<Rightarrow> bool \<times> 'w titan" where
  "ReplayRunBack s =
     (if gSessionKind s \<noteq> UE_SESSION_TTD \<or> \<not> gTtdCursor s then (False, SetLastError ERROR_NOT_SUPPORTED s)
      else if gIsDebugging s \<and> \<not> gPaused s then (False, SetLastError ERROR_BUSY s)
      else (True, s\<lparr>gTtdNextRunReverse := True\<rparr>))"

section \<open>Moving the cursor\<close>

definition clearHit :: "'w titan \<Rightarrow> 'w titan" where
  "clearHit s = s\<lparr>gTtdWatchHit := no_watch_hit\<rparr>"

definition hitPosition :: "ttd_watch_hit \<Rightarrow> ttd_position" where
  "hitPosition hit = TtdPosition (wh_sequence hit) (wh_steps hit)"

text \<open>The cursor is put on the thread and the position of the hit.\<close>

definition selectHit :: "'w os \<Rightarrow> 'w titan \<Rightarrow> 'w titan" where
  "selectHit os s = s\<lparr>world := tSetPositionOnThread (ttd os) (wh_uniqueThreadId (gTtdWatchHit s))
     (hitPosition (gTtdWatchHit s)) (world s)\<rparr>"

text \<open>
  The attempts of \<open>replayStep\<close> and \<open>runTtd\<close>: a hit reported at the position the movement started from, after no
  step, is stale, and the replay is tried again. The result is the number of steps of the last attempt, or one for a
  hit elsewhere.
\<close>

fun replayAttempts ::
  "'w os \<Rightarrow> ('w titan \<Rightarrow> 'w titan) \<Rightarrow> bool \<Rightarrow> ttd_position \<Rightarrow> u64 \<Rightarrow> ttd_position \<Rightarrow> nat \<Rightarrow> 'w titan \<Rightarrow> u64 \<times> 'w titan" where
  "replayAttempts os peers reverse limit maxSteps before 0 s = (0, s)"
| "replayAttempts os peers reverse limit maxSteps before (Suc attempts) s =
     (let ((stepCount, stopReason), s) = ttdReplay os peers reverse limit maxSteps (clearHit s)
      in if stepCount \<noteq> 0 \<or> \<not> wh_pending (gTtdWatchHit s) then (stepCount, s)
         else if hitPosition (gTtdWatchHit s) \<noteq> before then (1, selectHit os s)
         else replayAttempts os peers reverse limit maxSteps before attempts s)"

text \<open>The probe on the stack of \<open>replayStep\<close>, which the call callback reaches through \<open>gTtdStepOverProbe\<close>.\<close>

definition probedStep ::
  "'w os \<Rightarrow> ('w titan \<Rightarrow> 'w titan) \<Rightarrow> bool \<Rightarrow> bool \<Rightarrow> ttd_position \<Rightarrow> 'w titan \<Rightarrow> (u64 \<times> ttd_step_over_probe option) \<times> 'w titan" where
  "probedStep os peers reverse stepOver before s =
     (let s = (if stepOver then s\<lparr>gTtdStepOverProbe := Some \<lparr>probe_uniqueThreadId = fst (tThreadInfo (ttd os) (world s)),
                probe_returnAddress = 0\<rparr>\<rparr> else s);
          (stepCount, s) = replayAttempts os peers reverse (if reverse then gTtdFirstPosition s else gTtdLastPosition s) 1 before 2 s
      in if stepOver then ((stepCount, gTtdStepOverProbe s), s\<lparr>gTtdStepOverProbe := None\<rparr>) else ((stepCount, None), s))"

text \<open>After a call, a one-shot breakpoint at the return address, of the stepping thread only.\<close>

definition continueToReturn :: "'w os \<Rightarrow> ttd_step_over_probe \<Rightarrow> callback \<Rightarrow> 'w titan \<Rightarrow> bool \<times> 'w titan" where
  "continueToReturn os probe stepCallback s =
     (let (added, s) = (if list_ex (softwareAt (probe_returnAddress probe)) (gBreakpoints s) then (True, s)
            else addTtdSoftwareBreakpoint os (probe_returnAddress probe) stepCallback True (probe_uniqueThreadId probe) s)
      in if added then (True, s\<lparr>gTtdNextRunReverse := False\<rparr>) else (False, clearHit s))"

definition replayStep ::
  "'w os \<Rightarrow> ('w titan \<Rightarrow> 'w titan) \<Rightarrow> bool \<Rightarrow> bool \<Rightarrow> callback \<Rightarrow> 'w titan \<Rightarrow> bool \<times> 'w titan" where
  "replayStep os peers reverse stepOver stepCallback s =
     (let before = tPosition (ttd os) (world s)
      in if gSessionKind s \<noteq> UE_SESSION_TTD \<or> \<not> gTtdCursor s then (False, SetLastError ERROR_NOT_SUPPORTED s)
         else if reverse \<and> stepOver then (False, SetLastError ERROR_NOT_SUPPORTED s)
         else if gIsDebugging s \<and> \<not> gPaused s then (False, SetLastError ERROR_BUSY s)
         else if \<not> reverse \<and> gTtdHasProcessExitBoundary s \<and> before = gTtdProcessExitBoundary s
         then (False, SetLastError ERROR_NO_MORE_ITEMS s)
         else (let ((stepCount, probe), s) = probedStep os peers reverse stepOver before s;
                   (updated, s) = (if stepCount = 0 then (False, s) else updateTtdCursorIdentity os s)
               in if \<not> updated then (False, SetLastError ERROR_NO_MORE_ITEMS (clearHit s))
                  else (let called = (case probe of None \<Rightarrow> False
                              | Some p \<Rightarrow> probe_returnAddress p \<noteq> 0 \<and> \<not> wh_pending (gTtdWatchHit s));
                            (ok, s) = (if called then continueToReturn os (the probe) stepCallback s else (True, s))
                        in if \<not> ok then (False, s)
                           else (let hit = gTtdWatchHit s;
                                     s = refreshTtdTimeline os (clearHit s)
                                 in if called then (True, s)
                                    else (let (breakpointHit, s) = queueTtdWatchpointHit os hit s
                                          in (True, if stepCallback \<noteq> 0 \<and> \<not> breakpointHit
                                                    then queueCallback (ReplayStepWork stepCallback) s else s))))))"

definition ReplayStepBack :: "'w os \<Rightarrow> ('w titan \<Rightarrow> 'w titan) \<Rightarrow> callback \<Rightarrow> 'w titan \<Rightarrow> bool \<times> 'w titan" where
  "ReplayStepBack os peers stepCallback s = replayStep os peers True False stepCallback s"

text \<open>A step that cannot be taken is still reported to its callback.\<close>

definition stepOrReport ::
  "'w os \<Rightarrow> ('w titan \<Rightarrow> 'w titan) \<Rightarrow> bool \<Rightarrow> callback \<Rightarrow> 'w titan \<Rightarrow> 'w titan" where
  "stepOrReport os peers stepOver traceCallback s =
     (let (ok, s) = replayStep os peers False stepOver traceCallback s
      in if ok then s
         else if traceCallback \<noteq> 0 then SetLastError (lastError s) (queueCallback (ReplayStepWork traceCallback) s)
         else SetLastError (lastError s) s)"

definition StepInto :: "'w os \<Rightarrow> ('w titan \<Rightarrow> 'w titan) \<Rightarrow> callback \<Rightarrow> 'w titan \<Rightarrow> 'w titan" where
  "StepInto os peers traceCallback s =
     (if gSessionKind s = UE_SESSION_TTD then stepOrReport os peers False traceCallback s
      else (let (scheduled, s) = scheduleWow64TransitionStep traceCallback s
            in if scheduled then s else debugStep os DEBUG_STATUS_STEP_INTO traceCallback s))"

definition StepOver :: "'w os \<Rightarrow> ('w titan \<Rightarrow> 'w titan) \<Rightarrow> callback \<Rightarrow> 'w titan \<Rightarrow> 'w titan" where
  "StepOver os peers traceCallback s =
     (if gSessionKind s = UE_SESSION_TTD then stepOrReport os peers True traceCallback s
      else debugStep os DEBUG_STATUS_STEP_OVER traceCallback s)"

section \<open>Running\<close>

text \<open>
  The nearest recorded exception in the direction of the run limits it. The body of the loop over the
  exception events.
\<close>

definition nearerException ::
  "bool \<Rightarrow> ttd_position \<Rightarrow> ttd_exception \<Rightarrow> ttd_position \<times> ttd_exception option \<Rightarrow> ttd_position \<times> ttd_exception option" where
  "nearerException reverse before event acc = (case acc of (movementLimit, found) \<Rightarrow>
     if (\<not> reverse \<and> before < te_position event \<and> te_position event < movementLimit) \<or>
        (reverse \<and> te_position event < before \<and> movementLimit < te_position event)
     then (te_position event, Some event) else acc)"

definition movementTarget ::
  "'w os \<Rightarrow> bool \<Rightarrow> ttd_position \<Rightarrow> 'w titan \<Rightarrow> ttd_position \<times> ttd_exception option" where
  "movementTarget os reverse before s =
     fold (nearerException reverse before) (tExceptionEvents (ttd os) (world s))
       (if reverse then gTtdFirstPosition s else gTtdLastPosition s, None)"

text \<open>
  The fallback of a reverse run that has not moved: single steps, at most a million, until a watchpoint, the
  limit, or a request to stop.
\<close>

fun singleSteps ::
  "'w os \<Rightarrow> ('w titan \<Rightarrow> 'w titan) \<Rightarrow> ttd_position \<Rightarrow> nat \<Rightarrow> u64 \<Rightarrow> 'w titan \<Rightarrow> u64 \<times> 'w titan" where
  "singleSteps os peers movementLimit 0 totalSteps s = (totalSteps, s)"
| "singleSteps os peers movementLimit (Suc n) totalSteps s =
     (if gTtdStopRequested s \<or> gTtdInterruptRequested s then (totalSteps, s)
      else (let ((stepCount, stopReason), s) = ttdReplay os peers True movementLimit 1 (clearHit s)
            in if stepCount = 0 \<and> \<not> wh_pending (gTtdWatchHit s) then (totalSteps, s)
               else if wh_pending (gTtdWatchHit s) \<or> tPosition (ttd os) (world s) \<le> movementLimit
               then (totalSteps + stepCount, s)
               else singleSteps os peers movementLimit n (totalSteps + stepCount) s))"

text \<open>A pending hit that is not where the cursor stopped moves the cursor there.\<close>

definition settleOnHit :: "'w os \<Rightarrow> u64 \<Rightarrow> 'w titan \<Rightarrow> u64 \<times> 'w titan" where
  "settleOnHit os stepCount s =
     (if wh_pending (gTtdWatchHit s) \<and> tPosition (ttd os) (world s) \<noteq> hitPosition (gTtdWatchHit s)
      then (if stepCount = 0 then 1 else stepCount, selectHit os s) else (stepCount, s))"

text \<open>At the end of the recording the cursor is parked one instruction before the process exit.\<close>

definition parkBeforeExit :: "'w os \<Rightarrow> ('w titan \<Rightarrow> 'w titan) \<Rightarrow> 'w titan \<Rightarrow> 'w titan" where
  "parkBeforeExit os peers s =
     (let ((stepCount, stopReason), s) = ttdReplay os peers True (gTtdFirstPosition s) 1 (clearHit s);
          s = (if stepCount \<noteq> 0
               then s\<lparr>gTtdProcessExitBoundary := tPosition (ttd os) (world s), gTtdHasProcessExitBoundary := True\<rparr> else s)
      in clearHit s)"

text \<open>The part of \<open>runTtd\<close> under the pause lock that moves the cursor: the steps taken and the exception reached.\<close>

definition moveCursor ::
  "'w os \<Rightarrow> ('w titan \<Rightarrow> 'w titan) \<Rightarrow> bool \<Rightarrow> 'w titan \<Rightarrow> (u64 \<times> ttd_exception option) \<times> 'w titan" where
  "moveCursor os peers reverse s =
     (let s = clearHit s;
          before = tPosition (ttd os) (world s);
          (movementLimit, exceptionEvent) = movementTarget os reverse before s;
          s = s\<lparr>gPaused := False\<rparr>;
          (stepCount, s) = replayAttempts os peers reverse movementLimit (if reverse then 0x10000000 else - 1) before 2 s;
          (stepCount, s) = (if reverse \<and> stepCount = 0 \<and> \<not> wh_pending (gTtdWatchHit s)
                            then singleSteps os peers movementLimit 1000000 0 s else (stepCount, s));
          (stepCount, s) = settleOnHit os stepCount s;
          reached = (case exceptionEvent of None \<Rightarrow> None
            | Some event \<Rightarrow> if tPosition (ttd os) (world s) = te_position event then Some event else None);
          s = (if \<not> reverse \<and> stepCount \<noteq> 0 \<and> \<not> wh_pending (gTtdWatchHit s) \<and> reached = None \<and>
                  \<not> gTtdStopRequested s \<and> \<not> gTtdInterruptRequested s
               then parkBeforeExit os peers s else s)
      in ((stepCount, reached), s\<lparr>gPaused := True\<rparr>))"

definition exceptionOf :: "ttd_exception \<Rightarrow> exception_info" where
  "exceptionOf event =
     (let number = min (unat (te_parameterCount event)) EXCEPTION_MAXIMUM_PARAMETERS
      in exception_zero\<lparr>ei_code := te_code event, ei_flags := te_flags event, ei_address := te_programCounter event,
           ei_numberParameters := of_nat number, ei_firstChance := 1,
           ei_information := take number (te_parameters event) @ replicate (EXCEPTION_MAXIMUM_PARAMETERS - number) 0\<rparr>)"

text \<open>
  What a run that has ended reports, in the order of the code: a stop request wins, then a pause request, then the
  watchpoint, then the exception, then the end of the recording in that direction.
\<close>

definition reportMovement ::
  "'w os \<Rightarrow> bool \<Rightarrow> u64 \<Rightarrow> ttd_exception option \<Rightarrow> ttd_watch_hit \<Rightarrow> 'w titan \<Rightarrow> bool \<times> 'w titan" where
  "reportMovement os reverse stepCount reached hit s =
     (if gTtdStopRequested s then (True, s)
      else if gTtdInterruptRequested s
      then (True, queueCallback (TtdPauseWork (gPauseCallback s)) (s\<lparr>gTtdInterruptRequested := False, gPauseCallback := 0\<rparr>))
      else (let (queued, s) = queueTtdWatchpointHit os hit s
            in if queued then (True, s)
               else (case reached of
                   Some event \<Rightarrow> (True, onException os (exceptionOf event) s)
                 | None \<Rightarrow> (stepCount \<noteq> 0, queueCallback (if reverse then TtdBoundaryWork else TtdExitProcessWork) s))))"

definition runTtd :: "'w os \<Rightarrow> ('w titan \<Rightarrow> 'w titan) \<Rightarrow> bool \<Rightarrow> 'w titan \<Rightarrow> bool \<times> 'w titan" where
  "runTtd os peers reverse s =
     (let ((stepCount, reached), s) = moveCursor os peers reverse s;
          (updated, s) = updateTtdCursorIdentity os s
      in if \<not> updated then (False, s)
         else reportMovement os reverse stepCount reached (gTtdWatchHit s) (refreshTtdTimeline os (clearHit s)))"

end
