(* ===== verification/Sessions.thy ===== *)
theory Sessions
  imports Ttd_Replay
begin

text \<open>
  The life of a session (\<open>TitanEngine.cpp\<close>, lines 2858 to 2935, 3045 to 3483, 4045 to 4089, 5713 to 5731, 5832 to 5908, 5953 to
  5991 and 6021 to 6096; \<open>FileMap.h\<close>): creating a process, opening a dump or a recording, stopping and detaching, pause requests, the
  queries about the session, the engine variables and the mapped files of the static unpacker.
\<close>

section \<open>Creating a process\<close>

text \<open>Wide strings are lists of code units; a null pointer is None.\<close>

abbreviation UE_ENGINE_NO_CONSOLE_WINDOW :: u32 where "UE_ENGINE_NO_CONSOLE_WINDOW \<equiv> 4"
abbreviation UE_ENGINE_SET_DEBUG_PRIVILEGE :: u32 where "UE_ENGINE_SET_DEBUG_PRIVILEGE \<equiv> 9"

definition commandLineOf :: "u16 list \<Rightarrow> u16 list option \<Rightarrow> u16 list" where
  "commandLineOf fileName arguments = [0x22] @ fileName @ [0x22] @
     (case arguments of None \<Rightarrow> [] | Some args \<Rightarrow> if args = [] then [] else [0x20] @ args)"

text \<open>\<open>gEngineVariables[id]\<close>: a missing variable is inserted as false.\<close>

definition engineVariable :: "u32 \<Rightarrow> 'w titan \<Rightarrow> bool \<times> 'w titan" where
  "engineVariable ident s =
     (let s = s\<lparr>gEngineVariables := omap_emplace ident False (gEngineVariables s)\<rparr>
      in (map_of (gEngineVariables s) ident = Some True, s))"

definition waitForEvent :: "'w os \<Rightarrow> 'w client \<Rightarrow> 'w titan \<Rightarrow> u32 \<times> 'w titan" where
  "waitForEvent os cl s =
     (let ((hr, events), s) = oscall (dWaitForEvent (dbg os)) s in (hr, deliverEvents os cl events s))"

definition duplicateHandle :: "'w os \<Rightarrow> HANDLE \<Rightarrow> 'w titan \<Rightarrow> HANDLE option \<times> 'w titan" where
  "duplicateHandle os source s = (if source = 0 then (None, s) else oscall (wDuplicateHandle (win os) source) s)"

definition closeDuplicate :: "'w os \<Rightarrow> HANDLE option \<Rightarrow> 'w titan \<Rightarrow> 'w titan" where
  "closeDuplicate os duplicate s = (case duplicate of
     None \<Rightarrow> s | Some handle \<Rightarrow> if handle = 0 then s else snd (oscall (wCloseHandle (win os) handle) s))"

text \<open>The handles InitDebugW returns: duplicates of those of the create-process event, owned by the caller.\<close>

definition adoptProcess :: "'w os \<Rightarrow> 'w titan \<Rightarrow> bool \<times> 'w titan" where
  "adoptProcess os s =
     (let (initProcess, s) = duplicateHandle os (hProcess (gProcessInfo s)) s;
          (initThread, s) = (if initProcess = None then (None, s) else duplicateHandle os (hThread (gProcessInfo s)) s)
      in case (initProcess, initThread) of
           (Some process, Some thread) \<Rightarrow>
             (let s = registerTitanHandle process ProcessHandle DEBUG_ANY_ID (dwProcessId (gProcessInfo s)) True process s;
                  s = registerTitanHandle thread ThreadHandle DEBUG_ANY_ID (dwThreadId (gProcessInfo s)) True thread s
              in (True, s\<lparr>gProcessInfo := (gProcessInfo s)\<lparr>hProcess := process, hThread := thread\<rparr>, gSessionKind := UE_SESSION_LIVE\<rparr>))
         | _ \<Rightarrow>
             (let error = lastError s;
                  s = closeDuplicate os initThread (closeDuplicate os initProcess s);
                  s = snd (oscall (dEndSession (dbg os) DEBUG_END_ACTIVE_TERMINATE) s)
              in (False, SetLastError error (s\<lparr>gProcessInfo := empty_process_information\<rparr>))))"

definition InitDebugW ::
  "'w os \<Rightarrow> 'w client \<Rightarrow> u16 list option \<Rightarrow> u16 list option \<Rightarrow> u16 list option \<Rightarrow> 'w titan \<Rightarrow> bool \<times> 'w titan" where
  "InitDebugW os cl fileName arguments folder s = (case fileName of
     None \<Rightarrow> (False, SetLastError ERROR_INVALID_PARAMETER s)
   | Some fileName \<Rightarrow>
       if fileName = [] then (False, SetLastError ERROR_INVALID_PARAMETER s)
       else (let s = s\<lparr>gProcessInfo := empty_process_information, gSessionGeneration := gSessionGeneration s + 1,
                    gProcessCreated := False, gDebugThreadId := wCurrentThreadId (win os) (world s),
                    gExpectSystemBreakpoint := True, gNextExecutionStatus := DEBUG_STATUS_NO_CHANGE,
                    gNextContinueStatus := DBG_CONTINUE\<rparr>;
                 (noWindow, s) = engineVariable UE_ENGINE_NO_CONSOLE_WINDOW s;
                 ((hr, events), s) = oscall (dCreateProcess (dbg os) (commandLineOf fileName arguments) noWindow folder) s;
                 s = deliverEvents os cl events s
             in if FAILED hr then (False, SetLastError (HRESULT_CODE hr) s)
                else (let (hr, s) = (if gProcessCreated s then (hr, s) else waitForEvent os cl s)
                      in if FAILED hr \<or> \<not> gProcessCreated s
                         then (let s = snd (oscall (dEndSession (dbg os) DEBUG_END_ACTIVE_TERMINATE) s)
                               in (False, SetLastError ERROR_GEN_FAILURE (s\<lparr>gProcessInfo := empty_process_information\<rparr>)))
                         else adoptProcess os s)))"

section \<open>Opening a recording or a dump\<close>

definition clearSession :: "'w os \<Rightarrow> 'w titan \<Rightarrow> 'w titan" where
  "clearSession os s = closeCallerOwnedTitanHandles os (s\<lparr>gProcessInfo := empty_process_information, gDebugIdMap := empty_id_map,
     gProcessPebCache := [], gProcessTebCache := []\<rparr>)"

text \<open>The lambda \<open>fail\<close>: everything is undone and the error is that of the HRESULT if it carries a Win32 code.\<close>

definition failReplay :: "'w os \<Rightarrow> u32 \<Rightarrow> u32 \<Rightarrow> 'w titan \<Rightarrow> bool \<times> 'w titan" where
  "failReplay os hr fallbackError s =
     (let s = (if gDebugInterfaces s then snd (oscall (dEndSession (dbg os) DEBUG_END_PASSIVE) s) else s);
          s = clearSession os (s\<lparr>gCallbackQueue := []\<rparr>);
          s = (resetTtdSession s)\<lparr>gSessionKind := UE_SESSION_NONE\<rparr>;
          error = (if FAILED hr \<and> HRESULT_FACILITY hr = FACILITY_WIN32 \<and> HRESULT_CODE hr \<noteq> 0 then HRESULT_CODE hr else fallbackError)
      in (False, SetLastError error s))"

definition fileNameOf :: "u16 list \<Rightarrow> u16 list" where
  "fileNameOf path = rev (takeWhile (\<lambda>c. c \<noteq> 0x5C \<and> c \<noteq> 0x2F) (rev path))"

definition wide_lower :: "u16 \<Rightarrow> u16" where
  "wide_lower c = (if 0x41 \<le> c \<and> c \<le> 0x5A then c + 0x20 else c)"

text \<open>A module whose file name ends in \<open>.exe\<close>, in any case.\<close>

definition isExecutable :: "ttd_module \<Rightarrow> bool" where
  "isExecutable info = (let name = fileNameOf (tm_path info)
     in 4 \<le> length name \<and> map wide_lower (drop (length name - 4) name) = [0x2E, 0x65, 0x78, 0x65])"

fun indexOf :: "('a \<Rightarrow> bool) \<Rightarrow> 'a list \<Rightarrow> nat option" where
  "indexOf P [] = None"
| "indexOf P (x # xs) = (if P x then Some 0 else map_option Suc (indexOf P xs))"

definition mainModule :: "ttd_module list \<Rightarrow> nat" where
  "mainModule modules = (case indexOf isExecutable modules of Some i \<Rightarrow> i | None \<Rightarrow> 0)"

text \<open>The architecture of the trace: that of the main image, else of the first module with a known one.\<close>

definition traceMachine :: "'w os \<Rightarrow> ttd_module list \<Rightarrow> 'w titan \<Rightarrow> u32" where
  "traceMachine os modules s =
     (let machine = ttdModuleMachineType os (tm_base (modules ! mainModule modules)) s
      in if machine \<noteq> IMAGE_FILE_MACHINE_UNKNOWN then machine
         else (case find (\<lambda>m. m = IMAGE_FILE_MACHINE_I386 \<or> m = IMAGE_FILE_MACHINE_AMD64)
                      (map (\<lambda>info. ttdModuleMachineType os (tm_base info) s) modules) of
                 Some m \<Rightarrow> m | None \<Rightarrow> machine))"

text \<open>The events a replay session starts with, which the engine does not deliver.\<close>

definition bootstrapProcess :: "'w os \<Rightarrow> u32 \<Rightarrow> u32 \<Rightarrow> u32 \<Rightarrow> u32 \<Rightarrow> u64 \<Rightarrow> u64 \<Rightarrow> 'w titan \<Rightarrow> (HANDLE \<times> HANDLE) \<times> 'w titan" where
  "bootstrapProcess os processIndex processSystemId threadIndex threadSystemId peb teb s =
     (let (eventProcess, s) = createSyntheticTitanHandle ProcessHandle processIndex processSystemId False s;
          (eventThread, s) = createSyntheticTitanHandle ThreadHandle threadIndex threadSystemId False s;
          s = mapThread threadIndex eventThread (mapProcess processIndex eventProcess s);
          s = cacheTeb eventThread teb (cachePeb eventProcess peb s)
      in ((eventProcess, eventThread), s))"

definition enterSession :: "session_kind \<Rightarrow> HANDLE \<Rightarrow> HANDLE \<Rightarrow> u32 \<Rightarrow> u32 \<Rightarrow> 'w titan \<Rightarrow> 'w titan" where
  "enterSession kind eventProcess eventThread processSystemId threadSystemId s =
     s\<lparr>gProcessInfo := \<lparr>hProcess = eventProcess, hThread = eventThread, dwProcessId = processSystemId, dwThreadId = threadSystemId\<rparr>,
       gSessionKind := kind\<rparr>"

definition bootstrapThread :: "u32 \<Rightarrow> u32 \<Rightarrow> u64 \<Rightarrow> 'w titan \<Rightarrow> 'w titan" where
  "bootstrapThread threadIndex systemId teb s =
     (let (token, s) = createSyntheticTitanHandle ThreadHandle threadIndex systemId False s
      in onCreateThread token teb 0 (cacheTeb token teb (mapThread threadIndex token s)))"

text \<open>The handles returned to the caller, aliases of those of the events.\<close>

definition returnHandles :: "u32 \<Rightarrow> u32 \<Rightarrow> u32 \<Rightarrow> u32 \<Rightarrow> u64 \<Rightarrow> u64 \<Rightarrow> 'w titan \<Rightarrow> bool \<times> 'w titan" where
  "returnHandles processIndex processSystemId threadIndex threadSystemId peb teb s =
     (let (initProcess, s) = createSyntheticTitanHandle ProcessHandle processIndex processSystemId True s;
          (initThread, s) = createSyntheticTitanHandle ThreadHandle threadIndex threadSystemId True s;
          s = aliasThread initThread threadIndex (aliasProcess initProcess processIndex s);
          s = cacheTeb initThread teb (cachePeb initProcess peb s)
      in (True, s\<lparr>gProcessInfo := (gProcessInfo s)\<lparr>hProcess := initProcess, hThread := initThread\<rparr>\<rparr>))"

text \<open>What is recorded about the trace: the path and the architecture of its main image and the modules mapped first.\<close>

definition describeTrace :: "'w os \<Rightarrow> ttd_module list \<Rightarrow> 'w titan \<Rightarrow> 'w titan" where
  "describeTrace os modules s =
     (let image = (case indexOf isExecutable modules of Some i \<Rightarrow> tm_path (modules ! i) | None \<Rightarrow> gTtdImagePath s)
      in s\<lparr>gTtdImagePath := (if image = [] then tm_path (modules ! mainModule modules) else image),
           gTtdActiveModules := fold (\<lambda>info. omap_insert (tm_base info) (tm_path info)) modules (gTtdActiveModules s),
           gTtdMachineType := traceMachine os modules s\<rparr>)"

text \<open>The threads other than the current one, and the modules other than the main one.\<close>

definition otherThreads :: "'w os \<Rightarrow> u32 \<Rightarrow> 'w titan \<Rightarrow> (u32 \<times> u32) list" where
  "otherThreads os threadSystemId s = filter (\<lambda>t. snd t \<noteq> threadSystemId) (activeThreads os s)"

definition otherModules :: "ttd_module list \<Rightarrow> ttd_module list" where
  "otherModules modules = take (mainModule modules) modules @ drop (Suc (mainModule modules)) modules"

definition bootstrapRecording :: "'w os \<Rightarrow> ttd_module list \<Rightarrow> u32 \<Rightarrow> u32 \<Rightarrow> u64 \<Rightarrow> 'w titan \<Rightarrow> bool \<times> 'w titan" where
  "bootstrapRecording os modules threadIndex threadSystemId peb s =
     (let processSystemId = gTtdProcessId s;
          teb = ttdTebAddress os threadSystemId s;
          instruction = tProgramCounter (ttd os) (world s);
          ((eventProcess, eventThread), s) = bootstrapProcess os 0 processSystemId threadIndex threadSystemId peb teb s;
          s = enterSession UE_SESSION_TTD eventProcess eventThread processSystemId threadSystemId s;
          s = onCreateProcess os 0 eventProcess (tm_base (modules ! mainModule modules)) eventThread teb instruction s;
          s = fold (\<lambda>(uniqueId, systemId) s. bootstrapThread uniqueId systemId (ttdTebAddress os systemId s) s)
                (otherThreads os threadSystemId s) s;
          s = fold (\<lambda>info. onLoadModule 0 (tm_base info)) (otherModules modules) s;
          s = queueCallback (InitialExceptionWork (exceptionAt EXCEPTION_BREAKPOINT instruction)) s
      in returnHandles 0 processSystemId threadIndex threadSystemId peb teb s)"

definition openRecording :: "'w os \<Rightarrow> u16 list \<Rightarrow> 'w titan \<Rightarrow> bool \<times> 'w titan" where
  "openRecording os path s =
     (let (created, s) = oscall (tCreateEngine (ttd os)) s;
          s = s\<lparr>gTtdEngine := created\<rparr>
      in if \<not> created then failReplay os (HRESULT_FROM_WIN32 (lastError s)) ERROR_NOT_SUPPORTED s
         else (let (initialized, s) = oscall (tInitialize (ttd os) path) s
           in if \<not> initialized then failReplay os E_FAIL ERROR_BAD_FORMAT s
              else (let s = s\<lparr>gTtdFirstPosition := tFirstPosition (ttd os) (world s), gTtdLastPosition := tLastPosition (ttd os) (world s)\<rparr>;
                        (cursor, s) = oscall (tNewCursor (ttd os)) s;
                        s = s\<lparr>gTtdCursor := cursor\<rparr>
                in if \<not> cursor then failReplay os E_FAIL ERROR_NOT_SUPPORTED s
                   else (let s = s\<lparr>world := tSetPosition (ttd os) (gTtdFirstPosition s) (world s)\<rparr>;
                             peb = tPebAddress (ttd os) (world s)
                     in if tActiveThreads (ttd os) (world s) = [] then failReplay os E_FAIL ERROR_BAD_FORMAT s
                        else (let (threadIndex, threadSystemId) = tThreadInfo (ttd os) (world s);
                                  s = s\<lparr>gTtdCurrentThreadId := threadSystemId\<rparr>;
                                  modules = ttdCurrentModules os s
                          in if modules = [] then failReplay os E_FAIL ERROR_BAD_FORMAT s
                             else (let s = describeTrace os modules s
                               in if gTtdMachineType s \<noteq> IMAGE_FILE_MACHINE_I386 \<and> gTtdMachineType s \<noteq> IMAGE_FILE_MACHINE_AMD64
                                  then failReplay os E_FAIL ERROR_BAD_FORMAT s
                                  else if gTtdMachineType s \<noteq> IMAGE_FILE_MACHINE_AMD64
                                  then failReplay os (HRESULT_FROM_WIN32 ERROR_EXE_MACHINE_TYPE_MISMATCH) ERROR_EXE_MACHINE_TYPE_MISMATCH s
                                  else bootstrapRecording os modules threadIndex threadSystemId peb s))))))"

text \<open>
  A dump. A getter that fails hands its HRESULT to \<open>failReplay\<close>; one that answers something unusable hands S_OK, which selects the
  fallback error.
\<close>

definition hrOf :: "'w os \<Rightarrow> string \<Rightarrow> 'a option \<Rightarrow> 'w titan \<Rightarrow> u32" where
  "hrOf os getter answer s = (case answer of None \<Rightarrow> dFailure (dbg os) getter (world s) | Some a \<Rightarrow> S_OK)"

definition initialExceptionOf :: "'w os \<Rightarrow> u64 \<Rightarrow> 'w titan \<Rightarrow> exception_info" where
  "initialExceptionOf os instruction s = (case dLastException (dbg os) (world s) of
     None \<Rightarrow> exceptionAt EXCEPTION_BREAKPOINT instruction
   | Some e \<Rightarrow>
       (let number = min (unat (ei_numberParameters e)) EXCEPTION_MAXIMUM_PARAMETERS
        in exception_zero\<lparr>ei_code := ei_code e, ei_flags := ei_flags e, ei_record := ei_record e, ei_address := ei_address e,
             ei_numberParameters := of_nat number,
             ei_information := take number (ei_information e) @ replicate (EXCEPTION_MAXIMUM_PARAMETERS - number) 0\<rparr>))"

definition bootstrapDumpThread :: "'w os \<Rightarrow> u32 \<times> u32 \<Rightarrow> 'w titan \<Rightarrow> 'w titan" where
  "bootstrapDumpThread os ids s = (case ids of (engineId, systemId) \<Rightarrow>
     (let (token, s) = createSyntheticTitanHandle ThreadHandle engineId systemId False s;
          s = mapThread engineId token s;
          (selected, s) = oscall (dSetCurrentThread (dbg os) engineId) s;
          threadTeb = (if selected then (case dThreadTeb (dbg os) (world s) of Some teb \<Rightarrow> teb | None \<Rightarrow> 0) else 0)
      in onCreateThread token threadTeb 0 (cacheTeb token threadTeb s)))"

definition bootstrapDumpModule :: "'w os \<Rightarrow> nat \<Rightarrow> 'w titan \<Rightarrow> 'w titan" where
  "bootstrapDumpModule os i s = (case dModuleByIndex (dbg os) i (world s) of
     Some base \<Rightarrow> onLoadModule 0 base s | None \<Rightarrow> s)"

definition bootstrapDump :: "'w os \<Rightarrow> u32 \<Rightarrow> u32 \<Rightarrow> u32 \<Rightarrow> u32 \<Rightarrow> (u32 \<times> u32) list \<Rightarrow> 'w titan \<Rightarrow> bool \<times> 'w titan" where
  "bootstrapDump os processIndex processSystemId threadIndex threadSystemId threads s =
     (let peb = (case dProcessPeb (dbg os) (world s) of Some a \<Rightarrow> a | None \<Rightarrow> 0);
          teb = (case dThreadTeb (dbg os) (world s) of Some a \<Rightarrow> a | None \<Rightarrow> 0);
          ((eventProcess, eventThread), s) = bootstrapProcess os processIndex processSystemId threadIndex threadSystemId peb teb s;
          imageBase = (case dModuleByIndex (dbg os) 0 (world s) of Some base \<Rightarrow> base | None \<Rightarrow> 0);
          instruction = dInstructionOffset (dbg os) (world s);
          initialException = initialExceptionOf os instruction s;
          s = (enterSession UE_SESSION_MINIDUMP eventProcess eventThread processSystemId threadSystemId s)\<lparr>gCallbackQueue := []\<rparr>;
          s = onCreateProcess os 0 eventProcess imageBase eventThread teb instruction s;
          s = fold (bootstrapDumpThread os) (filter (\<lambda>t. fst t \<noteq> threadIndex) threads) s;
          s = snd (oscall (dSetCurrentThread (dbg os) threadIndex) s);
          s = (case dNumberModules (dbg os) (world s) of
                 None \<Rightarrow> s | Some loadedModules \<Rightarrow> fold (bootstrapDumpModule os) [1..<loadedModules] s);
          s = queueCallback (InitialExceptionWork initialException) s
      in returnHandles processIndex processSystemId threadIndex threadSystemId peb teb s)"

text \<open>The first of the four identity getters that fails.\<close>

definition identityFailure :: "'w os \<Rightarrow> 'w titan \<Rightarrow> u32 option" where
  "identityFailure os s =
     (let hr = (\<lambda>getter. Some (dFailure (dbg os) getter (world s)))
      in if dProcessIndex (dbg os) (world s) = None then hr ''GetCurrentProcessId''
         else if dThreadIndex (dbg os) (world s) = None then hr ''GetCurrentThreadId''
         else if dProcessSystemId (dbg os) (world s) = None then hr ''GetCurrentProcessSystemId''
         else if dThreadSystemId (dbg os) (world s) = None then hr ''GetCurrentThreadSystemId''
         else None)"

definition describeDump :: "'w os \<Rightarrow> 'w titan \<Rightarrow> bool \<times> 'w titan" where
  "describeDump os s =
     (let processes = dNumberProcesses (dbg os) (world s); threads = dNumberThreads (dbg os) (world s);
          ids = dThreadIdsByIndex (dbg os) (world s)
      in if processes \<noteq> Some 1 then failReplay os (hrOf os ''GetNumberProcesses'' processes s) ERROR_NOT_SUPPORTED s
         else (case identityFailure os s of
             Some hr \<Rightarrow> failReplay os hr ERROR_BAD_FORMAT s
           | None \<Rightarrow>
               if threads = None \<or> threads = Some 0 then failReplay os (hrOf os ''GetNumberThreads'' threads s) ERROR_BAD_FORMAT s
               else if ids = None then failReplay os (hrOf os ''GetThreadIdsByIndex'' ids s) ERROR_BAD_FORMAT s
               else bootstrapDump os (the (dProcessIndex (dbg os) (world s))) (the (dProcessSystemId (dbg os) (world s)))
                      (the (dThreadIndex (dbg os) (world s))) (the (dThreadSystemId (dbg os) (world s))) (the ids) s))"

definition openDump :: "'w os \<Rightarrow> 'w client \<Rightarrow> u16 list \<Rightarrow> session_kind \<Rightarrow> 'w titan \<Rightarrow> bool \<times> 'w titan" where
  "openDump os cl path expectedKind s =
     (let (hr, s) = oscall (dOpenDumpFile (dbg os) path) s
      in if FAILED hr then failReplay os hr ERROR_BAD_FORMAT s
         else (let (hr, s) = waitForEvent os cl s
           in if FAILED hr then failReplay os hr ERROR_BAD_FORMAT s
              else (let (hr, debugClass, qualifier) = dDebuggeeType (dbg os) (world s);
                        detectedKind = (if qualifier = DEBUG_DUMP_TRACE_LOG then UE_SESSION_TTD else UE_SESSION_MINIDUMP)
                in if FAILED hr \<or> debugClass \<noteq> DEBUG_CLASS_USER_WINDOWS then failReplay os hr ERROR_NOT_SUPPORTED s
                   else if detectedKind \<noteq> expectedKind then failReplay os E_INVALIDARG ERROR_BAD_FORMAT s
                   else if detectedKind = UE_SESSION_TTD then failReplay os E_NOTIMPL ERROR_NOT_SUPPORTED s
                   else describeDump os s)))"

definition InitReplayW :: "'w os \<Rightarrow> 'w client \<Rightarrow> u16 list option \<Rightarrow> session_kind \<Rightarrow> 'w titan \<Rightarrow> bool \<times> 'w titan" where
  "InitReplayW os cl artifactPath expectedKind s =
     (if artifactPath = None \<or> artifactPath = Some [] \<or> (expectedKind \<noteq> UE_SESSION_MINIDUMP \<and> expectedKind \<noteq> UE_SESSION_TTD)
      then (False, SetLastError ERROR_INVALID_PARAMETER s)
      else if gSessionKind s \<noteq> UE_SESSION_NONE \<or> gIsDebugging s then (False, SetLastError ERROR_BUSY s)
      else (let s = (clearSession os s)\<lparr>gSessionGeneration := gSessionGeneration s + 1\<rparr>;
                s = s\<lparr>gDebugThreadId := wCurrentThreadId (win os) (world s), gExpectSystemBreakpoint := False,
                      gNextExecutionStatus := DEBUG_STATUS_NO_CHANGE, gNextContinueStatus := DBG_CONTINUE, gCallbackQueue := []\<rparr>
            in if expectedKind = UE_SESSION_TTD then openRecording os (the artifactPath) s
               else openDump os cl (the artifactPath) expectedKind s))"

section \<open>Stopping, detaching, pausing\<close>

text \<open>The tables of a session that is not being debugged are emptied by \<open>StopDebug\<close> itself.\<close>

definition dropSession :: "'w os \<Rightarrow> 'w titan \<Rightarrow> 'w titan" where
  "dropSession os s = (closeCallerOwnedTitanHandles os (s\<lparr>gProcessInfo := empty_process_information,
     gProcessPebCache := [], gProcessTebCache := []\<rparr>))\<lparr>gDebugIdMap := empty_id_map, gCallbackQueue := []\<rparr>"

definition StopDebug :: "'w os \<Rightarrow> 'w titan \<Rightarrow> bool \<times> 'w titan" where
  "StopDebug os s =
     (let kind = gSessionKind s
      in if kind = UE_SESSION_TTD
         then (let s = s\<lparr>gTtdStopRequested := True\<rparr>;
                   s = (if gIsDebugging s \<and> gTtdCursor s then s\<lparr>world := tInterruptReplay (ttd os) (world s)\<rparr> else s);
                   s = (if \<not> gIsDebugging s then (resetTtdSession (dropSession os s))\<lparr>gSessionKind := UE_SESSION_NONE\<rparr> else s)
               in (True, s))
         else (let (hr, s) = oscall (dEndSession (dbg os) (if kind = UE_SESSION_LIVE then DEBUG_END_ACTIVE_TERMINATE else DEBUG_END_PASSIVE)) s;
                   s = (if \<not> FAILED hr \<and> \<not> gIsDebugging s \<and> kind \<noteq> UE_SESSION_LIVE
                        then (dropSession os s)\<lparr>gSessionKind := UE_SESSION_NONE\<rparr> else s)
               in (\<not> FAILED hr, s)))"

text \<open>The loop over the memory breakpoints may not end, see \<open>removeAllMemoryBreakpoints\<close>.\<close>

definition DetachDebuggerEx :: "'w os \<Rightarrow> 'w titan \<Rightarrow> (bool \<times> 'w titan) option" where
  "DetachDebuggerEx os s = (case (if PauseLock s then removeAllMemoryBreakpoints os True s else Some (True, s)) of
     None \<Rightarrow> None
   | Some (removed, s) \<Rightarrow> Some
       (if \<not> removed then (False, s)
        else (let (hr, s) = oscall (dDetachProcesses (dbg os)) s
              in if FAILED hr then (False, SetLastError (HRESULT_CODE hr) s) else (True, s))))"

definition IsFileBeingDebugged :: "'w titan \<Rightarrow> bool" where
  "IsFileBeingDebugged s = gIsDebugging s"

abbreviation UE_PAUSE_POLICY_NONINVASIVE :: u32 where "UE_PAUSE_POLICY_NONINVASIVE \<equiv> 0"
abbreviation UE_PAUSE_POLICY_AGGRESSIVE :: u32 where "UE_PAUSE_POLICY_AGGRESSIVE \<equiv> 2"

definition RequestPause :: "'w os \<Rightarrow> u32 \<Rightarrow> callback \<Rightarrow> 'w titan \<Rightarrow> bool \<times> 'w titan" where
  "RequestPause os maximumPolicy pauseCallback s =
     (if maximumPolicy < UE_PAUSE_POLICY_NONINVASIVE \<or> UE_PAUSE_POLICY_AGGRESSIVE < maximumPolicy \<or> pauseCallback = 0 \<or> \<not> gIsDebugging s
      then (False, SetLastError ERROR_INVALID_PARAMETER s)
      else if gSessionKind s \<noteq> UE_SESSION_LIVE \<and> gSessionKind s \<noteq> UE_SESSION_TTD
      then (False, SetLastError ERROR_NOT_SUPPORTED s)
      else if gPauseCallback s \<noteq> 0 then (True, s)
      else (let s = s\<lparr>gPauseCallback := pauseCallback\<rparr>
        in if gSessionKind s = UE_SESSION_TTD
           then (if \<not> gTtdCursor s then (False, SetLastError ERROR_INVALID_HANDLE (s\<lparr>gPauseCallback := 0\<rparr>))
                 else (True, s\<lparr>gTtdInterruptRequested := True, world := tInterruptReplay (ttd os) (world s)\<rparr>))
           else (let (hr, s) = (if gDebugInterfaces s then oscall (dSetInterrupt (dbg os)) s else (E_NOINTERFACE, s))
                 in if FAILED hr then (False, SetLastError (HRESULT_CODE hr) (s\<lparr>gPauseCallback := 0\<rparr>)) else (True, s))))"

section \<open>Queries\<close>

definition capability :: "nat list \<Rightarrow> u64" where
  "capability bits = fold (\<lambda>n caps. caps OR push_bit n 1) bits 0"

definition capabilitiesOf :: "session_kind \<Rightarrow> u64" where
  "capabilitiesOf kind = (case kind of
     UE_SESSION_LIVE \<Rightarrow> capability [0, 1, 2, 3, 8, 9, 10, 11, 12, 13, 16]
   | UE_SESSION_MINIDUMP \<Rightarrow> capability [0, 1, 2]
   | UE_SESSION_TTD \<Rightarrow> capability [0, 1, 2, 3, 4, 5, 6, 7, 14, 16, 17]
   | _ \<Rightarrow> 0)"

record session_info =
  si_structSize :: u32
  si_kind :: session_kind
  si_capabilities :: u64
  si_machineType :: u32
  si_processId :: u32
  si_threadId :: u32

definition GetSessionInfo :: "'w os \<Rightarrow> bool \<Rightarrow> 'w titan \<Rightarrow> (bool \<times> session_info option) \<times> 'w titan" where
  "GetSessionInfo os wanted s =
     (if \<not> wanted then ((False, None), SetLastError ERROR_INVALID_PARAMETER s)
      else (let info = \<lparr>si_structSize = 32, si_kind = gSessionKind s, si_capabilities = 0, si_machineType = 0,
                  si_processId = 0, si_threadId = 0\<rparr>
        in ((True, Some (if gSessionKind s = UE_SESSION_NONE then info
             else info\<lparr>si_capabilities := capabilitiesOf (gSessionKind s),
                    si_machineType := (if gSessionKind s = UE_SESSION_TTD then gTtdMachineType s
                       else if gDebugInterfaces s
                       then (case dEffectiveProcessorType (dbg os) (world s) of Some m \<Rightarrow> m | None \<Rightarrow> IMAGE_FILE_MACHINE_AMD64)
                       else IMAGE_FILE_MACHINE_AMD64),
                    si_processId := debugProcessId os s, si_threadId := debugThreadId os s\<rparr>)), s)))"

text \<open>
  The path queries: what is written to the buffer of \<open>cchPath\<close> code units, None for nothing. A path is written with
  its terminator.
\<close>

definition pathRequest_ok :: "HANDLE \<Rightarrow> bool \<Rightarrow> u64 \<Rightarrow> 'w titan \<Rightarrow> bool" where
  "pathRequest_ok process buffer cchPath s =
     (process \<noteq> 0 \<and> buffer \<and> cchPath \<noteq> 0 \<and> cchPath \<le> 0xFFFFFFFF \<and> omap_contains (processHandleToIndex (gDebugIdMap s)) process)"

definition writePath :: "u16 list \<Rightarrow> u64 \<Rightarrow> 'w titan \<Rightarrow> (bool \<times> u16 list option) \<times> 'w titan" where
  "writePath path cchPath s =
     (if unat cchPath < length path + 1 then ((False, Some [0]), SetLastError ERROR_INSUFFICIENT_BUFFER s)
      else ((True, Some (path @ [0])), s))"

definition engineImageName :: "'w os \<Rightarrow> (u32 \<times> u64) option \<Rightarrow> u64 \<Rightarrow> 'w titan \<Rightarrow> (bool \<times> u16 list option) \<times> 'w titan" where
  "engineImageName os module cchPath s =
     (case (case module of None \<Rightarrow> None | Some (index, base) \<Rightarrow> dModuleImageName (dbg os) index base (ucast cchPath) (world s)) of
        None \<Rightarrow> ((False, Some [0]), SetLastError ERROR_NOT_FOUND s)
      | Some path \<Rightarrow> ((True, Some path), s))"

definition TitanGetProcessImagePathW :: "'w os \<Rightarrow> HANDLE \<Rightarrow> bool \<Rightarrow> u64 \<Rightarrow> 'w titan \<Rightarrow> (bool \<times> u16 list option) \<times> 'w titan" where
  "TitanGetProcessImagePathW os process buffer cchPath s =
     (if \<not> pathRequest_ok process buffer cchPath s then ((False, None), SetLastError ERROR_INVALID_PARAMETER s)
      else if gSessionKind s = UE_SESSION_TTD
      then (if gTtdImagePath s = [] then ((False, Some [0]), SetLastError ERROR_NOT_FOUND s)
            else writePath (gTtdImagePath s) cchPath s)
      else engineImageName os (map_option (Pair 0) (dModuleByIndex (dbg os) 0 (world s))) cchPath s)"

definition TitanGetModulePathW :: "'w os \<Rightarrow> HANDLE \<Rightarrow> u64 \<Rightarrow> bool \<Rightarrow> u64 \<Rightarrow> 'w titan \<Rightarrow> (bool \<times> u16 list option) \<times> 'w titan" where
  "TitanGetModulePathW os process moduleBase buffer cchPath s =
     (if moduleBase = 0 \<or> \<not> pathRequest_ok process buffer cchPath s then ((False, None), SetLastError ERROR_INVALID_PARAMETER s)
      else if gSessionKind s = UE_SESSION_TTD
      then (case find (\<lambda>m. tm_base m = moduleBase) (ttdCurrentModules os s) of
              None \<Rightarrow> ((False, Some [0]), SetLastError ERROR_NOT_FOUND s)
            | Some m \<Rightarrow> writePath (tm_path m) cchPath s)
      else engineImageName os (case dModuleByOffset (dbg os) moduleBase (world s) of
             Some (index, base) \<Rightarrow> if base = moduleBase then Some (index, base) else None
           | None \<Rightarrow> None) cchPath s)"

section \<open>Engine variables\<close>

definition setDebugPrivilege :: "'w os \<Rightarrow> bool \<Rightarrow> 'w titan \<Rightarrow> bool \<times> 'w titan" where
  "setDebugPrivilege os enabled s =
     (let (token, s) = oscall (wOpenProcessToken (win os)) s
      in case token of
           None \<Rightarrow> (False, s)
         | Some token \<Rightarrow>
             (let (luid, s) = oscall (wLookupDebugPrivilege (win os)) s
              in case luid of
                   None \<Rightarrow> (False, snd (oscall (wCloseHandle (win os) token) s))
                 | Some luid \<Rightarrow>
                     (let (result, s) = oscall (wAdjustTokenPrivileges (win os) token luid enabled) (SetLastError ERROR_SUCCESS s);
                          error = lastError s;
                          s = snd (oscall (wCloseHandle (win os) token) s)
                      in (result \<and> error = ERROR_SUCCESS, SetLastError error s))))"

definition SetEngineVariable :: "'w os \<Rightarrow> u32 \<Rightarrow> bool \<Rightarrow> 'w titan \<Rightarrow> 'w titan" where
  "SetEngineVariable os variableId variableSet s =
     (let s = s\<lparr>gEngineVariables := omap_insert variableId variableSet (gEngineVariables s)\<rparr>
      in if variableId = UE_ENGINE_SET_DEBUG_PRIVILEGE then snd (setDebugPrivilege os variableSet s) else s)"

section \<open>Mapped files\<close>

definition FileMap_Map :: "'w os \<Rightarrow> u16 list \<Rightarrow> bool \<Rightarrow> file_map \<Rightarrow> 'w titan \<Rightarrow> (bool \<times> file_map) \<times> 'w titan" where
  "FileMap_Map os fileName write m s =
     (let (hFile, s) = oscall (wCreateFile (win os) fileName write) s;
          m = m\<lparr>fm_hFile := hFile\<rparr>
      in if hFile = INVALID_HANDLE_VALUE then ((fm_data m \<noteq> 0, m), s)
         else (let (sz, s) = oscall (wGetFileSize (win os) hFile) s;
                   (hMap, s) = oscall (wCreateFileMapping (win os) hFile write) s;
                   m = m\<lparr>fm_size := sz, fm_hMap := hMap\<rparr>
               in if hMap = 0 then ((fm_data m \<noteq> 0, m), s)
                  else (let (view, s) = oscall (wMapViewOfFile (win os) hMap write) s;
                            m = m\<lparr>fm_data := view\<rparr>
                        in ((fm_data m \<noteq> 0, m), s))))"

definition FileMap_Unmap :: "'w os \<Rightarrow> file_map \<Rightarrow> 'w titan \<Rightarrow> file_map \<times> 'w titan" where
  "FileMap_Unmap os m s =
     (let s = (if fm_data m \<noteq> 0 then snd (oscall (wUnmapViewOfFile (win os) (fm_data m)) s) else s);
          s = (if fm_hMap m \<noteq> 0 then snd (oscall (wCloseHandle (win os) (fm_hMap m)) s) else s);
          s = (if fm_hFile m \<noteq> INVALID_HANDLE_VALUE then snd (oscall (wCloseHandle (win os) (fm_hFile m)) s) else s)
      in (empty_file_map, s))"

abbreviation UE_ACCESS_ALL :: u32 where "UE_ACCESS_ALL \<equiv> 2"

definition StaticFileLoadW :: "'w os \<Rightarrow> u16 list \<Rightarrow> u32 \<Rightarrow> bool \<Rightarrow> 'w titan \<Rightarrow> (bool \<times> file_map option) \<times> 'w titan" where
  "StaticFileLoadW os fileName desiredAccess simulateLoad s =
     (if simulateLoad then ((False, None), SetLastError ERROR_NOT_SUPPORTED s)
      else (let ((mapped, m), s) = FileMap_Map os fileName (desiredAccess = UE_ACCESS_ALL) empty_file_map s
        in if \<not> mapped then ((False, None), snd (FileMap_Unmap os m s))
           else ((True, Some m), s\<lparr>gMappedFiles := omap_emplace (fm_data m) m (gMappedFiles s)\<rparr>)))"

definition StaticFileUnloadW :: "'w os \<Rightarrow> HANDLE \<Rightarrow> u64 \<Rightarrow> 'w titan \<Rightarrow> bool \<times> 'w titan" where
  "StaticFileUnloadW os fileHandle fileMapVA s = (case map_of (gMappedFiles s) fileMapVA of
     None \<Rightarrow> (False, SetLastError ERROR_INVALID_HANDLE s)
   | Some m \<Rightarrow>
       (let m = (if fileHandle = 1 then m\<lparr>fm_hFile := INVALID_HANDLE_VALUE\<rparr> else m);
            s = snd (FileMap_Unmap os m s)
        in (True, s\<lparr>gMappedFiles := omap_erase fileMapVA (gMappedFiles s)\<rparr>)))"

end
