(* ===== verification/Timeline.thy ===== *)
theory Timeline
  imports Ttd_Replay Event_Properties
begin

text \<open>
  What a movement of the replay cursor reports. The tables of threads and modules follow the cursor, with one event
  for each difference; the engine stops at a watchpoint exactly when the adapter will report it; and a run
  ends in an event unless the session was told to stop.
\<close>

section \<open>Threads\<close>

abbreviation knownThreads :: "'w titan \<Rightarrow> u32 set" where
  "knownThreads s \<equiv> fst ` set (threadIndexToHandle (gDebugIdMap s))"

abbreviation knownModules :: "'w titan \<Rightarrow> u64 set" where
  "knownModules s \<equiv> fst ` set (gTtdActiveModules s)"

text \<open>What the refresh of the threads leaves alone.\<close>

definition module_view :: "'w titan \<Rightarrow> 'w \<times> bool \<times> (u64, u16 list) omap" where
  "module_view s = (world s, gTtdCursor s, gTtdActiveModules s)"

lemma module_view_iff: "module_view t = module_view s \<longleftrightarrow>
    world t = world s \<and> gTtdCursor t = gTtdCursor s \<and> gTtdActiveModules t = gTtdActiveModules s"
  by (auto simp: module_view_def)

lemma omap_contains_keys: "omap_contains m k \<longleftrightarrow> k \<in> fst ` set m"
  by (simp add: omap_contains_def map_of_eq_None_iff)

fun announces_thread :: "work \<Rightarrow> bool" where
  "announces_thread (CreateThreadWork handle dataOffset startOffset) = (startOffset = 0)"
| "announces_thread _ = False"

lemma announceThread_known: "uniqueId \<in> knownThreads s \<Longrightarrow> announceThread os (uniqueId, systemId) s = s"
  by (simp add: announceThread_def omap_contains_keys)

lemma announceThread_new:
  assumes "uniqueId \<notin> knownThreads s"
  shows "module_view (announceThread os (uniqueId, systemId) s) = module_view s"
    and "knownThreads (announceThread os (uniqueId, systemId) s) = insert uniqueId (knownThreads s)"
    and "\<exists>token teb. gCallbackQueue (announceThread os (uniqueId, systemId) s) = gCallbackQueue s @ [CreateThreadWork token teb 0] \<and>
           map_of (threadIndexToHandle (gDebugIdMap (announceThread os (uniqueId, systemId) s))) =
             (map_of (threadIndexToHandle (gDebugIdMap s)))(uniqueId \<mapsto> token)"
    and "omap_ok (threadIndexToHandle (gDebugIdMap s)) \<Longrightarrow>
           omap_ok (threadIndexToHandle (gDebugIdMap (announceThread os (uniqueId, systemId) s)))"
  using assms
  by (simp_all add: announceThread_def omap_contains_keys createSyntheticTitanHandle_def registerTitanHandle_def
      mapThread_def cacheTeb_def onCreateThread_def queueCallback_def module_view_def Let_def)

lemma announceThreads:
  "\<exists>creates. gCallbackQueue (fold (announceThread os) ts s) = gCallbackQueue s @ creates \<and>
     list_all announces_thread creates \<and> length creates = card (fst ` set ts - knownThreads s) \<and>
     knownThreads (fold (announceThread os) ts s) = knownThreads s \<union> fst ` set ts \<and>
     module_view (fold (announceThread os) ts s) = module_view s \<and>
     (omap_ok (threadIndexToHandle (gDebugIdMap s)) \<longrightarrow> omap_ok (threadIndexToHandle (gDebugIdMap (fold (announceThread os) ts s)))) \<and>
     (\<forall>i\<in>knownThreads s. map_of (threadIndexToHandle (gDebugIdMap (fold (announceThread os) ts s))) i =
        map_of (threadIndexToHandle (gDebugIdMap s)) i)"
proof (induction ts arbitrary: s)
  case Nil
  show ?case by simp
next
  case (Cons t ts)
  obtain u d where t: "t = (u, d)" by (cases t)
  show ?case
  proof (cases "u \<in> knownThreads s")
    case True
    then have same: "announceThread os t s = s" by (simp add: t announceThread_known)
    have diff: "fst ` set (t # ts) - knownThreads s = fst ` set ts - knownThreads s"
      and union: "knownThreads s \<union> fst ` set (t # ts) = knownThreads s \<union> fst ` set ts"
      using True by (auto simp: t)
    show ?thesis unfolding diff union using Cons.IH [of s] by (simp add: same)
  next
    case False
    note new = announceThread_new [OF False, of os d, folded t]
    obtain token teb where q: "gCallbackQueue (announceThread os t s) = gCallbackQueue s @ [CreateThreadWork token teb 0]"
      and m: "map_of (threadIndexToHandle (gDebugIdMap (announceThread os t s))) =
             (map_of (threadIndexToHandle (gDebugIdMap s)))(u \<mapsto> token)"
      using new(3) by blast
    obtain creates where IH: "gCallbackQueue (fold (announceThread os) ts (announceThread os t s)) =
          gCallbackQueue (announceThread os t s) @ creates"
        "list_all announces_thread creates" "length creates = card (fst ` set ts - knownThreads (announceThread os t s))"
        "knownThreads (fold (announceThread os) ts (announceThread os t s)) = knownThreads (announceThread os t s) \<union> fst ` set ts"
        "module_view (fold (announceThread os) ts (announceThread os t s)) = module_view (announceThread os t s)"
        "omap_ok (threadIndexToHandle (gDebugIdMap (announceThread os t s))) \<longrightarrow>
           omap_ok (threadIndexToHandle (gDebugIdMap (fold (announceThread os) ts (announceThread os t s))))"
        "\<forall>i\<in>knownThreads (announceThread os t s). map_of (threadIndexToHandle (gDebugIdMap (fold (announceThread os) ts (announceThread os t s)))) i =
           map_of (threadIndexToHandle (gDebugIdMap (announceThread os t s))) i"
      using Cons.IH [of "announceThread os t s"] by blast
    have "fst ` set (t # ts) - knownThreads s = insert u (fst ` set ts - insert u (knownThreads s))"
      using False by (auto simp: t)
    then have "card (fst ` set (t # ts) - knownThreads s) = Suc (length creates)"
      using IH(3) by (simp add: new(2))
    moreover have "map_of (threadIndexToHandle (gDebugIdMap (fold (announceThread os) ts (announceThread os t s)))) i =
        map_of (threadIndexToHandle (gDebugIdMap s)) i" if i: "i \<in> knownThreads s" for i
    proof -
      from i False have "i \<noteq> u" by blast
      with IH(7) [rule_format, of i] i show ?thesis by (simp add: new(2) m)
    qed
    ultimately show ?thesis
      by (intro exI [of _ "CreateThreadWork token teb 0 # creates"])
        (simp add: IH(1,2,4,5) IH(6) [rule_format] q new(1,2,4) t [symmetric] image_iff del: fst_conv, auto simp: t)
  qed
qed

lemma retireThread_fields:
  "gCallbackQueue (retireThread (i, h, d) s) = gCallbackQueue s @ [TtdExitThreadWork d]"
  "threadIndexToHandle (gDebugIdMap (retireThread (i, h, d) s)) = omap_erase i (threadIndexToHandle (gDebugIdMap s))"
  "module_view (retireThread (i, h, d) s) = module_view s"
  by (simp_all add: retireThread_def unregisterTitanHandle_def queueCallback_def module_view_def)

lemma retireThreads:
  "gCallbackQueue (fold retireThread ts s) = gCallbackQueue s @ map (\<lambda>(i, h, d). TtdExitThreadWork d) ts \<and>
   threadIndexToHandle (gDebugIdMap (fold retireThread ts s)) =
     filter (\<lambda>e. fst e \<notin> fst ` set ts) (threadIndexToHandle (gDebugIdMap s)) \<and>
   module_view (fold retireThread ts s) = module_view s"
proof (induction ts arbitrary: s)
  case Nil
  show ?case by simp
next
  case (Cons t ts)
  obtain i h d where t: "t = (i, h, d)" by (cases t)
  show ?case
    using Cons.IH [of "retireThread t s"]
    by (simp add: t retireThread_fields omap_erase_def)
qed

lemma keys_of_filter:
  assumes "map fst es = map fst (filter (\<lambda>e. fst e \<notin> A) m)"
  shows "fst ` set es = fst ` set m - A"
proof -
  have "fst ` set es = set (map fst (filter (\<lambda>e. fst e \<notin> A) m))" using assms by (metis set_map)
  also have "\<dots> = fst ` set m - A" by force
  finally show ?thesis .
qed

lemma refreshThreads_spec:
  assumes ok: "omap_ok (threadIndexToHandle (gDebugIdMap s))"
  shows "\<exists>creates exits. gCallbackQueue (refreshThreads os s) = gCallbackQueue s @ creates @ map TtdExitThreadWork exits \<and>
     list_all announces_thread creates \<and>
     length creates = card (fst ` set (activeThreads os s) - knownThreads s) \<and>
     length exits = card (knownThreads s - fst ` set (activeThreads os s)) \<and>
     knownThreads (refreshThreads os s) = fst ` set (activeThreads os s) \<and>
     (\<forall>i\<in>knownThreads s \<inter> fst ` set (activeThreads os s).
        map_of (threadIndexToHandle (gDebugIdMap (refreshThreads os s))) i = map_of (threadIndexToHandle (gDebugIdMap s)) i) \<and>
     module_view (refreshThreads os s) = module_view s"
proof -
  define active where "active = activeThreads os s"
  define t where "t = fold (announceThread os) active s"
  define gone where "gone = terminatedThreads (set (map fst active)) t"
  have refresh: "refreshThreads os s = fold retireThread gone t"
    by (simp add: refreshThreads_def active_def t_def gone_def Let_def)
  obtain creates where t: "gCallbackQueue t = gCallbackQueue s @ creates" "list_all announces_thread creates"
      "length creates = card (fst ` set active - knownThreads s)" "knownThreads t = knownThreads s \<union> fst ` set active"
      "module_view t = module_view s" "omap_ok (threadIndexToHandle (gDebugIdMap t))"
      "\<forall>i\<in>knownThreads s. map_of (threadIndexToHandle (gDebugIdMap t)) i = map_of (threadIndexToHandle (gDebugIdMap s)) i"
    using announceThreads [of os active s] ok unfolding t_def by blast
  have queue: "gCallbackQueue (refreshThreads os s) = gCallbackQueue t @ map (\<lambda>(i, h, d). TtdExitThreadWork d) gone"
    and r: "threadIndexToHandle (gDebugIdMap (refreshThreads os s)) =
        filter (\<lambda>e. fst e \<notin> fst ` set gone) (threadIndexToHandle (gDebugIdMap t))"
      "module_view (refreshThreads os s) = module_view t"
    using retireThreads [of gone t] by (simp_all add: refresh)
  have keys: "map fst gone = map fst (filter (\<lambda>e. fst e \<notin> fst ` set active) (threadIndexToHandle (gDebugIdMap t)))"
    by (simp add: gone_def terminatedThreads_def comp_def case_prod_unfold)
  then have "fst ` set gone = knownThreads t - fst ` set active"
    by (rule keys_of_filter)
  then have gone_set: "fst ` set gone = knownThreads s - fst ` set active"
    by (auto simp: t(4))
  have "distinct (map fst gone)"
    using omap_ok_distinct [OF t(6)] unfolding keys by (simp add: distinct_map_filter)
  then have number: "length gone = card (knownThreads s - fst ` set active)"
    using distinct_card [of "map fst gone"] by (simp add: gone_set)
  have exits: "map (\<lambda>(i, h, d). TtdExitThreadWork d) gone = map TtdExitThreadWork (map (snd \<circ> snd) gone)"
    by (simp add: comp_def case_prod_unfold)
  have known: "knownThreads (refreshThreads os s) = fst ` set active"
    using keys_of_filter [OF refl, of "fst ` set gone" "threadIndexToHandle (gDebugIdMap t)"]
    by (simp only: r gone_set t(4)) blast
  have lookup: "map_of (filter (\<lambda>e. fst e \<notin> fst ` set gone) m) i = map_of m i" if "i \<notin> fst ` set gone" for m :: "(u32, HANDLE) omap" and i
    using that by (induction m) auto
  have kept: "\<forall>i\<in>knownThreads s \<inter> fst ` set active.
      map_of (threadIndexToHandle (gDebugIdMap (refreshThreads os s))) i = map_of (threadIndexToHandle (gDebugIdMap s)) i"
  proof
    fix i
    assume i: "i \<in> knownThreads s \<inter> fst ` set active"
    then have "i \<notin> fst ` set gone" by (simp only: gone_set) blast
    note look = lookup [OF this]
    show "map_of (threadIndexToHandle (gDebugIdMap (refreshThreads os s))) i = map_of (threadIndexToHandle (gDebugIdMap s)) i"
      using t(7) i by (simp only: r look) blast
  qed
  show ?thesis
    by (rule exI [of _ creates], rule exI [of _ "map (snd \<circ> snd) gone"], fold active_def, intro conjI kept)
      (simp_all only: known number queue r(2) exits t length_map append_assoc)
qed

section \<open>Modules\<close>

lemma announceModules:
  "gCallbackQueue (fold announceModule ms s) = gCallbackQueue s @
     map (\<lambda>m. LoadModuleWork 0 (tm_base m)) (filter (\<lambda>m. tm_base m \<notin> knownModules s) ms) \<and>
   gTtdActiveModules (fold announceModule ms s) = gTtdActiveModules s \<and>
   gDebugIdMap (fold announceModule ms s) = gDebugIdMap s"
  by (induction ms arbitrary: s)
    (simp_all add: announceModule_def onLoadModule_def queueCallback_def omap_contains_keys)

lemma retireModules:
  "gCallbackQueue (fold (retireModule current) es s) = gCallbackQueue s @
     map (\<lambda>e. UnloadModuleWork (fst e)) (filter (\<lambda>e. fst e \<notin> fst ` set current) es) \<and>
   gDebugIdMap (fold (retireModule current) es s) = gDebugIdMap s"
  by (induction es arbitrary: s)
    (simp_all add: retireModule_def onUnloadModule_def queueCallback_def omap_contains_keys)

lemma currentModules_keys: "fst ` set (currentModules ms) = tm_base ` set ms"
proof -
  have "fst ` set (fold (\<lambda>info. omap_insert (tm_base info) (tm_path info)) ms m) = fst ` set m \<union> tm_base ` set ms"
    for m :: "(u64, u16 list) omap"
    by (induction ms arbitrary: m) auto
  then show ?thesis by (simp add: currentModules_def)
qed

lemma refreshModules_spec:
  "gCallbackQueue (refreshModules os s) = gCallbackQueue s @
     map (\<lambda>m. LoadModuleWork 0 (tm_base m)) (filter (\<lambda>m. tm_base m \<notin> knownModules s) (ttdCurrentModules os s)) @
     map (\<lambda>e. UnloadModuleWork (fst e)) (filter (\<lambda>e. fst e \<notin> tm_base ` set (ttdCurrentModules os s)) (gTtdActiveModules s)) \<and>
   knownModules (refreshModules os s) = tm_base ` set (ttdCurrentModules os s) \<and>
   gDebugIdMap (refreshModules os s) = gDebugIdMap s"
  by (simp add: refreshModules_def Let_def announceModules retireModules currentModules_keys)

text \<open>
  C6. The timeline follows the cursor. After a refresh the tables hold exactly the threads and the modules that are active
  at the cursor, a thread that was known keeps its handle, and the events queued are one creation
  for every thread that was not known, one exit for every thread that is gone, one load for every module that was not
  known and one unload for every module that is gone, in this order.
\<close>

theorem refreshTtdTimeline_follows:
  assumes "gTtdCursor s" and "omap_ok (threadIndexToHandle (gDebugIdMap s))"
  shows "\<exists>creates exits. gCallbackQueue (refreshTtdTimeline os s) = gCallbackQueue s @ creates @ map TtdExitThreadWork exits @
       map (\<lambda>m. LoadModuleWork 0 (tm_base m)) (filter (\<lambda>m. tm_base m \<notin> knownModules s) (ttdCurrentModules os s)) @
       map (\<lambda>e. UnloadModuleWork (fst e)) (filter (\<lambda>e. fst e \<notin> tm_base ` set (ttdCurrentModules os s)) (gTtdActiveModules s)) \<and>
     list_all announces_thread creates \<and>
     length creates = card (fst ` set (activeThreads os s) - knownThreads s) \<and>
     length exits = card (knownThreads s - fst ` set (activeThreads os s)) \<and>
     knownThreads (refreshTtdTimeline os s) = fst ` set (activeThreads os s) \<and>
     (\<forall>i\<in>knownThreads s \<inter> fst ` set (activeThreads os s).
        map_of (threadIndexToHandle (gDebugIdMap (refreshTtdTimeline os s))) i = map_of (threadIndexToHandle (gDebugIdMap s)) i) \<and>
     knownModules (refreshTtdTimeline os s) = tm_base ` set (ttdCurrentModules os s)"
proof -
  note threads = refreshThreads_spec [OF assms(2), of os]
  then have "module_view (refreshThreads os s) = module_view s" by blast
  then have modules: "ttdCurrentModules os (refreshThreads os s) = ttdCurrentModules os s"
    "gTtdActiveModules (refreshThreads os s) = gTtdActiveModules s"
    by (simp_all add: module_view_iff ttdCurrentModules_def)
  note spec = refreshModules_spec [of os "refreshThreads os s", unfolded modules]
  show ?thesis
    using threads by (simp add: refreshTtdTimeline_def assms(1) spec) blast
qed

text \<open>A recording paused where thread 7 has replaced thread 5 and a module is mapped.\<close>

definition timeline_os :: "unit os" where
  "timeline_os = quiet_os\<lparr>ttd := quiet_ttd\<lparr>tActiveThreads := (\<lambda>_. [Some (7, 70), None]),
     tModules := (\<lambda>_. [Some \<lparr>tm_base = 0x400000, tm_size = 0x1000, tm_checksum = 0, tm_path = []\<rparr>])\<rparr>\<rparr>"

definition timeline_state :: "unit titan" where
  "timeline_state = mapThread 5 12 ((initial_titan ())\<lparr>gTtdCursor := True, gTtdEngine := True, gSessionKind := UE_SESSION_TTD,
     gIsDebugging := True, gPaused := True\<rparr>)"

theorem refreshTtdTimeline_follows_witness:
  "knownThreads (refreshTtdTimeline timeline_os timeline_state) = {7} \<and>
   knownModules (refreshTtdTimeline timeline_os timeline_state) = {0x400000}"
proof -
  have "gTtdCursor timeline_state" and "omap_ok (threadIndexToHandle (gDebugIdMap timeline_state))"
    by (simp_all add: timeline_state_def mapThread_def initial_titan_def empty_id_map_def omap_ok_def)
  from refreshTtdTimeline_follows [OF this, of timeline_os]
  have "knownThreads (refreshTtdTimeline timeline_os timeline_state) = fst ` set (activeThreads timeline_os timeline_state) \<and>
      knownModules (refreshTtdTimeline timeline_os timeline_state) = tm_base ` set (ttdCurrentModules timeline_os timeline_state)"
    by (elim exE conjE) (intro conjI)
  moreover have "fst ` set (activeThreads timeline_os timeline_state) = {7}"
    by (simp add: activeThreads_def timeline_os_def List.map_filter_def)
  moreover have "tm_base ` set (ttdCurrentModules timeline_os timeline_state) = {0x400000}"
    by (simp add: ttdCurrentModules_def timeline_os_def timeline_state_def mapThread_def initial_titan_def List.map_filter_def)
  ultimately show ?thesis by simp
qed

section \<open>Watchpoints\<close>

lemma find_list_ex: "list_ex P xs \<longleftrightarrow> (\<exists>x. find P xs = Some x)"
  by (induction xs) auto

lemma find_SomeE: "find P xs = Some x \<Longrightarrow> x \<in> set xs \<and> P x"
  by (auto simp: find_Some_iff)

text \<open>What a run reports from, beside the queue; removing a memory breakpoint changes neither.\<close>

definition request_view :: "'w titan \<Rightarrow> bool \<times> ttd_watch_hit \<times> bool \<times> bool \<times> callback \<times> session_kind" where
  "request_view s = (gPaused s, gTtdWatchHit s, gTtdStopRequested s, gTtdInterruptRequested s, gPauseCallback s, gSessionKind s)"

definition run_view :: "'w titan \<Rightarrow> work list \<times> bool \<times> (bool \<times> ttd_watch_hit \<times> bool \<times> bool \<times> callback \<times> session_kind)" where
  "run_view s = (gCallbackQueue s, gTtdCursor s, request_view s)"

lemmas run_view_defs = run_view_def request_view_def

lemma run_view_world_only: "world_only s t \<Longrightarrow> run_view t = run_view s"
  by (simp add: run_view_defs world_only_fields)

lemma run_view_updates [simp]:
  "run_view (snd (oscall f s)) = run_view s"
  "run_view (s\<lparr>gMemoryBreakpointPages := p\<rparr>) = run_view s" "run_view (s\<lparr>gMemoryBreakpoints := b\<rparr>) = run_view s"
  "run_view (s\<lparr>gBreakpoints := b'\<rparr>) = run_view s" "run_view (snd (protectMemoryBreakpointPage os page guarded s)) = run_view s"
proof -
  show "run_view (snd (oscall f s)) = run_view s" by (rule run_view_world_only) simp
  show "run_view (snd (protectMemoryBreakpointPage os page guarded s)) = run_view s" by (rule run_view_world_only) simp
qed (simp_all add: run_view_defs)

lemma run_view_releasePages [simp]: "run_view (snd (releasePages os ident pages result s)) = run_view s"
  by (induction pages arbitrary: result s)
    (simp_all add: releasePage_def updatePage_def erasePage_def Let_def case_prod_unfold split: option.split)

lemma run_view_removeMemory [simp]: "run_view (snd (removeMemoryBreakpointById os ident s)) = run_view s"
  by (simp add: removeMemoryBreakpointById_def eraseMemoryBreakpoint_def Let_def case_prod_unfold split: option.split)

lemma removeMemoryBreakpointById_queue [simp]:
  "gCallbackQueue (snd (removeMemoryBreakpointById os ident s)) = gCallbackQueue s"
  using run_view_removeMemory [of os ident s] by (simp add: run_view_def)

text \<open>
  C17. The engine is stopped at a watchpoint exactly when the adapter will report it. The callback accepts an
  access if and only if queueing the recorded hit succeeds; a refused access leaves no trace. A reported hit queues one event,
  with the callback of a breakpoint that covers the access and, if it is a step-over breakpoint, belongs to the
  accessing thread; a one-shot breakpoint is gone by then.
\<close>

theorem watchpoint_accepted_iff_reported:
  assumes "ttdMemoryWatchpointCallback a (Some v) s = (accepted, t)" and "queueTtdWatchpointHit os (watchHitOf a v) t = (queued, u)"
  shows "(accepted \<longleftrightarrow> queued) \<and> (\<not> accepted \<longrightarrow> u = s) \<and>
    (accepted \<longrightarrow> gTtdWatchHit t = watchHitOf a v \<and>
      ((\<exists>(ident, bp) \<in> set (gBreakpoints s). bp_kind bp = Software \<and> bp_offset bp = ta_Address a \<and>
          (bp_ttdThreadAffinity bp = 0 \<or> bp_ttdThreadAffinity bp = tv_uniqueThreadId v) \<and>
          gCallbackQueue u = gCallbackQueue s @ [TtdBreakpointWork (watchHitOf a v) (bp_callback bp)] \<and>
          (bp_oneShot bp \<longrightarrow> \<not> omap_contains (gBreakpoints u) ident)) \<or>
       (\<exists>(ident, bp) \<in> set (gMemoryBreakpoints s). ttdMemoryBreakpointMatches bp (ta_Address a) (ta_AccessType a) \<and>
          gCallbackQueue u = gCallbackQueue s @ [TtdMemoryBreakpointWork (watchHitOf a v) (mb_callback bp)])))"
proof -
  let ?S = "softwareTakes (ta_Address a) (tv_uniqueThreadId v)"
  let ?M = "memoryTakes (ta_Address a) (ta_AccessType a)"
  have accepted: "accepted = (list_ex ?S (gBreakpoints s) \<or> list_ex ?M (gMemoryBreakpoints s))"
    and t: "t = (if accepted then s\<lparr>gTtdWatchHit := watchHitOf a v\<rparr> else s)"
    using assms(1) by (auto simp: ttdMemoryWatchpointCallback_def Let_def split: if_splits)
  have hit: "wh_pending (watchHitOf a v)" "wh_address (watchHitOf a v) = ta_Address a"
    "wh_flags (watchHitOf a v) = ta_AccessType a" "wh_uniqueThreadId (watchHitOf a v) = tv_uniqueThreadId v"
    by (simp_all add: watchHitOf_def)
  have tables: "gBreakpoints t = gBreakpoints s" "gMemoryBreakpoints t = gMemoryBreakpoints s" "gCallbackQueue t = gCallbackQueue s"
    by (simp_all add: t)
  consider (software) ident bp where "find ?S (gBreakpoints s) = Some (ident, bp)"
    | (memory) ident bp where "find ?S (gBreakpoints s) = None" "find ?M (gMemoryBreakpoints s) = Some (ident, bp)"
    | (none) "find ?S (gBreakpoints s) = None" "find ?M (gMemoryBreakpoints s) = None"
    by (metis option.exhaust surj_pair)
  then show ?thesis
  proof cases
    case software
    then have acc: "accepted" by (auto simp: accepted find_list_ex)
    from software have q: "queued"
      "u = queueCallback (TtdBreakpointWork (watchHitOf a v) (bp_callback bp)) (if bp_oneShot bp
         then eraseBreakpointInfo ident (snd (oscall (tRemoveMemoryWatchpoint (ttd os) (executeWatchpoint (bp_offset bp))) t)) else t)"
      using assms(2) by (simp_all add: queueTtdWatchpointHit_def hit tables Let_def)
    have fields: "gCallbackQueue u = gCallbackQueue s @ [TtdBreakpointWork (watchHitOf a v) (bp_callback bp)]"
      "bp_oneShot bp \<Longrightarrow> \<not> omap_contains (gBreakpoints u) ident"
      by (simp_all add: q queueCallback_def eraseBreakpointInfo_def world_only_fields [OF world_only_oscall] tables)
    show ?thesis
      using find_SomeE [OF software] acc q(1) fields by (auto simp: softwareTakes_def t)
  next
    case memory
    then have acc: "accepted" by (auto simp: accepted find_list_ex)
    from memory have q: "queued"
      "u = queueCallback (TtdMemoryBreakpointWork (watchHitOf a v) (mb_callback bp)) (if \<not> mb_restoreOnHit bp
         then snd (removeMemoryBreakpointById os ident t) else t)"
      using assms(2) by (simp_all add: queueTtdWatchpointHit_def hit tables Let_def)
    have fields: "gCallbackQueue u = gCallbackQueue s @ [TtdMemoryBreakpointWork (watchHitOf a v) (mb_callback bp)]"
      by (simp add: q queueCallback_def tables)
    show ?thesis
      using find_SomeE [OF memory(2)] acc q(1) fields by (auto simp: memoryTakes_def t)
  next
    case none
    then have acc: "\<not> accepted" by (auto simp: accepted find_list_ex)
    with none show ?thesis
      using assms(2) by (simp add: queueTtdWatchpointHit_def hit t)
  qed
qed

text \<open>A step-over breakpoint of thread 7, and an execution of its address by a thread.\<close>

definition watched_state :: "unit titan" where
  "watched_state = timeline_state\<lparr>gBreakpoints := [(1, default_breakpoint\<lparr>bp_id := 1, bp_offset := 0x1000, bp_callback := 99,
     bp_oneShot := True, bp_ttdThreadAffinity := 7\<rparr>)]\<rparr>"

definition execution :: ttd_access where
  "execution = \<lparr>ta_Address = 0x1000, ta_Size = 1, ta_AccessType = 2\<rparr>"

definition thread_view :: "u32 \<Rightarrow> ttd_thread_view" where
  "thread_view uniqueId = \<lparr>tv_uniqueThreadId = uniqueId, tv_systemThreadId = 10 * uniqueId, tv_position = TtdPosition 3 4\<rparr>"

lemma watched_state_accepts:
  "fst (ttdMemoryWatchpointCallback execution (Some (thread_view 7)) watched_state)"
  "\<not> fst (ttdMemoryWatchpointCallback execution (Some (thread_view 8)) watched_state)"
  by (simp_all add: ttdMemoryWatchpointCallback_def execution_def thread_view_def watched_state_def timeline_state_def
      mapThread_def initial_titan_def softwareTakes_def default_breakpoint_def Let_def)

theorem watchpoint_accepted_iff_reported_witness:
  "fst (queueTtdWatchpointHit timeline_os (watchHitOf execution (thread_view 7))
      (snd (ttdMemoryWatchpointCallback execution (Some (thread_view 7)) watched_state))) \<and>
   \<not> fst (queueTtdWatchpointHit timeline_os (watchHitOf execution (thread_view 8))
      (snd (ttdMemoryWatchpointCallback execution (Some (thread_view 8)) watched_state)))"
  using watched_state_accepts
    watchpoint_accepted_iff_reported [OF prod.collapse [symmetric] prod.collapse [symmetric], of execution "thread_view 7" watched_state timeline_os]
    watchpoint_accepted_iff_reported [OF prod.collapse [symmetric] prod.collapse [symmetric], of execution "thread_view 8" watched_state timeline_os]
  by blast

section \<open>Runs\<close>

text \<open>
  What RequestPause and StopDebug may do while the cursor moves: they do not touch the queue of events and do not end the
  session.
\<close>

definition peers_request :: "('w titan \<Rightarrow> 'w titan) \<Rightarrow> bool" where
  "peers_request peers \<longleftrightarrow> (\<forall>s. gCallbackQueue (peers s) = gCallbackQueue s \<and> gTtdCursor (peers s) = gTtdCursor s)"

definition move_view :: "'w titan \<Rightarrow> work list \<times> bool" where
  "move_view s = (gCallbackQueue s, gTtdCursor s)"

lemma move_view_updates [simp]:
  "move_view (s\<lparr>world := w\<rparr>) = move_view s" "move_view (s\<lparr>gTtdWatchHit := h\<rparr>) = move_view s"
  "move_view (s\<lparr>gTtdStepOverProbe := p\<rparr>) = move_view s" "move_view (s\<lparr>gPaused := b\<rparr>) = move_view s"
  "move_view (s\<lparr>gTtdProcessExitBoundary := x\<rparr>) = move_view s" "move_view (s\<lparr>gTtdHasProcessExitBoundary := y\<rparr>) = move_view s"
  "move_view (snd (oscall f s)) = move_view s"
  by (simp_all add: move_view_def world_only_fields [OF world_only_oscall])

lemma move_view_notification: "move_view (deliverNotification n s) = move_view s"
  by (cases n)
    (simp_all add: ttdMemoryWatchpointCallback_def ttdCallReturnCallback_def Let_def split: option.split)

lemma move_view_notifications: "move_view (fold deliverNotification ns s) = move_view s"
  by (induction ns arbitrary: s) (simp_all add: move_view_notification)

lemma move_view_replay:
  assumes "peers_request peers"
  shows "move_view (snd (ttdReplay os peers reverse limit maxSteps s)) = move_view s"
proof -
  have peers: "move_view (peers t) = move_view t" for t
    using assms by (simp add: peers_request_def move_view_def)
  show ?thesis by (simp add: ttdReplay_def Let_def case_prod_unfold peers move_view_notifications)
qed

lemma move_view_attempts:
  assumes "peers_request peers"
  shows "move_view (snd (replayAttempts os peers reverse limit maxSteps before n s)) = move_view s"
  by (induction n arbitrary: s)
    (simp_all add: Let_def case_prod_unfold selectHit_def clearHit_def move_view_replay [OF assms])

lemma move_view_singleSteps:
  assumes "peers_request peers"
  shows "move_view (snd (singleSteps os peers movementLimit n steps s)) = move_view s"
  by (induction n arbitrary: steps s)
    (simp_all add: Let_def case_prod_unfold clearHit_def move_view_replay [OF assms])

lemma move_view_moveCursor:
  assumes "peers_request peers"
  shows "move_view (snd (moveCursor os peers reverse s)) = move_view s"
  by (simp add: moveCursor_def parkBeforeExit_def settleOnHit_def selectHit_def clearHit_def Let_def case_prod_unfold
      move_view_attempts [OF assms] move_view_singleSteps [OF assms] move_view_replay [OF assms] del: replayAttempts.simps)

lemma moveCursor_pauses: "gPaused (snd (moveCursor os peers reverse s))"
  by (simp add: moveCursor_def Let_def case_prod_unfold)

text \<open>The refresh of the timeline queues only its own events.\<close>

fun timeline_work :: "work \<Rightarrow> bool" where
  "timeline_work (CreateThreadWork handle dataOffset startOffset) = True"
| "timeline_work (TtdExitThreadWork systemId) = True"
| "timeline_work (LoadModuleWork file base) = True"
| "timeline_work (UnloadModuleWork base) = True"
| "timeline_work _ = False"

definition timeline_queued :: "'w titan \<Rightarrow> 'w titan \<Rightarrow> bool" where
  "timeline_queued s t \<longleftrightarrow> request_view t = request_view s \<and>
     (\<exists>ws. gCallbackQueue t = gCallbackQueue s @ ws \<and> list_all timeline_work ws)"

lemma timeline_queued_refl: "timeline_queued s s"
  by (simp add: timeline_queued_def)

lemma timeline_queued_trans: "timeline_queued s t \<Longrightarrow> timeline_queued t u \<Longrightarrow> timeline_queued s u"
  unfolding timeline_queued_def by (metis append.assoc list_all_append)

lemma timeline_queued_fold:
  assumes "\<And>x s. timeline_queued s (f x s)"
  shows "timeline_queued s (fold f xs s)"
  by (induction xs arbitrary: s) (auto intro: timeline_queued_refl timeline_queued_trans assms)

lemma timeline_queued_threads: "timeline_queued s (announceThread os info s)" "timeline_queued s (retireThread thread s)"
  by (simp_all add: timeline_queued_def announceThread_def retireThread_def createSyntheticTitanHandle_def registerTitanHandle_def
      mapThread_def cacheTeb_def onCreateThread_def queueCallback_def unregisterTitanHandle_def request_view_def Let_def case_prod_unfold)

lemma timeline_queued_modules: "timeline_queued s (announceModule info s)" "timeline_queued s (retireModule current entry s)"
  by (simp_all add: timeline_queued_def announceModule_def retireModule_def onLoadModule_def onUnloadModule_def queueCallback_def request_view_def)

lemma timeline_queued_refresh: "timeline_queued s (refreshTtdTimeline os s)"
proof -
  have upd: "timeline_queued t (t\<lparr>gTtdActiveModules := m\<rparr>)" for t :: "'a titan" and m
    by (simp add: timeline_queued_def request_view_def)
  note folds = timeline_queued_fold [OF timeline_queued_threads(1)] timeline_queued_fold [OF timeline_queued_threads(2)]
    timeline_queued_fold [OF timeline_queued_modules(1)] timeline_queued_fold [OF timeline_queued_modules(2)]
  have threads: "timeline_queued s (refreshThreads os s)"
    unfolding refreshThreads_def Let_def by (rule timeline_queued_trans [OF folds(1,2)])
  have "timeline_queued t (refreshModules os t)" for t :: "'a titan"
    unfolding refreshModules_def Let_def by (rule timeline_queued_trans [OF timeline_queued_trans [OF folds(3,4)] upd])
  with threads show ?thesis
    by (auto simp: refreshTtdTimeline_def intro: timeline_queued_trans timeline_queued_refl)
qed

text \<open>The events a run ends in.\<close>

fun ends_run :: "work \<Rightarrow> bool" where
  "ends_run (TtdPauseWork callback) = True"
| "ends_run (TtdBreakpointWork hit callback) = True"
| "ends_run (TtdMemoryBreakpointWork hit callback) = True"
| "ends_run (ExceptionWork info pid tid) = True"
| "ends_run (OutputStringWork text unicode len) = True"
| "ends_run TtdBoundaryWork = True"
| "ends_run TtdExitProcessWork = True"
| "ends_run _ = False"

text \<open>The pause callback a work delivers, if any.\<close>

fun pauses_of :: "work \<Rightarrow> callback list" where
  "pauses_of (PauseWork callback) = [callback]"
| "pauses_of (TtdPauseWork callback) = (if callback = 0 then [] else [callback])"
| "pauses_of _ = []"

lemma queueTtdWatchpointHit_view:
  "if fst (queueTtdWatchpointHit os hit s)
   then request_view (snd (queueTtdWatchpointHit os hit s)) = request_view s \<and>
     (\<exists>w. gCallbackQueue (snd (queueTtdWatchpointHit os hit s)) = gCallbackQueue s @ [w] \<and> ends_run w \<and> pauses_of w = [])
   else snd (queueTtdWatchpointHit os hit s) = s"
proof -
  have view: "request_view t = request_view s \<and> gCallbackQueue t = gCallbackQueue s" if "run_view t = run_view s" for t
    using that by (simp add: run_view_def)
  have soft: "run_view (if b then eraseBreakpointInfo i (snd (oscall f s)) else s) = run_view s" for b i and f :: "('a, bool) call"
    by (simp add: eraseBreakpointInfo_def)
  have mem: "run_view (if b then snd (removeMemoryBreakpointById os i s) else s) = run_view s" for b i by simp
  show ?thesis
    using view [OF soft] view [OF mem]
    by (auto simp: queueTtdWatchpointHit_def queueCallback_def request_view_def Let_def split: option.splits)
qed

lemma reportMovement_spec:
  assumes "reportMovement os reverse stepCount reached hit s = (ok, t)"
  shows "gPaused t = gPaused s \<and> gTtdWatchHit t = gTtdWatchHit s \<and> gTtdStopRequested t = gTtdStopRequested s \<and>
    (gTtdStopRequested s \<longrightarrow> t = s) \<and>
    (\<not> gTtdStopRequested s \<longrightarrow> \<not> gTtdInterruptRequested t \<and>
       (\<exists>w. gCallbackQueue t = gCallbackQueue s @ [w] \<and> ends_run w \<and>
          (gTtdInterruptRequested s \<longrightarrow> w = TtdPauseWork (gPauseCallback s) \<and> gPauseCallback t = 0) \<and>
          (\<not> gTtdInterruptRequested s \<longrightarrow> gPauseCallback t = gPauseCallback s \<and> pauses_of w = []) \<and>
          (\<not> ok \<longrightarrow> stepCount = 0 \<and> w = (if reverse then TtdBoundaryWork else TtdExitProcessWork))))"
proof -
  consider (stop) "gTtdStopRequested s" | (pause) "\<not> gTtdStopRequested s" "gTtdInterruptRequested s"
    | (move) "\<not> gTtdStopRequested s" "\<not> gTtdInterruptRequested s" by blast
  then show ?thesis
  proof cases
    case stop
    then show ?thesis using assms by (simp add: reportMovement_def)
  next
    case pause
    then show ?thesis using assms by (auto simp: reportMovement_def queueCallback_def)
  next
    case move
    have fields: "gPaused u = gPaused s \<and> gTtdWatchHit u = gTtdWatchHit s \<and> gTtdStopRequested u = gTtdStopRequested s \<and>
        gTtdInterruptRequested u = gTtdInterruptRequested s \<and> gPauseCallback u = gPauseCallback s"
      if "request_view u = request_view s" for u using that by (simp add: request_view_def)
    show ?thesis
    proof (cases "fst (queueTtdWatchpointHit os hit s)")
      case True
      then show ?thesis
        using queueTtdWatchpointHit_view [of os hit s] fields [of t] move assms
        by (auto simp: reportMovement_def case_prod_unfold)
    next
      case False
      then have "snd (queueTtdWatchpointHit os hit s) = s" using queueTtdWatchpointHit_view [of os hit s] by simp
      with False show ?thesis
        using move assms
        by (cases reached)
          (auto simp: reportMovement_def case_prod_unfold onException_def queueCallback_def Let_def split: if_splits)
    qed
  qed
qed

lemma reportMovement_stop:
  "gTtdStopRequested (snd (reportMovement os reverse stepCount reached hit s)) = gTtdStopRequested s"
  using reportMovement_spec [OF prod.collapse [symmetric]] by blast

text \<open>
  C5. A run always ends in an event, unless the session was told to stop. However the engine replays, and whatever pause and
  stop requests arrive in the meantime, \<open>runTtd\<close> leaves the session paused with no watchpoint pending. If no
  stop was requested it has queued, after the events of the timeline, one event the run ends in (a pause, a breakpoint, an
  exception or an end of the recording), and no pause request is left over. A run answers false only when
  the cursor could not move, and then the event is the end of the recording in that direction.
\<close>

theorem runTtd_reports:
  assumes "gTtdCursor s" and "peers_request peers" and "runTtd os peers reverse s = (ok, t)"
  shows "gPaused t \<and> gTtdWatchHit t = no_watch_hit \<and>
    (\<not> gTtdStopRequested t \<longrightarrow> \<not> gTtdInterruptRequested t \<and>
       (\<exists>ws w. gCallbackQueue t = gCallbackQueue s @ ws @ [w] \<and> list_all timeline_work ws \<and> ends_run w \<and>
          (\<not> ok \<longrightarrow> w = (if reverse then TtdBoundaryWork else TtdExitProcessWork))))"
proof -
  obtain stepCount reached u where move: "moveCursor os peers reverse s = ((stepCount, reached), u)"
    by (metis surj_pair)
  have queue: "gCallbackQueue u = gCallbackQueue s" "gTtdCursor u"
    using move_view_moveCursor [OF assms(2), of os reverse s] assms(1) by (simp_all add: move move_view_def)
  have paused: "gPaused u" using moveCursor_pauses [of os peers reverse s] by (simp add: move)
  define v where "v = clearHit (snd (updateTtdCursorIdentity os u))"
  have v: "gCallbackQueue v = gCallbackQueue s" "gPaused v" "gTtdWatchHit v = no_watch_hit"
    by (simp_all add: v_def clearHit_def updateTtdCursorIdentity_def setEventIds_def queue paused Let_def)
  have run: "reportMovement os reverse stepCount reached (gTtdWatchHit (snd (updateTtdCursorIdentity os u))) (refreshTtdTimeline os v) = (ok, t)"
    using assms(3) queue(2) by (simp add: runTtd_def move v_def updateTtdCursorIdentity_def Let_def)
  obtain ws where ws: "gCallbackQueue (refreshTtdTimeline os v) = gCallbackQueue s @ ws" "list_all timeline_work ws"
      "request_view (refreshTtdTimeline os v) = request_view v"
    using timeline_queued_refresh [of v os] v(1) unfolding timeline_queued_def by auto
  then show ?thesis
    using reportMovement_spec [OF run] v by (auto simp: request_view_def)
qed

theorem runTtd_reports_witness:
  "\<exists>ws w. gCallbackQueue (snd (runTtd timeline_os (\<lambda>s. s) False timeline_state)) = ws @ [w] \<and> ends_run w"
proof -
  let ?t = "snd (runTtd timeline_os (\<lambda>s. s) False timeline_state)"
  have "gTtdCursor timeline_state" and peers: "peers_request (\<lambda>s :: unit titan. s)"
    by (simp_all add: timeline_state_def mapThread_def initial_titan_def peers_request_def)
  note runTtd_reports [OF this prod.collapse [symmetric], of timeline_os False]
  moreover have "\<not> gTtdStopRequested ?t"
  proof -
    have "\<not> gTtdStopRequested (snd (moveCursor timeline_os (\<lambda>s. s) False timeline_state))"
      by (simp add: moveCursor_def movementTarget_def numeral_2_eq_2 ttdReplay_def oscall_def timeline_os_def quiet_defs clearHit_def
          settleOnHit_def no_watch_hit_def timeline_state_def mapThread_def initial_titan_def)
    moreover obtain n r u where u: "moveCursor timeline_os (\<lambda>s. s) False timeline_state = ((n, r), u)" by (metis surj_pair)
    ultimately have "\<not> gTtdStopRequested (snd (updateTtdCursorIdentity timeline_os u))"
      by (simp add: updateTtdCursorIdentity_def setEventIds_def Let_def)
    moreover from this have "\<not> gTtdStopRequested (refreshTtdTimeline timeline_os (clearHit (snd (updateTtdCursorIdentity timeline_os u))))"
      using timeline_queued_refresh [of "clearHit (snd (updateTtdCursorIdentity timeline_os u))" timeline_os]
      by (simp add: timeline_queued_def request_view_def clearHit_def)
    ultimately show ?thesis
      by (simp add: runTtd_def u case_prod_unfold Let_def reportMovement_stop)
  qed
  ultimately show ?thesis by (metis append.assoc)
qed

end
