(* ===== verification/Session_Properties.thy ===== *)
theory Session_Properties
  imports Sessions Timeline
begin

text \<open>
  Opening a dump or a recording is all or nothing: either the session is there, with handles for its caller and the events
  x64dbg needs to start from, or nothing of it is left.
\<close>

section \<open>Failure\<close>

text \<open>No session is open, and nothing of one is left: neither handles nor caches, events or a trace.\<close>

definition session_gone :: "'w titan \<Rightarrow> bool" where
  "session_gone s \<longleftrightarrow> gSessionKind s = UE_SESSION_NONE \<and> gProcessInfo s = empty_process_information \<and> gDebugIdMap s = empty_id_map \<and>
     gHandleRegistry s = [] \<and> gProcessPebCache s = [] \<and> gProcessTebCache s = [] \<and> gCallbackQueue s = [] \<and>
     \<not> gTtdEngine s \<and> \<not> gTtdCursor s \<and> gTtdActiveModules s = [] \<and> gTtdImagePath s = [] \<and> gPauseCallback s = 0"

lemma closeEntries_world_only: "world_only s (closeEntries os es s)"
proof (induction es arbitrary: s)
  case (Cons e es)
  obtain h r where e: "e = (h, r)" by force
  show ?case by (auto simp: e Let_def intro: world_only_trans [OF world_only_oscall Cons.IH] Cons.IH)
qed simp

lemma failReplay_gone:
  assumes "failReplay os hr fallbackError s = (ok, t)"
  shows "\<not> ok \<and> session_gone t \<and> (fallbackError \<noteq> 0 \<longrightarrow> lastError t \<noteq> 0)"
  using assms
  by (auto simp: failReplay_def clearSession_def closeCallerOwnedTitanHandles_def resetTtdSession_def session_gone_def Let_def
      world_only_fields [OF closeEntries_world_only] split: if_splits)

section \<open>Success\<close>

text \<open>The handles of \<open>gProcessInfo\<close> are registered for the caller, who closes them.\<close>

definition returned_handles :: "'w titan \<Rightarrow> bool" where
  "returned_handles s \<longleftrightarrow> (\<exists>p t. map_of (gHandleRegistry s) (hProcess (gProcessInfo s)) = Some p \<and> he_type p = ProcessHandle \<and> he_callerOwned p \<and>
     map_of (gHandleRegistry s) (hThread (gProcessInfo s)) = Some t \<and> he_type t = ThreadHandle \<and> he_callerOwned t \<and>
     map_of (processHandleToIndex (gDebugIdMap s)) (hProcess (gProcessInfo s)) = Some (he_dbgengId p) \<and>
     map_of (threadHandleToIndex (gDebugIdMap s)) (hThread (gProcessInfo s)) = Some (he_dbgengId t) \<and>
     omap_contains (gProcessPebCache s) (hProcess (gProcessInfo s)) \<and> omap_contains (gProcessTebCache s) (hThread (gProcessInfo s)))"

lemma syntheticHandle_successor: "syntheticHandle (n + 1) \<noteq> syntheticHandle n"
proof
  assume "syntheticHandle (n + 1) = syntheticHandle n"
  then have "bit (syntheticHandle (n + 1)) 4 = bit (syntheticHandle n) 4" by simp
  then show False by (simp add: bit_syntheticHandle bit_0)
qed

lemma returnHandles_spec:
  assumes "returnHandles processIndex processSystemId threadIndex threadSystemId peb teb s = (ok, t)"
  shows "ok \<and> returned_handles t \<and> gCallbackQueue t = gCallbackQueue s \<and> gSessionKind t = gSessionKind s"
  using assms syntheticHandle_successor [of "gNextSyntheticHandle s"]
  by (auto simp: returnHandles_def createSyntheticTitanHandle_def registerTitanHandle_def handle_map_defs returned_handles_def
      syntheticHandle_valid Let_def)

text \<open>The events of a session that has been opened: the process first, the initial exception last.\<close>

definition bootstrapped :: "session_kind \<Rightarrow> 'w titan \<Rightarrow> bool" where
  "bootstrapped kind s \<longleftrightarrow> gSessionKind s = kind \<and> (\<exists>process thread base peb start ws e.
     gCallbackQueue s = CreateProcessWork 0 process base thread peb start # ws @ [InitialExceptionWork e] \<and> list_all timeline_work ws)"

lemma timeline_queued_bootstrapThread: "timeline_queued s (bootstrapThread i d teb s)"
  by (simp add: timeline_queued_def bootstrapThread_def createSyntheticTitanHandle_def registerTitanHandle_def
      mapThread_def cacheTeb_def onCreateThread_def queueCallback_def request_view_def Let_def)

lemma timeline_queued_world_only: "world_only s t \<Longrightarrow> timeline_queued s t"
  by (simp add: timeline_queued_def request_view_def world_only_fields)

lemma timeline_queued_loads: "timeline_queued s (onLoadModule 0 base s)"
  by (simp add: timeline_queued_def onLoadModule_def queueCallback_def request_view_def)

lemma timeline_queued_dump:
  "timeline_queued s (bootstrapDumpModule os i s)" "timeline_queued s (bootstrapDumpThread os ids s)"
proof -
  show "timeline_queued s (bootstrapDumpModule os i s)"
    by (simp add: bootstrapDumpModule_def timeline_queued_loads timeline_queued_refl split: option.split)
  show "timeline_queued s (bootstrapDumpThread os ids s)"
    by (simp add: timeline_queued_def bootstrapDumpThread_def createSyntheticTitanHandle_def registerTitanHandle_def
        mapThread_def cacheTeb_def onCreateThread_def queueCallback_def request_view_def Let_def case_prod_unfold
        world_only_fields [OF world_only_oscall])
qed

lemma bootstrap_queue:
  assumes "gCallbackQueue s = [CreateProcessWork 0 process base thread peb start]" and "gSessionKind s = kind" and "timeline_queued s t"
    and "returnHandles processIndex processSystemId threadIndex threadSystemId peb' teb (queueCallback (InitialExceptionWork e) t) = (ok, u)"
  shows "ok \<and> returned_handles u \<and> bootstrapped kind u"
  using returnHandles_spec [OF assms(4)] assms(1-3)
  by (auto simp: bootstrapped_def timeline_queued_def request_view_def queueCallback_def)

lemma bootstrap_start:
  assumes "bootstrapProcess os processIndex processSystemId threadIndex threadSystemId peb teb s = ((process, thread), t)"
  shows "gCallbackQueue t = gCallbackQueue s"
    and "gCallbackQueue (onCreateProcess os 0 p base h teb' start u) = gCallbackQueue u @ [CreateProcessWork 0 p base h teb' start]"
    and "gSessionKind (onCreateProcess os 0 p base h teb' start u) = gSessionKind u"
    and "gCallbackQueue (enterSession kind p h i j u) = gCallbackQueue u" and "gSessionKind (enterSession kind p h i j u) = kind"
  using assms
  by (auto simp: bootstrapProcess_def createSyntheticTitanHandle_def registerTitanHandle_def handle_map_defs
      onCreateProcess_def queueCallback_def enterSession_def Let_def)

lemma bootstrapRecording_spec:
  assumes "bootstrapRecording os modules threadIndex threadSystemId peb s = (ok, t)" and "gCallbackQueue s = []"
  shows "ok \<and> returned_handles t \<and> bootstrapped UE_SESSION_TTD t"
proof -
  let ?teb = "ttdTebAddress os threadSystemId s" and ?pc = "tProgramCounter (ttd os) (world s)"
  obtain p h u where boot: "bootstrapProcess os 0 (gTtdProcessId s) threadIndex threadSystemId peb ?teb s = ((p, h), u)"
    by (metis surj_pair)
  define v where "v = onCreateProcess os 0 p (tm_base (modules ! mainModule modules)) h ?teb ?pc
    (enterSession UE_SESSION_TTD p h (gTtdProcessId s) threadSystemId u)"
  define threads where "threads = fold (\<lambda>(uniqueId, systemId) s. bootstrapThread uniqueId systemId (ttdTebAddress os systemId s) s)
    (otherThreads os threadSystemId v) v"
  define loads where "loads = fold (\<lambda>info. onLoadModule 0 (tm_base info)) (otherModules modules) threads"
  have start: "gCallbackQueue v = [CreateProcessWork 0 p (tm_base (modules ! mainModule modules)) h ?teb ?pc]" "gSessionKind v = UE_SESSION_TTD"
    using bootstrap_start [OF boot] assms(2) by (simp_all add: v_def)
  have "timeline_queued v threads"
    unfolding threads_def by (rule timeline_queued_fold) (simp add: timeline_queued_bootstrapThread split: prod.split)
  then have queued: "timeline_queued v loads"
    unfolding loads_def by (rule timeline_queued_trans) (rule timeline_queued_fold, rule timeline_queued_loads)
  show ?thesis
    using assms(1) by (intro bootstrap_queue [OF start queued])
      (simp add: bootstrapRecording_def boot Let_def v_def threads_def loads_def)
qed

lemma bootstrapDump_spec:
  assumes "bootstrapDump os processIndex processSystemId threadIndex threadSystemId threads s = (ok, t)"
  shows "ok \<and> returned_handles t \<and> bootstrapped UE_SESSION_MINIDUMP t"
proof -
  let ?peb = "case dProcessPeb (dbg os) (world s) of Some a \<Rightarrow> a | None \<Rightarrow> 0"
    and ?teb = "case dThreadTeb (dbg os) (world s) of Some a \<Rightarrow> a | None \<Rightarrow> 0"
  obtain p h u where boot: "bootstrapProcess os processIndex processSystemId threadIndex threadSystemId ?peb ?teb s = ((p, h), u)"
    by (metis surj_pair)
  let ?base = "case dModuleByIndex (dbg os) 0 (world u) of Some base \<Rightarrow> base | None \<Rightarrow> 0"
  let ?pc = "dInstructionOffset (dbg os) (world u)"
  define v where "v = onCreateProcess os 0 p ?base h ?teb ?pc
    ((enterSession UE_SESSION_MINIDUMP p h processSystemId threadSystemId u)\<lparr>gCallbackQueue := []\<rparr>)"
  define others where "others = fold (bootstrapDumpThread os) (filter (\<lambda>t. fst t \<noteq> threadIndex) threads) v"
  define selected where "selected = snd (oscall (dSetCurrentThread (dbg os) threadIndex) others)"
  define loads where "loads = (case dNumberModules (dbg os) (world selected) of
     None \<Rightarrow> selected | Some loadedModules \<Rightarrow> fold (bootstrapDumpModule os) [1..<loadedModules] selected)"
  have start: "gCallbackQueue v = [CreateProcessWork 0 p ?base h ?teb ?pc]" "gSessionKind v = UE_SESSION_MINIDUMP"
    using bootstrap_start(2,3,5) [OF boot] by (simp_all add: v_def)
  have "timeline_queued v others"
    unfolding others_def by (rule timeline_queued_fold) (rule timeline_queued_dump)
  then have "timeline_queued v selected"
    unfolding selected_def by (rule timeline_queued_trans) (rule timeline_queued_world_only, simp)
  then have queued: "timeline_queued v loads"
    unfolding loads_def by (rule timeline_queued_trans)
      (auto intro: timeline_queued_fold timeline_queued_dump timeline_queued_refl split: option.split)
  have "returnHandles processIndex processSystemId threadIndex threadSystemId ?peb ?teb
      (queueCallback (InitialExceptionWork (initialExceptionOf os ?pc u)) loads) = (ok, t)"
    using assms(1) unfolding bootstrapDump_def Let_def boot prod.case v_def others_def selected_def loads_def by assumption
  from bootstrap_queue [OF start queued this] show ?thesis .
qed

section \<open>Opening\<close>

definition opened :: "session_kind \<Rightarrow> bool \<Rightarrow> 'w titan \<Rightarrow> bool" where
  "opened kind ok s \<longleftrightarrow> (if ok then returned_handles s \<and> bootstrapped kind s else session_gone s \<and> lastError s \<noteq> 0)"

lemma opened_fail: "failReplay os hr fallbackError s = (ok, t) \<Longrightarrow> fallbackError \<noteq> 0 \<Longrightarrow> opened kind ok t"
  using failReplay_gone by (fastforce simp: opened_def)

lemma openRecording_opened:
  assumes "openRecording os path s = (ok, t)" and "gCallbackQueue s = []"
  shows "opened UE_SESSION_TTD ok t"
proof -
  have success: "opened UE_SESSION_TTD ok t"
    if "bootstrapRecording os modules i d peb u = (ok, t)" "gCallbackQueue u = gCallbackQueue s" for modules i d peb u
    using bootstrapRecording_spec [OF that(1)] that(2) assms(2) by (simp add: opened_def)
  note fields = world_only_fields [OF world_only_oscall]
  show ?thesis
    using assms(1)
    by (auto simp: openRecording_def Let_def case_prod_unfold fields describeTrace_def split: if_splits
        elim!: opened_fail elim: success)
qed

lemma openDump_opened:
  assumes "openDump os cl path UE_SESSION_MINIDUMP s = (ok, t)"
  shows "opened UE_SESSION_MINIDUMP ok t"
proof -
  have success: "opened UE_SESSION_MINIDUMP ok t" if "bootstrapDump os pi ps ti ts threads u = (ok, t)" for pi ps ti ts threads u
    using bootstrapDump_spec [OF that] by (simp add: opened_def)
  have "opened UE_SESSION_MINIDUMP ok t" if "describeDump os u = (ok, t)" for u
    using that by (auto simp: describeDump_def Let_def split: if_splits option.splits elim!: opened_fail elim: success)
  then show ?thesis
    using assms by (auto simp: openDump_def Let_def case_prod_unfold split: if_splits elim!: opened_fail)
qed

text \<open>
  C7. Opening a dump or a recording is all or nothing. With no session open, and a path and a kind it accepts, \<open>InitReplayW\<close>
  either succeeds: the session has the kind that was asked for, the handles it returns are registered for the caller with their
  indexes and addresses, and the events queued are the creation of the process, threads and modules, and the
  initial exception, in this order. Or it fails, at whatever step: then the last error is set and nothing is left of the
  session, no handle, no cache, no event, no trace.
\<close>

theorem InitReplayW_all_or_nothing:
  assumes "gSessionKind s = UE_SESSION_NONE" and "\<not> gIsDebugging s" and "path \<noteq> []"
    and "kind = UE_SESSION_MINIDUMP \<or> kind = UE_SESSION_TTD" and "InitReplayW os cl (Some path) kind s = (ok, t)"
  shows "if ok then returned_handles t \<and> bootstrapped kind t else session_gone t \<and> lastError t \<noteq> 0"
  using assms openRecording_opened [of os path _ ok t] openDump_opened [of os cl path _ ok t]
  by (auto simp: InitReplayW_def Let_def opened_def [symmetric])

text \<open>A dump of process 5 with one thread, and an engine that opens nothing.\<close>

definition dump_os :: "unit os" where
  "dump_os = quiet_os\<lparr>dbg := quiet_dbg\<lparr>dOpenDumpFile := (\<lambda>_ w. (S_OK, None, w)), dWaitForEvent := (\<lambda>w. ((S_OK, []), None, w)),
     dDebuggeeType := (\<lambda>_. (S_OK, DEBUG_CLASS_USER_WINDOWS, 1024)), dNumberProcesses := (\<lambda>_. Some 1), dNumberThreads := (\<lambda>_. Some 1),
     dThreadIdsByIndex := (\<lambda>_. Some [(0, 50)]), dProcessIndex := (\<lambda>_. Some 0), dThreadIndex := (\<lambda>_. Some 0),
     dProcessSystemId := (\<lambda>_. Some 5), dThreadSystemId := (\<lambda>_. Some 50)\<rparr>\<rparr>"

lemma dump_os_opens: "fst (InitReplayW dump_os cl (Some [65]) UE_SESSION_MINIDUMP (initial_titan ()))"
proof -
  have "fst (bootstrapDump dump_os pi ps ti ts threads s)" for pi ps ti ts threads s
    using bootstrapDump_spec [OF prod.collapse [symmetric]] by blast
  then show ?thesis
    by (simp add: InitReplayW_def openDump_def waitForEvent_def oscall_def deliverEvents_def describeDump_def identityFailure_def dump_os_def
        clearSession_def closeCallerOwnedTitanHandles_def quiet_defs initial_titan_def Let_def)
qed

lemma quiet_os_opens_nothing: "\<not> fst (InitReplayW quiet_os cl (Some [65]) UE_SESSION_TTD (initial_titan ()))"
  by (simp add: InitReplayW_def openRecording_def oscall_def failReplay_def quiet_defs clearSession_def closeCallerOwnedTitanHandles_def
      initial_titan_def Let_def)

theorem InitReplayW_all_or_nothing_witness:
  "returned_handles (snd (InitReplayW dump_os (\<lambda>_ _ s. s) (Some [65]) UE_SESSION_MINIDUMP (initial_titan ()))) \<and>
   session_gone (snd (InitReplayW quiet_os (\<lambda>_ _ s. s) (Some [65]) UE_SESSION_TTD (initial_titan ())))"
proof -
  have start: "gSessionKind (initial_titan ()) = UE_SESSION_NONE" "\<not> gIsDebugging (initial_titan ())" "[65 :: u16] \<noteq> []"
    by (simp_all add: initial_titan_def)
  show ?thesis
    using InitReplayW_all_or_nothing [OF start _ prod.collapse [symmetric], of UE_SESSION_MINIDUMP dump_os "\<lambda>_ _ s. s"]
      InitReplayW_all_or_nothing [OF start _ prod.collapse [symmetric], of UE_SESSION_TTD quiet_os "\<lambda>_ _ s. s"]
      dump_os_opens [of "\<lambda>_ _ s. s"] quiet_os_opens_nothing [of "\<lambda>_ _ s. s"] by simp
qed

end
