(* ===== verification/Debug_Loop.thy ===== *)
theory Debug_Loop
  imports Sessions Event_Properties Timeline
begin

text \<open>
  The debug loop (\<open>TitanEngine.cpp\<close>, lines 5384 to 5655 and 5669 to 5711): the loop of a recording and the
  loop of a live process or a dump, the reset that ends both, and attaching. RequestPause and
  StopDebug run on other threads while a loop waits; what they do meanwhile is the parameter \<open>peers\<close>.
\<close>

section \<open>The end of a session\<close>

text \<open>The assignments both loops end with.\<close>

definition resetTables :: "'w os \<Rightarrow> 'w titan \<Rightarrow> 'w titan" where
  "resetTables os s =
     (closeCallerOwnedTitanHandles os (s\<lparr>gIsDebugging := False, gProcessInfo := empty_process_information,
        gCustomHandlers := [], gFakeDebugEvent := empty_debug_event, gCallbackQueue := [],
        gProcessPebCache := [], gProcessTebCache := []\<rparr>))
     \<lparr>gDebugIdMap := empty_id_map, gBreakpoints := [], gHardwareBreakpointIds := [], gMemoryBreakpoints := [],
      gMemoryBreakpointPages := [], gStepCallbacks := [], gStepThreadSystemIds := [], gInternalStepCallbacks := [],
      gInternalStepSuspendedThreads := [], gStepStatuses := [], gRetiredBreakpointAddresses := [], gAttachCallback := 0\<rparr>"

definition endTtdLoop :: "'w os \<Rightarrow> 'w titan \<Rightarrow> 'w titan" where
  "endTtdLoop os s = (resetTtdSession (resetTables os (s\<lparr>gPaused := False\<rparr>)))\<lparr>gSessionKind := UE_SESSION_NONE\<rparr>"

definition endLiveLoop :: "'w os \<Rightarrow> 'w titan \<Rightarrow> 'w titan" where
  "endLiveLoop os s = (resetTables os s)\<lparr>gRegisterCache := empty_register_cache, gPauseCallback := 0, gSessionKind := UE_SESSION_NONE\<rparr>"

section \<open>The loop of a recording\<close>

definition goesOn :: "u32 \<Rightarrow> bool" where
  "goesOn status = (status = DEBUG_STATUS_GO \<or> status = DEBUG_STATUS_GO_HANDLED \<or> status = DEBUG_STATUS_GO_NOT_HANDLED)"

partial_function (option) ttdLoop ::
  "'w os \<Rightarrow> 'w client \<Rightarrow> ('w titan \<Rightarrow> 'w titan) \<Rightarrow> 'w titan \<Rightarrow> 'w titan option" where
  "ttdLoop os cl peers s = (case runQueue os cl False s of
     None \<Rightarrow> None
   | Some s \<Rightarrow>
       if gTtdStopRequested s then Some s
       else if goesOn (gNextExecutionStatus s)
       then ttdLoop os cl peers (snd (runTtd os peers (gTtdNextRunReverse s)
              (s\<lparr>gNextExecutionStatus := DEBUG_STATUS_NO_CHANGE, gTtdNextRunReverse := False\<rparr>)))
       else if gTtdStopRequested (peers (s\<lparr>gNextExecutionStatus := DEBUG_STATUS_NO_CHANGE\<rparr>))
       then Some (peers (s\<lparr>gNextExecutionStatus := DEBUG_STATUS_NO_CHANGE\<rparr>))
       else ttdLoop os cl peers (peers (s\<lparr>gNextExecutionStatus := DEBUG_STATUS_NO_CHANGE\<rparr>)))"

section \<open>The loop of a live process\<close>

text \<open>
  A stop that no event explains: a pause that was requested, else an internal step or a step of the user that has been completed by
  the thread the engine stopped in.
\<close>

definition queueStopWork :: "'w os \<Rightarrow> 'w titan \<Rightarrow> 'w titan" where
  "queueStopWork os s =
     (if gCallbackQueue s \<noteq> [] then s
      else if gPauseCallback s \<noteq> 0 then queueCallback (PauseWork (gPauseCallback s)) (s\<lparr>gPauseCallback := 0\<rparr>)
      else if gStepCallbacks s = [] \<and> gInternalStepCallbacks s = [] then s
      else (case dThreadIndex (dbg os) (world s) of
          None \<Rightarrow> s
        | Some threadIndex \<Rightarrow>
            if omap_contains (gInternalStepCallbacks s) threadIndex then queueCallback (InternalStepWork threadIndex) s
            else (case map_of (gStepCallbacks s) threadIndex of
                None \<Rightarrow> s
              | Some stepCallback \<Rightarrow>
                  queueCallback (StepWork stepCallback (case map_of (gStepThreadSystemIds s) threadIndex of Some t \<Rightarrow> t | None \<Rightarrow> 0))
                    (s\<lparr>gStepCallbacks := omap_erase threadIndex (gStepCallbacks s),
                      gStepThreadSystemIds := omap_erase threadIndex (gStepThreadSystemIds s),
                      gStepStatuses := omap_erase threadIndex (gStepStatuses s)\<rparr>))))"

definition waitForStop :: "'w os \<Rightarrow> 'w client \<Rightarrow> ('w titan \<Rightarrow> 'w titan) \<Rightarrow> 'w titan \<Rightarrow> bool \<times> 'w titan" where
  "waitForStop os cl peers s =
     (if gCallbackQueue s \<noteq> [] then (True, s)
      else (let (hr, s) = waitForEvent os cl (peers (s\<lparr>gPaused := False\<rparr>))
            in if FAILED hr then (False, s) else (True, queueStopWork os s)))"

text \<open>The first half of a round: wait, read the registers, open the session to the other threads.\<close>

definition beginRound :: "'w os \<Rightarrow> 'w client \<Rightarrow> ('w titan \<Rightarrow> 'w titan) \<Rightarrow> 'w titan \<Rightarrow> bool \<times> 'w titan" where
  "beginRound os cl peers s =
     (let (stopped, s) = waitForStop os cl peers s
      in if \<not> stopped then (False, s)
         else (let (cached, s) = RegisterCache_Read os s
               in if \<not> cached then (False, s) else (True, s\<lparr>gPaused := True\<rparr>)))"

text \<open>The second half: write the registers back and tell the engine how to go on.\<close>

definition endRound :: "'w os \<Rightarrow> 'w titan \<Rightarrow> bool \<times> 'w titan" where
  "endRound os s =
     (let (flushed, s) = RegisterCache_Flush os s
      in if \<not> flushed then (False, s)
         else if gNextExecutionStatus s = DEBUG_STATUS_NO_CHANGE then (True, s)
         else if gSessionKind s = UE_SESSION_MINIDUMP \<and> gNextExecutionStatus s = DEBUG_STATUS_BREAK
         then (True, s\<lparr>gNextExecutionStatus := DEBUG_STATUS_NO_CHANGE\<rparr>)
         else (let s = (if dExecutionStatus (dbg os) (world s) \<noteq> Some DEBUG_STATUS_NO_DEBUGGEE
                        then snd (oscall (dSetExecutionStatus (dbg os) (gNextExecutionStatus s)) s) else s)
               in (True, s\<lparr>gNextExecutionStatus := DEBUG_STATUS_NO_CHANGE\<rparr>)))"

partial_function (option) liveLoop ::
  "'w os \<Rightarrow> 'w client \<Rightarrow> ('w titan \<Rightarrow> 'w titan) \<Rightarrow> 'w titan \<Rightarrow> 'w titan option" where
  "liveLoop os cl peers s =
     (if \<not> fst (beginRound os cl peers s) then Some (snd (beginRound os cl peers s))
      else (case runQueue os cl True (snd (beginRound os cl peers s)) of
          None \<Rightarrow> None
        | Some s \<Rightarrow>
            if \<not> fst (endRound os s) then Some (snd (endRound os s))
            else liveLoop os cl peers (snd (endRound os s))))"

definition DebugLoop :: "'w os \<Rightarrow> 'w client \<Rightarrow> ('w titan \<Rightarrow> 'w titan) \<Rightarrow> 'w titan \<Rightarrow> 'w titan option" where
  "DebugLoop os cl peers s =
     (if \<not> IsDebugThread os s then Some (SetLastError ERROR_INVALID_THREAD_ID s)
      else if gSessionKind s = UE_SESSION_TTD
      then map_option (endTtdLoop os) (ttdLoop os cl peers (s\<lparr>gIsDebugging := True, gPaused := True\<rparr>))
      else map_option (endLiveLoop os) (liveLoop os cl peers (s\<lparr>gIsDebugging := True\<rparr>)))"

section \<open>Attaching\<close>

text \<open>The option to detach when the adapter exits, bit 0.\<close>

definition setDetachOption :: "'w os \<Rightarrow> bool \<Rightarrow> 'w titan \<Rightarrow> 'w titan" where
  "setDetachOption os killOnExit s = (case dProcessOptions (dbg os) (world s) of
     None \<Rightarrow> s
   | Some options \<Rightarrow> snd (oscall (dSetProcessOptions (dbg os) (if killOnExit then options AND NOT 1 else options OR 1)) s))"

text \<open>The debug information is what the caller's buffer receives before the loop runs.\<close>

definition AttachDebugger ::
  "'w os \<Rightarrow> 'w client \<Rightarrow> ('w titan \<Rightarrow> 'w titan) \<Rightarrow> u32 \<Rightarrow> bool \<Rightarrow> bool \<Rightarrow> callback \<Rightarrow> 'w titan \<Rightarrow>
    ((bool \<times> process_information option) \<times> 'w titan) option" where
  "AttachDebugger os cl peers processId killOnExit debugInfo attachCallback s =
     (if processId = 0 \<or> \<not> debugInfo then Some ((False, None), SetLastError ERROR_INVALID_PARAMETER s)
      else (let s = s\<lparr>gProcessInfo := empty_process_information, gSessionGeneration := gSessionGeneration s + 1,
                   gProcessCreated := False, gDebugThreadId := wCurrentThreadId (win os) (world s),
                   gExpectSystemBreakpoint := True, gAttachCallback := attachCallback, gPauseCallback := 0,
                   gNextExecutionStatus := DEBUG_STATUS_NO_CHANGE, gNextContinueStatus := DBG_CONTINUE\<rparr>;
                s = setDetachOption os killOnExit s;
                (hr, s) = oscall (dAttachProcess (dbg os) processId) s
            in if FAILED hr then Some ((False, None), (SetLastError (HRESULT_CODE hr) s)\<lparr>gAttachCallback := 0\<rparr>)
               else (let (hr, s) = waitForEvent os cl s
                     in if FAILED hr \<or> \<not> gProcessCreated s
                        then Some ((False, None), SetLastError ERROR_GEN_FAILURE
                               ((snd (oscall (dDetachProcesses (dbg os)) s))\<lparr>gAttachCallback := 0\<rparr>))
                        else (let s = s\<lparr>gSessionKind := UE_SESSION_LIVE\<rparr>
                              in map_option (Pair (True, Some (gProcessInfo s))) (DebugLoop os cl peers s)))))"

end
