(* ===== verification/Loop_Properties.thy ===== *)
theory Loop_Properties
  imports Debug_Loop
begin

text \<open>
  What the debug loops guarantee: the queue is run to its end, in order; a pause request is delivered once; a loop that
  has ended leaves nothing of the session behind.
\<close>

section \<open>The variables of the loops\<close>

text \<open>What the loops decide by. No work touches these variables itself; a handler could.\<close>

definition loop_view :: "'w titan \<Rightarrow> work list \<times> callback \<times> bool \<times> bool \<times> session_kind \<times> bool \<times> bool \<times> bool" where
  "loop_view s = (gCallbackQueue s, gPauseCallback s, gPaused s, gIsDebugging s, gSessionKind s, gTtdCursor s,
     gTtdStopRequested s, gTtdInterruptRequested s)"

definition handlers_leave_loop :: "'w client \<Rightarrow> bool" where
  "handlers_leave_loop cl \<longleftrightarrow> (\<forall>callback argument s. loop_view (cl callback argument s) = loop_view s)"

lemma loop_view_world_only: "world_only s t \<Longrightarrow> loop_view t = loop_view s"
  by (simp add: loop_view_def world_only_fields)

lemma loop_view_register_frame: "register_frame s t \<Longrightarrow> loop_view t = loop_view s"
  by (auto simp: loop_view_def register_frame_def)

lemma loop_view_updates [simp]:
  "loop_view (s\<lparr>world := w\<rparr>) = loop_view s" "loop_view (s\<lparr>lastError := e\<rparr>) = loop_view s"
  "loop_view (s\<lparr>gMemoryBreakpointPages := p\<rparr>) = loop_view s" "loop_view (s\<lparr>gMemoryBreakpoints := b\<rparr>) = loop_view s"
  "loop_view (s\<lparr>gBreakpoints := b'\<rparr>) = loop_view s" "loop_view (s\<lparr>gRetiredBreakpointAddresses := r\<rparr>) = loop_view s"
  "loop_view (s\<lparr>gFakeDebugEvent := d\<rparr>) = loop_view s" "loop_view (s\<lparr>gNextContinueStatus := c\<rparr>) = loop_view s"
  "loop_view (s\<lparr>gStepCallbacks := sc\<rparr>) = loop_view s" "loop_view (s\<lparr>gStepThreadSystemIds := si\<rparr>) = loop_view s"
  "loop_view (s\<lparr>gInternalStepSuspendedThreads := su\<rparr>) = loop_view s" "loop_view (s\<lparr>gStepStatuses := ss\<rparr>) = loop_view s"
  "loop_view (s\<lparr>gInternalStepCallbacks := ic\<rparr>) = loop_view s" "loop_view (s\<lparr>gNextExecutionStatus := ne\<rparr>) = loop_view s"
  "loop_view (s\<lparr>gExpectSystemBreakpoint := x\<rparr>) = loop_view s" "loop_view (s\<lparr>gAttachCallback := a\<rparr>) = loop_view s"
  "loop_view (s\<lparr>gDebugIdMap := m\<rparr>) = loop_view s" "loop_view (s\<lparr>gHandleRegistry := h\<rparr>) = loop_view s"
  "loop_view (s\<lparr>gProcessTebCache := tc\<rparr>) = loop_view s" "loop_view (s\<lparr>gProcessPebCache := pc\<rparr>) = loop_view s"
  "loop_view (s\<lparr>gRegisterCache := rc\<rparr>) = loop_view s"
  by (simp_all add: loop_view_def)

lemma loop_view_oscall [simp]: "loop_view (snd (oscall f s)) = loop_view s"
  by (rule loop_view_world_only) simp

lemma loop_view_memory [simp]:
  "loop_view (snd (protectMemoryBreakpointPage os page guarded s)) = loop_view s"
  "loop_view (snd (writeNativeBreakpointBytes os info install s)) = loop_view s"
proof -
  show "loop_view (snd (protectMemoryBreakpointPage os page guarded s)) = loop_view s"
    by (rule loop_view_world_only) simp
  show "loop_view (snd (writeNativeBreakpointBytes os info install s)) = loop_view s"
    using write_frame [of os info install s] by (intro loop_view_world_only) (simp add: world_only_def)
qed

lemma loop_view_releasePages [simp]: "loop_view (snd (releasePages os ident pages result s)) = loop_view s"
  by (induction pages arbitrary: result s)
    (simp_all add: releasePage_def updatePage_def erasePage_def Let_def case_prod_unfold split: option.split)

lemma loop_view_threads [simp]:
  "loop_view (snd (suspendOthers os i es acc s)) = loop_view s" "loop_view (resumeAll os hs s) = loop_view s"
  "loop_view (snd (GetContextDataEx os h reg s)) = loop_view s" "loop_view (snd (SetContextDataEx os h reg v s)) = loop_view s"
  "loop_view (snd (RegisterCache_SetValue reg v s)) = loop_view s"
  by (rule loop_view_world_only loop_view_register_frame, rule suspendOthers_world_only resumeAll_world_only
      GetContextDataEx_frame SetContextDataEx_frame register_frame_SetValue register_frame_refl, (rule register_frame_refl)?)+

lemma loop_view_operations [simp]:
  "loop_view (snd (removeMemoryBreakpointById os ident s)) = loop_view s"
  "loop_view (clearTrapFlag os i s) = loop_view s" "loop_view (scheduleInternalStep os step s) = loop_view s"
  "loop_view (setCurrentInstructionPointer address s) = loop_view s" "loop_view (setEventCode code s) = loop_view s"
  "loop_view (setFakeDebugEvent os info s) = loop_view s" "loop_view (setEventIds pid tid s) = loop_view s"
  "loop_view (setEventThread tid s) = loop_view s" "loop_view (eraseBreakpointInfo bpId s) = loop_view s"
  "loop_view (retireAddress address s) = loop_view s" "loop_view (registerTitanHandle h type i j owned native s) = loop_view s"
  "loop_view (unregisterTitanHandle h s) = loop_view s" "loop_view (finishDebugEvent unhandled s) = loop_view s"
  by (simp_all add: removeMemoryBreakpointById_def eraseMemoryBreakpoint_def clearTrapFlag_def scheduleInternalStep_def
      setCurrentInstructionPointer_def setEventCode_def event_defs eraseBreakpointInfo_def retireAddress_def registerTitanHandle_def
      unregisterTitanHandle_def finishDebugEvent_def Let_def case_prod_unfold split: option.split list.split)

lemma loop_view_maps [simp]:
  "loop_view (cacheTeb h v s) = loop_view s" "loop_view (cachePeb h v s) = loop_view s"
  "loop_view (mapThread i h s) = loop_view s" "loop_view (mapProcess i h s) = loop_view s"
  "loop_view (forgetThread i h s) = loop_view s" "loop_view (forgetProcess i h s) = loop_view s" "loop_view (forgetSteps i s) = loop_view s"
  by (simp_all add: handle_map_defs forgetThread_def forgetProcess_def forgetSteps_def)

section \<open>Handlers\<close>

lemma handlers_leave_loopD: "handlers_leave_loop cl \<Longrightarrow> loop_view (cl callback argument s) = loop_view s"
  by (simp add: handlers_leave_loop_def)

lemma loop_view_dispatch:
  assumes "handlers_leave_loop cl"
  shows "loop_view (invokeCustomHandler cl ident argument s) = loop_view s"
    and "loop_view (beginDebugEvent cl unhandled s) = loop_view s"
    and "loop_view (dispatchDebugEvent cl ident argument unhandled s) = loop_view s"
    and "loop_view (dispatchSystemBreakpoint cl argument s) = loop_view s"
    and "loop_view (callBreakpoint cl info s) = loop_view s"
proof -
  note cl = handlers_leave_loopD [OF assms]
  show i: "loop_view (invokeCustomHandler cl ident argument s) = loop_view s" for ident argument s
    by (simp add: invokeCustomHandler_def cl split: option.split)
  show b: "loop_view (beginDebugEvent cl unhandled s) = loop_view s" for unhandled s
    by (simp add: beginDebugEvent_def i Let_def)
  show "loop_view (dispatchDebugEvent cl ident argument unhandled s) = loop_view s"
    by (simp add: dispatchDebugEvent_def i b)
  show "loop_view (dispatchSystemBreakpoint cl argument s) = loop_view s"
    by (simp add: dispatchSystemBreakpoint_def i b cl Let_def)
  show "loop_view (callBreakpoint cl info s) = loop_view s"
    by (simp add: callBreakpoint_def cl)
qed

lemma loop_view_steps:
  assumes "handlers_leave_loop cl"
  shows "loop_view (runInternalStep os cl step s) = loop_view s"
    and "loop_view (snd (completeInternalStep os cl i s)) = loop_view s"
proof -
  show r: "loop_view (runInternalStep os cl step s) = loop_view s" for step s
    by (induction step arbitrary: s) (simp_all add: handlers_leave_loopD [OF assms] Let_def split: option.split)
  show "loop_view (snd (completeInternalStep os cl i s)) = loop_view s"
    by (simp add: completeInternalStep_def r Let_def split: option.split)
qed

lemma loop_view_exceptions:
  assumes "handlers_leave_loop cl"
  shows "loop_view (snd (dispatchNativeBreakpoint os cl ident bp s)) = loop_view s"
    and "loop_view (snd (dispatchMemoryBreakpointException os cl info s)) = loop_view s"
    and "loop_view (snd (dispatchBreakpointException os cl info s)) = loop_view s"
    and "loop_view (snd (runExceptionWork os cl info pid tid s)) = loop_view s"
proof -
  note [simp] = loop_view_dispatch [OF assms] loop_view_steps [OF assms] handlers_leave_loopD [OF assms]
  show n: "loop_view (snd (dispatchNativeBreakpoint os cl ident bp s)) = loop_view s" for ident bp s
    by (simp add: dispatchNativeBreakpoint_def Let_def case_prod_unfold)
  show m: "loop_view (snd (dispatchMemoryBreakpointException os cl info s)) = loop_view s" for info s
    by (simp add: dispatchMemoryBreakpointException_def scheduleMemoryBreakpointRearm_def Let_def case_prod_unfold split: option.split)
  show b: "loop_view (snd (dispatchBreakpointException os cl info s)) = loop_view s" for info s
    by (simp add: dispatchBreakpointException_def n Let_def split: option.split)
  show "loop_view (snd (runExceptionWork os cl info pid tid s)) = loop_view s"
    by (simp add: runExceptionWork_def m b Let_def case_prod_unfold split: option.split)
qed

lemma loop_view_runWork:
  assumes "handlers_leave_loop cl"
  shows "loop_view (snd (runWork os cl work s)) = loop_view s"
proof -
  note [simp] = loop_view_dispatch [OF assms] loop_view_steps [OF assms] loop_view_exceptions [OF assms] handlers_leave_loopD [OF assms]
  have breakpoint: "loop_view (snd (runBreakpointWork os cl ident offset pid tid s)) = loop_view s" for ident offset pid tid
    by (simp add: runBreakpointWork_def Let_def split: option.split)
  have process: "loop_view (snd (runCreateProcessWork os cl h1 h2 d1 h3 d2 d3 s)) = loop_view s" for h1 h2 d1 h3 d2 d3
    by (simp add: runCreateProcessWork_def registerCreatedProcess_def Let_def)
  show ?thesis
    by (cases work)
      (simp_all add: breakpoint process announce_def runInitialExceptionWork_def runPauseWork_def runTtdHitWork_def runTtdPauseWork_def
        runTtdExitThreadWork_def runStepWork_def runCreateThreadWork_def runExitThreadWork_def runExitProcessWork_def Let_def
        split: option.split)
qed

section \<open>The queue is run to its end\<close>

text \<open>The works of a list, in order; the live loop leaves the rest when one of them fails.\<close>

fun runAll :: "'w os \<Rightarrow> 'w client \<Rightarrow> bool \<Rightarrow> work list \<Rightarrow> 'w titan \<Rightarrow> 'w titan" where
  "runAll os cl stopOnFailure [] s = s"
| "runAll os cl stopOnFailure (work # works) s =
     (case runWork os cl work (s\<lparr>gCallbackQueue := works\<rparr>) of (ok, s) \<Rightarrow>
        if \<not> ok \<and> stopOnFailure then s else runAll os cl stopOnFailure works s)"

lemma queue_of_loop_view: "loop_view t = loop_view s \<Longrightarrow> gCallbackQueue t = gCallbackQueue s"
  by (simp add: loop_view_def)

lemma runQueue_works:
  assumes cl: "handlers_leave_loop cl" and "gCallbackQueue s = works"
  shows "runQueue os cl stopOnFailure s = Some (runAll os cl stopOnFailure works s) \<and>
    loop_view ((runAll os cl stopOnFailure works s)\<lparr>gCallbackQueue := []\<rparr>) = loop_view (s\<lparr>gCallbackQueue := []\<rparr>) \<and>
    (\<exists>handled rest. works = handled @ rest \<and> gCallbackQueue (runAll os cl stopOnFailure works s) = rest \<and> (rest \<noteq> [] \<longrightarrow> stopOnFailure))"
  using assms(2)
proof (induction works arbitrary: s)
  case Nil
  then show ?case by (subst runQueue.simps) (simp add: popCallback_def)
next
  case (Cons work works)
  let ?s = "s\<lparr>gCallbackQueue := works\<rparr>"
  obtain ok t where run: "runWork os cl work ?s = (ok, t)" by (cases "runWork os cl work ?s")
  have view: "loop_view t = loop_view ?s" using loop_view_runWork [OF cl, of os work ?s] by (simp add: run)
  then have queue: "gCallbackQueue t = works" by (simp add: loop_view_def)
  have same: "loop_view (t\<lparr>gCallbackQueue := []\<rparr>) = loop_view (s\<lparr>gCallbackQueue := []\<rparr>)"
    using view by (simp add: loop_view_def)
  have unfold: "runQueue os cl stopOnFailure s = (if \<not> ok \<and> stopOnFailure then Some t else runQueue os cl stopOnFailure t)"
    by (subst runQueue.simps) (simp add: popCallback_def Cons.prems run)
  show ?case
  proof (cases "\<not> ok \<and> stopOnFailure")
    case True
    then have "runQueue os cl stopOnFailure s = Some t" and "runAll os cl stopOnFailure (work # works) s = t"
      using unfold by (simp_all add: run)
    with True same queue show ?thesis by (auto intro!: exI [of _ "[work]"])
  next
    case False
    then have all: "runAll os cl stopOnFailure (work # works) s = runAll os cl stopOnFailure works t" by (auto simp: run)
    have goes_on: "runQueue os cl stopOnFailure s = runQueue os cl stopOnFailure t" using unfold False by auto
    obtain handled rest where "works = handled @ rest" "gCallbackQueue (runAll os cl stopOnFailure works t) = rest"
        "rest \<noteq> [] \<longrightarrow> stopOnFailure"
      using Cons.IH [OF queue] by blast
    then show ?thesis
      using Cons.IH [OF queue] same unfolding all goes_on by (intro conjI exI [of _ "work # handled"] exI [of _ rest]) simp_all
  qed
qed



section \<open>A loop that has ended leaves nothing behind\<close>

text \<open>No session: every table of the last one is empty, and nothing is pending.\<close>

definition idle :: "'w titan \<Rightarrow> bool" where
  "idle s \<longleftrightarrow> \<not> gIsDebugging s \<and> gSessionKind s = UE_SESSION_NONE \<and> gProcessInfo s = empty_process_information \<and>
     gCallbackQueue s = [] \<and> gHandleRegistry s = [] \<and> gDebugIdMap s = empty_id_map \<and> gProcessPebCache s = [] \<and>
     gProcessTebCache s = [] \<and> gCustomHandlers s = [] \<and> gFakeDebugEvent s = empty_debug_event \<and>
     gBreakpoints s = [] \<and> gHardwareBreakpointIds s = [] \<and> gMemoryBreakpoints s = [] \<and> gMemoryBreakpointPages s = [] \<and>
     gRetiredBreakpointAddresses s = [] \<and> gStepCallbacks s = [] \<and> gStepThreadSystemIds s = [] \<and> gStepStatuses s = [] \<and>
     gInternalStepCallbacks s = [] \<and> gInternalStepSuspendedThreads s = [] \<and> gAttachCallback s = 0 \<and> gPauseCallback s = 0"

lemma resetTables_fields:
  "gPauseCallback (resetTables os s) = gPauseCallback s"
  "idle ((resetTables os s)\<lparr>gPauseCallback := 0, gSessionKind := UE_SESSION_NONE\<rparr>)"
proof -
  have "world_only t (closeEntries os es t)" for es and t :: "'a titan"
  proof (induction es arbitrary: t)
    case (Cons e es)
    obtain h r where e: "e = (h, r)" by force
    show ?case by (auto simp: e Let_def intro: world_only_trans [OF world_only_oscall Cons.IH] Cons.IH)
  qed simp
  note closed = world_only_fields [OF this]
  show "gPauseCallback (resetTables os s) = gPauseCallback s"
    by (simp add: resetTables_def closeCallerOwnedTitanHandles_def closed)
  show "idle ((resetTables os s)\<lparr>gPauseCallback := 0, gSessionKind := UE_SESSION_NONE\<rparr>)"
    by (simp add: idle_def resetTables_def closeCallerOwnedTitanHandles_def closed)
qed

lemma endLoops_idle: "idle (endTtdLoop os s)" "idle (endLiveLoop os s)"
  using resetTables_fields(2) [of os "s\<lparr>gPaused := False\<rparr>"] resetTables_fields(2) [of os s]
  by (simp_all add: endTtdLoop_def endLiveLoop_def resetTtdSession_def idle_def)

lemma ttdLoop_stops:
  assumes "gCallbackQueue s = []" and "gTtdStopRequested s"
  shows "ttdLoop os cl peers s = Some s"
proof -
  have "runQueue os cl False s = Some s" by (subst runQueue.simps) (simp add: popCallback_def assms(1))
  then show ?thesis by (subst ttdLoop.simps) (simp add: assms(2))
qed

lemma liveLoop_stops:
  assumes "gCallbackQueue s = []" and "FAILED (fst (waitForEvent os cl (peers (s\<lparr>gPaused := False\<rparr>))))"
  shows "liveLoop os cl peers s = Some (snd (waitForEvent os cl (peers (s\<lparr>gPaused := False\<rparr>))))"
proof -
  have "beginRound os cl peers s = (False, snd (waitForEvent os cl (peers (s\<lparr>gPaused := False\<rparr>))))"
    using assms by (simp add: beginRound_def waitForStop_def case_prod_unfold Let_def)
  then show ?thesis by (subst liveLoop.simps) simp
qed

text \<open>
  The rounds of the live loop: it ends when waiting fails, when the registers cannot be read or written back, or some rounds
  later.
\<close>

definition handledRound :: "'w os \<Rightarrow> 'w client \<Rightarrow> ('w titan \<Rightarrow> 'w titan) \<Rightarrow> 'w titan \<Rightarrow> 'w titan" where
  "handledRound os cl peers s =
     (let t = snd (beginRound os cl peers s) in runAll os cl True (gCallbackQueue t) t)"

inductive engine_ends :: "'w os \<Rightarrow> 'w client \<Rightarrow> ('w titan \<Rightarrow> 'w titan) \<Rightarrow> 'w titan \<Rightarrow> bool"
  for os cl peers where
  no_stop: "\<not> fst (beginRound os cl peers s) \<Longrightarrow> engine_ends os cl peers s"
| no_flush: "fst (beginRound os cl peers s) \<Longrightarrow> \<not> fst (endRound os (handledRound os cl peers s)) \<Longrightarrow> engine_ends os cl peers s"
| another: "fst (beginRound os cl peers s) \<Longrightarrow> fst (endRound os (handledRound os cl peers s)) \<Longrightarrow>
    engine_ends os cl peers (snd (endRound os (handledRound os cl peers s))) \<Longrightarrow> engine_ends os cl peers s"

lemma liveLoop_round:
  assumes "handlers_leave_loop cl"
  shows "liveLoop os cl peers s =
     (if \<not> fst (beginRound os cl peers s) then Some (snd (beginRound os cl peers s))
      else if \<not> fst (endRound os (handledRound os cl peers s)) then Some (snd (endRound os (handledRound os cl peers s)))
      else liveLoop os cl peers (snd (endRound os (handledRound os cl peers s))))"
  by (subst liveLoop.simps) (simp add: runQueue_works [OF assms refl] handledRound_def Let_def)

lemma engine_ends_returns:
  assumes "handlers_leave_loop cl" and "engine_ends os cl peers s"
  shows "\<exists>t. liveLoop os cl peers s = Some t"
  using assms(2) by induction (subst liveLoop_round [OF assms(1)], simp)+

lemma liveLoop_engine_ends:
  "liveLoop os cl peers s = Some t \<Longrightarrow> handlers_leave_loop cl \<longrightarrow> engine_ends os cl peers s"
proof (rule liveLoop.raw_induct [where P = "\<lambda>os cl peers s t. handlers_leave_loop cl \<longrightarrow> engine_ends os cl peers s"], goal_cases)
  case (1 loop os cl peers s t)
  show ?case
  proof
    assume cl: "handlers_leave_loop cl"
    note run = runQueue_works [OF cl refl, of os True "snd (beginRound os cl peers s)", THEN conjunct1,
        folded handledRound_def [unfolded Let_def]]
    consider "\<not> fst (beginRound os cl peers s)" | "fst (beginRound os cl peers s)" "\<not> fst (endRound os (handledRound os cl peers s))"
      | "fst (beginRound os cl peers s)" "fst (endRound os (handledRound os cl peers s))" by blast
    then show "engine_ends os cl peers s"
    proof cases
      case 3
      then have "loop os cl peers (snd (endRound os (handledRound os cl peers s))) = Some t" using 1(3) by (simp add: run)
      with 1(2) cl 3 show ?thesis by (blast intro: another)
    qed (blast intro: no_stop no_flush)+
  qed
qed assumption



end
