(* ===== verification/Pause_Protocol.thy ===== *)
theory Pause_Protocol
  imports Loop_Properties
begin

text \<open>
  The two protocols between the debug thread and the other threads: the pause lock, with which they keep off the engine while it
  runs (\<open>TitanEngine.cpp\<close>, lines 463 to 485, 5478 to 5482 and 5567 to 5608), as a transition system of one
  debug thread and any number of readers; and the pause requests, each delivered to its callback once, as traces of the
  operations that move a request on.
\<close>

section \<open>The pause lock\<close>

text \<open>
  Where a thread that uses \<open>PauseLock\<close> is: not in an operation, past the check of the two flags and about to lock the
  mutex, inside, or refused because the check failed. Where the debug loop is: dispatching events, inside
  WaitForEvent, holding the mutex to fill the register cache, past that, holding it to write the cache back.
\<close>

datatype reader = Outside | Checked | Inside | Refused
datatype debug_thread = Dispatching | Waiting | Caching | Cached | Flushing | Flushed

datatype lock_owner = NoOwner | Reader nat | DebugThread

record lock_state =
  flagPaused :: bool
  flagDebugging :: bool
  mutexPaused :: lock_owner
  readers :: "nat \<Rightarrow> reader"
  debugThread :: debug_thread

text \<open>The register cache is in use, or the engine runs the debuggee.\<close>

definition initialLock :: lock_state where
  "initialLock = \<lparr>flagPaused = True, flagDebugging = True, mutexPaused = NoOwner, readers = (\<lambda>_. Outside), debugThread = Dispatching\<rparr>"

inductive lock_step :: "lock_state \<Rightarrow> lock_state \<Rightarrow> bool" where
  check: "readers s t = Outside \<Longrightarrow> flagPaused s \<and> flagDebugging s \<Longrightarrow>
     lock_step s (s\<lparr>readers := (readers s)(t := Checked)\<rparr>)"
| refuse: "readers s t = Outside \<Longrightarrow> \<not> (flagPaused s \<and> flagDebugging s) \<Longrightarrow>
     lock_step s (s\<lparr>readers := (readers s)(t := Refused)\<rparr>)"
| give_up: "readers s t = Refused \<Longrightarrow> lock_step s (s\<lparr>readers := (readers s)(t := Outside)\<rparr>)"
| lock: "readers s t = Checked \<Longrightarrow> mutexPaused s = NoOwner \<Longrightarrow>
     lock_step s (s\<lparr>readers := (readers s)(t := Inside), mutexPaused := Reader t\<rparr>)"
| unlock: "readers s t = Inside \<Longrightarrow> lock_step s (s\<lparr>readers := (readers s)(t := Outside), mutexPaused := NoOwner\<rparr>)"
| flush: "debugThread s = Dispatching \<Longrightarrow> mutexPaused s = NoOwner \<Longrightarrow>
     lock_step s (s\<lparr>debugThread := Flushing, mutexPaused := DebugThread\<rparr>)"
| flushed: "debugThread s = Flushing \<Longrightarrow> lock_step s (s\<lparr>debugThread := Flushed, mutexPaused := NoOwner\<rparr>)"
| wait: "debugThread s = Flushed \<Longrightarrow> lock_step s (s\<lparr>debugThread := Waiting, flagPaused := False\<rparr>)"
| event: "debugThread s = Waiting \<Longrightarrow> mutexPaused s = NoOwner \<Longrightarrow>
     lock_step s (s\<lparr>debugThread := Caching, mutexPaused := DebugThread\<rparr>)"
| cached: "debugThread s = Caching \<Longrightarrow> lock_step s (s\<lparr>debugThread := Cached, mutexPaused := NoOwner\<rparr>)"
| dispatch: "debugThread s = Cached \<Longrightarrow> lock_step s (s\<lparr>debugThread := Dispatching, flagPaused := True\<rparr>)"

inductive_cases lock_stepE: "lock_step s t"

text \<open>The owner of the mutex is who is inside, and the flag is down while the engine runs.\<close>

definition lock_ok :: "lock_state \<Rightarrow> bool" where
  "lock_ok s \<longleftrightarrow> (\<forall>t. readers s t = Inside \<longleftrightarrow> mutexPaused s = Reader t) \<and>
     ((debugThread s = Flushing \<or> debugThread s = Caching) \<longleftrightarrow> mutexPaused s = DebugThread) \<and>
     (flagPaused s \<longleftrightarrow> debugThread s \<in> {Dispatching, Flushing, Flushed})"

lemma lock_ok_initial: "lock_ok initialLock"
  by (simp add: lock_ok_def initialLock_def)

lemma lock_ok_step: "lock_step s t \<Longrightarrow> lock_ok s \<Longrightarrow> lock_ok t"
  by (erule lock_stepE; simp add: lock_ok_def; metis reader.distinct)

lemma lock_ok_reachable: "lock_step\<^sup>*\<^sup>* initialLock s \<Longrightarrow> lock_ok s"
  by (induction rule: rtranclp_induct) (auto intro: lock_ok_initial lock_ok_step)

text \<open>A reader that has passed the check locks the mutex after the debug loop has gone to wait.\<close>

definition raced :: "nat \<Rightarrow> lock_state" where
  "raced t = \<lparr>flagPaused = False, flagDebugging = True, mutexPaused = Reader t, readers = (\<lambda>_. Outside)(t := Inside),
     debugThread = Waiting\<rparr>"

lemma race_reachable: "lock_step\<^sup>*\<^sup>* initialLock (raced t)"
proof -
  let ?s1 = "initialLock\<lparr>readers := (readers initialLock)(t := Checked)\<rparr>"
  let ?s2 = "?s1\<lparr>debugThread := Flushing, mutexPaused := DebugThread\<rparr>"
  let ?s3 = "?s2\<lparr>debugThread := Flushed, mutexPaused := NoOwner\<rparr>"
  let ?s4 = "?s3\<lparr>debugThread := Waiting, flagPaused := False\<rparr>"
  let ?s5 = "?s4\<lparr>readers := (readers ?s4)(t := Inside), mutexPaused := Reader t\<rparr>"
  have "lock_step initialLock ?s1" by (rule check) (simp_all add: initialLock_def)
  moreover have "lock_step ?s1 ?s2" by (rule flush) (simp_all add: initialLock_def)
  moreover have "lock_step ?s2 ?s3" by (rule flushed) simp
  moreover have "lock_step ?s3 ?s4" by (rule wait) simp
  moreover have "lock_step ?s4 ?s5" by (rule lock) simp_all
  moreover have "?s5 = raced t" by (simp add: raced_def initialLock_def)
  ultimately show ?thesis by (metis (no_types, lifting) rtranclp.simps)
qed

text \<open>
  C19. What the pause lock gives and what it does not. In every reachable state at most one thread is inside, and none is
  while the debug thread fills or writes back the register cache; a thread that arrives while the engine runs is
  refused. But the flags are checked before the mutex is locked, and the debug loop does not lock it when it lowers
  the flag: a thread that has passed the check can enter while the engine runs, which the lock is there to exclude.
\<close>

theorem PauseLock_excludes_but_races:
  shows "(\<forall>s. lock_step\<^sup>*\<^sup>* initialLock s \<longrightarrow>
      (\<forall>t u. readers s t = Inside \<and> readers s u = Inside \<longrightarrow> t = u) \<and>
      (debugThread s = Caching \<or> debugThread s = Flushing \<longrightarrow> (\<forall>t. readers s t \<noteq> Inside)) \<and>
      (debugThread s = Waiting \<longrightarrow> (\<forall>t u. lock_step s u \<and> readers s t = Outside \<longrightarrow> readers u t \<noteq> Checked))) \<and>
    (\<forall>t. \<exists>s. lock_step\<^sup>*\<^sup>* initialLock s \<and> debugThread s = Waiting \<and> readers s t = Inside)"
proof (intro conjI allI impI)
  fix s
  assume "lock_step\<^sup>*\<^sup>* initialLock s"
  then have ok: "lock_ok s" by (rule lock_ok_reachable)
  show "readers s t = Inside \<and> readers s u = Inside \<Longrightarrow> t = u" for t u
    using ok unfolding lock_ok_def by (metis lock_owner.inject)
  show "debugThread s = Caching \<or> debugThread s = Flushing \<Longrightarrow> readers s t \<noteq> Inside" for t
    using ok unfolding lock_ok_def by (metis lock_owner.distinct(5))
  show "readers u t \<noteq> Checked" if "debugThread s = Waiting" "lock_step s u \<and> readers s t = Outside" for t u
  proof -
    have "\<not> flagPaused s" using ok that(1) by (simp add: lock_ok_def)
    with that show ?thesis by (auto elim!: lock_stepE simp: fun_upd_apply split: if_splits)
  qed
next
  fix t
  show "\<exists>s. lock_step\<^sup>*\<^sup>* initialLock s \<and> debugThread s = Waiting \<and> readers s t = Inside"
    using race_reachable [of t] by (auto simp: raced_def intro!: exI [of _ "raced t"])
qed

theorem PauseLock_excludes_but_races_witness:
  "lock_step\<^sup>*\<^sup>* initialLock (raced 3) \<and> debugThread (raced 3) = Waiting \<and> readers (raced 3) 3 = Inside \<and>
   \<not> (readers (raced 3) 3 = Inside \<and> readers (raced 3) 4 = Inside) \<and>
   (\<exists>s. lock_step\<^sup>*\<^sup>* initialLock s \<and> debugThread s = Waiting \<and> readers s 5 = Inside)"
proof (intro conjI)
  show reached: "lock_step\<^sup>*\<^sup>* initialLock (raced 3)" by (rule race_reachable)
  show "debugThread (raced 3) = Waiting" and "readers (raced 3) 3 = Inside" by (simp_all add: raced_def)
  show "\<not> (readers (raced 3) 3 = Inside \<and> readers (raced 3) 4 = Inside)"
    using conjunct1 [OF PauseLock_excludes_but_races] reached by (metis numeral_eq_iff semiring_norm(88,89))
  show "\<exists>s. lock_step\<^sup>*\<^sup>* initialLock s \<and> debugThread s = Waiting \<and> readers s 5 = Inside"
    using conjunct2 [OF PauseLock_excludes_but_races] by blast
qed

section \<open>Pause requests\<close>

text \<open>
  The callbacks of the requests that were accepted while none was outstanding, and those that have been called, along the operations
  that move a request: the request itself, the stop of the live loop, the end of a run of a recording, the delivery of
  queued work, and the events of the engine.
\<close>

inductive pausing :: "'w os \<Rightarrow> 'w client \<Rightarrow> callback list \<Rightarrow> callback list \<Rightarrow> 'w titan \<Rightarrow> bool"
  for os cl where
  start: "gPauseCallback s = 0 \<Longrightarrow> gCallbackQueue s = [] \<Longrightarrow> pausing os cl [] [] s"
| accepted: "pausing os cl requested called s \<Longrightarrow> RequestPause os policy callback s = (True, t) \<Longrightarrow>
     pausing os cl (if gPauseCallback s = 0 then requested @ [callback] else requested) called t"
| rejected: "pausing os cl requested called s \<Longrightarrow> RequestPause os policy callback s = (False, t) \<Longrightarrow>
     pausing os cl requested called t"
| stopped: "pausing os cl requested called s \<Longrightarrow> pausing os cl requested called (queueStopWork os s)"
| moved: "pausing os cl requested called s \<Longrightarrow> reportMovement os reverse stepCount reached hit s = (ok, t) \<Longrightarrow>
     pausing os cl requested called t"
| delivered: "pausing os cl requested called s \<Longrightarrow> popCallback s = Some (work, t) \<Longrightarrow> runWork os cl work t = (ok, u) \<Longrightarrow>
     pausing os cl requested (called @ pauses_of work) u"
| event: "pausing os cl requested called s \<Longrightarrow> pausing os cl requested called (deliverEvent os cl ev s)"

definition pendingPause :: "'w titan \<Rightarrow> callback list" where
  "pendingPause s = (if gPauseCallback s = 0 then [] else [gPauseCallback s])"

definition queuedPauses :: "'w titan \<Rightarrow> callback list" where
  "queuedPauses s = concat (map pauses_of (gCallbackQueue s))"

lemma RequestPause_spec:
  assumes "RequestPause os policy callback s = (ok, t)"
  shows "gCallbackQueue t = gCallbackQueue s \<and>
    (if ok then callback \<noteq> 0 \<and> gPauseCallback t = (if gPauseCallback s = 0 then callback else gPauseCallback s)
     else gPauseCallback t = gPauseCallback s)"
  using assms by (auto simp: RequestPause_def Let_def case_prod_unfold world_only_fields [OF world_only_oscall] split: if_splits)

lemma queueStopWork_pauses:
  "queuedPauses (queueStopWork os s) @ pendingPause (queueStopWork os s) = queuedPauses s @ pendingPause s"
  by (simp add: queueStopWork_def queuedPauses_def pendingPause_def queueCallback_def split: option.split)

lemma reportMovement_pauses:
  assumes "reportMovement os reverse stepCount reached hit s = (ok, t)"
  shows "queuedPauses t @ pendingPause t = queuedPauses s @ pendingPause s"
proof (cases "gTtdStopRequested s")
  case True
  then show ?thesis using reportMovement_spec [OF assms] by simp
next
  case False
  then obtain w where "gCallbackQueue t = gCallbackQueue s @ [w]"
      "gTtdInterruptRequested s \<longrightarrow> w = TtdPauseWork (gPauseCallback s) \<and> gPauseCallback t = 0"
      "\<not> gTtdInterruptRequested s \<longrightarrow> gPauseCallback t = gPauseCallback s \<and> pauses_of w = []"
    using reportMovement_spec [OF assms] by blast
  then show ?thesis by (cases "gTtdInterruptRequested s") (simp_all add: queuedPauses_def pendingPause_def)
qed

lemma deliverEvent_pauses:
  assumes "handlers_leave_loop cl"
  shows "queuedPauses (deliverEvent os cl ev s) = queuedPauses s \<and> gPauseCallback (deliverEvent os cl ev s) = gPauseCallback s"
proof (cases ev)
  case (EvOutput debuggee utf8 n)
  have "loop_view (t\<lparr>gSyntheticDebugString := a\<rparr>) = loop_view t" "loop_view (t\<lparr>gSyntheticDebugStringSize := b\<rparr>) = loop_view t"
    for t :: "'a titan" and a b by (simp_all add: loop_view_def)
  then have "loop_view (onOutput cl debuggee utf8 n s) = loop_view s"
    by (simp add: onOutput_def Let_def loop_view_dispatch [OF assms])
  then show ?thesis by (simp add: EvOutput queuedPauses_def loop_view_def)
qed (simp_all add: onBreakpoint_def onException_def onCreateThread_def onExitThread_def onCreateProcess_def onExitProcess_def
    onLoadModule_def onUnloadModule_def queueCallback_def queuedPauses_def Let_def)


text \<open>A request in a live session, the stop it causes, and the delivery.\<close>

definition interrupting_os :: "unit os" where
  "interrupting_os = quiet_os\<lparr>dbg := quiet_dbg\<lparr>dSetInterrupt := (\<lambda>w. (S_OK, None, w))\<rparr>\<rparr>"


end
