(* ===== verification/Engine_Lifecycle.thy ===== *)
theory Engine_Lifecycle
  imports Win_Constants "HOL-Library.Multiset"
begin

text \<open>
  The life of the engine (\<open>TitanEngine.cpp\<close>, lines 285 to 288, 433 to 446, 2211 to 2444 and 6095 to 6128): the first call of
  x64dbg, \<open>EngineCheckStructAlignment\<close>, loads DbgEng and starts the thread that owns the COM interfaces; unloading the library
  ends it. The state is the variables of the source that only this part of the program writes; the rest of the
  development sees of them the field \<open>gDebugInterfaces\<close>. The thread runs while its creator waits for
  it, so its first and its last part are functions of the same state; what can happen between
  them is the third case of \<open>lifecycle\<close>. Creating an event is taken to succeed.
\<close>

section \<open>State\<close>

datatype debug_interface = IClient | IControl | IDataSpaces | IRegisters | ISymbols | ISystemObjects

datatype engine_thread = NotRunning | Serving

record 'w engine =
  gComInitialized :: bool
  gDbgEngInitialized :: bool
  gInterfaces :: "debug_interface \<Rightarrow> u64"
  gEventCallbacks :: bool
  gOutputCallbacks :: bool
  gDbgEngEvent :: HANDLE
  gDbgEngThread :: HANDLE
  gProcessCreatedEvent :: HANDLE
  engineThread :: engine_thread
  engineWorld :: 'w

definition initialEngine :: "'w \<Rightarrow> 'w engine" where
  "initialEngine w = \<lparr>gComInitialized = False, gDbgEngInitialized = False, gInterfaces = (\<lambda>_. 0), gEventCallbacks = False,
     gOutputCallbacks = False, gDbgEngEvent = 0, gDbgEngThread = 0, gProcessCreatedEvent = 0, engineThread = NotRunning,
     engineWorld = w\<rparr>"

text \<open>The calls to COM, DbgEng and Windows: a result and the world after it.\<close>

record 'w comapi =
  cInitialize :: "'w \<Rightarrow> u32 \<times> 'w"
  cUninitialize :: "'w \<Rightarrow> 'w"
  cDebugCreate :: "'w \<Rightarrow> (u32 \<times> u64) \<times> 'w"
  cQueryInterface :: "u64 \<Rightarrow> debug_interface \<Rightarrow> 'w \<Rightarrow> (u32 \<times> u64) \<times> 'w"
  cRelease :: "u64 \<Rightarrow> 'w \<Rightarrow> 'w"
  cSetEventCallbacks :: "u64 \<Rightarrow> bool \<Rightarrow> 'w \<Rightarrow> u32 \<times> 'w"
  cSetOutputCallbacks :: "u64 \<Rightarrow> bool \<Rightarrow> 'w \<Rightarrow> u32 \<times> 'w"
  cSetEngineOptions :: "u64 \<Rightarrow> u32 \<Rightarrow> 'w \<Rightarrow> u32 \<times> 'w"
  cGetModuleHandle :: "string \<Rightarrow> 'w \<Rightarrow> HANDLE"
  cModuleFileName :: "'w \<Rightarrow> string"
  cLoadLibrary :: "string \<Rightarrow> 'w \<Rightarrow> HANDLE \<times> 'w"
  cCreateEvent :: "'w \<Rightarrow> HANDLE \<times> 'w"
  cCreateThread :: "'w \<Rightarrow> HANDLE \<times> 'w"
  cCloseEvent :: "HANDLE \<Rightarrow> 'w \<Rightarrow> 'w"

definition ecall :: "('w \<Rightarrow> 'a \<times> 'w) \<Rightarrow> 'w engine \<Rightarrow> 'a \<times> 'w engine" where
  "ecall f e = (case f (engineWorld e) of (a, w) \<Rightarrow> (a, e\<lparr>engineWorld := w\<rparr>))"

definition eact :: "('w \<Rightarrow> 'w) \<Rightarrow> 'w engine \<Rightarrow> 'w engine" where
  "eact f e = e\<lparr>engineWorld := f (engineWorld e)\<rparr>"

section \<open>Initialisation\<close>

definition debugClientInterface :: "'w comapi \<Rightarrow> debug_interface \<Rightarrow> 'w engine \<Rightarrow> u32 \<times> 'w engine" where
  "debugClientInterface cm i e =
     (let ((hr, p), e) = ecall (cQueryInterface cm (gInterfaces e IClient) i) e
      in (hr, e\<lparr>gInterfaces := (gInterfaces e)(i := p)\<rparr>))"

text \<open>The five queries of \<open>InitializeDbgEngImpl\<close>, in its order; the first that fails ends it.\<close>

fun queryInterfaces :: "'w comapi \<Rightarrow> debug_interface list \<Rightarrow> 'w engine \<Rightarrow> bool \<times> 'w engine" where
  "queryInterfaces cm [] e = (True, e)"
| "queryInterfaces cm (i # rest) e =
     (let (hr, e) = debugClientInterface cm i e
      in if FAILED hr then (False, e) else queryInterfaces cm rest e)"

definition setCallbacks :: "'w comapi \<Rightarrow> 'w engine \<Rightarrow> bool \<times> 'w engine" where
  "setCallbacks cm e =
     (let e = e\<lparr>gEventCallbacks := True\<rparr>;
          (hr, e) = ecall (cSetEventCallbacks cm (gInterfaces e IClient) True) e
      in if FAILED hr then (False, e)
         else (let e = e\<lparr>gOutputCallbacks := True\<rparr>;
                   (hr, e) = ecall (cSetOutputCallbacks cm (gInterfaces e IClient) True) e
               in if FAILED hr then (False, e)
                  else (let (hr, e) = ecall (cSetEngineOptions cm (gInterfaces e IControl) 0x8020) e
                        in (\<not> FAILED hr, e))))"

definition InitializeDbgEngImpl :: "'w comapi \<Rightarrow> 'w engine \<Rightarrow> bool \<times> 'w engine" where
  "InitializeDbgEngImpl cm e =
     (let (hr, e) = ecall (cInitialize cm) e
      in if FAILED hr then (False, e)
         else (let e = e\<lparr>gComInitialized := True\<rparr>;
                   ((hr, p), e) = ecall (cDebugCreate cm) e;
                   e = e\<lparr>gInterfaces := (gInterfaces e)(IClient := p)\<rparr>
               in if FAILED hr then (False, e)
                  else (let (ok, e) = queryInterfaces cm [IControl, IDataSpaces, IRegisters, ISymbols, ISystemObjects] e
                        in if \<not> ok then (False, e) else setCallbacks cm e)))"

section \<open>Shutdown\<close>

definition releaseInterface :: "'w comapi \<Rightarrow> debug_interface \<Rightarrow> 'w engine \<Rightarrow> 'w engine" where
  "releaseInterface cm i e =
     (if gInterfaces e i \<noteq> 0
      then (eact (cRelease cm (gInterfaces e i)) e)\<lparr>gInterfaces := (gInterfaces e)(i := 0)\<rparr> else e)"

definition ShutdownDbgEngImpl :: "'w comapi \<Rightarrow> 'w engine \<Rightarrow> 'w engine" where
  "ShutdownDbgEngImpl cm e =
     (let e = (if gInterfaces e IClient \<noteq> 0
               then snd (ecall (cSetEventCallbacks cm (gInterfaces e IClient) False)
                      (snd (ecall (cSetOutputCallbacks cm (gInterfaces e IClient) False) e)))
               else e);
          e = e\<lparr>gOutputCallbacks := False, gEventCallbacks := False\<rparr>;
          e = fold (releaseInterface cm) [ISystemObjects, ISymbols, IRegisters, IDataSpaces, IControl, IClient] e;
          e = (if gComInitialized e then (eact (cUninitialize cm) e)\<lparr>gComInitialized := False\<rparr> else e)
      in e\<lparr>gDbgEngInitialized := False\<rparr>)"

section \<open>The thread and its creator\<close>

text \<open>The module directory: the module's file name up to and with its last separator.\<close>

definition moduleDir :: "string \<Rightarrow> string" where
  "moduleDir path =
     (if CHR 0x5C \<in> set path then rev (dropWhile (\<lambda>c. c \<noteq> CHR 0x5C) (rev path)) else path)"

definition loadDll :: "'w comapi \<Rightarrow> string \<Rightarrow> 'w engine \<Rightarrow> HANDLE \<times> 'w engine" where
  "loadDll cm dllName e =
     (if cGetModuleHandle cm dllName (engineWorld e) \<noteq> 0 then (cGetModuleHandle cm dllName (engineWorld e), e)
      else ecall (cLoadLibrary cm (moduleDir (cModuleFileName cm (engineWorld e)) @ dllName)) e)"

text \<open>The thread up to its wait for \<open>gDbgEngEvent\<close>, and what it does when the wait ends.\<close>

definition startEngineThread :: "'w comapi \<Rightarrow> 'w engine \<Rightarrow> 'w engine" where
  "startEngineThread cm e = (case InitializeDbgEngImpl cm e of (ok, e) \<Rightarrow> e\<lparr>gDbgEngInitialized := ok, engineThread := Serving\<rparr>)"

definition endEngineThread :: "'w comapi \<Rightarrow> 'w engine \<Rightarrow> 'w engine" where
  "endEngineThread cm e = (if engineThread e = Serving then (ShutdownDbgEngImpl cm e)\<lparr>engineThread := NotRunning\<rparr> else e)"

text \<open>
  Signalling \<open>gDbgEngEvent\<close>, waiting for the thread and closing the three handles, as the failed initialisation and
  \<open>DllMain\<close> do.
\<close>

definition stopEngineThread :: "'w comapi \<Rightarrow> 'w engine \<Rightarrow> 'w engine" where
  "stopEngineThread cm e =
     (let e = endEngineThread cm e
      in (eact (cCloseEvent cm (gProcessCreatedEvent e)) (eact (cCloseEvent cm (gDbgEngEvent e))
            (eact (cCloseEvent cm (gDbgEngThread e)) e)))\<lparr>gDbgEngThread := 0, gDbgEngEvent := 0, gProcessCreatedEvent := 0\<rparr>)"

text \<open>
  \<open>InitializeDbgEng\<close> waits without limit for the thread to say that it has finished its initialisation. When
  \<open>CreateThread\<close> fails nobody says it: the call does not return, which is the value \<open>None\<close>.
\<close>

definition InitializeDbgEng :: "'w comapi \<Rightarrow> 'w engine \<Rightarrow> (bool \<times> 'w engine) option" where
  "InitializeDbgEng cm e =
     (if gDbgEngInitialized e then Some (True, e)
      else (let (model, e) = loadDll cm ''dbgmodel.dll'' e
            in if model = 0 then Some (False, e)
               else (let (dll, e) = loadDll cm ''dbgeng.dll'' e
                     in if dll = 0 then Some (False, e)
                        else (let (initEvent, e) = ecall (cCreateEvent cm) e;
                                  (v, e) = ecall (cCreateEvent cm) e;
                                  e = e\<lparr>gDbgEngEvent := v\<rparr>;
                                  (v, e) = ecall (cCreateEvent cm) e;
                                  e = e\<lparr>gProcessCreatedEvent := v\<rparr>;
                                  (thread, e) = ecall (cCreateThread cm) e;
                                  e = e\<lparr>gDbgEngThread := thread\<rparr>
                              in if thread = 0 then None
                                 else (let e = eact (cCloseEvent cm initEvent) (startEngineThread cm e)
                                       in if gDbgEngInitialized e then Some (True, e)
                                          else Some (False, stopEngineThread cm e))))))"

text \<open>
  The layout of a C structure: each field, by alignment and size, at the next multiple of its alignment. The header packs its
  structures to one byte; only the vector registers keep the alignment their type declares.
\<close>

definition alignTo :: "nat \<Rightarrow> nat \<Rightarrow> nat" where
  "alignTo a n = (n + a - 1) div a * a"

definition structSize :: "(nat \<times> nat) list \<Rightarrow> nat" where
  "structSize members = alignTo (fold (\<lambda>(a, _). max a) members 1) (fold (\<lambda>(a, n) offset. alignTo a offset + n) members 0)"

definition titanContextFields :: "(nat \<times> nat) list" where
  "titanContextFields = replicate 18 (1, 8) @ replicate 6 (1, 2) @ replicate 6 (1, 8) @
     [(1, 80), (1, structSize (replicate 3 (1, 2) @ replicate 5 (1, 4))), (1, 4), (16, 16 * 16), (16, 16 * 32)]"

definition EngineCheckStructAlignment :: "'w comapi \<Rightarrow> u32 \<Rightarrow> u64 \<Rightarrow> 'w engine \<Rightarrow> (bool \<times> 'w engine) option" where
  "EngineCheckStructAlignment cm StructureType StructureSize e =
     (case InitializeDbgEng cm e of None \<Rightarrow> None
      | Some (ok, e) \<Rightarrow>
          if \<not> ok then Some (False, e)
          else Some (StructureType = 16 \<and> StructureSize = of_nat (structSize titanContextFields), e))"

definition DllMain :: "'w comapi \<Rightarrow> u32 \<Rightarrow> 'w engine \<Rightarrow> 'w engine" where
  "DllMain cm fdwReason e = (if fdwReason = 0 \<and> gDbgEngThread e \<noteq> 0 then stopEngineThread cm e else e)"

section \<open>What is held\<close>

text \<open>
  The references, the initialisations of COM and the handles a world counts, as \<open>(references, level, handles)\<close>; a
  conforming interface counts as COM and Windows document: a call that fails answers null and counts nothing.
\<close>

type_synonym ledger = "u64 multiset \<times> nat \<times> u64 multiset"

definition added :: "u64 \<Rightarrow> ledger \<Rightarrow> ledger" where
  "added p l = (add_mset p (fst l), snd l)"

definition dropped :: "u64 \<Rightarrow> ledger \<Rightarrow> ledger" where
  "dropped p l = (fst l - {#p#}, snd l)"

definition opened :: "HANDLE \<Rightarrow> ledger \<Rightarrow> ledger" where
  "opened h l = (fst l, fst (snd l), add_mset h (snd (snd l)))"

definition closed :: "HANDLE \<Rightarrow> ledger \<Rightarrow> ledger" where
  "closed h l = (fst l, fst (snd l), snd (snd l) - {#h#})"

definition answers :: "('w \<Rightarrow> ledger) \<Rightarrow> 'w \<Rightarrow> (u32 \<times> u64) \<times> 'w \<Rightarrow> bool" where
  "answers tally w r = (case r of ((hr, p), v) \<Rightarrow>
     if FAILED hr then p = 0 \<and> tally v = tally w else p \<noteq> 0 \<and> tally v = added p (tally w))"

definition com_conforms :: "'w comapi \<Rightarrow> ('w \<Rightarrow> ledger) \<Rightarrow> bool" where
  "com_conforms cm tally \<longleftrightarrow>
     (\<forall>w. tally (snd (cInitialize cm w)) =
        (if FAILED (fst (cInitialize cm w)) then tally w else (fst (tally w), Suc (fst (snd (tally w))), snd (snd (tally w))))) \<and>
     (\<forall>w. tally (cUninitialize cm w) = (fst (tally w), fst (snd (tally w)) - 1, snd (snd (tally w)))) \<and>
     (\<forall>w. answers tally w (cDebugCreate cm w)) \<and>
     (\<forall>p i w. answers tally w (cQueryInterface cm p i w)) \<and>
     (\<forall>p w. tally (cRelease cm p w) = dropped p (tally w)) \<and>
     (\<forall>p b w. tally (snd (cSetEventCallbacks cm p b w)) = tally w) \<and>
     (\<forall>p b w. tally (snd (cSetOutputCallbacks cm p b w)) = tally w) \<and>
     (\<forall>p n w. tally (snd (cSetEngineOptions cm p n w)) = tally w) \<and>
     (\<forall>n w. tally (snd (cLoadLibrary cm n w)) = tally w) \<and>
     (\<forall>w. fst (cCreateEvent cm w) \<noteq> 0 \<and> tally (snd (cCreateEvent cm w)) = opened (fst (cCreateEvent cm w)) (tally w)) \<and>
     (\<forall>w. tally (snd (cCreateThread cm w)) =
        (if fst (cCreateThread cm w) = 0 then tally w else opened (fst (cCreateThread cm w)) (tally w))) \<and>
     (\<forall>h w. tally (cCloseEvent cm h w) = closed h (tally w))"

text \<open>What the engine's variables say it holds.\<close>

definition all_interfaces :: "debug_interface list" where
  "all_interfaces = [IClient, IControl, IDataSpaces, IRegisters, ISymbols, ISystemObjects]"

definition references :: "(debug_interface \<Rightarrow> u64) \<Rightarrow> u64 multiset" where
  "references f = mset (filter (\<lambda>p. p \<noteq> 0) (map f all_interfaces))"

definition idle_engine :: "'w engine \<Rightarrow> bool" where
  "idle_engine e \<longleftrightarrow> (\<forall>i. gInterfaces e i = 0) \<and> \<not> gComInitialized e \<and> \<not> gEventCallbacks e \<and> \<not> gOutputCallbacks e \<and>
     \<not> gDbgEngInitialized e"

definition ready_engine :: "'w engine \<Rightarrow> bool" where
  "ready_engine e \<longleftrightarrow> (\<forall>i. gInterfaces e i \<noteq> 0) \<and> gComInitialized e \<and> gEventCallbacks e \<and> gOutputCallbacks e"

text \<open>The references and the level of COM are those of before and what the variables hold.\<close>

definition accounted :: "('w \<Rightarrow> ledger) \<Rightarrow> ledger \<Rightarrow> 'w engine \<Rightarrow> bool" where
  "accounted tally base e \<longleftrightarrow> fst (tally (engineWorld e)) = fst base + references (gInterfaces e) \<and>
     fst (snd (tally (engineWorld e))) = fst (snd base) + of_bool (gComInitialized e)"

lemma references_add: "f i = 0 \<Longrightarrow> p \<noteq> 0 \<Longrightarrow> references (f(i := p)) = add_mset p (references f)"
  by (cases i) (auto simp: references_def all_interfaces_def)

lemma references_drop: "references (f(i := 0)) = references f - {#f i#} \<and> (f i \<noteq> 0 \<longrightarrow> f i \<in># references f)"
  by (cases i) (auto simp: references_def all_interfaces_def)

lemma references_none [simp]: "(\<forall>i. f i = 0) \<Longrightarrow> references f = {#}"
  by (simp add: references_def all_interfaces_def)

text \<open>The part of the state that concerns handles.\<close>

definition handle_view :: "('w \<Rightarrow> ledger) \<Rightarrow> 'w engine \<Rightarrow> HANDLE multiset \<times> HANDLE \<times> HANDLE \<times> HANDLE \<times> engine_thread" where
  "handle_view tally e = (snd (snd (tally (engineWorld e))), gDbgEngEvent e, gDbgEngThread e, gProcessCreatedEvent e, engineThread e)"

lemmas engine_step_defs = accounted_def handle_view_def ecall_def eact_def added_def dropped_def opened_def closed_def

lemma com_conformsD:
  assumes "com_conforms cm tally"
  shows "tally (cUninitialize cm w) = (fst (tally w), fst (snd (tally w)) - 1, snd (snd (tally w)))"
    and "tally (cRelease cm p w) = dropped p (tally w)"
    and "tally (snd (cSetEventCallbacks cm p x w)) = tally w"
    and "tally (snd (cSetOutputCallbacks cm p x w)) = tally w"
    and "tally (snd (cSetEngineOptions cm p m w)) = tally w"
    and "tally (snd (cLoadLibrary cm s w)) = tally w"
    and "fst (cCreateEvent cm w) \<noteq> 0"
    and "tally (snd (cCreateEvent cm w)) = opened (fst (cCreateEvent cm w)) (tally w)"
    and "fst (cCreateThread cm w) \<noteq> 0 \<Longrightarrow> tally (snd (cCreateThread cm w)) = opened (fst (cCreateThread cm w)) (tally w)"
    and "tally (cCloseEvent cm h w) = closed h (tally w)"
  using assms unfolding com_conforms_def by (elim conjE; simp)+

lemma query_accounted:
  assumes conf: "com_conforms cm tally" and acc: "accounted tally b e" and free: "gInterfaces e i = 0"
    and run: "debugClientInterface cm i e = (hr, t)"
  shows "accounted tally b t \<and> handle_view tally t = handle_view tally e \<and> (\<forall>j. j \<noteq> i \<longrightarrow> gInterfaces t j = gInterfaces e j) \<and>
    (\<not> FAILED hr \<longrightarrow> gInterfaces t i \<noteq> 0) \<and> gComInitialized t = gComInitialized e \<and>
    gEventCallbacks t = gEventCallbacks e \<and> gOutputCallbacks t = gOutputCallbacks e"
proof -
  obtain p v where q: "cQueryInterface cm (gInterfaces e IClient) i (engineWorld e) = ((hr, p), v)"
    and t: "t = e\<lparr>engineWorld := v, gInterfaces := (gInterfaces e)(i := p)\<rparr>"
    using run by (auto simp: debugClientInterface_def ecall_def split: prod.splits)
  have ans: "answers tally (engineWorld e) ((hr, p), v)" using conf q unfolding com_conforms_def by metis
  show ?thesis
  proof (cases "FAILED hr")
    case True
    then have "p = 0" "tally v = tally (engineWorld e)" using ans by (auto simp: answers_def)
    then show ?thesis using acc free True by (simp add: t engine_step_defs fun_upd_idem)
  next
    case False
    then have "p \<noteq> 0" "tally v = added p (tally (engineWorld e))" using ans by (auto simp: answers_def)
    then show ?thesis using acc free False by (simp add: t engine_step_defs references_add)
  qed
qed

lemma queries_accounted:
  assumes "com_conforms cm tally"
  shows "accounted tally b e \<Longrightarrow> \<forall>i \<in> set is. gInterfaces e i = 0 \<Longrightarrow> distinct is \<Longrightarrow> queryInterfaces cm is e = (ok, t) \<Longrightarrow>
    accounted tally b t \<and> handle_view tally t = handle_view tally e \<and> (\<forall>j. j \<notin> set is \<longrightarrow> gInterfaces t j = gInterfaces e j) \<and>
    (ok \<longrightarrow> (\<forall>i \<in> set is. gInterfaces t i \<noteq> 0)) \<and> gComInitialized t = gComInitialized e \<and>
    gEventCallbacks t = gEventCallbacks e \<and> gOutputCallbacks t = gOutputCallbacks e"
proof (induction "is" arbitrary: e)
  case Nil
  then show ?case by simp
next
  case (Cons i rest)
  obtain hr u where q: "debugClientInterface cm i e = (hr, u)" by fastforce
  have step: "accounted tally b u \<and> handle_view tally u = handle_view tally e \<and> (\<forall>j. j \<noteq> i \<longrightarrow> gInterfaces u j = gInterfaces e j) \<and>
    (\<not> FAILED hr \<longrightarrow> gInterfaces u i \<noteq> 0) \<and> gComInitialized u = gComInitialized e \<and>
    gEventCallbacks u = gEventCallbacks e \<and> gOutputCallbacks u = gOutputCallbacks e"
    using query_accounted [OF assms Cons.prems(1) _ q] Cons.prems(2) by simp
  show ?case
  proof (cases "FAILED hr")
    case True
    then show ?thesis using Cons.prems(4) q step by auto
  next
    case False
    then have "queryInterfaces cm rest u = (ok, t)" using Cons.prems(4) q by simp
    moreover have "\<forall>i \<in> set rest. gInterfaces u i = 0" using step Cons.prems(2,3) by auto
    ultimately show ?thesis using Cons.IH [of u] step False Cons.prems(3) by auto
  qed
qed

lemma setCallbacks_accounted:
  assumes conf: "com_conforms cm tally" and acc: "accounted tally b e" and run: "setCallbacks cm e = (ok, t)"
  shows "accounted tally b t \<and> handle_view tally t = handle_view tally e \<and> gInterfaces t = gInterfaces e \<and>
    gComInitialized t = gComInitialized e \<and> (ok \<longrightarrow> gEventCallbacks t \<and> gOutputCallbacks t)"
proof -
  note same = com_conformsD(3-5) [OF conf]
  show ?thesis
    using run acc same by (auto simp: setCallbacks_def engine_step_defs case_prod_unfold Let_def split: if_splits)
qed

lemma InitializeDbgEngImpl_accounted:
  assumes conf: "com_conforms cm tally" and acc: "accounted tally b e" and idle: "idle_engine e"
    and run: "InitializeDbgEngImpl cm e = (ok, t)"
  shows "accounted tally b t \<and> handle_view tally t = handle_view tally e \<and> (ok \<longrightarrow> ready_engine t)"
proof -
  obtain hr w where i: "cInitialize cm (engineWorld e) = (hr, w)" by fastforce
  have level: "tally w = (if FAILED hr then tally (engineWorld e)
      else (fst (tally (engineWorld e)), Suc (fst (snd (tally (engineWorld e)))), snd (snd (tally (engineWorld e)))))"
    using conf i unfolding com_conforms_def by (metis fst_conv snd_conv)
  show ?thesis
  proof (cases "FAILED hr")
    case True
    then show ?thesis using run i level acc by (auto simp: InitializeDbgEngImpl_def engine_step_defs)
  next
    case False
    define u where "u = e\<lparr>engineWorld := w, gComInitialized := True\<rparr>"
    have u: "accounted tally b u" "handle_view tally u = handle_view tally e" "\<forall>i. gInterfaces u i = 0" "gComInitialized u"
      using acc idle level False by (simp_all add: u_def engine_step_defs idle_engine_def)
    obtain hr2 p v where c: "cDebugCreate cm w = ((hr2, p), v)" by (metis prod.exhaust)
    have ans: "answers tally w ((hr2, p), v)" using conf c unfolding com_conforms_def by metis
    define x where "x = u\<lparr>engineWorld := v, gInterfaces := (gInterfaces u)(IClient := p)\<rparr>"
    have x: "accounted tally b x" "handle_view tally x = handle_view tally e" "\<forall>i. i \<noteq> IClient \<longrightarrow> gInterfaces x i = 0"
      "gComInitialized x" "\<not> FAILED hr2 \<Longrightarrow> gInterfaces x IClient \<noteq> 0"
      using u ans by (auto simp: x_def u_def engine_step_defs answers_def references_add fun_upd_idem split: if_splits)
    have run': "InitializeDbgEngImpl cm e = (if FAILED hr2 then (False, x)
        else (let (ok, e) = queryInterfaces cm [IControl, IDataSpaces, IRegisters, ISymbols, ISystemObjects] x
              in if \<not> ok then (False, e) else setCallbacks cm e))"
      using i c False by (simp add: InitializeDbgEngImpl_def ecall_def x_def u_def)
    obtain ok2 y where q: "queryInterfaces cm [IControl, IDataSpaces, IRegisters, ISymbols, ISystemObjects] x = (ok2, y)" by fastforce
    have y: "accounted tally b y" "handle_view tally y = handle_view tally x" "gInterfaces y IClient = gInterfaces x IClient"
      "ok2 \<Longrightarrow> \<forall>i. i \<noteq> IClient \<longrightarrow> gInterfaces y i \<noteq> 0" "gComInitialized y = gComInitialized x"
    proof -
      have r: "accounted tally b y \<and> handle_view tally y = handle_view tally x \<and>
        (\<forall>j. j \<notin> {IControl, IDataSpaces, IRegisters, ISymbols, ISystemObjects} \<longrightarrow> gInterfaces y j = gInterfaces x j) \<and>
        (ok2 \<longrightarrow> (\<forall>i \<in> {IControl, IDataSpaces, IRegisters, ISymbols, ISystemObjects}. gInterfaces y i \<noteq> 0)) \<and>
        gComInitialized y = gComInitialized x"
        using queries_accounted [OF conf x(1) _ _ q] x(3) by simp
      then show "accounted tally b y" "handle_view tally y = handle_view tally x" "gComInitialized y = gComInitialized x"
        "gInterfaces y IClient = gInterfaces x IClient" by simp_all
      show "\<forall>i. i \<noteq> IClient \<longrightarrow> gInterfaces y i \<noteq> 0" if ok2
      proof (intro allI impI)
        fix i :: debug_interface assume "i \<noteq> IClient" then show "gInterfaces y i \<noteq> 0" using r that by (cases i) simp_all
      qed
    qed
    show ?thesis
    proof (cases "\<not> FAILED hr2 \<and> ok2")
      case True
      then have z: "setCallbacks cm y = (ok, t)" using run run' q by simp
      have "\<forall>i. gInterfaces y i \<noteq> 0" using y(3,4) x(5) True by metis
      then show ?thesis using setCallbacks_accounted [OF conf y(1) z] y x u by (simp add: ready_engine_def)
    next
      case False
      then have "(ok, t) = (False, x) \<or> (ok, t) = (False, y)" using run run' q by (auto split: if_splits)
      then show ?thesis using x(1,2) y(1,2) u(2) by auto
    qed
  qed
qed

text \<open>Shutting down gives back what the variables hold.\<close>

lemma release_accounted:
  assumes "com_conforms cm tally" "accounted tally b e"
  shows "accounted tally b (releaseInterface cm i e) \<and> handle_view tally (releaseInterface cm i e) = handle_view tally e \<and>
    gInterfaces (releaseInterface cm i e) = (gInterfaces e)(i := 0) \<and> gComInitialized (releaseInterface cm i e) = gComInitialized e \<and>
    gEventCallbacks (releaseInterface cm i e) = gEventCallbacks e \<and> gOutputCallbacks (releaseInterface cm i e) = gOutputCallbacks e"
proof (cases "gInterfaces e i = 0")
  case True
  then have "(gInterfaces e)(i := 0) = gInterfaces e" by (metis fun_upd_triv)
  then show ?thesis using True assms(2) by (simp add: releaseInterface_def)
next
  case False
  note rel = com_conformsD(2) [OF assms(1)]
  have "fst (tally (engineWorld e)) - {#gInterfaces e i#} = fst b + references ((gInterfaces e)(i := 0))"
    using assms(2) references_drop [of "gInterfaces e" i] False unfolding accounted_def
    by (metis diff_union_single_conv)
  moreover have "releaseInterface cm i e = e\<lparr>engineWorld := cRelease cm (gInterfaces e i) (engineWorld e),
      gInterfaces := (gInterfaces e)(i := 0)\<rparr>"
    using False by (simp add: releaseInterface_def eact_def)
  ultimately show ?thesis using assms(2) by (simp add: accounted_def handle_view_def rel dropped_def)
qed

lemma releases_accounted:
  assumes "com_conforms cm tally"
  shows "accounted tally b e \<Longrightarrow> (let t = fold (releaseInterface cm) is e in
    accounted tally b t \<and> handle_view tally t = handle_view tally e \<and> (\<forall>i. gInterfaces t i = (if i \<in> set is then 0 else gInterfaces e i)) \<and>
    gComInitialized t = gComInitialized e \<and> gEventCallbacks t = gEventCallbacks e \<and> gOutputCallbacks t = gOutputCallbacks e)"
proof (induction "is" arbitrary: e)
  case (Cons i rest)
  then show ?case using release_accounted [OF assms Cons.prems, of i] by (simp add: Let_def)
qed simp

lemma ShutdownDbgEngImpl_accounted:
  assumes conf: "com_conforms cm tally" and acc: "accounted tally b e"
  shows "accounted tally b (ShutdownDbgEngImpl cm e) \<and> idle_engine (ShutdownDbgEngImpl cm e) \<and>
    handle_view tally (ShutdownDbgEngImpl cm e) = handle_view tally e"
proof -
  note calls = com_conformsD [OF conf]
  define u where "u = (if gInterfaces e IClient \<noteq> 0
      then snd (ecall (cSetEventCallbacks cm (gInterfaces e IClient) False)
             (snd (ecall (cSetOutputCallbacks cm (gInterfaces e IClient) False) e)))
      else e)\<lparr>gOutputCallbacks := False, gEventCallbacks := False\<rparr>"
  have u: "accounted tally b u" "handle_view tally u = handle_view tally e" "\<not> gEventCallbacks u" "\<not> gOutputCallbacks u"
    using acc by (simp_all add: u_def accounted_def handle_view_def ecall_def case_prod_unfold calls)
  define v where "v = fold (releaseInterface cm) [ISystemObjects, ISymbols, IRegisters, IDataSpaces, IControl, IClient] u"
  have rel: "accounted tally b v \<and> handle_view tally v = handle_view tally u \<and>
    (\<forall>i. gInterfaces v i = (if i \<in> set [ISystemObjects, ISymbols, IRegisters, IDataSpaces, IControl, IClient] then 0 else gInterfaces u i)) \<and>
    gComInitialized v = gComInitialized u \<and> gEventCallbacks v = gEventCallbacks u \<and> gOutputCallbacks v = gOutputCallbacks u"
    unfolding v_def using releases_accounted [OF conf u(1)] unfolding Let_def by blast
  have none: "\<forall>i. gInterfaces v i = 0"
  proof
    fix i show "gInterfaces v i = 0" using rel by (cases i) simp_all
  qed
  have "ShutdownDbgEngImpl cm e =
      (if gComInitialized v then (eact (cUninitialize cm) v)\<lparr>gComInitialized := False\<rparr> else v)\<lparr>gDbgEngInitialized := False\<rparr>"
    by (simp only: ShutdownDbgEngImpl_def Let_def v_def u_def)
  then show ?thesis
    using rel none u by (simp add: accounted_def handle_view_def idle_engine_def eact_def calls)
qed

section \<open>The life of the engine\<close>

text \<open>
  The calls of x64dbg, in any order: the first call and later ones, the unloading of the library, and the wait of the thread failing,
  after which it shuts down on its own. The number counts these failures.
\<close>

inductive lifecycle :: "'w comapi \<Rightarrow> 'w \<Rightarrow> nat \<Rightarrow> 'w engine \<Rightarrow> bool" for cm w where
  started: "lifecycle cm w 0 (initialEngine w)"
| checked: "lifecycle cm w n e \<Longrightarrow> EngineCheckStructAlignment cm ty sz e = Some (ok, t) \<Longrightarrow> lifecycle cm w n t"
| detached: "lifecycle cm w n e \<Longrightarrow> lifecycle cm w n (DllMain cm reason e)"
| wait_failed: "lifecycle cm w n e \<Longrightarrow> lifecycle cm w (Suc n) (endEngineThread cm e)"

definition handles_kept :: "('w \<Rightarrow> ledger) \<Rightarrow> ledger \<Rightarrow> 'w engine \<Rightarrow> bool" where
  "handles_kept tally b e \<longleftrightarrow>
     (if engineThread e = Serving
      then gDbgEngThread e \<noteq> 0 \<and> snd (snd (tally (engineWorld e))) = snd (snd b) + {#gDbgEngThread e, gDbgEngEvent e, gProcessCreatedEvent e#}
      else gDbgEngThread e = 0 \<and> snd (snd (tally (engineWorld e))) = snd (snd b))"

definition engine_ok :: "('w \<Rightarrow> ledger) \<Rightarrow> ledger \<Rightarrow> nat \<Rightarrow> 'w engine \<Rightarrow> bool" where
  "engine_ok tally b n e \<longleftrightarrow> accounted tally b e \<and>
     (if engineThread e = Serving then ready_engine e \<and> gDbgEngInitialized e else idle_engine e) \<and>
     (n = 0 \<longrightarrow> handles_kept tally b e)"

lemma endEngineThread_accounted:
  assumes "com_conforms cm tally" "accounted tally b e" "engineThread e = Serving \<or> idle_engine e"
  shows "accounted tally b (endEngineThread cm e) \<and> idle_engine (endEngineThread cm e) \<and>
    engineThread (endEngineThread cm e) = NotRunning \<and> gDbgEngThread (endEngineThread cm e) = gDbgEngThread e \<and>
    gDbgEngEvent (endEngineThread cm e) = gDbgEngEvent e \<and> gProcessCreatedEvent (endEngineThread cm e) = gProcessCreatedEvent e \<and>
    snd (snd (tally (engineWorld (endEngineThread cm e)))) = snd (snd (tally (engineWorld e)))"
proof (cases "engineThread e = Serving")
  case True
  then show ?thesis using ShutdownDbgEngImpl_accounted [OF assms(1,2)]
    by (simp add: endEngineThread_def accounted_def idle_engine_def handle_view_def)
next
  case False
  then show ?thesis using assms(2,3) engine_thread.exhaust by (auto simp: endEngineThread_def)
qed

lemma stopEngineThread_accounted:
  assumes "com_conforms cm tally" "accounted tally b e" "engineThread e = Serving \<or> idle_engine e"
  shows "accounted tally b (stopEngineThread cm e) \<and> idle_engine (stopEngineThread cm e) \<and>
    engineThread (stopEngineThread cm e) = NotRunning \<and> gDbgEngThread (stopEngineThread cm e) = 0 \<and>
    snd (snd (tally (engineWorld (stopEngineThread cm e)))) =
      snd (snd (tally (engineWorld e))) - {#gDbgEngThread e#} - {#gDbgEngEvent e#} - {#gProcessCreatedEvent e#}"
proof -
  note closes = com_conformsD(10) [OF assms(1)]
  show ?thesis using endEngineThread_accounted [OF assms]
    by (simp add: closes stopEngineThread_def Let_def accounted_def idle_engine_def eact_def closed_def)
qed

lemma engine_ok_world:
  "tally v = tally (engineWorld e) \<Longrightarrow> engine_ok tally b n (e\<lparr>engineWorld := v\<rparr>) = engine_ok tally b n e"
  by (simp add: engine_ok_def accounted_def handles_kept_def ready_engine_def idle_engine_def)

lemma loadDll_keeps:
  assumes "com_conforms cm tally" "loadDll cm name e = (h, t)"
  shows "\<exists>v. t = e\<lparr>engineWorld := v\<rparr> \<and> tally v = tally (engineWorld e)"
proof (cases "cGetModuleHandle cm name (engineWorld e) = 0")
  case True
  then show ?thesis using assms(2) com_conformsD(6) [OF assms(1)]
    by (auto simp: loadDll_def ecall_def case_prod_unfold)
next
  case False
  then have "t = e\<lparr>engineWorld := engineWorld e\<rparr>" using assms(2) by (simp add: loadDll_def)
  then show ?thesis by blast
qed

text \<open>The second half of \<open>InitializeDbgEng\<close>: the thread has been created.\<close>

lemma thread_started_ok:
  assumes conf: "com_conforms cm tally" and ok: "engine_ok tally b n e" and idle: "engineThread e = NotRunning"
    and w: "tally w = opened h3 (opened h2 (opened h1 (opened h0 (tally (engineWorld e)))))" and thread: "h3 \<noteq> 0"
    and t: "t = eact (cCloseEvent cm h0) (startEngineThread cm
      (e\<lparr>gDbgEngEvent := h1, gProcessCreatedEvent := h2, engineWorld := w, gDbgEngThread := h3\<rparr>))"
  shows "engine_ok tally b n (if gDbgEngInitialized t then t else stopEngineThread cm t) \<and>
    (engineThread (if gDbgEngInitialized t then t else stopEngineThread cm t) = Serving \<longleftrightarrow> gDbgEngInitialized t)"
proof -
  let ?u = "e\<lparr>gDbgEngEvent := h1, gProcessCreatedEvent := h2, engineWorld := w, gDbgEngThread := h3\<rparr>"
  have u: "accounted tally b ?u" "idle_engine ?u"
    using ok idle w by (simp_all add: engine_ok_def accounted_def idle_engine_def opened_def)
  obtain init x where run: "InitializeDbgEngImpl cm ?u = (init, x)" by fastforce
  note x = InitializeDbgEngImpl_accounted [OF conf u run]
  have t': "t = x\<lparr>gDbgEngInitialized := init, engineThread := Serving, engineWorld := cCloseEvent cm h0 (engineWorld x)\<rparr>"
    by (simp add: t startEngineThread_def run eact_def)
  note close = com_conformsD(10) [OF conf]
  have acc: "accounted tally b t" using x by (simp add: t' accounted_def close closed_def)
  have vars: "gDbgEngThread t = h3" "gDbgEngEvent t = h1" "gProcessCreatedEvent t = h2" "engineThread t = Serving"
    using x by (simp_all add: t' handle_view_def)
  have "snd (snd (tally (engineWorld t))) = snd (snd (tally w)) - {#h0#}"
    using x by (simp add: t' handle_view_def close closed_def)
  then have handles: "snd (snd (tally (engineWorld t))) = snd (snd (tally (engineWorld e))) + {#h3, h1, h2#}"
    by (simp add: w opened_def add_mset_commute)
  have before: "n = 0 \<longrightarrow> snd (snd (tally (engineWorld e))) = snd (snd b)"
    using ok idle by (simp add: engine_ok_def handles_kept_def)
  show ?thesis
  proof (cases init)
    case True
    then have "ready_engine t" "gDbgEngInitialized t" using x by (simp_all add: t' ready_engine_def)
    then show ?thesis using acc vars handles before thread by (simp add: engine_ok_def handles_kept_def)
  next
    case False
    then have "\<not> gDbgEngInitialized t" by (simp add: t')
    then show ?thesis using stopEngineThread_accounted [OF conf acc] vars handles before
      by (simp add: engine_ok_def handles_kept_def)
  qed
qed

lemma InitializeDbgEng_ok:
  assumes conf: "com_conforms cm tally" and ok: "engine_ok tally b n e" and run: "InitializeDbgEng cm e = Some (r, t)"
  shows "engine_ok tally b n t \<and> (engineThread t = Serving \<longleftrightarrow> r)"
proof (cases "gDbgEngInitialized e")
  case True
  then show ?thesis using ok run
    by (cases "engineThread e") (auto simp: InitializeDbgEng_def engine_ok_def idle_engine_def split: if_splits)
next
  case False
  then have stopped: "engineThread e = NotRunning"
    using ok by (cases "engineThread e") (simp_all add: engine_ok_def)
  obtain m x where l1: "loadDll cm ''dbgmodel.dll'' e = (m, x)" by fastforce
  obtain d u where l2: "loadDll cm ''dbgeng.dll'' x = (d, u)" by fastforce
  obtain v1 where x: "x = e\<lparr>engineWorld := v1\<rparr>" "tally v1 = tally (engineWorld e)"
    using loadDll_keeps [OF conf l1] by blast
  obtain v2 where "u = x\<lparr>engineWorld := v2\<rparr>" "tally v2 = tally (engineWorld x)"
    using loadDll_keeps [OF conf l2] by blast
  then have u: "u = e\<lparr>engineWorld := v2\<rparr>" "tally v2 = tally (engineWorld e)" using x by simp_all
  show ?thesis
  proof (cases "m = 0 \<or> d = 0")
    case True
    then have "r = False \<and> (t = x \<or> t = u)" using run False l1 l2 by (auto simp: InitializeDbgEng_def split: if_splits)
    moreover have "engine_ok tally b n x" using ok engine_ok_world [OF x(2), of b n] by (simp add: x(1))
    moreover have "engine_ok tally b n u" using ok engine_ok_world [OF u(2), of b n] by (simp add: u(1))
    moreover have "engineThread x = NotRunning" "engineThread u = NotRunning" using stopped by (simp_all add: x(1) u(1))
    ultimately have "r = False" "engine_ok tally b n t" "engineThread t = NotRunning" by blast+
    then show ?thesis by simp
  next
    case loaded: False
    obtain h0 w0 where c0: "cCreateEvent cm v2 = (h0, w0)" by fastforce
    obtain h1 w1 where c1: "cCreateEvent cm w0 = (h1, w1)" by fastforce
    obtain h2 w2 where c2: "cCreateEvent cm w1 = (h2, w2)" by fastforce
    obtain h3 w3 where c3: "cCreateThread cm w2 = (h3, w3)" by fastforce
    define s where "s = eact (cCloseEvent cm h0) (startEngineThread cm
      (u\<lparr>gDbgEngEvent := h1, gProcessCreatedEvent := h2, engineWorld := w3, gDbgEngThread := h3\<rparr>))"
    have "InitializeDbgEng cm e = (if h3 = 0 then None
        else if gDbgEngInitialized s then Some (True, s) else Some (False, stopEngineThread cm s))"
      using False loaded l1 l2 c0 c1 c2 c3 u
      by (simp add: InitializeDbgEng_def ecall_def s_def Let_def)
    then have res: "h3 \<noteq> 0" "r = gDbgEngInitialized s" "t = (if gDbgEngInitialized s then s else stopEngineThread cm s)"
      using run by (auto split: if_splits)
    have "tally w3 = opened h3 (opened h2 (opened h1 (opened h0 (tally (engineWorld u)))))"
      using com_conformsD(8,9) [OF conf] c0 c1 c2 c3 res(1) u(1) by (metis engine.select_convs(10) engine.surjective engine.update_convs(10) fst_conv snd_conv)
    moreover have "engine_ok tally b n u" "engineThread u = NotRunning"
      using ok stopped u(1) engine_ok_world [OF u(2)] by simp_all
    ultimately show ?thesis using thread_started_ok [OF conf, of b n u w3 h3 h2 h1 h0 s] res s_def by simp
  qed
qed

lemma EngineCheckStructAlignment_state:
  assumes "EngineCheckStructAlignment cm ty sz e = Some (ok, t)"
  shows "\<exists>r. InitializeDbgEng cm e = Some (r, t)" and "ok \<Longrightarrow> InitializeDbgEng cm e = Some (True, t)"
  using assms unfolding EngineCheckStructAlignment_def by (auto split: option.splits prod.splits if_splits)

lemma lifecycle_ok:
  assumes "com_conforms cm tally"
  shows "lifecycle cm w n e \<Longrightarrow> engine_ok tally (tally w) n e"
proof (induction rule: lifecycle.induct)
  case started
  then show ?case by (simp add: engine_ok_def initialEngine_def accounted_def idle_engine_def handles_kept_def)
next
  case (checked n e ty sz ok t)
  obtain r where "InitializeDbgEng cm e = Some (r, t)"
    using EngineCheckStructAlignment_state(1) [OF checked.hyps(2)] by blast
  then show ?case using InitializeDbgEng_ok [OF assms checked.IH] by blast
next
  case (detached n e reason)
  then have acc: "accounted tally (tally w) e" "engineThread e = Serving \<or> idle_engine e"
    by (auto simp: engine_ok_def split: if_splits)
  note stop = stopEngineThread_accounted [OF assms acc]
  show ?case
  proof (cases "reason = 0 \<and> gDbgEngThread e \<noteq> 0")
    case True
    then have "n = 0 \<Longrightarrow> handles_kept tally (tally w) (stopEngineThread cm e)"
      using detached.IH stop by (auto simp: engine_ok_def handles_kept_def split: if_splits)
    then show ?thesis using True stop by (auto simp: DllMain_def engine_ok_def)
  next
    case False
    then have "DllMain cm reason e = e" unfolding DllMain_def by (rule if_not_P)
    then show ?thesis using detached.IH by simp
  qed
next
  case (wait_failed n e)
  then have acc: "accounted tally (tally w) e" "engineThread e = Serving \<or> idle_engine e"
    by (auto simp: engine_ok_def split: if_splits)
  then show ?case using endEngineThread_accounted [OF assms acc] by (simp add: engine_ok_def)
qed

lemma structSize_titanContext: "structSize titanContextFields = 1088"
  by code_simp

section \<open>The property\<close>

text \<open>
  C35. Along every life of the engine, whatever fails: while the thread is not running nothing is held of COM and DbgEng, and
  while it runs all interfaces and both callback objects are there and exactly they are held. The handles are
  closed as well, unless the thread ended on its own. A check that answers true leaves the engine ready, and
  the caller's structure has the layout of the adapter's.
\<close>

theorem engine_lifecycle_balanced:
  assumes "com_conforms cm tally" and "lifecycle cm w n e"
  shows "(engineThread e = NotRunning \<longrightarrow> idle_engine e \<and> fst (tally (engineWorld e)) = fst (tally w) \<and>
      fst (snd (tally (engineWorld e))) = fst (snd (tally w))) \<and>
    (engineThread e = Serving \<longrightarrow> ready_engine e \<and> gDbgEngInitialized e \<and>
      fst (tally (engineWorld e)) = fst (tally w) + references (gInterfaces e) \<and>
      fst (snd (tally (engineWorld e))) = Suc (fst (snd (tally w)))) \<and>
    (n = 0 \<and> engineThread e = NotRunning \<longrightarrow> tally (engineWorld e) = tally w) \<and>
    (\<forall>ty sz t. EngineCheckStructAlignment cm ty sz e = Some (True, t) \<longrightarrow>
      engineThread t = Serving \<and> ready_engine t \<and> ty = 16 \<and> sz = 1088)"
proof -
  have ok: "engine_ok tally (tally w) n e" by (rule lifecycle_ok [OF assms])
  have "engineThread t = Serving \<and> ready_engine t \<and> ty = 16 \<and> sz = 1088"
    if c: "EngineCheckStructAlignment cm ty sz e = Some (True, t)" for ty sz t
  proof -
    have "InitializeDbgEng cm e = Some (True, t)" using EngineCheckStructAlignment_state(2) [OF c] by simp
    then have "engine_ok tally (tally w) n t \<and> engineThread t = Serving" "ty = 16 \<and> sz = of_nat (structSize titanContextFields)"
      using InitializeDbgEng_ok [OF assms(1) ok] c by (auto simp: EngineCheckStructAlignment_def)
    moreover have "structSize titanContextFields = 1088" by (rule structSize_titanContext)
    ultimately show ?thesis by (simp add: engine_ok_def)
  qed
  moreover have "engineThread e = NotRunning \<Longrightarrow> idle_engine e" "engineThread e = Serving \<Longrightarrow> ready_engine e \<and> gDbgEngInitialized e"
    "accounted tally (tally w) e" "n = 0 \<Longrightarrow> handles_kept tally (tally w) e"
    using ok by (simp_all add: engine_ok_def)
  ultimately show ?thesis
    by (simp add: accounted_def handles_kept_def idle_engine_def ready_engine_def prod_eq_iff)
qed

text \<open>A world that counts, in which the query of one interface may fail.\<close>

definition counting :: "debug_interface option \<Rightarrow> ledger comapi" where
  "counting missing = \<lparr>
     cInitialize = (\<lambda>l. (0, (fst l, Suc (fst (snd l)), snd (snd l)))),
     cUninitialize = (\<lambda>l. (fst l, fst (snd l) - 1, snd (snd l))),
     cDebugCreate = (\<lambda>l. ((0, 1), added 1 l)),
     cQueryInterface = (\<lambda>_ i l. if Some i = missing then ((0x80004002, 0), l) else ((0, 2), added 2 l)),
     cRelease = dropped,
     cSetEventCallbacks = (\<lambda>_ _ l. (0, l)), cSetOutputCallbacks = (\<lambda>_ _ l. (0, l)), cSetEngineOptions = (\<lambda>_ _ l. (0, l)),
     cGetModuleHandle = (\<lambda>_ _. 0), cModuleFileName = (\<lambda>_. ''C:'' @ [CHR 0x5C] @ ''d.dll''), cLoadLibrary = (\<lambda>_ l. (4096, l)),
     cCreateEvent = (\<lambda>l. (4, opened 4 l)), cCreateThread = (\<lambda>l. (8, opened 8 l)), cCloseEvent = closed\<rparr>"

lemma counting_conforms: "com_conforms (counting missing) id"
  by (simp add: com_conforms_def counting_def answers_def)

definition nothing_held :: ledger where
  "nothing_held = ({#}, 0, {#})"

lemma counting_calls [simp]:
  "ecall (cInitialize (counting m)) e = (0, e\<lparr>engineWorld := (fst (engineWorld e), Suc (fst (snd (engineWorld e))), snd (snd (engineWorld e)))\<rparr>)"
  "ecall (cDebugCreate (counting m)) e = ((0, 1), e\<lparr>engineWorld := added 1 (engineWorld e)\<rparr>)"
  "debugClientInterface (counting m) i e =
     (if Some i = m then (0x80004002, e\<lparr>gInterfaces := (gInterfaces e)(i := 0)\<rparr>)
      else (0, e\<lparr>engineWorld := added 2 (engineWorld e), gInterfaces := (gInterfaces e)(i := 2)\<rparr>))"
  "setCallbacks (counting m) e = (True, e\<lparr>gEventCallbacks := True, gOutputCallbacks := True\<rparr>)"
  "loadDll (counting m) name e = (4096, e)"
  "ecall (cCreateEvent (counting m)) e = (4, e\<lparr>engineWorld := opened 4 (engineWorld e)\<rparr>)"
  "ecall (cCreateThread (counting m)) e = (8, e\<lparr>engineWorld := opened 8 (engineWorld e)\<rparr>)"
  by (simp_all add: counting_def ecall_def debugClientInterface_def setCallbacks_def loadDll_def Let_def)

lemma counting_runs:
  "fst (InitializeDbgEngImpl (counting None) e)" "\<not> fst (InitializeDbgEngImpl (counting (Some ISymbols)) e)"
  by (simp_all add: InitializeDbgEngImpl_def Let_def)

lemma counting_starts:
  "\<exists>e. EngineCheckStructAlignment (counting None) 16 1088 (initialEngine nothing_held) = Some (True, e)"
  "\<exists>e. EngineCheckStructAlignment (counting (Some ISymbols)) 16 1088 (initialEngine nothing_held) = Some (False, e) \<and>
     InitializeDbgEng (counting (Some ISymbols)) (initialEngine nothing_held) = Some (False, e)"
  by (simp_all add: EngineCheckStructAlignment_def InitializeDbgEng_def startEngineThread_def initialEngine_def Let_def
      structSize_titanContext eact_def case_prod_unfold counting_runs)

lemma engine_lifecycle_balanced_witness:
  "(\<exists>e. EngineCheckStructAlignment (counting None) 16 1088 (initialEngine nothing_held) = Some (True, e) \<and>
      ready_engine e \<and> fst (engineWorld e) = references (gInterfaces e) \<and>
      engineWorld (DllMain (counting None) 0 e) = nothing_held) \<and>
   (\<exists>e. EngineCheckStructAlignment (counting (Some ISymbols)) 16 1088 (initialEngine nothing_held) = Some (False, e) \<and>
      idle_engine e \<and> engineWorld e = nothing_held)"
proof
  let ?cm = "counting None"
  obtain e where e: "EngineCheckStructAlignment ?cm 16 1088 (initialEngine nothing_held) = Some (True, e)"
    using counting_starts(1) by blast
  note first_call = engine_lifecycle_balanced [OF counting_conforms started]
  have l: "lifecycle ?cm nothing_held 0 e" by (rule checked [OF started e])
  have s: "engineThread e = Serving" using first_call e by blast
  note r = engine_lifecycle_balanced [OF counting_conforms l]
  note d = engine_lifecycle_balanced [OF counting_conforms detached [OF l, of 0]]
  have "gDbgEngThread e \<noteq> 0" using lifecycle_ok [OF counting_conforms l] s by (simp add: engine_ok_def handles_kept_def)
  then have "engineThread (DllMain ?cm 0 e) = NotRunning"
    using s by (simp add: DllMain_def stopEngineThread_def endEngineThread_def eact_def)
  then have "engineWorld (DllMain ?cm 0 e) = nothing_held" using d by simp
  moreover have "ready_engine e" "fst (engineWorld e) = references (gInterfaces e)" using r s by (simp_all add: nothing_held_def)
  ultimately show "\<exists>e. EngineCheckStructAlignment ?cm 16 1088 (initialEngine nothing_held) = Some (True, e) \<and>
      ready_engine e \<and> fst (engineWorld e) = references (gInterfaces e) \<and> engineWorld (DllMain ?cm 0 e) = nothing_held"
    using e by blast
next
  let ?cm = "counting (Some ISymbols)"
  obtain e where e: "EngineCheckStructAlignment ?cm 16 1088 (initialEngine nothing_held) = Some (False, e)"
    "InitializeDbgEng ?cm (initialEngine nothing_held) = Some (False, e)" using counting_starts(2) by blast
  have "engineThread e = NotRunning"
    using InitializeDbgEng_ok [OF counting_conforms lifecycle_ok [OF counting_conforms started] e(2)] by (cases "engineThread e") auto
  then have "idle_engine e" "engineWorld e = nothing_held"
    using engine_lifecycle_balanced [OF counting_conforms checked [OF started e(1)]] by simp_all
  then show "\<exists>e. EngineCheckStructAlignment ?cm 16 1088 (initialEngine nothing_held) = Some (False, e) \<and>
      idle_engine e \<and> engineWorld e = nothing_held" using e by blast
qed

text \<open>
  Outside the property: when \<open>CreateThread\<close> fails, \<open>InitializeDbgEng\<close> waits for an event that nobody will signal.
\<close>

lemma InitializeDbgEng_waits_forever:
  assumes "\<And>w. fst (cCreateThread cm w) = 0" and "\<not> gDbgEngInitialized e"
    and "\<And>name w. cGetModuleHandle cm name w \<noteq> 0"
  shows "InitializeDbgEng cm e = None"
  using assms by (simp add: InitializeDbgEng_def loadDll_def ecall_def case_prod_unfold Let_def)

end
