(* ===== verification/Replay_Library.thy ===== *)
theory Replay_Library
  imports Engine_Lifecycle
begin

text \<open>
  Loading the replay engine (\<open>src/TTD/TTD.cpp\<close>, lines 7 to 45): the library next to the adapter, else the one on the search path,
  loaded once in the life of the process, and the engine its entry point creates. Sessions see of it the call
  \<open>tCreateEngine\<close> of the interface \<open>ttdapi\<close>.
\<close>

record 'w loader =
  lOwner :: "'w \<Rightarrow> HANDLE option"
  lModuleFileName :: "HANDLE \<Rightarrow> 'w \<Rightarrow> string"
  lLoadLibraryEx :: "string \<Rightarrow> 'w \<Rightarrow> HANDLE \<times> 'w"
  lLoadLibrary :: "string \<Rightarrow> 'w \<Rightarrow> HANDLE \<times> 'w"
  lGetProcAddress :: "HANDLE \<Rightarrow> string \<Rightarrow> 'w \<Rightarrow> u64"
  lCreate :: "u64 \<Rightarrow> 'w \<Rightarrow> (u32 \<times> u64) \<times> 'w"

text \<open>
  \<open>LoadReplayModule\<close>. The name is copied behind the last separator of a buffer of 260 characters; when it does not fit,
  \<open>wcscpy_s\<close> ends the process, which is the value \<open>None\<close>.
\<close>

definition LoadReplayModule :: "'w loader \<Rightarrow> 'w \<Rightarrow> (HANDLE \<times> 'w) option" where
  "LoadReplayModule ld w =
     (case lOwner ld w of
       Some owner \<Rightarrow>
         let path = lModuleFileName ld owner w
         in if path \<noteq> [] \<and> CHR 0x5C \<in> set path
            then if length (moduleDir path) + length ''TTDReplay.dll'' + 1 > 260 then None
                 else (let (replay, w) = lLoadLibraryEx ld (moduleDir path @ ''TTDReplay.dll'') w
                       in if replay \<noteq> 0 then Some (replay, w) else Some (lLoadLibrary ld ''TTDReplay.dll'' w))
            else Some (lLoadLibrary ld ''TTDReplay.dll'' w)
     | None \<Rightarrow> Some (lLoadLibrary ld ''TTDReplay.dll'' w))"

text \<open>
  \<open>CreateEngine\<close>, with its static variable: the module once the function has run. The answer is the engine, null on failure, and the
  error it sets, if it sets one.
\<close>

definition CreateEngine :: "'w loader \<Rightarrow> HANDLE option \<Rightarrow> 'w \<Rightarrow> ((u64 \<times> u32 option) \<times> HANDLE option \<times> 'w) option" where
  "CreateEngine ld loaded w =
     (case (case loaded of Some m \<Rightarrow> Some (m, w) | None \<Rightarrow> LoadReplayModule ld w) of
       None \<Rightarrow> None
     | Some (m, w) \<Rightarrow>
         if m = 0 then Some ((0, None), Some m, w)
         else if lGetProcAddress ld m ''CreateReplayEngine'' w = 0 then Some ((0, Some 127), Some m, w)
         else (let ((r, engine), w) = lCreate ld (lGetProcAddress ld m ''CreateReplayEngine'' w) w
               in if r \<noteq> 0 \<or> engine = 0 then Some ((0, Some 31), Some m, w) else Some ((engine, None), Some m, w)))"

text \<open>The library is looked for once: a failure is remembered as well, and so is final for the process.\<close>

lemma CreateEngine_remembers:
  assumes "CreateEngine ld loaded w = Some (r, loaded', v)"
  shows "loaded' \<noteq> None \<and> (loaded \<noteq> None \<longrightarrow> loaded' = loaded)"
  using assms by (auto simp: CreateEngine_def Let_def case_prod_unfold split: option.splits prod.splits if_splits)

lemma CreateEngine_failure_final: "CreateEngine ld (Some 0) u = Some ((0, None), Some 0, u)"
  by (simp add: CreateEngine_def)

lemma CreateEngine_answers:
  assumes "CreateEngine ld loaded w = Some ((engine, error), loaded', v)"
  shows "engine \<noteq> 0 \<longrightarrow> error = None \<and> loaded' \<noteq> Some 0"
  using assms by (auto simp: CreateEngine_def Let_def case_prod_unfold split: option.splits prod.splits if_splits)

end
