(* ===== verification/Text_Format.thy ===== *)
theory Text_Format
  imports Prelude
begin

text \<open>
  Text in and out: the formats the sources use (\<open>{}\<close>, \<open>{:#x}\<close>, \<open>{:016x}\<close>, \<open>{:02x}\<close>, \<open>{:<3}\<close>), the conversions \<open>std::stoull\<close> and
  \<open>std::stoul\<close> with the errors they throw, words of a line, and the tables that name the flags of DbgEng with the functions that
  log them (\<open>TitanEngine.cpp\<close>, lines 61 to 193, and \<open>playground.cpp\<close>, lines 59 to 183).
\<close>

section \<open>Formats\<close>

definition hexChar :: "nat \<Rightarrow> char" where
  "hexChar d = (if d < 10 then char_of (48 + d) else char_of (87 + d))"

fun hexDigits :: "nat \<Rightarrow> string" where
  "hexDigits n = (if n < 16 then [hexChar n] else hexDigits (n div 16) @ [hexChar (n mod 16)])"

fun decDigits :: "nat \<Rightarrow> string" where
  "decDigits n = (if n < 10 then [hexChar n] else decDigits (n div 10) @ [hexChar (n mod 10)])"

declare hexDigits.simps [simp del] decDigits.simps [simp del]

definition dec :: "'a::len word \<Rightarrow> string" where
  "dec w = decDigits (unat w)"

definition hex0x :: "'a::len word \<Rightarrow> string" where
  "hex0x w = ''0x'' @ hexDigits (unat w)"

definition hexPadded :: "nat \<Rightarrow> 'a::len word \<Rightarrow> string" where
  "hexPadded n w = replicate (n - length (hexDigits (unat w))) (CHR ''0'') @ hexDigits (unat w)"

definition leftAligned :: "nat \<Rightarrow> string \<Rightarrow> string" where
  "leftAligned n s = s @ replicate (n - length s) (CHR '' '')"

section \<open>Conversions\<close>

definition isSpace :: "char \<Rightarrow> bool" where
  "isSpace c \<longleftrightarrow> of_char c = (32::nat) \<or> (9::nat) \<le> of_char c \<and> of_char c \<le> (13::nat)"

definition digitValue :: "char \<Rightarrow> nat option" where
  "digitValue c = (let n = of_char c :: nat in
     if 48 \<le> n \<and> n \<le> 57 then Some (n - 48)
     else if 97 \<le> n \<and> n \<le> 122 then Some (n - 87)
     else if 65 \<le> n \<and> n \<le> 90 then Some (n - 55) else None)"

definition isDigit :: "nat \<Rightarrow> char \<Rightarrow> bool" where
  "isDigit base c = (case digitValue c of Some d \<Rightarrow> d < base | None \<Rightarrow> False)"

definition digitsValue :: "nat \<Rightarrow> string \<Rightarrow> nat" where
  "digitsValue base s = foldl (\<lambda>v c. v * base + the (digitValue c)) 0 s"

text \<open>
  \<open>strtoul\<close> and \<open>strtoull\<close> as the C standard describes them, with the exceptions \<open>std::stoul\<close> and \<open>std::stoull\<close> throw: white space, a
  sign, the prefix of base 16, and as many digits as there are; base 0 chooses the base from the prefix.
\<close>

datatype conversion_error = Invalid_argument | Out_of_range

definition splitSign :: "string \<Rightarrow> bool \<times> string" where
  "splitSign s = (case s of c # r \<Rightarrow> if c = CHR ''-'' then (True, r) else if c = CHR ''+'' then (False, r) else (False, s)
     | [] \<Rightarrow> (False, []))"

definition splitBase :: "nat \<Rightarrow> string \<Rightarrow> nat \<times> string" where
  "splitBase base s =
     (if (base = 0 \<or> base = 16) \<and> 3 \<le> length s \<and> s ! 0 = CHR ''0'' \<and> (s ! 1 = CHR ''x'' \<or> s ! 1 = CHR ''X'') \<and> isDigit 16 (s ! 2)
      then (16, drop 2 s)
      else if base = 0 then (if s \<noteq> [] \<and> hd s = CHR ''0'' then 8 else 10, s)
      else (base, s))"

definition stoul :: "nat \<Rightarrow> string \<Rightarrow> conversion_error + 'a::len word" where
  "stoul base s =
     (let (negative, s) = splitSign (dropWhile isSpace s);
          (base, s) = splitBase base s;
          digits = takeWhile (isDigit base) s;
          v = digitsValue base digits
      in if digits = [] then Inl Invalid_argument
         else if 2 ^ LENGTH('a) \<le> v then Inl Out_of_range
         else Inr (if negative then - of_nat v else of_nat v))"

text \<open>The words an \<open>istringstream\<close> extracts: the next one, empty at the end of the line, and the rest.\<close>

definition nextWord :: "string \<Rightarrow> string \<times> string" where
  "nextWord s = (let s = dropWhile isSpace s in (takeWhile (\<lambda>c. \<not> isSpace c) s, dropWhile (\<lambda>c. \<not> isSpace c) s))"

definition toLower :: "char \<Rightarrow> char" where
  "toLower c = (if (65::nat) \<le> of_char c \<and> of_char c \<le> (90::nat) then char_of (of_char c + (32::nat)) else c)"

section \<open>Flags\<close>

record flag_info =
  fi_value :: u32
  fi_name :: string
  fi_description :: string

definition flag :: "u32 \<times> string \<times> string \<Rightarrow> flag_info" where
  "flag f = (case f of (v, n, d) \<Rightarrow> \<lparr>fi_value = v, fi_name = n, fi_description = d\<rparr>)"

definition cesFlags :: "flag_info list" where
  "cesFlags = map flag [
     (0x1, ''DEBUG_CES_CURRENT_THREAD'', ''Current thread changed''),
     (0x2, ''DEBUG_CES_EFFECTIVE_PROCESSOR'', ''Effective processor changed''),
     (0x4, ''DEBUG_CES_BREAKPOINTS'', ''Breakpoints changed''),
     (0x8, ''DEBUG_CES_CODE_LEVEL'', ''Code level changed''),
     (0x10, ''DEBUG_CES_EXECUTION_STATUS'', ''Execution status changed''),
     (0x20, ''DEBUG_CES_ENGINE_OPTIONS'', ''Engine options changed''),
     (0x40, ''DEBUG_CES_LOG_FILE'', ''Log file changed''),
     (0x80, ''DEBUG_CES_RADIX'', ''Radix changed''),
     (0x100, ''DEBUG_CES_EVENT_FILTERS'', ''Event filters changed''),
     (0x200, ''DEBUG_CES_PROCESS_OPTIONS'', ''Process options changed''),
     (0x400, ''DEBUG_CES_EXTENSIONS'', ''Extensions changed''),
     (0x800, ''DEBUG_CES_SYSTEMS'', ''Systems changed''),
     (0x1000, ''DEBUG_CES_ASSEMBLY_OPTIONS'', ''Assembly options changed''),
     (0x2000, ''DEBUG_CES_EXPRESSION_SYNTAX'', ''Expression syntax changed''),
     (0x4000, ''DEBUG_CES_TEXT_REPLACEMENTS'', ''Text replacements changed'')]"

definition sessionFlags :: "flag_info list" where
  "sessionFlags = map flag [
     (0, ''DEBUG_SESSION_ACTIVE'', ''Active''),
     (1, ''DEBUG_SESSION_END_SESSION_ACTIVE_TERMINATE'', ''End Session Active Terminate''),
     (2, ''DEBUG_SESSION_END_SESSION_ACTIVE_DETACH'', ''End Session Active Detach''),
     (3, ''DEBUG_SESSION_END_SESSION_PASSIVE'', ''End Session Passive''),
     (4, ''DEBUG_SESSION_END'', ''End''),
     (5, ''DEBUG_SESSION_REBOOT'', ''Reboot''),
     (6, ''DEBUG_SESSION_HIBERNATE'', ''Hibernate''),
     (7, ''DEBUG_SESSION_FAILURE'', ''Failure'')]"

definition cdsFlags :: "flag_info list" where
  "cdsFlags = map flag [
     (0xFFFFFFFF, ''DEBUG_CDS_ALL'', ''A general change in the target has occurred.''),
     (1, ''DEBUG_CDS_REGISTERS'', ''Registers changed''),
     (2, ''DEBUG_CDS_DATA'', ''Data/memory changed''),
     (4, ''DEBUG_CDS_REFRESH'', ''Refresh requested'')]"

definition cssFlags :: "flag_info list" where
  "cssFlags = map flag [
     (0x1, ''DEBUG_CSS_LOADS'', ''Symbol loads changed''),
     (0x2, ''DEBUG_CSS_UNLOADS'', ''Symbol unloads changed''),
     (0x4, ''DEBUG_CSS_SCOPE'', ''Symbol scope changed''),
     (0x8, ''DEBUG_CSS_PATHS'', ''Symbol paths changed''),
     (0x10, ''DEBUG_CSS_SYMBOL_OPTIONS'', ''Symbol options changed''),
     (0x20, ''DEBUG_CSS_TYPE_OPTIONS'', ''Type options changed''),
     (0x40, ''DEBUG_CSS_COLLAPSE_CHILDREN'', ''Collapse children changed'')]"

text \<open>
  The table of execution statuses. The two programs differ in its first entry: the playground's is the status
  \<open>DEBUG_STATUS_NO_CHANGE\<close>, the adapter's is \<open>DEBUG_STATUS_BREAK\<close>, which occurs again below.
\<close>

definition commonStatusFlags :: "flag_info list" where
  "commonStatusFlags = map flag [
     (1, ''DEBUG_STATUS_GO'', ''Target is executing normally''),
     (2, ''DEBUG_STATUS_GO_HANDLED'', ''''),
     (3, ''DEBUG_STATUS_GO_NOT_HANDLED'', ''''),
     (4, ''DEBUG_STATUS_STEP_OVER'', ''Target is executing a single instruction or call''),
     (5, ''DEBUG_STATUS_STEP_INTO'', ''Target is executing a single instruction''),
     (6, ''DEBUG_STATUS_BREAK'', ''Target is suspended''),
     (7, ''DEBUG_STATUS_NO_DEBUGGEE'', ''No debugging session is active''),
     (8, ''DEBUG_STATUS_STEP_BRANCH'', ''Target is executing until the next branch instruction''),
     (9, ''DEBUG_STATUS_IGNORE_EVENT'', ''''),
     (10, ''DEBUG_STATUS_RESTART_REQUESTED'', ''Target is restarting''),
     (11, ''DEBUG_STATUS_REVERSE_GO'', ''Target is executing backwards''),
     (12, ''DEBUG_STATUS_REVERSE_STEP_BRANCH'', ''Target is executing until the previous branch instruction''),
     (13, ''DEBUG_STATUS_REVERSE_STEP_OVER'', ''Target is executing a single instruction or call backwards''),
     (14, ''DEBUG_STATUS_REVERSE_STEP_INTO'', ''Target is executing a single instruction backwards''),
     (15, ''DEBUG_STATUS_OUT_OF_SYNC'', ''Debugger communications channel is out of sync''),
     (16, ''DEBUG_STATUS_WAIT_INPUT'', ''Target is awaiting input from the user''),
     (17, ''DEBUG_STATUS_TIMEOUT'', ''Debugger communications channel has timed out'')]"

definition adapterStatusFlags :: "flag_info list" where
  "adapterStatusFlags = flag (6, ''DEBUG_STATUS_BREAK'', '''') # commonStatusFlags"

definition playgroundStatusFlags :: "flag_info list" where
  "playgroundStatusFlags = flag (0, ''DEBUG_STATUS_NO_CHANGE'', '''') # commonStatusFlags"

definition formatSingleFlag :: "flag_info list \<Rightarrow> u32 \<Rightarrow> string" where
  "formatSingleFlag flags v = (case List.find (\<lambda>f. fi_value f = v) flags of
     None \<Rightarrow> hex0x v @ '' <unknown>''
   | Some f \<Rightarrow> fi_name f @ '' ('' @ fi_description f @ '')'')"

definition logSingleFlag :: "string \<Rightarrow> flag_info list \<Rightarrow> u32 \<Rightarrow> string list" where
  "logSingleFlag label flags v = (case List.find (\<lambda>f. fi_value f = v) flags of
     None \<Rightarrow> [''  '' @ label @ '': '' @ hex0x v @ '' <unknown>'']
   | Some f \<Rightarrow> [''  '' @ label @ '': '' @ fi_name f @ '' ('' @ fi_description f @ '')''])"

text \<open>The loop of \<open>logBitFlag\<close>: the flags it names and the bits that are left.\<close>

fun bitFlags :: "flag_info list \<Rightarrow> u32 \<Rightarrow> flag_info list \<times> u32" where
  "bitFlags [] v = ([], v)"
| "bitFlags (f # fs) v =
     (if v AND fi_value f \<noteq> 0 then (case bitFlags fs (v AND NOT (fi_value f)) of (named, rest) \<Rightarrow> (f # named, rest))
      else bitFlags fs v)"

definition logBitFlag :: "string \<Rightarrow> flag_info list \<Rightarrow> u32 \<Rightarrow> string list" where
  "logBitFlag label flags v =
     (''  '' @ label @ '': '' @ hex0x v) #
     (if v = 0 then []
      else (case bitFlags flags v of (named, rest) \<Rightarrow>
        map (\<lambda>f. ''    '' @ hex0x (fi_value f) @ '' '' @ fi_name f @ '' ('' @ fi_description f @ '')'') named @
        (if rest \<noteq> 0 then [''    '' @ hex0x rest @ '' <unknown>''] else [])))"

section \<open>Reading what was written\<close>

lemma digitValue_hexChar: "d < 16 \<Longrightarrow> digitValue (hexChar d) = Some d"
  by (auto simp: digitValue_def hexChar_def Let_def)

lemma isDigit_hexChar: "d < base \<Longrightarrow> base \<le> 16 \<Longrightarrow> isDigit base (hexChar d)"
  by (simp add: isDigit_def digitValue_hexChar)

lemma hexDigits_isDigit: "c \<in> set (hexDigits n) \<Longrightarrow> isDigit 16 c"
  by (induction n rule: hexDigits.induct) (subst (asm) hexDigits.simps, auto simp: isDigit_hexChar split: if_splits)

lemma digitsValue_append: "digitsValue b (s @ [c]) = digitsValue b s * b + the (digitValue c)"
  by (simp add: digitsValue_def)

lemma digitsValue_hexDigits: "digitsValue 16 (hexDigits n) = n"
proof (induction n rule: hexDigits.induct)
  case (1 n)
  then show ?case
    by (subst hexDigits.simps) (auto simp: digitsValue_append digitValue_hexChar, simp add: digitsValue_def digitValue_hexChar)
qed

lemma hexDigits_not_Nil: "hexDigits n \<noteq> []"
  by (subst hexDigits.simps) simp

lemma digitsValue_zeros: "digitsValue b (replicate k (CHR ''0'') @ s) = digitsValue b s"
proof -
  have "foldl (\<lambda>v c. v * b + the (digitValue c)) 0 (replicate k (CHR ''0'')) = 0"
    by (induction k) (simp_all add: digitValue_def)
  then show ?thesis by (simp add: digitsValue_def)
qed

lemma takeWhile_digits: "(\<forall>c \<in> set s. isDigit 16 c) \<Longrightarrow> (t = [] \<or> \<not> isDigit 16 (hd t)) \<Longrightarrow> takeWhile (isDigit 16) (s @ t) = s"
  by (induction s) (auto simp: takeWhile_eq_Nil_iff)

lemma not_special: 
  assumes "isDigit 16 c" shows "\<not> isSpace c" "c \<noteq> CHR ''-''" "c \<noteq> CHR ''+''" "c \<noteq> CHR ''x''" "c \<noteq> CHR ''X''"
  using assms by (auto simp: isDigit_def digitValue_def isSpace_def Let_def split: if_splits)

text \<open>What may follow a number without being taken for a part of it.\<close>

definition endsNumber :: "string \<Rightarrow> bool" where
  "endsNumber t \<longleftrightarrow> t = [] \<or> \<not> isDigit 16 (hd t) \<and> hd t \<noteq> CHR ''x'' \<and> hd t \<noteq> CHR ''X''"

lemma splitSign_digit: "isDigit 16 c \<Longrightarrow> splitSign (c # r) = (False, c # r)"
  using not_special [of c] by (simp add: splitSign_def)

lemma stoul_prefixed:
  assumes digits: "\<forall>c \<in> set s. isDigit 16 c" and s: "s \<noteq> []" and t: "endsNumber t"
    and base: "base = 0 \<or> base = 16" and fits: "digitsValue 16 s < 2 ^ LENGTH('a::len)"
  shows "(stoul base (''0x'' @ s @ t) :: conversion_error + 'a word) = Inr (of_nat (digitsValue 16 s))"
proof -
  have d: "isDigit 16 (hd s)" using digits s by simp
  have "dropWhile isSpace (''0x'' @ s @ t) = ''0x'' @ s @ t" by (simp add: isSpace_def)
  moreover have "splitSign (''0x'' @ s @ t) = (False, ''0x'' @ s @ t)" by (simp add: splitSign_def)
  moreover have "splitBase base (''0x'' @ s @ t) = (16, s @ t)"
    using base d s by (cases s) (auto simp: splitBase_def)
  moreover have "takeWhile (isDigit 16) (s @ t) = s"
    using takeWhile_digits digits t unfolding endsNumber_def by blast
  ultimately show ?thesis using s fits by (simp add: stoul_def)
qed

lemma stoul_plain:
  assumes digits: "\<forall>c \<in> set s. isDigit 16 c" and s: "s \<noteq> []" and t: "endsNumber t"
    and fits: "digitsValue 16 s < 2 ^ LENGTH('a::len)"
  shows "(stoul 16 (s @ t) :: conversion_error + 'a word) = Inr (of_nat (digitsValue 16 s))"
proof -
  obtain c r where c: "s = c # r" using s by (cases s) auto
  then have d: "isDigit 16 c" using digits by simp
  have "dropWhile isSpace (s @ t) = s @ t" using c d not_special by simp
  moreover have "splitSign (s @ t) = (False, s @ t)" using c d by (simp add: splitSign_digit)
  moreover have "splitBase 16 (s @ t) = (16, s @ t)"
  proof (cases r)
    case Nil
    have "t = [] \<or> hd t \<noteq> CHR ''x'' \<and> hd t \<noteq> CHR ''X''" using t by (auto simp: endsNumber_def)
    then show ?thesis using c Nil by (cases t) (auto simp: splitBase_def)
  next
    case (Cons d r)
    then show ?thesis using c digits not_special(4,5) [of d] by (auto simp: splitBase_def)
  qed
  moreover have "takeWhile (isDigit 16) (s @ t) = s"
    using takeWhile_digits digits t unfolding endsNumber_def by blast
  ultimately show ?thesis using s fits by (simp add: stoul_def)
qed

lemma stoul_hex0x:
  fixes w :: "'a::len word"
  shows "base = 0 \<or> base = 16 \<Longrightarrow> stoul base (hex0x w) = Inr w"
  using stoul_prefixed [of "hexDigits (unat w)" "[]" base, where 'a = 'a] hexDigits_isDigit hexDigits_not_Nil unsigned_less [of w]
  by (simp add: hex0x_def digitsValue_hexDigits endsNumber_def)

lemma stoul_hexPadded:
  fixes w :: "'a::len word"
  assumes "endsNumber t"
  shows "stoul 16 (hexPadded n w @ t) = Inr w"
proof -
  have "\<forall>c \<in> set (hexPadded n w). isDigit 16 c"
    using hexDigits_isDigit by (auto simp: hexPadded_def isDigit_def digitValue_def)
  moreover have "hexPadded n w \<noteq> []" by (simp add: hexPadded_def hexDigits_not_Nil)
  moreover have "digitsValue 16 (hexPadded n w) = unat w"
    by (simp add: hexPadded_def digitsValue_zeros digitsValue_hexDigits)
  ultimately show ?thesis using stoul_plain [of "hexPadded n w" t, where 'a = 'a] assms unsigned_less [of w] by simp
qed

text \<open>The number of hexadecimal digits.\<close>

lemma length_hexDigits: "0 < k \<Longrightarrow> n < 16 ^ k \<Longrightarrow> length (hexDigits n) \<le> k"
proof (induction n arbitrary: k rule: hexDigits.induct)
  case (1 n)
  show ?case
  proof (cases "n < 16")
    case True
    then show ?thesis using 1 by (subst hexDigits.simps) simp
  next
    case False
    then obtain j where k: "k = Suc j" "0 < j" using 1(2,3) by (cases k; cases "k - 1") auto
    then have "n div 16 < 16 ^ j" using 1(3) by (simp add: less_mult_imp_div_less mult.commute)
    then have "length (hexDigits (n div 16)) \<le> j" using 1(1) False k by blast
    then show ?thesis using False k by (subst hexDigits.simps) simp
  qed
qed

lemma length_hexPadded: "unat w < 16 ^ n \<Longrightarrow> 0 < n \<Longrightarrow> length (hexPadded n w) = n"
  using length_hexDigits [of n "unat w"] by (simp add: hexPadded_def)

section \<open>What the log of a flag word says\<close>

definition allBits :: "flag_info list \<Rightarrow> u32" where
  "allBits flags = foldr (\<lambda>f. (OR) (fi_value f)) flags 0"

fun disjointFlags :: "flag_info list \<Rightarrow> bool" where
  "disjointFlags [] = True"
| "disjointFlags (f # fs) \<longleftrightarrow> fi_value f AND allBits fs = 0 \<and> disjointFlags fs"

lemma bitFlags_rest: "snd (bitFlags flags v) = v AND NOT (allBits flags)"
proof (induction flags v rule: bitFlags.induct)
  case (1 v)
  then show ?case by (simp add: allBits_def)
next
  case (2 f fs v)
  have all: "v AND NOT (allBits (f # fs)) = (v AND NOT (fi_value f)) AND NOT (allBits fs)"
    by (simp add: allBits_def bit_eq_iff bit_simps)
  show ?case
  proof (cases "v AND fi_value f = 0")
    case True
    then have "v AND NOT (fi_value f) = v" by (simp add: bit_eq_iff bit_simps) blast
    then show ?thesis using True all 2(2) by simp
  next
    case False
    then show ?thesis using all 2(1) by (simp add: case_prod_unfold)
  qed
qed

lemma allBits_none: "w AND allBits flags = 0 \<longleftrightarrow> (\<forall>f \<in> set flags. w AND fi_value f = 0)"
proof (induction flags)
  case Nil
  then show ?case by (simp add: allBits_def)
next
  case (Cons f fs)
  have "w AND (x OR y) = 0 \<longleftrightarrow> w AND x = 0 \<and> w AND y = 0" for x y :: u32
    by (simp add: bit_eq_iff bit_simps) blast
  then show ?case using Cons by (simp add: allBits_def)
qed

lemma bitFlags_named: "disjointFlags flags \<Longrightarrow> fst (bitFlags flags v) = filter (\<lambda>f. v AND fi_value f \<noteq> 0) flags"
proof (induction flags v rule: bitFlags.induct)
  case (2 f fs v)
  have "(v AND NOT (fi_value f)) AND fi_value g = v AND fi_value g" if "g \<in> set fs" for g
  proof -
    have "fi_value f AND fi_value g = 0" using 2(3) that allBits_none by auto
    then show ?thesis by (simp add: bit_eq_iff bit_simps) blast
  qed
  then have "filter (\<lambda>g. (v AND NOT (fi_value f)) AND fi_value g \<noteq> 0) fs = filter (\<lambda>g. v AND fi_value g \<noteq> 0) fs"
    by (intro filter_cong) simp_all
  then show ?case using 2 by (simp add: case_prod_unfold)
qed simp

lemma flag_tables_disjoint: "disjointFlags cesFlags" "disjointFlags cssFlags"
  by code_simp+

text \<open>
  What \<open>logBitFlag\<close> prints of a value, for a table whose flags share no bit, as the tables it is called with are: the value,
  then each flag of the table that has a bit of it, in the order of the table, and last the bits no flag of the table has,
  if there are any. The loop clears the bits it has named and so never prints one twice.
\<close>

theorem logBitFlag_prints:
  assumes "disjointFlags flags"
  shows "logBitFlag label flags v = (''  '' @ label @ '': '' @ hex0x v) #
    map (\<lambda>f. ''    '' @ hex0x (fi_value f) @ '' '' @ fi_name f @ '' ('' @ fi_description f @ '')'')
      (filter (\<lambda>f. v AND fi_value f \<noteq> 0) flags) @
    (if v AND NOT (allBits flags) \<noteq> 0 then [''    '' @ hex0x (v AND NOT (allBits flags)) @ '' <unknown>''] else [])"
proof -
  have "bitFlags flags v = (filter (\<lambda>f. v AND fi_value f \<noteq> 0) flags, v AND NOT (allBits flags))"
    using bitFlags_named [OF assms] bitFlags_rest by (metis prod.collapse)
  then show ?thesis by (simp add: logBitFlag_def)
qed

theorem logBitFlag_prints_witness:
  "logBitFlag ''Flags'' cesFlags 0x8012 = [''  Flags: 0x8012'', ''    0x2 DEBUG_CES_EFFECTIVE_PROCESSOR (Effective processor changed)'',
     ''    0x10 DEBUG_CES_EXECUTION_STATUS (Execution status changed)'', ''    0x8000 <unknown>'']"
  unfolding logBitFlag_prints [OF flag_tables_disjoint(1)]
  by (simp add: cesFlags_def flag_def hex0x_def hexDigits.simps hexChar_def allBits_def char_of_def bit_Suc_0_iff)

text \<open>The adapter's own table has no name for the status that its first entry was meant to name.\<close>

lemma adapter_no_change_unknown:
  "formatSingleFlag adapterStatusFlags 0 = ''0x0 <unknown>''"
  "formatSingleFlag playgroundStatusFlags 0 = ''DEBUG_STATUS_NO_CHANGE ()''"
  "formatSingleFlag adapterStatusFlags 6 = ''DEBUG_STATUS_BREAK ()''"
  by code_simp+

section \<open>The adapter's log of notifications\<close>

text \<open>
  The notifications that the adapter's event callbacks only log (\<open>TitanEngine.cpp\<close>, lines 1598 to 1668): the lines, the
  status, and \<open>mLastCurrentThread\<close>, with which repeated announcements of the current thread are left out.
\<close>

definition SystemError :: "u32 \<Rightarrow> u32 \<Rightarrow> string list \<times> u32" where
  "SystemError Error Level =
     ([''[SystemError] System error'', ''  Error: '' @ hex0x Error, ''  Level: '' @ hex0x Level], 6)"

definition SessionStatus :: "u32 \<Rightarrow> u64 \<Rightarrow> string list \<times> u64" where
  "SessionStatus Status mLastCurrentThread =
     (''[SessionStatus] Session status changed'' # logSingleFlag ''Status'' sessionFlags Status,
      if Status = 0 then 0xFFFFFFFF else mLastCurrentThread)"

definition ChangeDebuggeeState :: "u32 \<Rightarrow> u64 \<Rightarrow> string list" where
  "ChangeDebuggeeState Flags Argument =
     ''[ChangeDebuggeeState] Debuggee state changed'' # logSingleFlag ''Flags'' cdsFlags Flags @ [''  Argument: '' @ hex0x Argument]"

definition ChangeEngineState :: "u32 \<Rightarrow> u32 \<Rightarrow> u32 \<Rightarrow> u32 \<Rightarrow> u64 \<Rightarrow> u64 \<Rightarrow> string list \<times> u64" where
  "ChangeEngineState tid eventThreadId debugThreadId Flags Argument mLastCurrentThread =
     (if Flags = 1 \<and> Argument = mLastCurrentThread then ([], mLastCurrentThread)
      else ([''[ChangeEngineState] Engine state changed (tid: '' @ dec tid @ '', apc: '' @ dec eventThreadId @ '', debug: '' @
               dec debugThreadId @ '')''] @
            logBitFlag ''Flags'' cesFlags Flags @ [''  Argument: '' @ hex0x Argument] @
            (if Flags AND 0x10 \<noteq> 0
             then (if Argument AND 0x100000000 \<noteq> 0 then [''  DEBUG_STATUS_INSIDE_WAIT''] else []) @
                  (if Argument AND 0x200000000 \<noteq> 0 then [''  DEBUG_STATUS_WAIT_TIMEOUT''] else []) @
                  logSingleFlag ''Status'' adapterStatusFlags (ucast Argument)
             else []),
            if Flags = 1 then Argument else mLastCurrentThread))"

definition ChangeSymbolState :: "u32 \<Rightarrow> u64 \<Rightarrow> string list" where
  "ChangeSymbolState Flags Argument =
     ''[ChangeSymbolState] Symbol state changed'' # logBitFlag ''Flags'' cssFlags Flags @ [''  Argument: '' @ hex0x Argument]"

lemma current_thread_logged_once:
  "ChangeEngineState t a d 1 thread l = (ls, l') \<Longrightarrow> l' = thread \<and> ChangeEngineState t a d 1 thread l' = ([], thread)"
  by (auto simp: ChangeEngineState_def split: if_splits)

end
