(* ===== verification/Playground.thy ===== *)
theory Playground
  imports Text_Format Engine_Lifecycle
begin

text \<open>
  The playground (\<open>playground.cpp\<close>): a small debugger that reads commands from its console. \<open>SimpleDebugger\<close> is the record
  \<open>debugger\<close>; what it prints is the list \<open>console\<close>, one entry for each call that prints. DbgEng and Windows are the record
  \<open>pg_api\<close>. A command goes on with the next line, ends the loop, or throws an exception that nothing catches.
\<close>

section \<open>State\<close>

datatype console_entry = Line string | Prompt string

record 'w debugger =
  m_interfaces :: "debug_interface \<Rightarrow> u64"
  m_eventCallbacks :: bool
  m_breakpoints :: "u64 list"
  m_debugActive :: bool
  m_processRunning :: bool
  console :: "console_entry list"
  pgWorld :: 'w

definition SimpleDebugger :: "'w \<Rightarrow> 'w debugger" where
  "SimpleDebugger w = \<lparr>m_interfaces = (\<lambda>_. 0), m_eventCallbacks = False, m_breakpoints = [], m_debugActive = False,
     m_processRunning = False, console = [], pgWorld = w\<rparr>"

text \<open>The notifications \<open>WaitForEvent\<close> and \<open>CreateProcess\<close> deliver, with the arguments of their callbacks.\<close>

record module_event =
  me_ImageFileHandle :: u64
  me_BaseOffset :: u64
  me_ModuleSize :: u32
  me_ModuleName :: "string option"
  me_ImageName :: "string option"
  me_CheckSum :: u32
  me_TimeDateStamp :: u32

datatype pg_event =
    PBreakpoint u64 u32 u32
  | PException u32 u32 u64 u64 "u64 list" u32
  | PCreateThread u64 u64 u64
  | PExitThread u32
  | PCreateProcess u64 module_event u64 u64 u64
  | PExitProcess u32
  | PLoadModule module_event
  | PUnloadModule "string option" u64
  | PSystemError u32 u32
  | PSessionStatus u32
  | PChangeDebuggeeState u32 u64
  | PChangeEngineState u32 u64
  | PChangeSymbolState u32 u64

record 'w pg_api =
  paDebugCreate :: "'w \<Rightarrow> (u32 \<times> u64) \<times> 'w"
  paQueryInterface :: "u64 \<Rightarrow> debug_interface \<Rightarrow> 'w \<Rightarrow> (u32 \<times> u64) \<times> 'w"
  paRelease :: "u64 \<Rightarrow> 'w \<Rightarrow> 'w"
  paSetEventCallbacks :: "u64 \<Rightarrow> 'w \<Rightarrow> u32 \<times> 'w"
  paSetEngineOptions :: "u64 \<Rightarrow> u32 \<Rightarrow> 'w \<Rightarrow> u32 \<times> 'w"
  paCreateProcess :: "string \<Rightarrow> 'w \<Rightarrow> (u32 \<times> pg_event list) \<times> 'w"
  paWaitForEvent :: "'w \<Rightarrow> (u32 \<times> pg_event list) \<times> 'w"
  paSetExecutionStatus :: "u32 \<Rightarrow> 'w \<Rightarrow> u32 \<times> 'w"
  paGetExecutionStatus :: "'w \<Rightarrow> u32 \<times> u32"
  paAddBreakpoint :: "'w \<Rightarrow> (u32 \<times> u64) \<times> 'w"
  paSetOffset :: "u64 \<Rightarrow> u64 \<Rightarrow> 'w \<Rightarrow> u32 \<times> 'w"
  paSetFlags :: "u64 \<Rightarrow> u32 \<Rightarrow> 'w \<Rightarrow> u32 \<times> 'w"
  paGetOffset :: "u64 \<Rightarrow> 'w \<Rightarrow> u32 \<times> u64"
  paRemoveBreakpoint :: "u64 \<Rightarrow> 'w \<Rightarrow> u32 \<times> 'w"
  paReleaseBreakpoint :: "u64 \<Rightarrow> 'w \<Rightarrow> 'w"
  paNumberRegisters :: "'w \<Rightarrow> u32"
  paIndexByName :: "string \<Rightarrow> 'w \<Rightarrow> u32 \<times> nat"
  paGetValue :: "nat \<Rightarrow> 'w \<Rightarrow> u32 \<times> u64"
  paReadVirtual :: "u64 \<Rightarrow> u32 \<Rightarrow> 'w \<Rightarrow> u32 \<times> byte list"
  paEndSession :: "u32 \<Rightarrow> 'w \<Rightarrow> 'w"
  paLoadLibrary :: "string \<Rightarrow> 'w \<Rightarrow> 'w"

definition pcall :: "('w \<Rightarrow> 'a \<times> 'w) \<Rightarrow> 'w debugger \<Rightarrow> 'a \<times> 'w debugger" where
  "pcall f d = (case f (pgWorld d) of (a, w) \<Rightarrow> (a, d\<lparr>pgWorld := w\<rparr>))"

definition pact :: "('w \<Rightarrow> 'w) \<Rightarrow> 'w debugger \<Rightarrow> 'w debugger" where
  "pact f d = d\<lparr>pgWorld := f (pgWorld d)\<rparr>"

definition print :: "string \<Rightarrow> 'w debugger \<Rightarrow> 'w debugger" where
  "print s d = d\<lparr>console := console d @ [Line s]\<rparr>"

definition prompt :: "'w debugger \<Rightarrow> 'w debugger" where
  "prompt d = d\<lparr>console := console d @ [Prompt ''(dbg) '']\<rparr>"

definition logDebug :: "string \<Rightarrow> 'w debugger \<Rightarrow> 'w debugger" where
  "logDebug s = print (''[debug] '' @ s)"

definition logError :: "string \<Rightarrow> 'w debugger \<Rightarrow> 'w debugger" where
  "logError s = print (''[error] '' @ s)"

definition logFailed :: "string \<Rightarrow> u32 \<Rightarrow> 'w debugger \<Rightarrow> 'w debugger" where
  "logFailed what hr = logError (what @ '': '' @ hex0x hr)"

section \<open>Event callbacks\<close>

definition orUnknown :: "string option \<Rightarrow> string" where
  "orUnknown s = (case s of Some n \<Rightarrow> n | None \<Rightarrow> ''<unknown>'')"

text \<open>What a callback logs, line by line, and the status it returns to DbgEng.\<close>

fun onEvent :: "pg_event \<Rightarrow> string list \<times> u32" where
  "onEvent (PBreakpoint offset breakType procType) =
     ([''[Breakpoint] Breakpoint hit'', ''  Offset: '' @ hex0x offset, ''  BreakType: '' @ hex0x breakType,
       ''  ProcType: '' @ hex0x procType], 6)"
| "onEvent (PException code flags nested address info firstChance) =
     ([''[Exception] Exception thrown'', ''  FirstChance: '' @ dec firstChance, ''  ExceptionCode: '' @ hex0x code,
       ''  ExceptionFlags: '' @ hex0x flags, ''  ExceptionRecord: '' @ hex0x nested, ''  ExceptionAddress: '' @ hex0x address,
       ''  NumberParameters: 0x'' @ hexDigits (length info)] @
      map (\<lambda>(i, v). ''    ExceptionInformation['' @ decDigits i @ '']: '' @ hex0x v) (zip [0..<length info] info), 6)"
| "onEvent (PCreateThread h dataOffset startOffset) =
     ([''[CreateThread] Thread created'', ''  Handle: '' @ hex0x h, ''  DataOffset: '' @ hex0x dataOffset,
       ''  StartOffset: '' @ hex0x startOffset], 0)"
| "onEvent (PExitThread code) = ([''[ExitThread] Thread exited'', ''  ExitCode: '' @ hex0x code], 0)"
| "onEvent (PCreateProcess h m initialThread dataOffset startOffset) =
     ([''[CreateProcess] Process created'', ''  ImageFileHandle: '' @ hex0x (me_ImageFileHandle m), ''  Handle: '' @ hex0x h,
       ''  BaseOffset: '' @ hex0x (me_BaseOffset m), ''  ModuleSize: '' @ hex0x (me_ModuleSize m),
       ''  ModuleName: '' @ orUnknown (me_ModuleName m), ''  ImageName: '' @ orUnknown (me_ImageName m),
       ''  CheckSum: '' @ hex0x (me_CheckSum m), ''  TimeDateStamp: '' @ hex0x (me_TimeDateStamp m),
       ''  InitialThreadHandle: '' @ hex0x initialThread, ''  ThreadDataOffset: '' @ hex0x dataOffset,
       ''  StartOffset: '' @ hex0x startOffset], 0)"
| "onEvent (PExitProcess code) = ([''[ExitProcess] Process exited'', ''  ExitCode: '' @ hex0x code], 0)"
| "onEvent (PLoadModule m) =
     ([''[LoadModule] Module loaded'', ''  ImageFileHandle: '' @ hex0x (me_ImageFileHandle m),
       ''  BaseOffset: '' @ hex0x (me_BaseOffset m), ''  ModuleSize: '' @ hex0x (me_ModuleSize m),
       ''  ModuleName: '' @ orUnknown (me_ModuleName m), ''  ImageName: '' @ orUnknown (me_ImageName m),
       ''  CheckSum: '' @ hex0x (me_CheckSum m), ''  TimeDateStamp: '' @ hex0x (me_TimeDateStamp m)], 0)"
| "onEvent (PUnloadModule name base) =
     ([''[UnloadModule] Module unloaded'', ''  ImageBaseName: '' @ orUnknown name, ''  BaseOffset: '' @ hex0x base], 0)"
| "onEvent (PSystemError error level) =
     ([''[SystemError] System error'', ''  Error: '' @ hex0x error, ''  Level: '' @ hex0x level], 0)"
| "onEvent (PSessionStatus status) =
     (''[SessionStatus] Session status changed'' # logSingleFlag ''Status'' sessionFlags status, 0)"
| "onEvent (PChangeDebuggeeState flags argument) =
     (''[ChangeDebuggeeState] Debuggee state changed'' # logSingleFlag ''Flags'' cdsFlags flags @
      [''  Argument: '' @ hex0x argument], 0)"
| "onEvent (PChangeEngineState flags argument) =
     (''[ChangeEngineState] Engine state changed'' # logBitFlag ''Flags'' cesFlags flags @ [''  Argument: '' @ hex0x argument] @
      (if flags AND 0x10 \<noteq> 0
       then (if argument AND 0x100000000 \<noteq> 0 then [''  DEBUG_STATUS_INSIDE_WAIT''] else []) @
            (if argument AND 0x200000000 \<noteq> 0 then [''  DEBUG_STATUS_WAIT_TIMEOUT''] else []) @
            logSingleFlag ''Status'' playgroundStatusFlags (ucast (argument AND NOT 0x300000000))
       else []), 0)"
| "onEvent (PChangeSymbolState flags argument) =
     (''[ChangeSymbolState] Symbol state changed'' # logBitFlag ''Flags'' cssFlags flags @ [''  Argument: '' @ hex0x argument], 0)"

definition deliver :: "pg_event list \<Rightarrow> 'w debugger \<Rightarrow> 'w debugger" where
  "deliver events d = fold (\<lambda>ev d. fold logDebug (fst (onEvent ev)) d) events d"

text \<open>Waiting for the next event: the notifications are logged before the call returns.\<close>

definition waitForNotification :: "'w pg_api \<Rightarrow> 'w debugger \<Rightarrow> u32 \<times> 'w debugger" where
  "waitForNotification api d = (let ((hr, events), d) = pcall (paWaitForEvent api) d in (hr, deliver events d))"

section \<open>Starting\<close>

fun queryAll :: "'w pg_api \<Rightarrow> (debug_interface \<times> string) list \<Rightarrow> 'w debugger \<Rightarrow> bool \<times> 'w debugger" where
  "queryAll api [] d = (True, d)"
| "queryAll api ((i, name) # rest) d =
     (let ((hr, p), d) = pcall (paQueryInterface api (m_interfaces d IClient) i) d;
          d = d\<lparr>m_interfaces := (m_interfaces d)(i := p)\<rparr>
      in if FAILED hr then (False, logFailed (''Failed to get '' @ name) hr d) else queryAll api rest d)"

definition queriedInterfaces :: "(debug_interface \<times> string) list" where
  "queriedInterfaces = [(IControl, ''IDebugControl''), (IDataSpaces, ''IDebugDataSpaces''), (IRegisters, ''IDebugRegisters''),
     (ISymbols, ''IDebugSymbols''), (ISystemObjects, ''IDebugSystemObjects'')]"

definition Initialize :: "'w pg_api \<Rightarrow> 'w debugger \<Rightarrow> bool \<times> 'w debugger" where
  "Initialize api d =
     (let ((hr, p), d) = pcall (paDebugCreate api) d;
          d = d\<lparr>m_interfaces := (m_interfaces d)(IClient := p)\<rparr>
      in if FAILED hr then (False, logFailed ''Failed to create IDebugClient9'' hr d)
         else (let (ok, d) = queryAll api queriedInterfaces d
               in if \<not> ok then (False, d)
                  else (let d = d\<lparr>m_eventCallbacks := True\<rparr>;
                            (hr, d) = pcall (paSetEventCallbacks api (m_interfaces d IClient)) d
                        in if FAILED hr then (False, logFailed ''Failed to set event callbacks'' hr d)
                           else (let (hr, d) = pcall (paSetEngineOptions api (m_interfaces d IControl) 0x8020) d
                                 in if FAILED hr then (False, logFailed ''Failed to set engine options'' hr d)
                                    else (True, d\<lparr>m_debugActive := True\<rparr>)))))"

definition LaunchProcess :: "'w pg_api \<Rightarrow> string \<Rightarrow> 'w debugger \<Rightarrow> bool \<times> 'w debugger" where
  "LaunchProcess api executablePath d =
     (if \<not> m_debugActive d then (False, logError ''Debugger not initialized'' d)
      else (let ((hr, events), d) = pcall (paCreateProcess api executablePath) d;
                d = deliver events d
            in if FAILED hr then (False, logFailed ''Failed to create process'' hr d)
               else (let (hr, d) = waitForNotification api d
                     in if FAILED hr then (False, logFailed ''Failed to wait for initial event'' hr d)
                        else (True, print ''Debugger started. Process created.'' (d\<lparr>m_processRunning := True\<rparr>)))))"

section \<open>Commands\<close>

text \<open>
  What a command does to the loop: it goes on, it ends, or an exception that no handler of the program catches ends the
  program.
\<close>

datatype outcome = Continue | Exit | Uncaught

definition ParseAddress :: "string \<Rightarrow> u64" where
  "ParseAddress addrStr = (case stoul 16 addrStr of Inl _ \<Rightarrow> 0 | Inr a \<Rightarrow> a)"

text \<open>The start of every command that needs the process: without one it only says so.\<close>

definition whenRunning :: "('w debugger \<Rightarrow> outcome \<times> 'w debugger) \<Rightarrow> 'w debugger \<Rightarrow> outcome \<times> 'w debugger" where
  "whenRunning command d = (if m_processRunning d then command d else (Continue, logError ''No process running'' d))"

definition CmdRun :: "'w pg_api \<Rightarrow> 'w debugger \<Rightarrow> outcome \<times> 'w debugger" where
  "CmdRun api = whenRunning (\<lambda>d.
     let (hr, d) = pcall (paSetExecutionStatus api 1) d
     in if FAILED hr then (Continue, logFailed ''Failed to resume execution'' hr d)
        else (let (hr, d) = waitForNotification api (print ''Running...'' d)
              in if FAILED hr then (Continue, logFailed ''WaitForEvent failed'' hr d)
                 else (let (hr, execStatus) = paGetExecutionStatus api (pgWorld d)
                       in (Continue, if \<not> FAILED hr \<and> execStatus = 7 then d\<lparr>m_processRunning := False\<rparr> else d))))"

definition CmdStep :: "string \<Rightarrow> u32 \<Rightarrow> 'w pg_api \<Rightarrow> 'w debugger \<Rightarrow> outcome \<times> 'w debugger" where
  "CmdStep failure status api = whenRunning (\<lambda>d.
     let (hr, d) = pcall (paSetExecutionStatus api status) d
     in if FAILED hr then (Continue, logFailed failure hr d)
        else (let (hr, d) = waitForNotification api d
              in (Continue, if FAILED hr then logFailed ''WaitForEvent failed'' hr d else d)))"

definition CmdStepOver :: "'w pg_api \<Rightarrow> 'w debugger \<Rightarrow> outcome \<times> 'w debugger" where
  "CmdStepOver = CmdStep ''Failed to step over'' 4"

definition CmdStepInto :: "'w pg_api \<Rightarrow> 'w debugger \<Rightarrow> outcome \<times> 'w debugger" where
  "CmdStepInto = CmdStep ''Failed to step into'' 5"

definition CmdSetBreakpoint :: "'w pg_api \<Rightarrow> string \<Rightarrow> 'w debugger \<Rightarrow> outcome \<times> 'w debugger" where
  "CmdSetBreakpoint api addrStr = whenRunning (\<lambda>d.
     if ParseAddress addrStr = 0 then (Continue, logError (''Invalid address: '' @ addrStr) d)
     else (let ((hr, bp), d) = pcall (paAddBreakpoint api) d
           in if FAILED hr then (Continue, logFailed ''Failed to add breakpoint'' hr d)
              else (let (hr, d) = pcall (paSetOffset api bp (ParseAddress addrStr)) d
                    in if FAILED hr
                       then (Continue, pact (paReleaseBreakpoint api bp) (logFailed ''Failed to set breakpoint offset'' hr d))
                       else (let (hr, d) = pcall (paSetFlags api bp 4) d
                             in if FAILED hr
                                then (Continue, pact (paReleaseBreakpoint api bp) (logFailed ''Failed to enable breakpoint'' hr d))
                                else (Continue, print (''Breakpoint set at '' @ hex0x (ParseAddress addrStr))
                                       (d\<lparr>m_breakpoints := m_breakpoints d @ [bp]\<rparr>))))))"

text \<open>The loop over \<open>m_breakpoints\<close>: the first breakpoint that answers the address, with those before and after it.\<close>

fun findBreakpoint :: "'w pg_api \<Rightarrow> u64 \<Rightarrow> 'w \<Rightarrow> u64 list \<Rightarrow> (u64 list \<times> u64 \<times> u64 list) option" where
  "findBreakpoint api address w [] = None"
| "findBreakpoint api address w (bp # bps) =
     (let (hr, offset) = paGetOffset api bp w
      in if \<not> FAILED hr \<and> offset = address then Some ([], bp, bps)
         else map_option (\<lambda>(before, found, after). (bp # before, found, after)) (findBreakpoint api address w bps))"

definition CmdClearBreakpoint :: "'w pg_api \<Rightarrow> string \<Rightarrow> 'w debugger \<Rightarrow> outcome \<times> 'w debugger" where
  "CmdClearBreakpoint api addrStr d =
     (let address = ParseAddress addrStr
      in if address = 0 then (Continue, logError (''Invalid address: '' @ addrStr) d)
         else (case findBreakpoint api address (pgWorld d) (m_breakpoints d) of
             None \<Rightarrow> (Continue, print (''No breakpoint found at '' @ hex0x address) d)
           | Some (before, bp, after) \<Rightarrow>
               (let (hr, d) = pcall (paRemoveBreakpoint api bp) d;
                    d = (if \<not> FAILED hr then print (''Breakpoint removed at '' @ hex0x address) d
                         else logFailed ''Failed to remove breakpoint'' hr d)
                in (Continue, (pact (paReleaseBreakpoint api bp) d)\<lparr>m_breakpoints := before @ after\<rparr>))))"

definition commonRegs :: "string list" where
  "commonRegs = [''rax'', ''rbx'', ''rcx'', ''rdx'', ''rsi'', ''rdi'', ''rbp'', ''rsp'', ''r8'', ''r9'', ''r10'', ''r11'', ''r12'',
     ''r13'', ''r14'', ''r15'', ''rip'']"

definition showRegister :: "'w pg_api \<Rightarrow> string \<Rightarrow> 'w debugger \<Rightarrow> 'w debugger" where
  "showRegister api regName d =
     (let (hr, regIndex) = paIndexByName api regName (pgWorld d)
      in if FAILED hr then d
         else (let (hr, v) = paGetValue api regIndex (pgWorld d)
               in if FAILED hr then d else print (leftAligned 3 regName @ '' = '' @ hex0x v) d))"

definition CmdShowRegisters :: "'w pg_api \<Rightarrow> 'w debugger \<Rightarrow> outcome \<times> 'w debugger" where
  "CmdShowRegisters api = whenRunning (\<lambda>d.
     if FAILED (paNumberRegisters api (pgWorld d))
     then (Continue, logFailed ''Failed to get register count'' (paNumberRegisters api (pgWorld d)) d)
     else (Continue, fold (showRegister api) commonRegs (print ''Registers:'' d)))"

text \<open>The lines of a dump: sixteen bytes to the line, with the address of the first.\<close>

fun hexRows :: "u64 \<Rightarrow> byte list \<Rightarrow> string list" where
  "hexRows address [] = []"
| "hexRows address (b # bs) =
     (hexPadded 16 address @ '': '' @ concat (map (\<lambda>x. hexPadded 2 x @ '' '') (take 16 (b # bs)))) #
     hexRows (address + 16) (drop 16 (b # bs))"

definition CmdReadMemory :: "'w pg_api \<Rightarrow> string \<Rightarrow> string \<Rightarrow> 'w debugger \<Rightarrow> outcome \<times> 'w debugger" where
  "CmdReadMemory api addrStr sizeStr = whenRunning (\<lambda>d.
     let address = ParseAddress addrStr
     in if address = 0 then (Continue, logError (''Invalid address: '' @ addrStr) d)
        else (case (stoul 0 sizeStr :: conversion_error + u32) of
            Inl _ \<Rightarrow> (Uncaught, d)
          | Inr n \<Rightarrow>
              if n = 0 \<or> 1024 < n then (Continue, logError (''Invalid size: '' @ sizeStr @ '' (must be 1-1024)'') d)
              else (let (hr, bytes) = paReadVirtual api address n (pgWorld d)
                    in if FAILED hr then (Continue, logFailed ''Failed to read memory'' hr d)
                       else (Continue, fold print (hexRows address bytes) d))))"

definition ShowHelp :: "'w debugger \<Rightarrow> 'w debugger" where
  "ShowHelp d = fold print [''Available commands:'', ''  run, r           - Resume execution'',
     ''  bp 0xaddr        - Set breakpoint at address'', ''  bc 0xaddr        - Clear breakpoint at address'',
     ''  sto              - Step over (instruction)'', ''  sti              - Step into (instruction)'',
     ''  regs             - Show registers'', ''  read 0xaddr size - Read memory at address'',
     ''  help, h          - Show this help'', ''  quit, q          - Exit debugger''] d"

text \<open>The chain of comparisons of \<open>ExecuteCommand\<close>, on the words of the line.\<close>

definition executeWords :: "'w pg_api \<Rightarrow> string \<Rightarrow> string \<Rightarrow> string \<Rightarrow> 'w debugger \<Rightarrow> outcome \<times> 'w debugger" where
  "executeWords api cmd word1 word2 d =
     (if cmd = ''run'' \<or> cmd = ''r'' then CmdRun api d
      else if cmd = ''bp'' then CmdSetBreakpoint api word1 d
      else if cmd = ''bc'' then CmdClearBreakpoint api word1 d
      else if cmd = ''sto'' then CmdStepOver api d
      else if cmd = ''sti'' then CmdStepInto api d
      else if cmd = ''regs'' then CmdShowRegisters api d
      else if cmd = ''read'' then CmdReadMemory api word1 word2 d
      else if cmd = ''quit'' \<or> cmd = ''q'' then (Exit, d)
      else if cmd = ''help'' \<or> cmd = ''h'' then (Continue, ShowHelp d)
      else (Continue, logError (''Unknown command: '' @ cmd @ '' (type 'help' for available commands)'') d))"

definition ExecuteCommand :: "'w pg_api \<Rightarrow> string \<Rightarrow> 'w debugger \<Rightarrow> outcome \<times> 'w debugger" where
  "ExecuteCommand api command d =
     (let (cmd, rest) = nextWord command;
          (word1, rest) = nextWord rest;
          (word2, rest) = nextWord rest
      in executeWords api (map toLower cmd) word1 word2 d)"

section \<open>The program\<close>

definition afterCommand :: "'w debugger \<Rightarrow> 'w debugger" where
  "afterCommand d = prompt (if m_processRunning d then d else print ''Process terminated. Type 'quit' to exit.'' d)"

text \<open>\<open>RunCommandLoop\<close> on the lines of its input; the result says whether an exception ended the program.\<close>

fun commandLoop :: "'w pg_api \<Rightarrow> string list \<Rightarrow> 'w debugger \<Rightarrow> bool \<times> 'w debugger" where
  "commandLoop api [] d = (False, d)"
| "commandLoop api (command # rest) d =
     (if command = [] then commandLoop api rest (afterCommand d)
      else (case ExecuteCommand api command d of
          (Continue, d) \<Rightarrow> commandLoop api rest (afterCommand d)
        | (Exit, d) \<Rightarrow> (False, d)
        | (Uncaught, d) \<Rightarrow> (True, d)))"

definition RunCommandLoop :: "'w pg_api \<Rightarrow> string list \<Rightarrow> 'w debugger \<Rightarrow> bool \<times> 'w debugger" where
  "RunCommandLoop api input d = commandLoop api input (prompt d)"

definition releaseMember :: "'w pg_api \<Rightarrow> debug_interface \<Rightarrow> 'w debugger \<Rightarrow> 'w debugger" where
  "releaseMember api i d =
     (if m_interfaces d i \<noteq> 0 then (pact (paRelease api (m_interfaces d i)) d)\<lparr>m_interfaces := (m_interfaces d)(i := 0)\<rparr> else d)"

definition Cleanup :: "'w pg_api \<Rightarrow> 'w debugger \<Rightarrow> 'w debugger" where
  "Cleanup api d =
     (let d = fold (\<lambda>bp d. if bp \<noteq> 0 then pact (paReleaseBreakpoint api bp) d else d) (m_breakpoints d) d;
          d = d\<lparr>m_breakpoints := []\<rparr>;
          d = (if m_interfaces d IClient \<noteq> 0 then pact (paEndSession api 0) d else d);
          d = fold (releaseMember api) [ISystemObjects, ISymbols, IRegisters, IDataSpaces, IControl, IClient] d
      in d\<lparr>m_eventCallbacks := False, m_debugActive := False, m_processRunning := False\<rparr>)"

text \<open>
  The program on its arguments and its input: the exit code, or \<open>None\<close> when an exception ends it, which runs no destructor.
\<close>

definition playground_main :: "'w pg_api \<Rightarrow> string list \<Rightarrow> string list \<Rightarrow> 'w \<Rightarrow> nat option \<times> 'w debugger" where
  "playground_main api argv input w =
     (let d = SimpleDebugger w
      in if length argv \<noteq> 2
         then (Some 1, print (''Example: '' @ hd argv @ '' build'' @ [CHR 0x5C] @ ''testapp.exe'')
                (print (''Usage: '' @ hd argv @ '' <executable_path>'') d))
         else (let (ok, d) = Initialize api (pact (paLoadLibrary api ''dbgeng.dll'') d)
               in if \<not> ok then (Some 1, Cleanup api (logError ''Failed to initialize debugger'' d))
                  else (let (ok, d) = LaunchProcess api (argv ! 1) d
                        in if \<not> ok then (Some 1, Cleanup api (logError (''Failed to launch process: '' @ argv ! 1) d))
                           else (let (uncaught, d) = RunCommandLoop api input (print ''Type 'help' for available commands.'' d)
                                 in if uncaught then (None, d) else (Some 0, Cleanup api d)))))"

end
