(* ===== verification/Playground_Properties.thy ===== *)
theory Playground_Properties
  imports Playground
begin

text \<open>
  What the playground guarantees: its dump of memory can be read back, its commands end the loop and touch DbgEng only when they
  should, and it gives back every breakpoint and every interface it was given.
\<close>

lemmas command_defs = CmdRun_def CmdStepOver_def CmdStepInto_def CmdStep_def CmdSetBreakpoint_def CmdClearBreakpoint_def
  CmdShowRegisters_def CmdReadMemory_def whenRunning_def

section \<open>The dump\<close>

text \<open>A reader of dumps: the address in front, then two digits and a blank for each byte.\<close>

fun readBytes :: "string \<Rightarrow> byte list" where
  "readBytes (a # b # _ # s) = projr (stoul 16 [a, b]) # readBytes s"
| "readBytes _ = []"

definition readRow :: "string \<Rightarrow> u64 \<times> byte list" where
  "readRow l = (projr (stoul 16 (take 16 l)), readBytes (drop 18 l))"

lemma readBytes_row: "readBytes (concat (map (\<lambda>x. hexPadded 2 x @ '' '') bs)) = bs"
proof (induction bs)
  case (Cons b bs)
  have "length (hexPadded 2 b) = 2" using unsigned_less [of b] by (intro length_hexPadded) simp_all
  then obtain x y where xy: "hexPadded 2 b = [x, y]" by (auto simp: length_Suc_conv numeral_2_eq_2)
  then have "stoul 16 [x, y] = Inr b" using stoul_hexPadded [of "[]" 2 b] by (simp add: endsNumber_def)
  then show ?case using Cons xy by simp
qed simp

lemma readRow_hexRow:
  fixes a :: u64
  shows "readRow (hexPadded 16 a @ '': '' @ concat (map (\<lambda>x. hexPadded 2 x @ '' '') bs)) = (a, bs)"
proof -
  have l: "length (hexPadded 16 a) = 16" using unsigned_less [of a] by (intro length_hexPadded) simp_all
  have "stoul 16 (hexPadded 16 a) = Inr a" using stoul_hexPadded [of "[]" 16 a] by (simp add: endsNumber_def)
  then show ?thesis using l by (simp add: readRow_def readBytes_row)
qed

fun rowsOf :: "u64 \<Rightarrow> byte list \<Rightarrow> (u64 \<times> byte list) list" where
  "rowsOf address [] = []"
| "rowsOf address (b # bs) = (address, take 16 (b # bs)) # rowsOf (address + 16) (drop 16 (b # bs))"

lemma read_hexRows: "map readRow (hexRows a bs) = rowsOf a bs"
  by (induction a bs rule: hexRows.induct) (simp_all only: hexRows.simps rowsOf.simps list.map readRow_hexRow)

lemma rowsOf_bytes: "concat (map snd (rowsOf a bs)) = bs"
proof (induction a bs rule: rowsOf.induct)
  case (2 a b bs)
  then show ?case by (simp only: rowsOf.simps list.map concat.simps snd_conv append_take_drop_id)
qed simp

lemma rowsOf_at:
  "k < length (rowsOf a bs) \<Longrightarrow> rowsOf a bs ! k = (a + 16 * of_nat k, take 16 (drop (16 * k) bs)) \<and> 16 * k < length bs"
proof (induction a bs arbitrary: k rule: rowsOf.induct)
  case (2 a b bs)
  show ?case
  proof (cases k)
    case 0
    then show ?thesis by simp
  next
    case (Suc j)
    have "rowsOf a (b # bs) ! k = rowsOf (a + 16) (drop 16 (b # bs)) ! j" using Suc by (simp only: rowsOf.simps nth_Cons_Suc)
    moreover have "j < length (rowsOf (a + 16) (drop 16 (b # bs)))" using 2(2) Suc by (simp only: rowsOf.simps length_Cons)
    moreover have "drop (16 * j) (drop 16 (b # bs)) = drop (16 * k) (b # bs)"
      by (simp only: drop_drop Suc mult_Suc_right add.commute)
    ultimately show ?thesis using 2(1) [of j] Suc by (auto simp: algebra_simps)
  qed
qed simp

lemma length_rowsOf: "length (rowsOf a bs) = (length bs + 15) div 16"
proof (induction a bs rule: rowsOf.induct)
  case (2 a b bs)
  have "length (rowsOf a (b # bs)) = Suc (length (rowsOf (a + 16) (drop 16 (b # bs))))" by (simp only: rowsOf.simps length_Cons)
  then show ?case using 2 by (cases "15 \<le> length bs") auto
qed simp

lemma fold_print: "fold print ls d = d\<lparr>console := console d @ map Line ls\<rparr>"
  by (induction ls arbitrary: d) (simp_all add: print_def)

text \<open>
  C32. A successful \<open>read\<close> of up to 1024 bytes prints the bytes that DbgEng answered: reading the printed lines back gives
  them, in order, sixteen to the line, each line with the address of its first byte, which wraps at the end of the address
  space as the code's sum does. Nothing else changes. The address and the size may be typed as the program itself prints them.
\<close>

theorem read_dump_round_trip:
  assumes running: "m_processRunning d" and address: "address \<noteq> 0" and n: "0 < n" "n \<le> 1024"
    and memory: "paReadVirtual api address n (pgWorld d) = (hr, bytes)" "\<not> FAILED hr"
  shows "\<exists>ls. CmdReadMemory api (hex0x address) (hex0x n) d = (Continue, d\<lparr>console := console d @ map Line ls\<rparr>) \<and>
    concat (map (snd \<circ> readRow) ls) = bytes \<and> length ls = (length bytes + 15) div 16 \<and>
    (\<forall>k < length ls. readRow (ls ! k) = (address + 16 * of_nat k, take 16 (drop (16 * k) bytes)))"
proof (intro exI conjI allI impI)
  let ?ls = "hexRows address bytes"
  have "ParseAddress (hex0x address) = address" by (simp add: ParseAddress_def stoul_hex0x)
  then show "CmdReadMemory api (hex0x address) (hex0x n) d = (Continue, d\<lparr>console := console d @ map Line ?ls\<rparr>)"
    using assms by (simp add: CmdReadMemory_def whenRunning_def stoul_hex0x fold_print not_less)
  show "concat (map (snd \<circ> readRow) ?ls) = bytes" using rowsOf_bytes [of address bytes] by (simp add: read_hexRows [symmetric])
  have len: "length ?ls = length (rowsOf address bytes)" by (metis length_map read_hexRows)
  then show "length ?ls = (length bytes + 15) div 16" by (simp add: length_rowsOf)
  fix k assume "k < length ?ls"
  then show "readRow (?ls ! k) = (address + 16 * of_nat k, take 16 (drop (16 * k) bytes))"
    using len rowsOf_at [of k address bytes] by (metis nth_map read_hexRows)
qed

text \<open>A debuggee with one readable page, for the witnesses.\<close>

definition demo_api :: "nat pg_api" where
  "demo_api = \<lparr>paDebugCreate = (\<lambda>w. ((0, 1), w)), paQueryInterface = (\<lambda>_ _ w. ((0, 2), w)), paRelease = (\<lambda>_ w. w),
     paSetEventCallbacks = (\<lambda>_ w. (0, w)), paSetEngineOptions = (\<lambda>_ _ w. (0, w)), paCreateProcess = (\<lambda>_ w. ((0, []), w)),
     paWaitForEvent = (\<lambda>w. ((0, []), w)), paSetExecutionStatus = (\<lambda>_ w. (0, w)), paGetExecutionStatus = (\<lambda>_. (0, 7)),
     paAddBreakpoint = (\<lambda>w. ((0, 64), Suc w)), paSetOffset = (\<lambda>_ _ w. (0, w)), paSetFlags = (\<lambda>_ _ w. (0, w)),
     paGetOffset = (\<lambda>_ _. (0, 4096)), paRemoveBreakpoint = (\<lambda>_ w. (0, w)), paReleaseBreakpoint = (\<lambda>_ w. w - 1),
     paNumberRegisters = (\<lambda>_. 0), paIndexByName = (\<lambda>_ _. (0, 0)), paGetValue = (\<lambda>_ _. (0, 0)),
     paReadVirtual = (\<lambda>_ n _. (0, replicate (unat n) 0x90)), paEndSession = (\<lambda>_ w. w), paLoadLibrary = (\<lambda>_ w. w)\<rparr>"

theorem read_dump_round_trip_witness:
  "\<exists>ls. CmdReadMemory demo_api (hex0x (0x1000 :: u64)) (hex0x (0x14 :: u32)) (SimpleDebugger 0\<lparr>m_processRunning := True\<rparr>) =
     (Continue, SimpleDebugger 0\<lparr>m_processRunning := True, console := map Line ls\<rparr>) \<and>
     concat (map (snd \<circ> readRow) ls) = replicate 20 0x90 \<and> length ls = 2"
  using read_dump_round_trip [where d = "SimpleDebugger 0\<lparr>m_processRunning := True\<rparr>" and address = "0x1000" and n = "0x14"
      and api = demo_api and hr = 0 and bytes = "replicate 20 0x90"]
  by (auto simp: demo_api_def SimpleDebugger_def)

section \<open>The commands\<close>

lemma printing_keeps [simp]:
  "pgWorld (print s d) = pgWorld d" "m_breakpoints (print s d) = m_breakpoints d" "m_processRunning (print s d) = m_processRunning d"
  "m_interfaces (print s d) = m_interfaces d"
  by (simp_all add: print_def)

lemma logging_keeps [simp]:
  "pgWorld (logError s d) = pgWorld d" "m_breakpoints (logError s d) = m_breakpoints d"
  "m_processRunning (logError s d) = m_processRunning d" "m_interfaces (logError s d) = m_interfaces d"
  "pgWorld (logFailed s hr d) = pgWorld d" "m_breakpoints (logFailed s hr d) = m_breakpoints d"
  "m_processRunning (logFailed s hr d) = m_processRunning d" "m_interfaces (logFailed s hr d) = m_interfaces d"
  "pgWorld (logDebug s d) = pgWorld d" "m_breakpoints (logDebug s d) = m_breakpoints d"
  "m_processRunning (logDebug s d) = m_processRunning d" "m_interfaces (logDebug s d) = m_interfaces d"
  by (simp_all add: logError_def logFailed_def logDebug_def)

lemma fold_keeps:
  assumes "\<And>x d. v (f x d) = v d"
  shows "v (fold f xs d) = v d"
  using assms by (induction xs arbitrary: d) simp_all

lemma deliver_keeps [simp]:
  "pgWorld (deliver evs d) = pgWorld d" "m_breakpoints (deliver evs d) = m_breakpoints d"
  "m_processRunning (deliver evs d) = m_processRunning d" "m_interfaces (deliver evs d) = m_interfaces d"
  unfolding deliver_def by (rule fold_keeps, rule fold_keeps, simp)+

lemma registers_keep [simp]:
  "pgWorld (fold (showRegister api) rs d) = pgWorld d" "m_breakpoints (fold (showRegister api) rs d) = m_breakpoints d"
  "m_processRunning (fold (showRegister api) rs d) = m_processRunning d" "m_interfaces (fold (showRegister api) rs d) = m_interfaces d"
  by (rule fold_keeps, simp add: showRegister_def case_prod_unfold Let_def)+

lemma ShowHelp_keeps [simp]:
  "pgWorld (ShowHelp d) = pgWorld d" "m_breakpoints (ShowHelp d) = m_breakpoints d"
  "m_processRunning (ShowHelp d) = m_processRunning d" "m_interfaces (ShowHelp d) = m_interfaces d"
  by (simp_all add: ShowHelp_def)

lemma calling_keeps [simp]:
  "m_breakpoints (snd (pcall f d)) = m_breakpoints d" "m_processRunning (snd (pcall f d)) = m_processRunning d"
  "m_interfaces (snd (pcall f d)) = m_interfaces d"
  "m_breakpoints (pact g d) = m_breakpoints d" "m_processRunning (pact g d) = m_processRunning d" "m_interfaces (pact g d) = m_interfaces d"
  by (simp_all add: pcall_def pact_def case_prod_unfold)

lemma waiting_keeps [simp]:
  "m_breakpoints (snd (waitForNotification api d)) = m_breakpoints d" "m_processRunning (snd (waitForNotification api d)) = m_processRunning d"
  "m_interfaces (snd (waitForNotification api d)) = m_interfaces d"
  by (simp_all add: waitForNotification_def case_prod_unfold Let_def)

text \<open>What a command does to the flag, and that it does nothing without a process.\<close>

definition keeps_process :: "('w debugger \<Rightarrow> outcome \<times> 'w debugger) \<Rightarrow> bool" where
  "keeps_process f \<longleftrightarrow> (\<forall>d. fst (f d) = Continue \<and> m_processRunning (snd (f d)) = m_processRunning d)"

definition needs_process :: "('w debugger \<Rightarrow> outcome \<times> 'w debugger) \<Rightarrow> bool" where
  "needs_process f \<longleftrightarrow> (\<forall>d. \<not> m_processRunning d \<longrightarrow> f d = (Continue, logError ''No process running'' d))"

lemma needing_process:
  "needs_process (CmdRun api)" "needs_process (CmdStep failure status api)" "needs_process (CmdSetBreakpoint api addr)"
  "needs_process (CmdShowRegisters api)" "needs_process (CmdReadMemory api addr sz)"
  by (simp_all add: needs_process_def command_defs)

lemma keeping_process:
  "keeps_process (CmdStep failure status api)" "keeps_process (CmdSetBreakpoint api addr)"
  "keeps_process (CmdClearBreakpoint api addr)" "keeps_process (CmdShowRegisters api)"
  by (simp_all add: keeps_process_def command_defs case_prod_unfold Let_def split: option.splits)

lemma CmdRun_process: "fst (CmdRun api d) = Continue \<and> (m_processRunning (snd (CmdRun api d)) \<longrightarrow> m_processRunning d)"
  by (simp add: command_defs case_prod_unfold Let_def)

lemma CmdReadMemory_process:
  "m_processRunning (snd (CmdReadMemory api addr sz d)) = m_processRunning d"
  "fst (CmdReadMemory api addr sz d) \<noteq> Exit"
  "fst (CmdReadMemory api addr sz d) = Uncaught \<longleftrightarrow>
     m_processRunning d \<and> ParseAddress addr \<noteq> 0 \<and> (\<exists>e. (stoul 0 sz :: conversion_error + u32) = Inl e)"
  by (auto simp: CmdReadMemory_def whenRunning_def case_prod_unfold Let_def fold_print split: sum.splits)

lemma kept_result: "f d = (r, t) \<Longrightarrow> keeps_process f \<Longrightarrow> r = Continue \<and> m_processRunning t = m_processRunning d"
  unfolding keeps_process_def by (metis fst_conv snd_conv)

lemma quiet_result:
  "f d = (r, t) \<Longrightarrow> needs_process f \<Longrightarrow> \<not> m_processRunning d \<Longrightarrow> pgWorld t = pgWorld d \<and> m_breakpoints t = m_breakpoints d"
  unfolding needs_process_def by (metis logging_keeps(1,2) snd_conv)

text \<open>The five kinds of command.\<close>

lemma executeWords_cases:
  assumes exec: "executeWords api cmd word1 word2 d = (r, t)"
  obtains "cmd = ''run'' \<or> cmd = ''r''" "CmdRun api d = (r, t)"
    | f where "cmd \<in> {''bp'', ''sto'', ''sti'', ''regs''}" "f d = (r, t)" "keeps_process f" "needs_process f"
    | "cmd = ''bc''" "CmdClearBreakpoint api word1 d = (r, t)"
    | "cmd = ''read''" "CmdReadMemory api word1 word2 d = (r, t)"
    | "cmd = ''quit'' \<or> cmd = ''q''" "r = Exit" "t = d"
    | "cmd \<notin> {''run'', ''r'', ''bp'', ''bc'', ''sto'', ''sti'', ''regs'', ''read'', ''quit'', ''q''}" "r = Continue"
      "pgWorld t = pgWorld d" "m_breakpoints t = m_breakpoints d" "m_processRunning t = m_processRunning d"
proof -
  define A where "A \<longleftrightarrow> cmd = ''run'' \<or> cmd = ''r''"
  define B where "B \<longleftrightarrow> cmd = ''quit'' \<or> cmd = ''q''"
  define C where "C name \<longleftrightarrow> cmd = name" for name
  consider A | "C ''bp''" | "C ''bc''" | "C ''sto''" | "C ''sti''" | "C ''regs''" | "C ''read''" | B
    | "\<not> A" "\<not> B" "\<not> C ''bp''" "\<not> C ''bc''" "\<not> C ''sto''" "\<not> C ''sti''" "\<not> C ''regs''" "\<not> C ''read''"
    by argo
  then show ?thesis
  proof cases
    case 9
    note c = 9 [unfolded A_def B_def C_def]
    define H where "H \<longleftrightarrow> cmd = ''help'' \<or> cmd = ''h''"
    have "(r, t) = (if H then (Continue, ShowHelp d)
        else (Continue, logError (''Unknown command: '' @ cmd @ '' (type 'help' for available commands)'') d))"
      using c exec unfolding executeWords_def H_def by (simp only: if_False simp_thms)
    then have "r = Continue" "pgWorld t = pgWorld d" "m_breakpoints t = m_breakpoints d" "m_processRunning t = m_processRunning d"
      by (cases H; simp)+
    then show ?thesis using c that(6) by simp
  qed (insert exec that(1,3,4,5) that(2) [OF _ _ keeping_process(1) needing_process(2)]
      that(2) [OF _ _ keeping_process(2) needing_process(3)] that(2) [OF _ _ keeping_process(4) needing_process(4)],
      auto simp: executeWords_def CmdStepOver_def CmdStepInto_def A_def B_def C_def)
qed



section \<open>What was given is given back\<close>

text \<open>
  The interfaces and the breakpoints a world counts as handed out, when it behaves as DbgEng documents: a call that fails hands out
  nothing, and a release takes one back.
\<close>

definition pg_conforms :: "'w pg_api \<Rightarrow> ('w \<Rightarrow> u64 multiset \<times> u64 multiset) \<Rightarrow> bool" where
  "pg_conforms api tally \<longleftrightarrow>
     (\<forall>w. case paDebugCreate api w of ((hr, p), v) \<Rightarrow>
        if FAILED hr then p = 0 \<and> tally v = tally w else p \<noteq> 0 \<and> tally v = (add_mset p (fst (tally w)), snd (tally w))) \<and>
     (\<forall>c i w. case paQueryInterface api c i w of ((hr, p), v) \<Rightarrow>
        if FAILED hr then p = 0 \<and> tally v = tally w else p \<noteq> 0 \<and> tally v = (add_mset p (fst (tally w)), snd (tally w))) \<and>
     (\<forall>w. case paAddBreakpoint api w of ((hr, p), v) \<Rightarrow>
        if FAILED hr then tally v = tally w else p \<noteq> 0 \<and> tally v = (fst (tally w), add_mset p (snd (tally w)))) \<and>
     (\<forall>p w. tally (paRelease api p w) = (fst (tally w) - {#p#}, snd (tally w))) \<and>
     (\<forall>p w. tally (paReleaseBreakpoint api p w) = (fst (tally w), snd (tally w) - {#p#})) \<and>
     (\<forall>p w. tally (snd (paSetEventCallbacks api p w)) = tally w) \<and>
     (\<forall>p n w. tally (snd (paSetEngineOptions api p n w)) = tally w) \<and>
     (\<forall>s w. tally (snd (paCreateProcess api s w)) = tally w) \<and>
     (\<forall>w. tally (snd (paWaitForEvent api w)) = tally w) \<and>
     (\<forall>n w. tally (snd (paSetExecutionStatus api n w)) = tally w) \<and>
     (\<forall>p a w. tally (snd (paSetOffset api p a w)) = tally w) \<and>
     (\<forall>p n w. tally (snd (paSetFlags api p n w)) = tally w) \<and>
     (\<forall>p w. tally (snd (paRemoveBreakpoint api p w)) = tally w) \<and>
     (\<forall>n w. tally (paEndSession api n w) = tally w) \<and>
     (\<forall>s w. tally (paLoadLibrary api s w) = tally w)"

lemma pg_conformsD:
  assumes "pg_conforms api tally"
  shows "tally (paRelease api p w) = (fst (tally w) - {#p#}, snd (tally w))"
    and "tally (paReleaseBreakpoint api p w) = (fst (tally w), snd (tally w) - {#p#})"
    and "tally (snd (paSetEventCallbacks api p w)) = tally w"
    and "tally (snd (paSetEngineOptions api p n w)) = tally w"
    and "tally (snd (paCreateProcess api s w)) = tally w"
    and "tally (snd (paWaitForEvent api w)) = tally w"
    and "tally (snd (paSetExecutionStatus api n w)) = tally w"
    and "tally (snd (paSetOffset api p a w)) = tally w"
    and "tally (snd (paSetFlags api p n w)) = tally w"
    and "tally (snd (paRemoveBreakpoint api p w)) = tally w"
    and "tally (paEndSession api n w) = tally w"
    and "tally (paLoadLibrary api s w) = tally w"
    and "(case paAddBreakpoint api w of ((hr, p), v) \<Rightarrow>
        if FAILED hr then tally v = tally w else p \<noteq> 0 \<and> tally v = (fst (tally w), add_mset p (snd (tally w))))"
    and "(case paDebugCreate api w of ((hr, p), v) \<Rightarrow>
        if FAILED hr then p = 0 \<and> tally v = tally w else p \<noteq> 0 \<and> tally v = (add_mset p (fst (tally w)), snd (tally w)))"
    and "(case paQueryInterface api c i w of ((hr, p), v) \<Rightarrow>
        if FAILED hr then p = 0 \<and> tally v = tally w else p \<noteq> 0 \<and> tally v = (add_mset p (fst (tally w)), snd (tally w)))"
  using assms unfolding pg_conforms_def by (elim conjE; simp)+

definition pg_held :: "('w \<Rightarrow> u64 multiset \<times> u64 multiset) \<Rightarrow> u64 multiset \<times> u64 multiset \<Rightarrow> 'w debugger \<Rightarrow> bool" where
  "pg_held tally b d \<longleftrightarrow> tally (pgWorld d) = (fst b + references (m_interfaces d), snd b + mset (m_breakpoints d)) \<and>
     0 \<notin> set (m_breakpoints d)"

lemma pgWorld_calls [simp]:
  "pgWorld (snd (pcall f d)) = snd (f (pgWorld d))" "pgWorld (pact g d) = g (pgWorld d)"
  "fst (pcall f d) = fst (f (pgWorld d))" "pgWorld (snd (waitForNotification api d)) = snd (paWaitForEvent api (pgWorld d))"
  by (simp_all add: pcall_def pact_def waitForNotification_def case_prod_unfold Let_def)

lemma quiet_commands_hold:
  assumes "pg_conforms api tally" "pg_held tally b d"
  shows "pg_held tally b (snd (CmdRun api d))" "pg_held tally b (snd (CmdStep failure status api d))"
    "pg_held tally b (snd (CmdShowRegisters api d))" "pg_held tally b (snd (CmdReadMemory api addr sz d))"
  using assms pg_conformsD [OF assms(1)]
  by (auto simp: pg_held_def command_defs case_prod_unfold Let_def fold_print split: sum.splits)

lemma CmdSetBreakpoint_holds:
  assumes conf: "pg_conforms api tally" and held: "pg_held tally b d"
  shows "pg_held tally b (snd (CmdSetBreakpoint api addr d))"
proof (cases "m_processRunning d \<and> ParseAddress addr \<noteq> 0")
  case True
  obtain hr bp v where a: "paAddBreakpoint api (pgWorld d) = ((hr, bp), v)" by (metis prod.exhaust)
  note given = pg_conformsD(13) [OF conf, of "pgWorld d", unfolded a]
  note quiet = pg_conformsD [OF conf]
  show ?thesis
  proof (cases "FAILED hr")
    case failed: True
    then have "pg_held tally b (d\<lparr>pgWorld := v\<rparr>)" using held given by (simp add: pg_held_def)
    then show ?thesis using True failed a
      by (simp add: CmdSetBreakpoint_def whenRunning_def pcall_def pg_held_def case_prod_unfold Let_def)
  next
    case False
    then have t: "bp \<noteq> 0" "tally v = (fst b + references (m_interfaces d), add_mset bp (snd b + mset (m_breakpoints d)))"
      using held given by (simp_all add: pg_held_def)
    then show ?thesis using True False a held
      by (simp add: CmdSetBreakpoint_def whenRunning_def pcall_def pact_def pg_held_def case_prod_unfold Let_def quiet add.commute)
  qed
next
  case False
  then show ?thesis using held by (auto simp: CmdSetBreakpoint_def whenRunning_def pg_held_def)
qed

lemma findBreakpoint_parts: "findBreakpoint api address w bps = Some (before, bp, after) \<Longrightarrow> bps = before @ bp # after"
  by (induction bps arbitrary: before) (auto simp: case_prod_unfold Let_def split: if_splits)

lemma CmdClearBreakpoint_holds:
  assumes conf: "pg_conforms api tally" and held: "pg_held tally b d"
  shows "pg_held tally b (snd (CmdClearBreakpoint api addr d))"
proof (cases "findBreakpoint api (ParseAddress addr) (pgWorld d) (m_breakpoints d)")
  case None
  then show ?thesis using held by (simp add: CmdClearBreakpoint_def Let_def pg_held_def)
next
  case (Some f)
  obtain before bp after where f: "f = (before, bp, after)" by (metis prod.exhaust)
  then have parts: "m_breakpoints d = before @ bp # after" 
    using findBreakpoint_parts [of api "ParseAddress addr" "pgWorld d"] Some by simp
  show ?thesis using Some f parts held pg_conformsD [OF conf]
    by (simp add: CmdClearBreakpoint_def Let_def pg_held_def case_prod_unfold)
qed

lemma snd_if: "P (snd x) \<Longrightarrow> P (snd y) \<Longrightarrow> P (snd (if c then x else y))"
  by simp

lemma executeWords_holds:
  assumes "pg_conforms api tally" "pg_held tally b d"
  shows "pg_held tally b (snd (executeWords api cmd word1 word2 d))"
proof -
  have "pg_held tally b (ShowHelp d)" "pg_held tally b (logError x d)" for x using assms(2) by (simp_all add: pg_held_def)
  note holds = this assms(2) quiet_commands_hold [OF assms] CmdSetBreakpoint_holds [OF assms] CmdClearBreakpoint_holds [OF assms]
  show ?thesis
    unfolding executeWords_def CmdStepOver_def CmdStepInto_def
    by (intro snd_if [where P = "pg_held tally b"]; simp only: snd_conv holds)
qed

lemma commandLoop_holds:
  assumes "pg_conforms api tally"
  shows "pg_held tally b d \<Longrightarrow> pg_held tally b (snd (commandLoop api input d))"
proof (induction input arbitrary: d)
  case (Cons command rest)
  have after: "pg_held tally b (afterCommand e)" if "pg_held tally b e" for e
    using that by (simp add: pg_held_def afterCommand_def prompt_def)
  obtain r t where x: "ExecuteCommand api command d = (r, t)" by fastforce
  then have "pg_held tally b t"
    using executeWords_holds [OF assms Cons.prems] unfolding ExecuteCommand_def case_prod_unfold Let_def by (metis snd_conv)
  then show ?case using x after Cons by (cases r) auto
qed simp

text \<open>Starting and cleaning up.\<close>

lemma queryAll_holds:
  assumes "pg_conforms api tally"
  shows "pg_held tally b d \<Longrightarrow> distinct (map fst is) \<Longrightarrow> \<forall>i \<in> set (map fst is). m_interfaces d i = 0 \<Longrightarrow>
    pg_held tally b (snd (queryAll api is d)) \<and> m_breakpoints (snd (queryAll api is d)) = m_breakpoints d"
proof (induction "is" arbitrary: d)
  case (Cons x rest)
  obtain i name where x: "x = (i, name)" by fastforce
  obtain hr p v where q: "paQueryInterface api (m_interfaces d IClient) i (pgWorld d) = ((hr, p), v)" by (metis prod.exhaust)
  have given: "if FAILED hr then p = 0 \<and> tally v = tally (pgWorld d)
      else p \<noteq> 0 \<and> tally v = (add_mset p (fst (tally (pgWorld d))), snd (tally (pgWorld d)))"
    using pg_conformsD(15) [OF assms, where c = "m_interfaces d IClient" and i = i and w = "pgWorld d"] q by simp
  have free: "m_interfaces d i = 0" using Cons.prems x by simp
  define e where "e = d\<lparr>pgWorld := v, m_interfaces := (m_interfaces d)(i := p)\<rparr>"
  have e: "pg_held tally b e"
    using Cons.prems(1) given free by (auto simp: e_def pg_held_def references_add fun_upd_idem split: if_splits)
  have step: "queryAll api (x # rest) d = (if FAILED hr then (False, logFailed (''Failed to get '' @ name) hr e) else queryAll api rest e)"
    using q x by (simp add: pcall_def e_def)
  show ?case
  proof (cases "FAILED hr")
    case True
    then show ?thesis using step e by (simp add: pg_held_def e_def)
  next
    case False
    have "\<forall>j \<in> set (map fst rest). m_interfaces e j = 0" using Cons.prems x by (auto simp: e_def)
    then show ?thesis using Cons.IH [OF e] Cons.prems step False by (simp add: e_def)
  qed
qed simp

lemma Initialize_holds:
  assumes conf: "pg_conforms api tally" and held: "pg_held tally b d" and none: "\<forall>i. m_interfaces d i = 0"
  shows "pg_held tally b (snd (Initialize api d))"
proof -
  obtain hr p v where q: "paDebugCreate api (pgWorld d) = ((hr, p), v)" by (metis prod.exhaust)
  have given: "if FAILED hr then p = 0 \<and> tally v = tally (pgWorld d)
      else p \<noteq> 0 \<and> tally v = (add_mset p (fst (tally (pgWorld d))), snd (tally (pgWorld d)))"
    using pg_conformsD(14) [OF conf, where w = "pgWorld d"] q by simp
  define e where "e = d\<lparr>pgWorld := v, m_interfaces := (m_interfaces d)(IClient := p)\<rparr>"
  have e: "pg_held tally b e"
    using held given none by (auto simp: e_def pg_held_def references_add fun_upd_idem split: if_splits)
  have q2: "pg_held tally b (snd (queryAll api queriedInterfaces e))"
    using queryAll_holds [OF conf e, of queriedInterfaces] none by (simp add: e_def queriedInterfaces_def)
  have keeps: "pg_held tally b (x\<lparr>m_eventCallbacks := c\<rparr>) = pg_held tally b x"
    "pg_held tally b (x\<lparr>m_debugActive := c\<rparr>) = pg_held tally b x"
    "pg_held tally b (logFailed z h x) = pg_held tally b x"
    "pg_held tally b (snd (pcall (paSetEventCallbacks api i) x)) = pg_held tally b x"
    "pg_held tally b (snd (pcall (paSetEngineOptions api i n) x)) = pg_held tally b x" for x c z h i n
    by (simp_all add: pg_held_def pg_conformsD [OF conf])
  have "pcall (paDebugCreate api) d = ((hr, p), d\<lparr>pgWorld := v\<rparr>)" using q by (simp add: pcall_def)
  then have "Initialize api d = (if FAILED hr then (False, logFailed ''Failed to create IDebugClient9'' hr e)
      else (let (ok, d) = queryAll api queriedInterfaces e
            in if \<not> ok then (False, d)
               else (let d = d\<lparr>m_eventCallbacks := True\<rparr>;
                         (hr, d) = pcall (paSetEventCallbacks api (m_interfaces d IClient)) d
                     in if FAILED hr then (False, logFailed ''Failed to set event callbacks'' hr d)
                        else (let (hr, d) = pcall (paSetEngineOptions api (m_interfaces d IControl) 0x8020) d
                              in if FAILED hr then (False, logFailed ''Failed to set engine options'' hr d)
                                 else (True, d\<lparr>m_debugActive := True\<rparr>)))))"
    by (simp add: Initialize_def e_def)
  then show ?thesis using e q2 keeps by (simp add: case_prod_unfold Let_def del: calling_keeps)
qed

lemma LaunchProcess_holds:
  assumes "pg_conforms api tally" "pg_held tally b d"
  shows "pg_held tally b (snd (LaunchProcess api path d))"
  using assms pg_conformsD [OF assms(1)] by (simp add: LaunchProcess_def pg_held_def case_prod_unfold Let_def)

lemma releaseMember_holds:
  assumes conf: "pg_conforms api tally" and held: "pg_held tally b d"
  shows "pg_held tally b (releaseMember api i d) \<and> m_interfaces (releaseMember api i d) = (m_interfaces d)(i := 0) \<and>
    m_breakpoints (releaseMember api i d) = m_breakpoints d"
proof (cases "m_interfaces d i = 0")
  case True
  then have "(m_interfaces d)(i := 0) = m_interfaces d" by (metis fun_upd_triv)
  then show ?thesis using True held by (simp add: releaseMember_def)
next
  case False
  have "fst (tally (pgWorld d)) - {#m_interfaces d i#} = fst b + references ((m_interfaces d)(i := 0))"
    using held references_drop [of "m_interfaces d" i] False unfolding pg_held_def
    by (metis diff_union_single_conv fst_conv)
  then show ?thesis using False held by (simp add: releaseMember_def pg_held_def pg_conformsD [OF conf])
qed

lemma releaseMembers_hold:
  assumes "pg_conforms api tally"
  shows "pg_held tally b d \<Longrightarrow> (let t = fold (releaseMember api) is d in pg_held tally b t \<and>
    (\<forall>i. m_interfaces t i = (if i \<in> set is then 0 else m_interfaces d i)) \<and> m_breakpoints t = m_breakpoints d)"
proof (induction "is" arbitrary: d)
  case (Cons i rest)
  then show ?case using releaseMember_holds [OF assms Cons.prems, of i] by (simp add: Let_def)
qed simp

lemma release_breakpoints:
  assumes "pg_conforms api tally"
  shows "0 \<notin> set bps \<Longrightarrow> tally (pgWorld d) = (x, y + mset bps) \<Longrightarrow>
    tally (pgWorld (fold (\<lambda>bp d. if bp \<noteq> 0 then pact (paReleaseBreakpoint api bp) d else d) bps d)) = (x, y)"
proof (induction bps arbitrary: d)
  case (Cons bp bps)
  have "tally (pgWorld (pact (paReleaseBreakpoint api bp) d)) = (x, y + mset bps)"
    using Cons.prems by (simp add: pg_conformsD [OF assms])
  then show ?case using Cons by simp
qed simp

lemma Cleanup_releases:
  assumes conf: "pg_conforms api tally" and held: "pg_held tally b d"
  shows "tally (pgWorld (Cleanup api d)) = b \<and> m_breakpoints (Cleanup api d) = [] \<and> (\<forall>i. m_interfaces (Cleanup api d) i = 0)"
proof -
  let ?rel = "\<lambda>bp d. if bp \<noteq> 0 then pact (paReleaseBreakpoint api bp) d else d"
  define e where "e = (fold ?rel (m_breakpoints d) d)\<lparr>m_breakpoints := []\<rparr>"
  have "m_interfaces (fold ?rel bps x) = m_interfaces x" for bps x by (rule fold_keeps) simp
  then have e: "pg_held tally b e"
    using release_breakpoints [OF conf, of "m_breakpoints d" d] held by (simp add: e_def pg_held_def)
  define f where "f = (if m_interfaces e IClient \<noteq> 0 then pact (paEndSession api 0) e else e)"
  have f: "pg_held tally b f" "m_breakpoints f = []"
    using e by (simp_all add: f_def pg_held_def pg_conformsD [OF conf] e_def)
  define g where "g = fold (releaseMember api) [ISystemObjects, ISymbols, IRegisters, IDataSpaces, IControl, IClient] f"
  have g: "pg_held tally b g" "m_breakpoints g = []"
    "\<forall>i. m_interfaces g i = (if i \<in> set [ISystemObjects, ISymbols, IRegisters, IDataSpaces, IControl, IClient] then 0 else m_interfaces f i)"
    using releaseMembers_hold [OF conf f(1)] f(2) unfolding g_def Let_def by metis+
  have none: "\<forall>i. m_interfaces g i = 0"
  proof
    fix i show "m_interfaces g i = 0" using g(3) by (cases i) simp_all
  qed
  have "Cleanup api d = g\<lparr>m_eventCallbacks := False, m_debugActive := False, m_processRunning := False\<rparr>"
    by (simp only: Cleanup_def Let_def e_def f_def g_def)
  then show ?thesis using g none by (simp add: pg_held_def)
qed


text \<open>A world that counts what it hands out.\<close>

definition counting_api :: "(u64 multiset \<times> u64 multiset) pg_api" where
  "counting_api = \<lparr>paDebugCreate = (\<lambda>w. ((0, 1), (add_mset 1 (fst w), snd w))),
     paQueryInterface = (\<lambda>_ _ w. ((0, 2), (add_mset 2 (fst w), snd w))), paRelease = (\<lambda>p w. (fst w - {#p#}, snd w)),
     paSetEventCallbacks = (\<lambda>_ w. (0, w)), paSetEngineOptions = (\<lambda>_ _ w. (0, w)), paCreateProcess = (\<lambda>_ w. ((0, []), w)),
     paWaitForEvent = (\<lambda>w. ((0, []), w)), paSetExecutionStatus = (\<lambda>_ w. (0, w)), paGetExecutionStatus = (\<lambda>_. (0, 6)),
     paAddBreakpoint = (\<lambda>w. ((0, 64), (fst w, add_mset 64 (snd w)))), paSetOffset = (\<lambda>_ _ w. (0, w)), paSetFlags = (\<lambda>_ _ w. (0, w)),
     paGetOffset = (\<lambda>_ _. (0, 4096)), paRemoveBreakpoint = (\<lambda>_ w. (0, w)), paReleaseBreakpoint = (\<lambda>p w. (fst w, snd w - {#p#})),
     paNumberRegisters = (\<lambda>_. 0), paIndexByName = (\<lambda>_ _. (0, 0)), paGetValue = (\<lambda>_ _. (0, 0)),
     paReadVirtual = (\<lambda>_ n _. (0, replicate (unat n) 0x90)), paEndSession = (\<lambda>_ w. w), paLoadLibrary = (\<lambda>_ w. w)\<rparr>"

lemma counting_api_conforms: "pg_conforms counting_api id"
  by (simp add: pg_conforms_def counting_api_def)

lemma counting_api_runs:
  "\<exists>d. playground_main counting_api [''pg'', ''a.exe''] [''bp 1000'', ''quit''] ({#}, {#}) = (Some 0, d)"
proof -
  let ?d = "pact (paLoadLibrary counting_api ''dbgeng.dll'') (SimpleDebugger ({#}, {#}))"
  obtain ok1 e where i: "Initialize counting_api ?d = (ok1, e)" by fastforce
  then have e: "ok1" "m_debugActive e"
    by (auto simp: Initialize_def queriedInterfaces_def pcall_def counting_api_def Let_def)
  obtain ok2 f where l: "LaunchProcess counting_api ''a.exe'' e = (ok2, f)" by fastforce
  then have f: ok2 using e by (auto simp: LaunchProcess_def waitForNotification_def pcall_def counting_api_def Let_def)
  have words: "nextWord ''bp 1000'' = (''bp'', '' 1000'')" "nextWord ''quit'' = (''quit'', [])"
    "toLower CHR ''b'' = CHR ''b''" "toLower CHR ''p'' = CHR ''p''"
    "toLower CHR ''q'' = CHR ''q''" "toLower CHR ''u'' = CHR ''u''" "toLower CHR ''i'' = CHR ''i''" "toLower CHR ''t'' = CHR ''t''"
    by code_simp+
  have bp: "fst (ExecuteCommand counting_api ''bp 1000'' x) = Continue" for x :: "(u64 multiset \<times> u64 multiset) debugger"
    using keeping_process(2) [of counting_api] unfolding keeps_process_def
    by (simp add: ExecuteCommand_def executeWords_def words case_prod_unfold Let_def)
  have quit: "fst (ExecuteCommand counting_api ''quit'' x) = Exit" for x :: "(u64 multiset \<times> u64 multiset) debugger"
    by (simp add: ExecuteCommand_def executeWords_def words case_prod_unfold Let_def)
  have "\<not> fst (RunCommandLoop counting_api [''bp 1000'', ''quit''] x)" for x
    using bp [of "prompt x"] quit [of "afterCommand (snd (ExecuteCommand counting_api ''bp 1000'' (prompt x)))"]
    by (simp add: RunCommandLoop_def case_prod_unfold)
  then show ?thesis using i l e f by (simp add: playground_main_def case_prod_unfold Let_def)
qed


end
