(* ===== verification/Spec2Isabelle.thy ===== *)
theory Spec2Isabelle
  imports Immutability Event_Properties Session_Properties Pause_Protocol Replay_Library Playground_Properties
begin

text \<open>
  A verification development for DbgEng, the debug engine that x64dbg loads as \<open>TitanEngine.dll\<close>.

  \<^bold>\<open>The program.\<close> \<open>src/TitanEngine/TitanEngine.cpp\<close> implements the exported functions of TitanEngine (\<open>SetBPX\<close>,
  \<open>DebugLoop\<close>, \<open>MemoryReadSafe\<close> and about a hundred more) on top of Microsoft's DbgEng, for live processes and minidumps, and of
  the TTD replay engine, for recordings of time travel debugging. Its state is a set of global variables, which x64dbg's
  debug thread and its other threads share. DbgEng reports what happens in callbacks, from inside \<open>WaitForEvent\<close>; the callbacks
  only queue work; \<open>DebugLoop\<close> runs the queue, which calls the handlers of x64dbg, which call the
  exported functions; the work leaves an execution status with which the loop resumes the debuggee. Breakpoints are
  patches in memory, debug registers, guard pages, or, in a recording, watchpoints; to pass one, the debuggee
  executes a single instruction with all other threads suspended (an internal step). The repository has also a
  playground, a small debugger of its own (\<open>src/playground/playground.cpp\<close>), two probes and some programs to be debugged.

  \<^bold>\<open>The theories\<close>, in the order of their imports.

  \<^item> \<open>Prelude\<close>: machine integers, \<open>std::map\<close> and \<open>std::set\<close> as sorted lists, with the locale \<open>std_map\<close> of their laws.
  \<^item> \<open>Win_Constants\<close>: the numbers of the Windows headers and of \<open>TitanEngine.h\<close>.
  \<^item> \<open>Titan_State\<close>: the global variables, one field each of the record \<open>titan\<close>; queued closures as the datatype \<open>work\<close>, the
    closures of internal steps as \<open>internal_step\<close>.
  \<^item> \<open>External\<close>: Windows, DbgEng and the replay engine as records of functions on a world \<open>'w\<close> (\<open>winapi\<close>, \<open>dbgeng\<close>, \<open>ttdapi\<close>),
    what a call does to the state (\<open>oscall\<close>, \<open>world_only\<close>), and a quiet instance of them for the witnesses.
  \<^item> \<open>Event_Core\<close>: \<open>PauseLock\<close>, the callback queue, the dispatch of debug events to handlers.
  \<^item> \<open>Handles\<close>: native and synthetic handles, their registry, and the exported functions that open, use and close them.
  \<^item> \<open>Memory_Breakpoints\<close>: guard pages and watchpoints (\<open>SetMemoryBPXEx\<close>, \<open>RemoveMemoryBPX\<close>, \<open>removeAllMemoryBreakpoints\<close>).
  \<^item> \<open>Registers\<close>: \<open>RegisterCache\<close> and the scope that selects a thread; \<open>Contexts\<close>: reading and writing registers and the extended
    contexts of a thread.
  \<^item> \<open>Breakpoints\<close>: software and hardware breakpoints; \<open>Stepping\<close>: user steps and internal steps.
  \<^item> \<open>Memory_Access\<close>: reading, writing, filling, querying memory, with the patches of breakpoints hidden, and \<open>src/TTD/TTD.cpp\<close>.
  \<^item> \<open>Immutability\<close>: the contract of the functions that refuse in a replayed session (locale \<open>refused_in_replay\<close>).
  \<^item> \<open>Events\<close>: the callbacks of DbgEng and the work they queue (\<open>runWork\<close>); \<open>Event_Properties\<close>: what the work guarantees.
  \<^item> \<open>Ttd_Replay\<close>: moving the cursor of a recording (\<open>runTtd\<close>, \<open>replayStep\<close>), the tables of threads and modules that follow it, the
    watchpoints; \<open>Timeline\<close>: what a movement reports.
  \<^item> \<open>Sessions\<close>: opening, attaching, detaching and ending (\<open>InitDebugW\<close>, \<open>InitReplayW\<close>, \<open>StopDebug\<close>, \<open>RequestPause\<close>), engine variables
    and mapped files (\<open>FileMap.h\<close>); \<open>Session_Properties\<close>.
  \<^item> \<open>Debug_Loop\<close>: \<open>DebugLoop\<close> for live sessions and recordings, \<open>AttachDebugger\<close>; \<open>Loop_Properties\<close>.
  \<^item> \<open>Pause_Protocol\<close>: the pause lock as a transition system of one debug thread and any number of others, and the traces of
    pause requests.
  \<^item> \<open>Engine_Lifecycle\<close>: initialisation and shutdown of DbgEng, the engine thread, \<open>DllMain\<close>, \<open>EngineCheckStructAlignment\<close>;
    \<open>Replay_Library\<close>: loading the replay engine.
  \<^item> \<open>Text_Format\<close>: formats, conversions of the standard library, the flag tables and their logs; \<open>Playground\<close> and
    \<open>Playground_Properties\<close>: the playground from its command line to its console.

  \<^bold>\<open>How the code is translated.\<close> The build is that for 64-bit Windows. An operation is a function \<open>op os ... s\<close> that answers its result
  and the new state; functions that call handlers take the client \<open>cl\<close> as well, a function on the whole state, and those
  during which other threads run take \<open>peers\<close>, what they do meanwhile. A pointer is a number, null is 0; C enumerations are
  32-bit numbers, because callers can pass any; a \<open>for\<close> over a container is a fold or a recursion over the list of its entries
  in key order. Buffers are byte lists. \<open>GetLastError\<close> is the field \<open>lastError\<close>. A loop that may not end is a partial
  function and its not ending the value \<open>None\<close>: the page loops, \<open>removeAllMemoryBreakpoints\<close>, the loops of \<open>DebugLoop\<close>.
  Exported functions and their locals keep their names. The thread of the
  engine and the lock protocol are the only places where interleaving is modelled by steps; elsewhere the lock makes operations atomic.

  \<^bold>\<open>Bounds.\<close> Two are the code's own: a replay is attempted twice when the engine stops without reason (\<open>replayAttempts\<close>), and a
  step over is tried by single steps a million times. Synthetic handles have 43 bits of serial number, and two collide after
  that many handles. No fuel is used.

  \<^bold>\<open>What is proved.\<close> Breakpoints: setting and deleting one restores memory byte for byte, the tables agree at all times, reads do not
  show the patches, a hit is armed again after one instruction, failed memory breakpoints roll back, guard pages get their
  protection back. Steps: suspension counts balance. Events: every handled event leaves an execution status, and an exited thread is
  forgotten. Registers: \<open>SetContextDataEx\<close> refines an assignment to an abstract register file. Handles: the registry stays
  well formed, and every handle is closed once. Recordings: the tables follow the cursor with one event for each difference,
  a run ends in an event that says why, the watchpoint callback and the report agree, nothing is ever written. Sessions: opening is
  all or nothing, the loop ends exactly when the engine ends the session and leaves nothing behind. Threads: what
  the pause lock excludes and what it does not, and each accepted pause request called once. Engine: nothing is held of COM
  and DbgEng while its thread is not running. Playground: its dump can be read back, its commands keep to their part, and what it
  was given it gives back.
  The hypotheses about Windows, DbgEng and the replay engine are named predicates that state their documentation, and
  each is met by the concrete instance in the witness.

  \<^bold>\<open>Not modelled.\<close> Log lines of the adapter other than those of \<open>Text_Format\<close>; reference counts and interface queries of the
  callback objects, which DbgEng alone calls; the branch of \<open>scheduleWow64TransitionStep\<close> and the few others that only
  32-bit builds compile; failures of \<open>CreateEventW\<close> while the engine starts; conversions between UTF-16 and UTF-8. The two
  probes are tests that call the functions and print what they answer; the programs to be debugged do nothing of interest. The
  behaviour of Windows, DbgEng and the replay engine (declared by the vendored headers under
  \<open>third_party\<close>) is a parameter throughout.

  \<^bold>\<open>To do.\<close> The two probes as clients of the model, and the reads of the loop and the handlers interleaved with other threads.
\<close>

end
